(* ===== verification/Prelude.thy ===== *)
theory Prelude
  imports Main
begin

text \<open>
  What every component shares: Go's fixed width integer arithmetic written out over \<open>int\<close>,
  the sequencing of fallible computations, Go errors as values, and the collections of facts
  the component proofs use.
  \<^item> \<open>wrap32\<close>, \<open>wrap64\<close>: the value an \<open>int32\<close> or \<open>int64\<close> operation leaves behind;
  \<^item> \<open>sat64\<close>: \<open>time.Time.Sub\<close>, which saturates at the ends of \<open>time.Duration\<close>;
  \<^item> \<open>quot64\<close>: Go's division, which truncates toward zero;
  \<^item> \<open>goerror\<close>: an error value as the code can observe it, the sentinel or API status that
    \<open>errors.Is\<close> and \<open>apierrors.IsX\<close> find through wrapping, and its message.
\<close>

named_theorems frame \<open>fields an operation leaves alone\<close>
named_theorems bounds \<open>limits on lengths and numbers\<close>
named_theorems steps \<open>how an operation acts on one element of its input\<close>

subsection \<open>Fixed width integers\<close>

definition wrap32 :: "int \<Rightarrow> int" where
  "wrap32 x = (x + 2147483648) mod 4294967296 - 2147483648"

definition wrap64 :: "int \<Rightarrow> int" where
  "wrap64 x = (x + 9223372036854775808) mod 18446744073709551616 - 9223372036854775808"

definition sat64 :: "int \<Rightarrow> int" where
  "sat64 x = max (- 9223372036854775808) (min 9223372036854775807 x)"

definition quot64 :: "int \<Rightarrow> int \<Rightarrow> int" where
  "quot64 a b = sgn a * sgn b * (\<bar>a\<bar> div \<bar>b\<bar>)"

definition is_int32 :: "int \<Rightarrow> bool" where
  "is_int32 x \<longleftrightarrow> - 2147483648 \<le> x \<and> x \<le> 2147483647"

definition is_int64 :: "int \<Rightarrow> bool" where
  "is_int64 x \<longleftrightarrow> - 9223372036854775808 \<le> x \<and> x \<le> 9223372036854775807"

lemma wrap32_id [simp]: "is_int32 x \<Longrightarrow> wrap32 x = x"
  by (simp add: wrap32_def is_int32_def)

lemma wrap64_id [simp]: "is_int64 x \<Longrightarrow> wrap64 x = x"
  by (simp add: wrap64_def is_int64_def)

lemma is_int32_wrap32 [simp]: "is_int32 (wrap32 x)"
proof -
  have "0 \<le> (x + 2147483648) mod 4294967296" by simp
  moreover have "(x + 2147483648) mod 4294967296 < 4294967296" by simp
  ultimately show ?thesis unfolding is_int32_def wrap32_def by linarith
qed

lemma is_int64_wrap64 [simp]: "is_int64 (wrap64 x)"
proof -
  have "0 \<le> (x + 9223372036854775808) mod 18446744073709551616" by simp
  moreover have "(x + 9223372036854775808) mod 18446744073709551616 < 18446744073709551616"
    by simp
  ultimately show ?thesis unfolding is_int64_def wrap64_def by linarith
qed

lemma wrap32_shift: "wrap32 (a + 4294967296 * k) = wrap32 a"
proof -
  have "a + 4294967296 * k + 2147483648 = (a + 2147483648) + 4294967296 * k" by simp
  then show ?thesis unfolding wrap32_def by (metis mod_mult_self2)
qed

lemma wrap32_add_left: "wrap32 (wrap32 a + b) = wrap32 (a + b)"
proof -
  define k where "k = (a + 2147483648) div 4294967296"
  have "wrap32 a = a + 4294967296 * (- k)"
    unfolding wrap32_def k_def using div_mult_mod_eq [of "a + 2147483648" 4294967296] by linarith
  then have "wrap32 a + b = (a + b) + 4294967296 * (- k)" by simp
  then show ?thesis by (metis wrap32_shift)
qed

lemma wrap32_add_right: "wrap32 (a + wrap32 b) = wrap32 (a + b)"
  by (metis wrap32_add_left add.commute)

lemma sat64_id: "is_int64 x \<Longrightarrow> sat64 x = x"
  by (simp add: sat64_def is_int64_def)

lemma sat64_ge_iff: "is_int64 g \<Longrightarrow> g \<noteq> - 9223372036854775808 \<Longrightarrow> g \<le> sat64 x \<longleftrightarrow> g \<le> x"
  by (auto simp: sat64_def is_int64_def)

lemma quot64_nonneg: "0 \<le> a \<Longrightarrow> 0 < b \<Longrightarrow> quot64 a b = a div b"
  by (cases "a = 0") (auto simp: quot64_def)

subsection \<open>Fallible computations\<close>

fun bindr :: "'e + 'a \<Rightarrow> ('a \<Rightarrow> 'e + 'b) \<Rightarrow> 'e + 'b" where
  "bindr (Inl e) k = Inl e"
| "bindr (Inr x) k = k x"

lemma bindr_Inr_iff: "bindr m k = Inr y \<longleftrightarrow> (\<exists>x. m = Inr x \<and> k x = Inr y)"
  by (cases m) auto

lemma bindr_Inl_iff: "bindr m k = Inl e \<longleftrightarrow> m = Inl e \<or> (\<exists>x. m = Inr x \<and> k x = Inl e)"
  by (cases m) auto

fun isr :: "'e + 'a \<Rightarrow> bool" where
  "isr (Inl e) = False"
| "isr (Inr x) = True"

lemma isr_iff: "isr m \<longleftrightarrow> (\<exists>x. m = Inr x)"
  by (cases m) auto

subsection \<open>Errors\<close>

datatype errkind =
    ENotFound | EForbidden | EAlreadyExists | EConflict  \<comment> \<open>API statuses\<close>
  | EDenied                                              \<comment> \<open>agent.ErrDenied\<close>
  | EDeadline                                            \<comment> \<open>context.DeadlineExceeded\<close>
  | EOther

record goerror =
  err_kind :: errkind
  err_msg :: string

text \<open>\<open>errors.New\<close> and \<open>fmt.Errorf\<close> without \<open>%w\<close>; \<open>fmt.Errorf("...%w")\<close>, whose result
  still answers \<open>errors.Is\<close> as the wrapped error does.\<close>

definition errorf :: "string \<Rightarrow> goerror" where
  "errorf m = \<lparr>err_kind = EOther, err_msg = m\<rparr>"

definition wrapf :: "string \<Rightarrow> goerror \<Rightarrow> goerror" where
  "wrapf prefix e = e\<lparr>err_msg := prefix @ err_msg e\<rparr>"

lemma errorf_sel [simp]: "err_kind (errorf m) = EOther" "err_msg (errorf m) = m"
  by (simp_all add: errorf_def)

lemma wrapf_sel [simp]:
  "err_kind (wrapf p e) = err_kind e" "err_msg (wrapf p e) = p @ err_msg e"
  by (simp_all add: wrapf_def)

subsection \<open>Lists\<close>

lemma find_SomeD: "List.find P xs = Some x \<Longrightarrow> x \<in> set xs \<and> P x"
  by (induction xs) (auto split: if_splits)

lemma find_NoneD: "List.find P xs = None \<Longrightarrow> x \<in> set xs \<Longrightarrow> \<not> P x"
  by (induction xs) (auto split: if_splits)

lemma find_filter: "List.find P xs = (case filter P xs of [] \<Rightarrow> None | x # _ \<Rightarrow> Some x)"
  by (induction xs) auto

lemma length_dropWhile_le [simp]: "length (dropWhile P xs) \<le> length xs"
  by (induction xs) auto

end
