(* ===== verification/GoStrings.thy ===== *)
theory GoStrings
  imports Prelude
begin

text \<open>
  The part of Go's \<open>strings\<close>, \<open>strconv\<close>, \<open>fmt\<close> and \<open>unicode/utf8\<close> the program uses. A Go
  string is a sequence of bytes, so a \<open>string\<close> (a list of 8 bit characters) is exactly one,
  \<open>length\<close> is \<open>len\<close>, and \<open>take\<close>/\<open>drop\<close> are slicing. \<open>runes\<close> is the iteration over a string's
  UTF-8 code points: a byte that starts no valid encoding is U+FFFD of width one.
\<close>

subsection \<open>Code points\<close>

abbreviation byte :: "char \<Rightarrow> nat" where
  "byte c \<equiv> of_char c"

definition cont_byte :: "nat \<Rightarrow> bool" where
  "cont_byte b \<longleftrightarrow> 128 \<le> b \<and> b \<le> 191"

text \<open>Width and value of the first code point, \<open>utf8.DecodeRuneInString\<close>.\<close>

fun rune2 :: "nat \<Rightarrow> string \<Rightarrow> nat \<times> nat" where
  "rune2 a (c1 # _) =
     (if cont_byte (byte c1) then ((a - 192) * 64 + (byte c1 - 128), 2) else (65533, 1))"
| "rune2 a [] = (65533, 1)"

fun rune3 :: "nat \<Rightarrow> string \<Rightarrow> nat \<times> nat" where
  "rune3 a (c1 # c2 # _) =
     (if (if a = 224 then 160 else 128) \<le> byte c1 \<and>
         byte c1 \<le> (if a = 237 then 159 else 191) \<and> cont_byte (byte c2)
      then ((a - 224) * 4096 + (byte c1 - 128) * 64 + (byte c2 - 128), 3)
      else (65533, 1))"
| "rune3 a _ = (65533, 1)"

fun rune4 :: "nat \<Rightarrow> string \<Rightarrow> nat \<times> nat" where
  "rune4 a (c1 # c2 # c3 # _) =
     (if (if a = 240 then 144 else 128) \<le> byte c1 \<and>
         byte c1 \<le> (if a = 244 then 143 else 191) \<and> cont_byte (byte c2) \<and> cont_byte (byte c3)
      then ((a - 240) * 262144 + (byte c1 - 128) * 4096 + (byte c2 - 128) * 64
            + (byte c3 - 128), 4)
      else (65533, 1))"
| "rune4 a _ = (65533, 1)"

definition rune1 :: "char \<Rightarrow> string \<Rightarrow> nat \<times> nat" where
  "rune1 c s =
     (let a = byte c in
      if a < 128 then (a, 1)
      else if 194 \<le> a \<and> a \<le> 223 then rune2 a s
      else if 224 \<le> a \<and> a \<le> 239 then rune3 a s
      else if 240 \<le> a \<and> a \<le> 244 then rune4 a s
      else (65533, 1))"

type_synonym tok = "nat \<times> string"

function runes :: "string \<Rightarrow> tok list" where
  "runes [] = []"
| "runes (c # s) =
     (case rune1 c s of (r, w) \<Rightarrow> (r, c # take (w - 1) s) # runes (drop (w - 1) s))"
  by pat_completeness auto
termination by (relation "measure length") auto

definition unrunes :: "tok list \<Rightarrow> string" where
  "unrunes ts = concat (map snd ts)"

lemma unrunes_simps [simp]:
  "unrunes [] = []" "unrunes (t # ts) = snd t @ unrunes ts"
  "unrunes (xs @ ys) = unrunes xs @ unrunes ys"
  by (simp_all add: unrunes_def)

lemma unrunes_runes [simp]: "unrunes (runes s) = s"
  by (induction s rule: runes.induct) (auto split: prod.split)

lemma length_runes_le: "length (runes s) \<le> length s"
proof (induction s rule: runes.induct)
  case (2 c s)
  obtain r w where rw: "rune1 c s = (r, w)" by fastforce
  from 2 [OF rw [symmetric]] have "length (runes (drop (w - 1) s)) \<le> length s - (w - 1)"
    by simp
  with rw show ?case by simp
qed simp

definition ascii :: "string \<Rightarrow> bool" where
  "ascii s \<longleftrightarrow> list_all (\<lambda>c. byte c < 128) s"

definition ascii_toks :: "string \<Rightarrow> tok list" where
  "ascii_toks s = map (\<lambda>c. (byte c, [c])) s"

lemma ascii_simps [simp]:
  "ascii []" "ascii (c # s) \<longleftrightarrow> byte c < 128 \<and> ascii s"
  "ascii (s @ t) \<longleftrightarrow> ascii s \<and> ascii t"
  by (simp_all add: ascii_def)

lemma runes_ascii_append: "ascii s \<Longrightarrow> runes (s @ t) = ascii_toks s @ runes t"
  by (induction s) (auto simp: rune1_def ascii_toks_def)

lemma runes_ascii: "ascii s \<Longrightarrow> runes s = ascii_toks s"
  using runes_ascii_append [of s "[]"] by simp

lemma ascii_toks_simps [simp]:
  "ascii_toks [] = []" "ascii_toks (c # s) = (byte c, [c]) # ascii_toks s"
  "ascii_toks (s @ t) = ascii_toks s @ ascii_toks t"
  "unrunes (ascii_toks s) = s" "length (ascii_toks s) = length s"
  by (induction s) (auto simp: ascii_toks_def)

subsection \<open>Substrings\<close>

fun prefixb :: "'a list \<Rightarrow> 'a list \<Rightarrow> bool" where
  "prefixb [] _ = True"
| "prefixb (x # xs) [] = False"
| "prefixb (x # xs) (y # ys) = (x = y \<and> prefixb xs ys)"

lemma prefixb_iff: "prefixb p s \<longleftrightarrow> (\<exists>t. s = p @ t)"
  by (induction p s rule: prefixb.induct) auto

lemma prefixb_append [simp]: "prefixb p (p @ t)"
  by (auto simp: prefixb_iff)

text \<open>\<open>strings.Index\<close>, for a non-empty pattern: None where Go returns -1.\<close>

fun str_index :: "string \<Rightarrow> string \<Rightarrow> nat option" where
  "str_index p [] = (if p = [] then Some 0 else None)"
| "str_index p (c # s) =
     (if prefixb p (c # s) then Some 0 else map_option Suc (str_index p s))"

definition contains :: "string \<Rightarrow> string \<Rightarrow> bool" where
  "contains s p \<longleftrightarrow> str_index p s \<noteq> None"

lemma contains_simps [simp]:
  "contains [] p \<longleftrightarrow> p = []"
  "contains (c # s) p \<longleftrightarrow> prefixb p (c # s) \<or> contains s p"
  by (auto simp: contains_def)

lemma contains_iff: "contains s p \<longleftrightarrow> (\<exists>a b. s = a @ p @ b)"
proof (induction s)
  case (Cons c s)
  have "(\<exists>a b. c # s = a @ p @ b) \<longleftrightarrow> (\<exists>b. c # s = p @ b) \<or> (\<exists>a b. s = a @ p @ b)"
    (is "?l \<longleftrightarrow> ?r")
  proof
    assume ?l
    then obtain a b where ab: "c # s = a @ p @ b" by blast
    then show ?r by (cases a) auto
  next
    assume ?r
    then show ?l
    proof
      assume "\<exists>b. c # s = p @ b"
      then show ?l by (metis append_Nil)
    next
      assume "\<exists>a b. s = a @ p @ b"
      then obtain a b where "s = a @ p @ b" by blast
      then have "c # s = (c # a) @ p @ b" by simp
      then show ?l by blast
    qed
  qed
  with Cons.IH show ?case by (auto simp: prefixb_iff)
qed simp

lemma str_index_Some:
  "str_index p s = Some i \<Longrightarrow> s = take i s @ p @ drop (i + length p) s \<and> i + length p \<le> length s"
proof (induction s arbitrary: i)
  case Nil
  then show ?case by (auto split: if_splits)
next
  case (Cons c s)
  show ?case
  proof (cases "prefixb p (c # s)")
    case True
    with Cons.prems have i: "i = 0" by simp
    from True obtain t where "c # s = p @ t" by (auto simp: prefixb_iff)
    with i show ?thesis by simp
  next
    case False
    with Cons.prems obtain j where j: "str_index p s = Some j" "i = Suc j" by auto
    from Cons.IH [OF j(1)] j(2) show ?thesis by simp
  qed
qed

text \<open>\<open>strings.ReplaceAll\<close> with a non-empty pattern: occurrences from the left, without
  overlap.\<close>

function replace_all :: "string \<Rightarrow> string \<Rightarrow> string \<Rightarrow> string" where
  "replace_all p q [] = []"
| "replace_all p q (c # s) =
     (if p \<noteq> [] \<and> prefixb p (c # s)
      then q @ replace_all p q (drop (length p - 1) s)
      else c # replace_all p q s)"
  by pat_completeness auto
termination by (relation "measure (\<lambda>(p, q, s). length s)") auto

text \<open>\<open>strings.Join\<close>.\<close>

fun join :: "string \<Rightarrow> string list \<Rightarrow> string" where
  "join sep [] = []"
| "join sep [s] = s"
| "join sep (s # t # ss) = s @ sep @ join sep (t # ss)"

text \<open>\<open>strings.SplitN(s, "\n", 2)[0]\<close>: up to the first newline.\<close>

definition newline :: char where
  "newline = CHR 0x0A"

definition first_line :: "string \<Rightarrow> string" where
  "first_line s = takeWhile (\<lambda>c. c \<noteq> newline) s"

text \<open>\<open>strings.Trim(s, cutset)\<close> for a cutset of single bytes.\<close>

definition trim_set :: "string \<Rightarrow> string \<Rightarrow> string" where
  "trim_set cs s = rev (dropWhile (\<lambda>c. c \<in> set cs) (rev (dropWhile (\<lambda>c. c \<in> set cs) s)))"

lemma length_trim_set [bounds]: "length (trim_set cs s) \<le> length s"
  unfolding trim_set_def
  by (metis length_dropWhile_le length_rev order_trans)

lemma set_trim_set: "set (trim_set cs s) \<subseteq> set s"
  unfolding trim_set_def by (metis set_dropWhileD set_rev subsetI)

lemma dropWhile_hd: "dropWhile P xs \<noteq> [] \<Longrightarrow> \<not> P (hd (dropWhile P xs))"
  by (induction xs) auto

lemma last_rev_dropWhile: "rev (dropWhile P (rev xs)) \<noteq> [] \<Longrightarrow> \<not> P (last (rev (dropWhile P (rev xs))))"
  using dropWhile_hd [of P "rev xs"] by (simp add: last_rev)

lemma trim_set_last: "trim_set cs s \<noteq> [] \<Longrightarrow> last (trim_set cs s) \<notin> set cs"
  unfolding trim_set_def by (metis last_rev_dropWhile)

lemma rev_dropWhile_rev_prefix: "\<exists>t. xs = rev (dropWhile P (rev xs)) @ t"
  by (metis rev_append rev_rev_ident takeWhile_dropWhile_id)

lemma trim_set_hd: "trim_set cs s \<noteq> [] \<Longrightarrow> hd (trim_set cs s) \<notin> set cs"
proof -
  assume ne: "trim_set cs s \<noteq> []"
  let ?d = "dropWhile (\<lambda>c. c \<in> set cs) s"
  obtain t where t: "?d = trim_set cs s @ t"
    unfolding trim_set_def using rev_dropWhile_rev_prefix by blast
  with ne have "?d \<noteq> []" "hd ?d = hd (trim_set cs s)" by auto
  then show ?thesis using dropWhile_hd [of "\<lambda>c. c \<in> set cs" s] by simp
qed

subsection \<open>White space\<close>

text \<open>
  \<open>unicode.IsSpace\<close> as the byte sequences that encode a space, and \<open>strings.TrimSpace\<close> over
  them: the last rune of a string is a space exactly when the string ends in one of these
  sequences, since none of them is a proper suffix of another valid encoding.
\<close>

definition space_seqs :: "string list" where
  "space_seqs =
     map (\<lambda>n. [char_of n]) [9::nat, 10, 11, 12, 13, 32] @
     map (\<lambda>n. [char_of (194::nat), char_of n]) [133::nat, 160] @
     [[char_of (225::nat), char_of (154::nat), char_of (128::nat)]] @
     map (\<lambda>n. [char_of (226::nat), char_of (128::nat), char_of n])
       ([128::nat ..< 139] @ [168, 169, 175]) @
     [[char_of (226::nat), char_of (129::nat), char_of (159::nat)]] @
     [[char_of (227::nat), char_of (128::nat), char_of (128::nat)]]"

definition lead :: "string list \<Rightarrow> string \<Rightarrow> nat" where
  "lead seqs s = (case List.find (\<lambda>q. prefixb q s) seqs of None \<Rightarrow> 0 | Some q \<Rightarrow> length q)"

lemma lead_le: "lead seqs s \<le> length s"
  by (auto simp: lead_def prefixb_iff split: option.split dest!: find_SomeD)

function trim_left :: "string list \<Rightarrow> string \<Rightarrow> string" where
  "trim_left seqs s = (if lead seqs s = 0 then s else trim_left seqs (drop (lead seqs s) s))"
  by pat_completeness auto
termination
proof (relation "measure (\<lambda>(q, s). length s)")
  fix seqs and s :: string
  assume "lead seqs s \<noteq> 0"
  moreover have "lead seqs s \<le> length s" by (rule lead_le)
  ultimately show "((seqs, drop (lead seqs s) s), seqs, s) \<in> measure (\<lambda>(q, s). length s)" by simp
qed simp

declare trim_left.simps [simp del]

definition trim_space :: "string \<Rightarrow> string" where
  "trim_space s = rev (trim_left (map rev space_seqs) (rev (trim_left space_seqs s)))"

lemma length_trim_left: "length (trim_left seqs s) \<le> length s"
proof (induction seqs s rule: trim_left.induct)
  case (1 seqs s)
  then show ?case by (subst trim_left.simps) (auto intro: order_trans)
qed

lemma length_trim_space [bounds]: "length (trim_space s) \<le> length s"
proof -
  have "length (trim_space s) \<le> length (rev (trim_left space_seqs s))"
    unfolding trim_space_def length_rev by (metis length_rev length_trim_left)
  also have "\<dots> \<le> length s" by (simp add: length_trim_left)
  finally show ?thesis .
qed

subsection \<open>Numbers in decimal\<close>

fun digits :: "nat \<Rightarrow> string" where
  "digits n = (if n < 10 then [char_of (48 + n)] else digits (n div 10) @ [char_of (48 + n mod 10)])"

declare digits.simps [simp del]

definition itoa :: "int \<Rightarrow> string" where
  "itoa i = (if i < 0 then CHR ''-'' # digits (nat (- i)) else digits (nat i))"

definition undigits :: "string \<Rightarrow> nat" where
  "undigits s = foldl (\<lambda>n c. 10 * n + (byte c - 48)) 0 s"

lemma undigits_snoc: "undigits (s @ [c]) = 10 * undigits s + (byte c - 48)"
  by (simp add: undigits_def)

lemma undigits_digits [simp]: "undigits (digits n) = n"
proof (induction n rule: digits.induct)
  case (1 n)
  have d: "d < 10 \<Longrightarrow> byte (char_of (48 + d)) - 48 = d" for d :: nat by simp
  show ?case
  proof (cases "n < 10")
    case True
    then show ?thesis by (subst digits.simps) (simp add: undigits_def)
  next
    case False
    with 1 have ih: "undigits (digits (n div 10)) = n div 10" by simp
    have "undigits (digits n) = undigits (digits (n div 10) @ [char_of (48 + n mod 10)])"
      using False by (subst digits.simps) simp
    also have "\<dots> = 10 * (n div 10) + n mod 10"
      unfolding undigits_snoc ih using d [of "n mod 10"] by simp
    also have "\<dots> = n" by simp
    finally show ?thesis .
  qed
qed

lemma digits_inj [simp]: "digits m = digits n \<longleftrightarrow> m = n"
  by (metis undigits_digits)

lemma digits_nonempty [simp]: "digits n \<noteq> []"
  by (subst digits.simps) simp

lemma digits_chars: "c \<in> set (digits n) \<Longrightarrow> 48 \<le> byte c \<and> byte c \<le> 57"
proof (induction n rule: digits.induct)
  case (1 n)
  show ?case
  proof (cases "n < 10")
    case True
    with 1 show ?thesis by (subst (asm) digits.simps) auto
  next
    case False
    have "n mod 10 < 10" by simp
    with False 1 show ?thesis by (subst (asm) digits.simps) auto
  qed
qed

subsection \<open>Hexadecimal and quoting\<close>

definition hexdigit :: "nat \<Rightarrow> char" where
  "hexdigit d = (if d < 10 then char_of (48 + d) else char_of (87 + d))"

fun hex_pad :: "nat \<Rightarrow> nat \<Rightarrow> string" where
  "hex_pad 0 n = []"
| "hex_pad (Suc k) n = hex_pad k (n div 16) @ [hexdigit (n mod 16)]"

lemma length_hex_pad [simp]: "length (hex_pad k n) = k"
  by (induction k arbitrary: n) auto

lemma hexdigit_char:
  "d < 16 \<Longrightarrow> (48 \<le> byte (hexdigit d) \<and> byte (hexdigit d) \<le> 57) \<or>
    (97 \<le> byte (hexdigit d) \<and> byte (hexdigit d) \<le> 102)"
  by (cases "d < 10") (auto simp: hexdigit_def)

lemma hex_pad_chars:
  "c \<in> set (hex_pad k n) \<Longrightarrow> (48 \<le> byte c \<and> byte c \<le> 57) \<or> (97 \<le> byte c \<and> byte c \<le> 102)"
proof (induction k arbitrary: n)
  case (Suc k)
  show ?case
  proof (cases "c \<in> set (hex_pad k (n div 16))")
    case True
    then show ?thesis by (rule Suc.IH)
  next
    case False
    with Suc.prems have "c = hexdigit (n mod 16)" by simp
    then show ?thesis using hexdigit_char [of "n mod 16"] by simp
  qed
qed simp

text \<open>
  \<open>strconv.Quote\<close>, which is \<open>%q\<close>. Which code points from U+0080 on are printable is a table
  of the Unicode version the standard library carries, the argument \<open>uprint\<close>.
\<close>

definition quote_tok :: "(nat \<Rightarrow> bool) \<Rightarrow> tok \<Rightarrow> string" where
  "quote_tok uprint t =
     (case t of (r, bs) \<Rightarrow>
      if r = 65533 \<and> length bs = 1 then CHR 0x5C # CHR ''x'' # hex_pad 2 (byte (hd bs))
      else if r = 34 \<or> r = 92 then CHR 0x5C # bs
      else if (if r < 128 then 32 \<le> r \<and> r < 127 else uprint r) then bs
      else if r = 7 then CHR 0x5C # ''a'' else if r = 8 then CHR 0x5C # ''b'' else if r = 12 then CHR 0x5C # ''f''
      else if r = 10 then CHR 0x5C # ''n'' else if r = 13 then CHR 0x5C # ''r'' else if r = 9 then CHR 0x5C # ''t''
      else if r = 11 then CHR 0x5C # ''v''
      else if r < 32 \<or> r = 127 then CHR 0x5C # CHR ''x'' # hex_pad 2 r
      else if r < 65536 then CHR 0x5C # CHR ''u'' # hex_pad 4 r
      else CHR 0x5C # CHR ''U'' # hex_pad 8 r)"

definition quote :: "(nat \<Rightarrow> bool) \<Rightarrow> string \<Rightarrow> string" where
  "quote uprint s = [CHR 0x22] @ concat (map (quote_tok uprint) (runes s)) @ [CHR 0x22]"

text \<open>\<open>%-24s\<close> and the like: padding on the right to a width counted in code points.\<close>

definition pad_right :: "nat \<Rightarrow> string \<Rightarrow> string" where
  "pad_right w s = s @ replicate (w - length (runes s)) CHR '' ''"

end
