(* ===== verification/Regex.thy ===== *)
theory Regex
  imports GoStrings
begin

text \<open>
  The fragment of Go's \<open>regexp\<close> the program's patterns use, with its leftmost first matching:
  \<open>run r\<close> lists the ways to match \<open>r\<close> at the head of the input in order of preference (the
  left side of an alternation first, a repetition as long as possible), so the match the
  engine reports at a position is the first of the list, and the one it reports for a text is
  that of the leftmost position with any. Repetition is of a character class only, as in every
  pattern of the source. The input is the list of code points with their bytes, as the engine
  reads them; the code point before the position is kept for \<open>\b\<close>.
\<close>

datatype re =
    Eps
  | Cls "nat \<Rightarrow> bool"
  | Seq re re
  | Alt re re
  | Rep "nat \<Rightarrow> bool" nat "nat option"  \<comment> \<open>class, least and greatest number of times\<close>
  | Grp nat re                          \<comment> \<open>capturing group\<close>
  | WordB                               \<comment> \<open>\b\<close>

type_synonym caps = "(nat \<times> tok list) list"
type_synonym mstate = "nat option \<times> tok list \<times> caps"

definition word_rune :: "nat \<Rightarrow> bool" where
  "word_rune r \<longleftrightarrow> (48 \<le> r \<and> r \<le> 57) \<or> (65 \<le> r \<and> r \<le> 90) \<or> r = 95 \<or> (97 \<le> r \<and> r \<le> 122)"

definition wordb :: "nat option \<Rightarrow> tok list \<Rightarrow> bool" where
  "wordb pr ts \<longleftrightarrow>
     (case pr of None \<Rightarrow> False | Some r \<Rightarrow> word_rune r) \<noteq>
     (case ts of [] \<Rightarrow> False | t # _ \<Rightarrow> word_rune (fst t))"

fun rep :: "(nat \<Rightarrow> bool) \<Rightarrow> nat \<Rightarrow> nat option \<Rightarrow> nat option \<Rightarrow> tok list \<Rightarrow> caps \<Rightarrow> mstate list" where
  "rep p lo hi pr [] cs = (if lo = 0 then [(pr, [], cs)] else [])"
| "rep p lo hi pr (t # ts) cs =
     (if hi \<noteq> Some 0 \<and> p (fst t)
      then rep p (lo - 1) (map_option (\<lambda>n. n - 1) hi) (Some (fst t)) ts cs else []) @
     (if lo = 0 then [(pr, t # ts, cs)] else [])"

fun run :: "re \<Rightarrow> mstate \<Rightarrow> mstate list" where
  "run Eps m = [m]"
| "run (Cls p) (pr, ts, cs) =
     (case ts of [] \<Rightarrow> []
      | t # ts' \<Rightarrow> if p (fst t) then [(Some (fst t), ts', cs)] else [])"
| "run (Seq a b) m = concat (map (run b) (run a m))"
| "run (Alt a b) m = run a m @ run b m"
| "run (Rep p lo hi) (pr, ts, cs) = rep p lo hi pr ts cs"
| "run (Grp n a) (pr, ts, cs) =
     map (\<lambda>(pr', ts', cs'). (pr', ts', (n, take (length ts - length ts') ts) # cs'))
       (run a (pr, ts, cs))"
| "run WordB (pr, ts, cs) = (if wordb pr ts then [(pr, ts, cs)] else [])"

definition first_match :: "re \<Rightarrow> nat option \<Rightarrow> tok list \<Rightarrow> mstate option" where
  "first_match r pr ts = (case run r (pr, ts, []) of [] \<Rightarrow> None | m # _ \<Rightarrow> Some m)"

text \<open>
  A text split at its matches, as \<open>FindAllStringIndex\<close> and \<open>ReplaceAllString\<close> walk it: search
  from the end of the previous match. A match that consumes nothing is passed over; no pattern
  of the program has one (\<open>re_min\<close> below).
\<close>

datatype piece = Keep tok | Hit "tok list" caps

function pieces :: "re \<Rightarrow> nat option \<Rightarrow> tok list \<Rightarrow> piece list" where
  "pieces r pr [] = []"
| "pieces r pr (t # ts) =
     (case first_match r pr (t # ts) of
        None \<Rightarrow> Keep t # pieces r (Some (fst t)) ts
      | Some (pr', ts', cs) \<Rightarrow>
          if length ts' < length (t # ts)
          then Hit (take (length (t # ts) - length ts') (t # ts)) cs # pieces r pr' ts'
          else Keep t # pieces r (Some (fst t)) ts)"
  by pat_completeness auto
termination by (relation "measure (\<lambda>(r, pr, ts). length ts)") auto

fun piece_toks :: "piece \<Rightarrow> tok list" where
  "piece_toks (Keep t) = [t]"
| "piece_toks (Hit ts cs) = ts"

fun is_hit :: "piece \<Rightarrow> bool" where
  "is_hit (Keep t) = False"
| "is_hit (Hit ts cs) = True"

definition hits :: "re \<Rightarrow> string \<Rightarrow> nat" where
  "hits r s = length (filter is_hit (pieces r None (runes s)))"

text \<open>Replacement templates: literal text and \<open>${n}\<close>. A group that took no part is empty.\<close>

datatype tpl = Lit string | Cap nat

fun tpl_text :: "caps \<Rightarrow> tpl \<Rightarrow> string" where
  "tpl_text cs (Lit s) = s"
| "tpl_text cs (Cap n) = (case map_of cs n of None \<Rightarrow> [] | Some ts \<Rightarrow> unrunes ts)"

fun piece_text :: "tpl list \<Rightarrow> piece \<Rightarrow> string" where
  "piece_text tp (Keep t) = snd t"
| "piece_text tp (Hit ts cs) = concat (map (tpl_text cs) tp)"

definition replace_re :: "re \<Rightarrow> tpl list \<Rightarrow> string \<Rightarrow> string" where
  "replace_re r tp s = concat (map (piece_text tp) (pieces r None (runes s)))"

subsection \<open>What a match consumes\<close>

fun re_min :: "re \<Rightarrow> nat" where
  "re_min Eps = 0"
| "re_min (Cls p) = 1"
| "re_min (Seq a b) = re_min a + re_min b"
| "re_min (Alt a b) = min (re_min a) (re_min b)"
| "re_min (Rep p lo hi) = lo"
| "re_min (Grp n a) = re_min a"
| "re_min WordB = 0"

definition after :: "nat option \<Rightarrow> tok list \<Rightarrow> nat option" where
  "after pr used = (if used = [] then pr else Some (fst (last used)))"

lemma after_simps [simp]:
  "after pr [] = pr" "after pr (t # ts) = after (Some (fst t)) ts"
  "after pr (xs @ ys) = after (after pr xs) ys"
  by (auto simp: after_def)

lemma rep_consumes:
  "(pr', ts', cs') \<in> set (rep p lo hi pr ts cs) \<Longrightarrow>
     \<exists>used. ts = used @ ts' \<and> lo \<le> length used \<and> pr' = after pr used
       \<and> list_all (\<lambda>t. p (fst t)) used"
proof (induction p lo hi pr ts cs rule: rep.induct)
  case (1 p lo hi pr cs)
  then show ?case by (auto split: if_splits)
next
  case (2 p lo hi pr t ts cs)
  from "2.prems" consider
      (more) "hi \<noteq> Some 0 \<and> p (fst t)"
        "(pr', ts', cs') \<in> set (rep p (lo - 1) (map_option (\<lambda>n. n - 1) hi) (Some (fst t)) ts cs)"
    | (stop) "lo = 0" "pr' = pr" "ts' = t # ts" "cs' = cs"
    by (auto split: if_splits)
  then show ?case
  proof cases
    case more
    from "2.IH" [OF more] obtain used where
      "ts = used @ ts'" "lo - 1 \<le> length used" "pr' = after (Some (fst t)) used"
      "list_all (\<lambda>t. p (fst t)) used" by blast
    with more show ?thesis by (intro exI [of _ "t # used"]) auto
  next
    case stop
    then show ?thesis by (intro exI [of _ "[]"]) simp
  qed
qed

lemma run_consumes:
  "(pr', ts', cs') \<in> set (run r (pr, ts, cs)) \<Longrightarrow>
     \<exists>used. ts = used @ ts' \<and> re_min r \<le> length used \<and> pr' = after pr used"
proof (induction r arbitrary: pr ts cs pr' ts' cs')
  case Eps
  then show ?case by simp
next
  case (Cls p)
  then show ?case by (auto split: list.splits if_splits)
next
  case (Seq a b)
  from Seq.prems obtain pr1 ts1 cs1 where
    1: "(pr1, ts1, cs1) \<in> set (run a (pr, ts, cs))"
    and 2: "(pr', ts', cs') \<in> set (run b (pr1, ts1, cs1))" by auto
  from Seq.IH(1) [OF 1] obtain u where
    u: "ts = u @ ts1" "re_min a \<le> length u" "pr1 = after pr u" by blast
  from Seq.IH(2) [OF 2] obtain v where
    v: "ts1 = v @ ts'" "re_min b \<le> length v" "pr' = after pr1 v" by blast
  from u v show ?case by (intro exI [of _ "u @ v"]) simp
next
  case (Alt a b)
  then show ?case by (fastforce simp: min_le_iff_disj)
next
  case (Rep p lo hi)
  then show ?case using rep_consumes by fastforce
next
  case (Grp n a)
  then obtain cs1 where "(pr', ts', cs1) \<in> set (run a (pr, ts, cs))" by auto
  from Grp.IH [OF this] show ?case by simp
next
  case WordB
  then show ?case by (auto split: if_splits)
qed

lemma first_match_consumes:
  "first_match r pr ts = Some (pr', ts', cs) \<Longrightarrow>
     \<exists>used. ts = used @ ts' \<and> re_min r \<le> length used \<and> pr' = after pr used"
proof -
  assume "first_match r pr ts = Some (pr', ts', cs)"
  then have "(pr', ts', cs) \<in> set (run r (pr, ts, []))"
    by (auto simp: first_match_def split: list.splits)
  then show ?thesis by (rule run_consumes)
qed

subsection \<open>What a scan of the text does\<close>

text \<open>The two shapes of a step, with the text already taken apart.\<close>

lemma pieces_hit:
  assumes "first_match r pr ts = Some (pr', ts', cs)" and "length ts' < length ts"
  shows "\<exists>used. ts = used @ ts' \<and> used \<noteq> [] \<and> pr' = after pr used \<and>
    pieces r pr ts = Hit used cs # pieces r pr' ts'"
proof -
  from first_match_consumes [OF assms(1)] obtain used where
    u: "ts = used @ ts'" "pr' = after pr used" by blast
  with assms(2) obtain t us where t: "used = t # us" by (cases used) auto
  have "take (length ts - length ts') ts = used" using u by simp
  with assms u t show ?thesis by (intro exI [of _ used]) simp
qed

lemma pieces_keep:
  assumes "\<not> (\<exists>pr' ts' cs. first_match r pr (t # ts) = Some (pr', ts', cs) \<and> length ts' < length (t # ts))"
  shows "pieces r pr (t # ts) = Keep t # pieces r (Some (fst t)) ts"
  using assms by (auto split: option.split)

lemma pieces_toks: "concat (map piece_toks (pieces r pr ts)) = ts"
proof (induction "length ts" arbitrary: pr ts rule: less_induct)
  case less
  show ?case
  proof (cases ts)
    case (Cons t us)
    show ?thesis
    proof (cases "\<exists>pr' ts' cs. first_match r pr ts = Some (pr', ts', cs) \<and> length ts' < length ts")
      case True
      then obtain pr' ts' cs where m: "first_match r pr ts = Some (pr', ts', cs)"
        and l: "length ts' < length ts" by blast
      from pieces_hit [OF m l] obtain used where
        "ts = used @ ts'" "pieces r pr ts = Hit used cs # pieces r pr' ts'" by blast
      with less [OF l] show ?thesis by simp
    next
      case False
      with Cons have "pieces r pr ts = Keep t # pieces r (Some (fst t)) us"
        using pieces_keep by blast
      with less [of us] Cons show ?thesis by simp
    qed
  qed simp
qed

lemma no_hits_text:
  "filter is_hit ps = [] \<Longrightarrow> concat (map (piece_text tp) ps) = unrunes (concat (map piece_toks ps))"
proof (induction ps)
  case (Cons p ps)
  then show ?case by (cases p) auto
qed simp

lemma replace_no_hits: "hits r s = 0 \<Longrightarrow> replace_re r tp s = s"
  unfolding hits_def replace_re_def by (simp add: no_hits_text pieces_toks)

text \<open>
  No position the scan leaves in place starts a match: reading the text from there, with the
  code point before it, the engine finds nothing (or, for a pattern that can match the empty
  string, nothing that consumes).
\<close>

lemma pieces_kept:
  "pieces r pr ts = ps @ Keep t # qs \<Longrightarrow>
     first_match r (after pr (concat (map piece_toks ps)))
       (t # concat (map piece_toks qs)) = Some (pr', ts', cs) \<Longrightarrow>
     length (t # concat (map piece_toks qs)) \<le> length ts'"
proof (induction "length ts" arbitrary: pr ts ps rule: less_induct)
  case less
  show ?case
  proof (cases ts)
    case Nil
    with less.prems show ?thesis by simp
  next
    case (Cons u us)
    show ?thesis
    proof (cases "\<exists>pr' ts' cs. first_match r pr ts = Some (pr', ts', cs) \<and> length ts' < length ts")
      case True
      then obtain pr1 ts1 cs1 where m: "first_match r pr ts = Some (pr1, ts1, cs1)"
        and l: "length ts1 < length ts" by blast
      from pieces_hit [OF m l] obtain used where
        h: "pr1 = after pr used" "pieces r pr ts = Hit used cs1 # pieces r pr1 ts1" by blast
      with less.prems(1) obtain ps' where ps: "ps = Hit used cs1 # ps'" by (cases ps) auto
      with less.prems h less.hyps [OF l, of pr1 ps'] show ?thesis by simp
    next
      case False
      with Cons have k: "pieces r pr ts = Keep u # pieces r (Some (fst u)) us"
        using pieces_keep by blast
      show ?thesis
      proof (cases ps)
        case Nil
        with k less.prems(1) have "t = u" "qs = pieces r (Some (fst u)) us" by auto
        then have "t # concat (map piece_toks qs) = ts" by (simp add: pieces_toks Cons)
        with False less.prems(2) Nil show ?thesis by force
      next
        case (Cons p ps')
        with k less.prems(1) have "p = Keep u" "pieces r (Some (fst u)) us = ps' @ Keep t # qs"
          by auto
        with less.prems(2) Cons \<open>ts = u # us\<close> less.hyps [of us "Some (fst u)" ps']
        show ?thesis by simp
      qed
    qed
  qed
qed

subsection \<open>Matching a known shape\<close>

text \<open>A repetition over characters that all belong to the class takes all of them first.\<close>

lemma rep_greedy:
  assumes "list_all (\<lambda>t. p (fst t)) xs" "lo \<le> length xs"
    and "ys = [] \<or> \<not> p (fst (hd ys))"
  shows "\<exists>ms. rep p lo None pr (xs @ ys) cs = (after pr xs, ys, cs) # ms"
  using assms(1, 2)
proof (induction xs arbitrary: lo pr)
  case Nil
  with assms(3) show ?case by (cases ys) auto
next
  case (Cons x xs)
  then obtain ms where
    "rep p (lo - 1) None (Some (fst x)) (xs @ ys) cs = (after (Some (fst x)) xs, ys, cs) # ms"
    by fastforce
  with Cons.prems show ?case by auto
qed

end
