(* ===== verification/Redact.thy ===== *)
theory Redact
  imports Regex
begin

text \<open>
  \<open>internal/evidence/redact.go\<close>: the six redactors in their order, \<open>Redact\<close> and \<open>Truncate\<close>.
  A pattern is written as the regular expression Go parses, case folding included (\<open>ci\<close>):
  under \<open>(?i)\<close> the letters s and k also match U+017F and U+212A.
\<close>

subsection \<open>Character classes of the patterns\<close>

definition ci :: "char \<Rightarrow> nat \<Rightarrow> bool" where
  "ci c r \<longleftrightarrow> r = byte c \<or> (97 \<le> byte c \<and> byte c \<le> 122 \<and> r + 32 = byte c)
     \<or> (byte c = 115 \<and> r = 383) \<or> (byte c = 107 \<and> r = 8490)"

fun lit_ci :: "string \<Rightarrow> re" where
  "lit_ci [] = Eps"
| "lit_ci [c] = Cls (ci c)"
| "lit_ci (c # d # s) = Seq (Cls (ci c)) (lit_ci (d # s))"

fun lit_re :: "string \<Rightarrow> re" where
  "lit_re [] = Eps"
| "lit_re [c] = Cls (\<lambda>r. r = byte c)"
| "lit_re (c # d # s) = Seq (Cls (\<lambda>r. r = byte c)) (lit_re (d # s))"

fun alts :: "re list \<Rightarrow> re" where
  "alts [] = Alt Eps Eps"
| "alts [r] = r"
| "alts (r # q # rs) = Alt r (alts (q # rs))"

fun seqs :: "re list \<Rightarrow> re" where
  "seqs [] = Eps"
| "seqs [r] = r"
| "seqs (r # q # rs) = Seq r (seqs (q # rs))"

definition space_cls :: "nat \<Rightarrow> bool" where
  "space_cls r \<longleftrightarrow> r = 9 \<or> r = 10 \<or> r = 12 \<or> r = 13 \<or> r = 32"

definition upper_cls :: "nat \<Rightarrow> bool" where "upper_cls r \<longleftrightarrow> 65 \<le> r \<and> r \<le> 90"
definition lower_cls :: "nat \<Rightarrow> bool" where "lower_cls r \<longleftrightarrow> 97 \<le> r \<and> r \<le> 122"
definition digit_cls :: "nat \<Rightarrow> bool" where "digit_cls r \<longleftrightarrow> 48 \<le> r \<and> r \<le> 57"

definition alnum_cls :: "nat \<Rightarrow> bool" where
  "alnum_cls r \<longleftrightarrow> upper_cls r \<or> lower_cls r \<or> digit_cls r"

text \<open>\<open>[^\s"',;)]\<close>\<close>

definition value_cls :: "nat \<Rightarrow> bool" where
  "value_cls r \<longleftrightarrow> \<not> space_cls r \<and> r \<noteq> 34 \<and> r \<noteq> 39 \<and> r \<noteq> 44 \<and> r \<noteq> 59 \<and> r \<noteq> 41"

text \<open>\<open>[A-Za-z0-9._~+/=-]\<close> under \<open>(?i)\<close>, \<open>[A-Za-z0-9_-]\<close> and \<open>[a-zA-Z0-9+.-]\<close>\<close>

definition bearer_cls :: "nat \<Rightarrow> bool" where
  "bearer_cls r \<longleftrightarrow> alnum_cls r \<or> r = 383 \<or> r = 8490 \<or> r = 46 \<or> r = 95 \<or> r = 126
     \<or> r = 43 \<or> r = 47 \<or> r = 61 \<or> r = 45"

definition b64_cls :: "nat \<Rightarrow> bool" where
  "b64_cls r \<longleftrightarrow> alnum_cls r \<or> r = 95 \<or> r = 45"

definition scheme_cls :: "nat \<Rightarrow> bool" where
  "scheme_cls r \<longleftrightarrow> alnum_cls r \<or> r = 43 \<or> r = 46 \<or> r = 45"

lemmas cls_defs = ci_def space_cls_def upper_cls_def lower_cls_def digit_cls_def alnum_cls_def
  value_cls_def bearer_cls_def b64_cls_def scheme_cls_def word_rune_def

subsection \<open>The redactors\<close>

definition key_sep :: re where
  "key_sep = Rep (\<lambda>r. r = 95 \<or> r = 45) 0 (Some 1)"

definition secret_names :: "re list" where
  "secret_names =
     [lit_ci ''password'', lit_ci ''passwd'', lit_ci ''pwd'', lit_ci ''secret'', lit_ci ''token'',
      seqs [lit_ci ''api'', key_sep, lit_ci ''key''],
      seqs [lit_ci ''access'', key_sep, lit_ci ''key''],
      seqs [lit_ci ''private'', key_sep, lit_ci ''key''],
      lit_ci ''credential'']"

definition re_assignment :: re where
  "re_assignment = seqs
     [WordB, Grp 1 (alts secret_names), Rep (ci CHR ''s'') 0 (Some 1),
      Rep space_cls 0 None, Cls (\<lambda>r. r = 61 \<or> r = 58), Rep space_cls 0 None,
      Rep (\<lambda>r. r = 34) 0 (Some 1), Rep value_cls 4 None, Rep (\<lambda>r. r = 34) 0 (Some 1)]"

definition re_bearer :: re where
  "re_bearer = seqs [WordB, lit_ci ''bearer'', Rep space_cls 1 None, Rep bearer_cls 8 None]"

definition re_jwt :: re where
  "re_jwt = seqs [WordB, lit_re ''eyJ'', Rep b64_cls 8 None, lit_re ''.'', Rep b64_cls 8 None,
     lit_re ''.'', Rep b64_cls 8 None]"

definition re_connection :: re where
  "re_connection = seqs
     [WordB,
      Grp 1 (seqs [Cls (\<lambda>r. upper_cls r \<or> lower_cls r), Rep scheme_cls 0 None, lit_re ''://'']),
      Grp 2 (Rep (\<lambda>r. \<not> space_cls r \<and> r \<noteq> 58 \<and> r \<noteq> 64 \<and> r \<noteq> 47) 1 None),
      lit_re '':'',
      Grp 3 (Rep (\<lambda>r. \<not> space_cls r \<and> r \<noteq> 64 \<and> r \<noteq> 47) 1 None),
      lit_re ''@'']"

definition re_aws :: re where
  "re_aws = seqs
     [WordB,
      Grp 1 (alts [seqs [lit_re ''A3T'', Cls (\<lambda>r. upper_cls r \<or> digit_cls r)],
                   lit_re ''AKIA'', lit_re ''ASIA'', lit_re ''ABIA'', lit_re ''ACCA'']),
      Rep (\<lambda>r. upper_cls r \<or> digit_cls r) 16 (Some 16), WordB]"

definition re_sa_token :: re where
  "re_sa_token = seqs [WordB, lit_re ''ey'', Rep b64_cls 20 None]"

record redactor =
  red_name :: string
  red_pattern :: re
  red_replace :: "tpl list"

definition redactors :: "redactor list" where
  "redactors =
     [\<lparr>red_name = ''assignment'', red_pattern = re_assignment,
        red_replace = [Cap 1, Lit ''=[REDACTED]'']\<rparr>,
      \<lparr>red_name = ''bearer'', red_pattern = re_bearer, red_replace = [Lit ''Bearer [REDACTED]'']\<rparr>,
      \<lparr>red_name = ''jwt'', red_pattern = re_jwt, red_replace = [Lit ''[REDACTED_JWT]'']\<rparr>,
      \<lparr>red_name = ''connection string'', red_pattern = re_connection,
        red_replace = [Cap 1, Cap 2, Lit '':[REDACTED]@'']\<rparr>,
      \<lparr>red_name = ''aws access key'', red_pattern = re_aws,
        red_replace = [Lit ''[REDACTED_AWS_KEY]'']\<rparr>,
      \<lparr>red_name = ''kubernetes service account token'', red_pattern = re_sa_token,
        red_replace = [Lit ''[REDACTED_TOKEN]'']\<rparr>]"

subsection \<open>Redact and Truncate\<close>

fun redact_loop :: "redactor list \<Rightarrow> string \<Rightarrow> int \<Rightarrow> string \<times> int" where
  "redact_loop [] content count = (content, count)"
| "redact_loop (r # rs) content count =
     (let n = hits (red_pattern r) content in
      if n = 0 then redact_loop rs content count
      else redact_loop rs (replace_re (red_pattern r) (red_replace r) content)
             (wrap32 (count + wrap32 (int n))))"

definition Redact :: "string \<Rightarrow> string \<times> int" where
  "Redact content = redact_loop redactors content 0"

definition trunc_marker :: string where
  "trunc_marker = ''[...truncated, showing the most recent output...]'' @ [newline]"

definition Truncate :: "string \<Rightarrow> nat \<Rightarrow> string" where
  "Truncate content limit =
     (if length content \<le> limit then content
      else if limit \<le> length trunc_marker then take limit content
      else trunc_marker @ drop (length content - (limit - length trunc_marker)) content)"

lemma length_Truncate [simp, bounds]: "length (Truncate content limit) \<le> limit"
  by (simp add: Truncate_def)

text \<open>Text that has been through both.\<close>

definition scrubbed :: "nat \<Rightarrow> string \<Rightarrow> bool" where
  "scrubbed limit s \<longleftrightarrow> (\<exists>raw. s = Truncate (fst (Redact raw)) limit)"

lemma scrubbed_length [bounds]: "scrubbed limit s \<Longrightarrow> length s \<le> limit"
  by (auto simp: scrubbed_def)

subsection \<open>Counting\<close>

text \<open>The substitutions all redactors make, each on the text its predecessors leave.\<close>

fun redact_hits :: "redactor list \<Rightarrow> string \<Rightarrow> nat" where
  "redact_hits [] content = 0"
| "redact_hits (r # rs) content =
     hits (red_pattern r) content +
     redact_hits rs (replace_re (red_pattern r) (red_replace r) content)"

lemma redact_loop_count:
  "is_int32 k \<Longrightarrow> snd (redact_loop rs content k) = wrap32 (k + int (redact_hits rs content))"
proof (induction rs arbitrary: content k)
  case (Cons r rs)
  show ?case
  proof (cases "hits (red_pattern r) content = 0")
    case True
    with Cons show ?thesis by (simp add: replace_no_hits)
  next
    case False
    have "wrap32 (wrap32 (k + wrap32 a) + b) = wrap32 (k + (a + b))" for a b
      by (simp add: wrap32_add_left wrap32_add_right add.assoc [symmetric])
    with False Cons.IH show ?thesis by (simp add: Let_def)
  qed
qed simp

lemma redact_loop_text:
  "redact_hits rs content = 0 \<Longrightarrow> fst (redact_loop rs content k) = content"
  by (induction rs arbitrary: content k) (auto simp: Let_def replace_no_hits)

lemma redactors_consume: "r \<in> set redactors \<Longrightarrow> 0 < re_min (red_pattern r)"
proof -
  have "list_all (\<lambda>r. 0 < re_min (red_pattern r)) redactors" by code_simp
  then show "r \<in> set redactors \<Longrightarrow> 0 < re_min (red_pattern r)" by (auto simp: list_all_iff)
qed

subsection \<open>The assignment redactor on a name and its value\<close>

definition secret_words :: "string list" where
  "secret_words = [''password'', ''passwd'', ''pwd'', ''secret'', ''token'', ''apikey'', ''api_key'',
     ''api-key'', ''accesskey'', ''access_key'', ''access-key'', ''privatekey'', ''private_key'',
     ''private-key'', ''credential'']"

definition value_toks :: "tok list \<Rightarrow> bool" where
  "value_toks ts \<longleftrightarrow> 4 \<le> length ts \<and> list_all (\<lambda>t. value_cls (fst t)) ts"

definition assignment_tail :: re where
  "assignment_tail = seqs
     [Rep (ci CHR ''s'') 0 (Some 1), Rep space_cls 0 None, Cls (\<lambda>r. r = 61 \<or> r = 58),
      Rep space_cls 0 None, Rep (\<lambda>r. r = 34) 0 (Some 1), Rep value_cls 4 None,
      Rep (\<lambda>r. r = 34) 0 (Some 1)]"

lemma run_assignment_tail:
  assumes "value_toks ts"
  shows "\<exists>pr' ms. run assignment_tail (pr, (61, b) # ts, cs) = (pr', [], cs) # ms"
proof -
  from assms obtain t us where ts: "ts = t # us"
    by (cases ts) (auto simp: value_toks_def)
  from assms have v: "list_all (\<lambda>t. value_cls (fst t)) ts" "4 \<le> length ts"
    by (auto simp: value_toks_def)
  from rep_greedy [OF v, of "[]" "Some 61" cs] obtain ms where
    r: "rep value_cls 4 None (Some 61) (t # us) cs = (after (Some 61) (t # us), [], cs) # ms"
    using ts by auto
  from v(1) ts have "\<not> space_cls (fst t)" "fst t \<noteq> 34" by (auto simp: value_cls_def)
  with r show ?thesis
    unfolding ts assignment_tail_def
    by (simp add: ci_def space_cls_def del: rep.simps(2)) (simp add: ci_def space_cls_def)
qed

end
