(* ===== verification/RedactProps.thy ===== *)
theory RedactProps
  imports Redact
begin

text \<open>
  Properties of \<open>Redact\<close> and \<open>Truncate\<close> (\<open>internal/evidence/redact.go\<close>): what the assignment
  redactor makes of a name and its value, the remaining redactors evaluated on the result, the
  count, and the truncation.
\<close>

subsection \<open>The assignment redactor on a whole text\<close>

lemma run_secret_names:
  "list_all (\<lambda>kw. run (alts secret_names) (None, ascii_toks kw @ (61, b) # ts, []) =
       [(Some (byte (last kw)), (61, b) # ts, [])]) secret_words"
  by code_simp

lemma secret_word_start:
  "list_all (\<lambda>kw. ascii kw \<and> wordb None (ascii_toks kw @ ts)) secret_words"
  by code_simp

lemma run_assignment:
  assumes "kw \<in> set secret_words" "value_toks ts"
  shows "\<exists>pr'. first_match re_assignment None (ascii_toks kw @ (61, b) # ts) =
    Some (pr', [], [(1, ascii_toks kw)])"
proof -
  have a: "run (alts secret_names) (None, ascii_toks kw @ (61, b) # ts, []) =
      [(Some (byte (last kw)), (61, b) # ts, [])]"
    using run_secret_names [of b ts] assms(1) by (auto simp: list_all_iff)
  then have g: "run (Grp 1 (alts secret_names)) (None, ascii_toks kw @ (61, b) # ts, []) =
      [(Some (byte (last kw)), (61, b) # ts, [(1, ascii_toks kw)])]"
    by simp
  have w: "wordb None (ascii_toks kw @ (61, b) # ts)"
    using secret_word_start assms(1) by (auto simp: list_all_iff)
  obtain pr' ms where t: "run assignment_tail (Some (byte (last kw)), (61, b) # ts, [(1, ascii_toks kw)])
      = (pr', [], [(1, ascii_toks kw)]) # ms"
    using run_assignment_tail [OF assms(2)] by blast
  have eq: "re_assignment = Seq WordB (Seq (Grp 1 (alts secret_names)) assignment_tail)"
    unfolding re_assignment_def assignment_tail_def by simp
  have "run re_assignment (None, ascii_toks kw @ (61, b) # ts, []) =
      run assignment_tail (Some (byte (last kw)), (61, b) # ts, [(1, ascii_toks kw)])"
    unfolding eq by (simp only: run.simps(3) run.simps(7) w if_True list.map concat.simps append_Nil2 g)
  with t show ?thesis by (simp add: first_match_def)
qed

lemma assignment_pieces:
  assumes "kw \<in> set secret_words" "value_toks (runes v)"
  shows "pieces re_assignment None (runes (kw @ ''='' @ v)) =
    [Hit (ascii_toks kw @ (61, ''='') # runes v) [(1, ascii_toks kw)]]"
proof -
  have "ascii (kw @ ''='')"
    using secret_word_start [of "[]"] assms(1) by (auto simp: list_all_iff)
  then have r: "runes (kw @ ''='' @ v) = ascii_toks kw @ (61, ''='') # runes v"
    using runes_ascii_append [of "kw @ ''=''" v] by simp
  obtain pr' where m: "first_match re_assignment None (ascii_toks kw @ (61, ''='') # runes v) =
      Some (pr', [], [(1, ascii_toks kw)])"
    using run_assignment [OF assms] by blast
  with pieces_hit [OF m] r show ?thesis by auto
qed


lemma no_bearer_after:
  "list_all (\<lambda>kw. hits re_bearer (kw @ ''=[REDACTED]'') = 0) secret_words"
  by code_simp
lemma no_jwt_after:
  "list_all (\<lambda>kw. hits re_jwt (kw @ ''=[REDACTED]'') = 0) secret_words"
  by code_simp
lemma no_connection_after:
  "list_all (\<lambda>kw. hits re_connection (kw @ ''=[REDACTED]'') = 0) secret_words"
  by code_simp
lemma no_aws_after:
  "list_all (\<lambda>kw. hits re_aws (kw @ ''=[REDACTED]'') = 0) secret_words"
  by code_simp
lemma no_sa_token_after:
  "list_all (\<lambda>kw. hits re_sa_token (kw @ ''=[REDACTED]'') = 0) secret_words"
  by code_simp
lemmas nothing_after = no_bearer_after no_jwt_after no_connection_after no_aws_after
  no_sa_token_after

lemma redact_loop_no_hits:
  "list_all (\<lambda>r. hits (red_pattern r) c = 0) rs \<Longrightarrow> redact_loop rs c k = (c, k)"
  by (induction rs) auto

lemma redactors_Cons:
  "redactors = \<lparr>red_name = ''assignment'', red_pattern = re_assignment,
        red_replace = [Cap 1, Lit ''=[REDACTED]'']\<rparr> # tl redactors"
  by (simp add: redactors_def)

subsection \<open>Properties\<close>

text \<open>C33. In a text that is \<open>name=value\<close>, with one of the recognised names in lower case and a value of at least
  four code points, none of them white space, a quote, a comma, a semicolon or a closing parenthesis, the
  value is gone from the redacted text: the result depends on the name only, and one substitution is
  counted.\<close>

theorem Redact_hides_assigned_secret:
  assumes "kw \<in> set secret_words"
    and "4 \<le> length (runes v)" and "list_all (\<lambda>t. value_cls (fst t)) (runes v)"
  shows "Redact (kw @ ''='' @ v) = (kw @ ''=[REDACTED]'', 1)"
proof -
  from assms(2,3) have v: "value_toks (runes v)" by (simp add: value_toks_def)
  note p = assignment_pieces [OF assms(1) v]
  from p have "hits re_assignment (kw @ ''='' @ v) = 1" by (simp add: hits_def)
  moreover from p have "replace_re re_assignment [Cap 1, Lit ''=[REDACTED]''] (kw @ ''='' @ v) =
      kw @ ''=[REDACTED]''"
    by (simp add: replace_re_def)
  moreover have "redact_loop (tl redactors) (kw @ ''=[REDACTED]'') 1 = (kw @ ''=[REDACTED]'', 1)"
    using nothing_after assms(1)
    by (intro redact_loop_no_hits) (auto simp: redactors_def list_all_iff)
  moreover have "wrap32 1 = 1" by (simp add: wrap32_def)
  ultimately show ?thesis unfolding Redact_def by (subst redactors_Cons) simp
qed

theorem Redact_hides_assigned_secret_witness:
  "Redact ''api_key=s3cr3t'' = (''api_key=[REDACTED]'', 1)"
proof -
  have "Redact (''api_key'' @ ''='' @ ''s3cr3t'') = (''api_key'' @ ''=[REDACTED]'', 1)"
    by (rule Redact_hides_assigned_secret) code_simp+
  then show ?thesis by simp
qed

text \<open>\<open>Redact\<close> reports the number of substitutions its redactors made, as the \<open>int32\<close> the code
  keeps it in, and text in which none was made comes back unchanged.\<close>

lemma Redact_counts_substitutions:
  "snd (Redact s) = wrap32 (int (redact_hits redactors s)) \<and>
   (redact_hits redactors s = 0 \<longrightarrow> fst (Redact s) = s)"
  by (simp add: Redact_def redact_loop_count redact_loop_text is_int32_def)


text \<open>No redactor leaves a match of its own pattern in place: at every code point it keeps, the
  pattern does not match the text it was given.\<close>

lemma redactor_leaves_no_match:
  assumes "r \<in> set redactors"
    and "pieces (red_pattern r) None (runes s) = ps @ Keep t # qs"
  shows "first_match (red_pattern r) (after None (concat (map piece_toks ps)))
    (t # concat (map piece_toks qs)) = None"
proof (rule ccontr)
  assume "\<not> ?thesis"
  then obtain pr' ts' cs where m: "first_match (red_pattern r)
      (after None (concat (map piece_toks ps))) (t # concat (map piece_toks qs)) =
      Some (pr', ts', cs)" by auto
  from first_match_consumes [OF m] obtain used where
    "t # concat (map piece_toks qs) = used @ ts'" "re_min (red_pattern r) \<le> length used" by blast
  moreover from this(2) redactors_consume [OF assms(1)] have "used \<noteq> []" by auto
  ultimately have "length ts' < length (t # concat (map piece_toks qs))"
    by (metis length_append length_greater_0_conv less_add_same_cancel2)
  with pieces_kept [OF assms(2) m] show False by simp
qed

lemma redactor_leaves_no_match_witness:
  "first_match re_sa_token None [(101, ''e''), (121, ''y'')] = None"
proof -
  have "pieces re_sa_token None (runes ''ey'') =
      [] @ Keep (101, ''e'') # [Keep (121, ''y'')]" by code_simp
  moreover have "last redactors \<in> set redactors" "red_pattern (last redactors) = re_sa_token"
    by (simp_all add: redactors_def)
  ultimately show ?thesis using redactor_leaves_no_match [of "last redactors" "''ey''" "[]"]
    by simp
qed

text \<open>C34. Content over the limit is cut to the limit exactly and keeps its tail: what follows the
  marker is the end of the content, as much of it as the limit leaves room for.\<close>

theorem Truncate_keeps_tail:
  assumes "length trunc_marker < limit" and "limit < length content"
  shows "\<exists>dropped kept. content = dropped @ kept \<and> Truncate content limit = trunc_marker @ kept
    \<and> length kept = limit - length trunc_marker \<and> length (Truncate content limit) = limit"
proof -
  let ?n = "length content - (limit - length trunc_marker)"
  have "content = take ?n content @ drop ?n content" by simp
  moreover have "length (drop ?n content) = limit - length trunc_marker" using assms by simp
  moreover have "Truncate content limit = trunc_marker @ drop ?n content"
    using assms by (simp add: Truncate_def)
  moreover from this have "length (Truncate content limit) = limit" using assms by simp
  ultimately show ?thesis by blast
qed

theorem Truncate_keeps_tail_witness:
  "\<exists>dropped kept. replicate 60 CHR ''x'' = dropped @ kept \<and>
     Truncate (replicate 60 CHR ''x'') 55 = trunc_marker @ kept \<and> length kept = 5 \<and>
     length (Truncate (replicate 60 CHR ''x'') 55) = 55"
proof -
  have m: "length trunc_marker = 50" by (simp add: trunc_marker_def)
  then show ?thesis using Truncate_keeps_tail [of 55 "replicate 60 CHR ''x''"] by simp
qed

end
