(* ===== verification/RedactMisses.thy ===== *)
theory RedactMisses
  imports RedactProps
begin

text \<open>
  What the assignment redactor of \<open>internal/evidence/redact.go\<close> cannot match. \<open>lang\<close> is the set of words a
  pattern may consume; from it follows the shape of every match of \<open>re_assignment\<close>, a recognised name up to
  case followed by a separator, and so that a name inside a longer identifier, or followed by a quote,
  is not matched.
\<close>

subsection \<open>The words a pattern consumes\<close>

fun lang :: "re \<Rightarrow> nat list set" where
  "lang Eps = {[]}"
| "lang (Cls p) = {[x] | x. p x}"
| "lang (Seq a b) = {u @ v | u v. u \<in> lang a \<and> v \<in> lang b}"
| "lang (Alt a b) = lang a \<union> lang b"
| "lang (Rep p lo hi) = {u. list_all p u \<and> (\<forall>h. hi = Some h \<longrightarrow> length u \<le> h)}"
| "lang (Grp n a) = lang a"
| "lang WordB = {[]}"

lemma rep_lang:
  "(pr', ts', cs') \<in> set (rep p lo hi pr ts cs) \<Longrightarrow>
     \<exists>used. ts = used @ ts' \<and> list_all p (map fst used) \<and> (\<forall>h. hi = Some h \<longrightarrow> length used \<le> h)"
proof (induction p lo hi pr ts cs rule: rep.induct)
  case (2 p lo hi pr t ts cs)
  show ?case
  proof (cases "(pr', ts', cs') = (pr, t # ts, cs)")
    case True
    then show ?thesis by (intro exI [of _ "[]"]) simp
  next
    case False
    then have m: "hi \<noteq> Some 0 \<and> p (fst t)"
        "(pr', ts', cs') \<in> set (rep p (lo - 1) (map_option (\<lambda>n. n - 1) hi) (Some (fst t)) ts cs)"
      using "2.prems" by (auto split: if_splits)
    from "2.IH" [OF this] obtain used where "ts = used @ ts'" "list_all p (map fst used)"
      "\<forall>h. map_option (\<lambda>n. n - 1) hi = Some h \<longrightarrow> length used \<le> h" by blast
    with m(1) show ?thesis by (intro exI [of _ "t # used"]) (cases hi; force)
  qed
qed (auto split: if_splits)

lemma run_lang:
  "(pr', ts', cs') \<in> set (run r (pr, ts, cs)) \<Longrightarrow> \<exists>used. ts = used @ ts' \<and> map fst used \<in> lang r"
proof (induction r arbitrary: pr ts cs pr' ts' cs')
  case (Seq a b)
  from Seq.prems obtain pr1 ts1 cs1 where
    1: "(pr1, ts1, cs1) \<in> set (run a (pr, ts, cs))" "(pr', ts', cs') \<in> set (run b (pr1, ts1, cs1))" by auto
  from Seq.IH(1) [OF 1(1)] Seq.IH(2) [OF 1(2)] obtain u v where
    "ts = u @ ts1" "map fst u \<in> lang a" "ts1 = v @ ts'" "map fst v \<in> lang b" by blast
  then show ?case by (intro exI [of _ "u @ v"]) auto
next
  case (Rep p lo hi)
  then show ?case using rep_lang by fastforce
next
  case (Grp n a)
  then obtain cs1 where "(pr', ts', cs1) \<in> set (run a (pr, ts, cs))" by auto
  from Grp.IH [OF this] show ?case by simp
qed (fastforce split: list.splits if_splits)+

subsection \<open>The shape of an assignment\<close>

text \<open>The lower case letter that a code point is equivalent to under \<open>(?i)\<close>.\<close>

definition folded :: "nat \<Rightarrow> nat" where
  "folded r = (if 65 \<le> r \<and> r \<le> 90 then r + 32 else if r = 383 then 115 else if r = 8490 then 107 else r)"

lemma ci_folded: "ci c r \<Longrightarrow> 97 \<le> byte c \<Longrightarrow> byte c \<le> 122 \<Longrightarrow> folded r = byte c"
  by (auto simp: ci_def folded_def)

lemma lang_lit_ci:
  "u \<in> lang (lit_ci w) \<Longrightarrow> list_all (\<lambda>c. 97 \<le> byte c \<and> byte c \<le> 122) w \<Longrightarrow> map folded u = map byte w"
  by (induction w arbitrary: u rule: lit_ci.induct) (auto simp: ci_folded)

definition named_secret :: "nat list \<Rightarrow> bool" where
  "named_secret u \<longleftrightarrow> map folded u \<in> map byte ` set secret_words"

lemma lang_key_sep: "u \<in> lang key_sep \<Longrightarrow> map folded u \<in> {[], [95], [45]}"
  by (cases u) (auto simp: key_sep_def folded_def)

lemma lang_secret_names:
  assumes "u \<in> lang (alts secret_names)"
  shows "named_secret u"
proof -
  have key: "map folded u \<in> map byte ` {a @ ''key'', a @ ''_key'', a @ ''-key''}"
    if "u \<in> lang (seqs [lit_ci a, key_sep, lit_ci ''key''])" "list_all (\<lambda>c. 97 \<le> byte c \<and> byte c \<le> 122) a" for a
  proof -
    from that(1) obtain x y z where u: "u = x @ y @ z" "x \<in> lang (lit_ci a)" "y \<in> lang key_sep" "z \<in> lang (lit_ci ''key'')"
      by (auto simp del: lit_ci.simps)
    have "map folded x = map byte a" "map folded z = map byte ''key''"
      using lang_lit_ci [OF u(2) that(2)] lang_lit_ci [OF u(4)] by simp_all
    then show ?thesis using u(1) lang_key_sep [OF u(3)] by auto
  qed
  consider w where "w \<in> {''password'', ''passwd'', ''pwd'', ''secret'', ''token'', ''credential''}" "u \<in> lang (lit_ci w)"
    | a where "a \<in> {''api'', ''access'', ''private''}" "u \<in> lang (seqs [lit_ci a, key_sep, lit_ci ''key''])"
    using assms unfolding secret_names_def by (simp only: alts.simps lang.simps Un_iff) blast
  then have "\<exists>w \<in> set secret_words. map folded u = map byte w"
  proof cases
    case (1 w)
    have "list_all (\<lambda>c. 97 \<le> byte c \<and> byte c \<le> 122) w" "w \<in> set secret_words"
      using 1(1) by (auto simp: secret_words_def)
    then show ?thesis using lang_lit_ci [OF 1(2)] by blast
  next
    case (2 a)
    have "list_all (\<lambda>c. 97 \<le> byte c \<and> byte c \<le> 122) a" using 2(1) by auto
    from key [OF 2(2) this] obtain w where "w \<in> {a @ ''key'', a @ ''_key'', a @ ''-key''}" "map folded u = map byte w"
      by blast
    moreover from this(1) 2(1) have "w \<in> set secret_words" by (auto simp: secret_words_def)
    ultimately show ?thesis by blast
  qed
  then show ?thesis by (auto simp: named_secret_def)
qed

definition separator :: "nat \<Rightarrow> bool" where
  "separator r \<longleftrightarrow> r = 61 \<or> r = 58"

lemma assignment_match:
  assumes "first_match re_assignment pr ts = Some (pr', ts', cs)"
  obtains nm s sp sep rest where "ts = nm @ s @ sp @ sep # rest" "wordb pr ts" "named_secret (map fst nm)"
    "length s \<le> 1" "list_all (\<lambda>t. ci CHR ''s'' (fst t)) s" "list_all (\<lambda>t. space_cls (fst t)) sp" "separator (fst sep)"
proof -
  define tail where "tail = seqs [Cls separator, Rep space_cls 0 None, Rep (\<lambda>r. r = 34) 0 (Some 1),
    Rep value_cls 4 None, Rep (\<lambda>r. r = 34) 0 (Some 1)]"
  have eq: "re_assignment = Seq WordB (Seq (Grp 1 (alts secret_names))
      (Seq (Rep (ci CHR ''s'') 0 (Some 1)) (Seq (Rep space_cls 0 None) tail)))"
    by (simp add: re_assignment_def tail_def separator_def [abs_def])
  from assms have m: "(pr', ts', cs) \<in> set (run re_assignment (pr, ts, []))"
    by (auto simp: first_match_def split: list.splits)
  then have b: "wordb pr ts" unfolding eq by (auto split: if_splits)
  from run_lang [OF m] obtain used where u: "ts = used @ ts'" "map fst used \<in> lang re_assignment" by blast
  then obtain a b' c d where l: "map fst used = a @ b' @ c @ d" "a \<in> lang (alts secret_names)"
      "list_all (ci CHR ''s'') b'" "length b' \<le> 1" "list_all space_cls c" "d \<in> lang tail"
    unfolding eq by (auto simp del: alts.simps)
  from l(6) obtain x e where d: "d = x # e" "separator x" by (auto simp: tail_def)
  from l(1) obtain nm s sp td where used: "used = nm @ s @ sp @ td" "map fst nm = a" "map fst s = b'" "map fst sp = c"
      "map fst td = d"
    by (auto simp: append_eq_map_conv map_eq_append_conv)
  from used(5) d obtain sep te where td: "td = sep # te" "fst sep = x" by auto
  show thesis
  proof (rule that)
    show "ts = nm @ s @ sp @ sep # (te @ ts')" using u(1) used(1) td(1) by simp
    show "named_secret (map fst nm)" using lang_secret_names l(2) used(2) by simp
    show "length s \<le> 1" using l(4) used(3) by (metis length_map)
    show "list_all (\<lambda>t. ci CHR ''s'' (fst t)) s" using l(3) unfolding used(3) [symmetric] by (simp add: list.pred_map comp_def)
    show "list_all (\<lambda>t. space_cls (fst t)) sp" using l(5) unfolding used(4) [symmetric] by (simp add: list.pred_map comp_def)
  qed (use b td d in simp_all)
qed

lemma pieces_none:
  "(\<And>xs ys. ts = xs @ ys \<Longrightarrow> ys \<noteq> [] \<Longrightarrow> first_match r (after pr xs) ys = None) \<Longrightarrow> filter is_hit (pieces r pr ts) = []"
proof (induction ts arbitrary: pr)
  case (Cons t ts)
  have "first_match r pr (t # ts) = None" using Cons.prems [of "[]" "t # ts"] by simp
  moreover have "filter is_hit (pieces r (Some (fst t)) ts) = []"
    by (rule Cons.IH) (use Cons.prems [of "t # _"] in auto)
  ultimately show ?case by simp
qed simp

text \<open>In a text with one separator, the redactor finds something only if the part before it ends with a
  recognised name, perhaps in the plural, and white space.\<close>

lemma no_assignment:
  assumes "runes x = ts @ sep # us" "separator (fst sep)" "list_all (\<lambda>t. \<not> separator (fst t)) (ts @ us)"
    and "\<And>xs nm s sp. ts = xs @ nm @ s @ sp \<Longrightarrow> named_secret (map fst nm) \<Longrightarrow> length s \<le> 1 \<Longrightarrow>
      list_all (\<lambda>t. ci CHR ''s'' (fst t)) s \<Longrightarrow> list_all (\<lambda>t. space_cls (fst t)) sp \<Longrightarrow>
      wordb (after None xs) (nm @ s @ sp @ sep # us) \<Longrightarrow> False"
  shows "hits re_assignment x = 0"
proof -
  have "first_match re_assignment (after None xs) ys = None" if split: "ts @ sep # us = xs @ ys" for xs ys
  proof (rule ccontr)
    assume "\<not> ?thesis"
    then obtain pr' ts' cs where "first_match re_assignment (after None xs) ys = Some (pr', ts', cs)" by auto
    then obtain nm s sp sep' rest where m: "ys = nm @ s @ sp @ sep' # rest" "wordb (after None xs) ys"
        "named_secret (map fst nm)" "length s \<le> 1" "list_all (\<lambda>t. ci CHR ''s'' (fst t)) s"
        "list_all (\<lambda>t. space_cls (fst t)) sp" "separator (fst sep')"
      by (rule assignment_match)
    have no: "sep' \<notin> set ts" "sep' \<notin> set us" using m(7) assms(3) by (auto simp: list_all_iff)
    have "ts @ sep # us = (xs @ nm @ s @ sp) @ sep' # rest" using split m(1) by simp
    then have "ts = xs @ nm @ s @ sp" "sep' = sep" "rest = us"
      using no by (auto simp: append_eq_append_conv2 Cons_eq_append_conv append_eq_Cons_conv)
    then show False using assms(4) [of xs nm s sp] m by simp
  qed
  then have "filter is_hit (pieces re_assignment None (runes x)) = []" using pieces_none assms(1) by metis
  then show ?thesis by (simp add: hits_def)
qed

subsection \<open>Names inside identifiers and between quotes\<close>

definition ascii_lower :: "char \<Rightarrow> char" where
  "ascii_lower c = (if 65 \<le> byte c \<and> byte c \<le> 90 then char_of (byte c + 32) else c)"

text \<open>A recognised name in any case, a text in double quotes, and one without a separator.\<close>

definition secret_name :: "string \<Rightarrow> bool" where
  "secret_name name \<longleftrightarrow> map ascii_lower name \<in> set secret_words"

definition quoted :: "string \<Rightarrow> string" where
  "quoted s = [CHR 0x22] @ s @ [CHR 0x22]"

definition unseparated :: "string \<Rightarrow> bool" where
  "unseparated s \<longleftrightarrow> list_all (\<lambda>t. \<not> separator (fst t)) (runes s)"

lemma secret_words_apart:
  "list_all (\<lambda>kw. list_all (\<lambda>i. drop (Suc i) kw \<notin> set secret_words) [0..<length kw] \<and>
     kw \<noteq> [] \<and> last kw \<noteq> CHR ''s'' \<and> 97 \<le> byte (hd kw) \<and> byte (hd kw) \<le> 122 \<and>
     list_all (\<lambda>c. \<not> space_cls (byte c) \<and> \<not> separator (byte c) \<and> byte c \<noteq> 34 \<and> byte c < 128) kw) secret_words"
  by code_simp

lemma named_secretE:
  assumes "named_secret u"
  obtains kw where "kw \<in> set secret_words" "map folded u = map byte kw" "kw \<noteq> []" "last kw \<noteq> CHR ''s''"
    "97 \<le> byte (hd kw)" "byte (hd kw) \<le> 122" "\<forall>i < length kw. drop (Suc i) kw \<notin> set secret_words"
    "\<forall>c \<in> set kw. \<not> space_cls (byte c) \<and> \<not> separator (byte c) \<and> byte c \<noteq> 34 \<and> byte c < 128"
proof -
  obtain kw where "kw \<in> set secret_words" "map folded u = map byte kw" using assms by (auto simp: named_secret_def)
  with secret_words_apart show thesis by (intro that [of kw]) (auto simp: list_all_iff)
qed

lemma named_chars:
  assumes "named_secret u" "r \<in> set u"
  shows "\<not> space_cls r \<and> \<not> separator r \<and> r \<noteq> 34"
proof -
  from assms(1) obtain kw where kw: "map folded u = map byte kw"
    "\<forall>c \<in> set kw. \<not> space_cls (byte c) \<and> \<not> separator (byte c) \<and> byte c \<noteq> 34 \<and> byte c < 128"
    by (rule named_secretE) blast
  have "folded r \<in> set (map byte kw)" using assms(2) kw(1) by (metis image_eqI list.set_map)
  then have "\<not> space_cls (folded r) \<and> \<not> separator (folded r) \<and> folded r \<noteq> 34" using kw(2) by auto
  then show ?thesis by (auto simp: folded_def space_cls_def separator_def split: if_splits)
qed

lemma named_last:
  assumes "named_secret u"
  shows "u \<noteq> []" "\<not> ci CHR ''s'' (last u)"
proof -
  from assms obtain kw where kw: "map folded u = map byte kw" "kw \<noteq> []" "last kw \<noteq> CHR ''s''" by (rule named_secretE) blast
  show "u \<noteq> []" using kw(1,2) by auto
  then have "folded (last u) = byte (last kw)" using kw(1,2) by (metis last_map)
  moreover have "byte (last kw) \<noteq> byte CHR ''s''" using kw(3) by (metis of_char_eq_iff)
  ultimately show "\<not> ci CHR ''s'' (last u)" using ci_folded [of "CHR ''s''" "last u"] by auto
qed

text \<open>No recognised name ends with another.\<close>

lemma named_suffix:
  assumes "named_secret (us @ u)" "named_secret u"
  shows "us = []"
proof (rule ccontr)
  assume ne: "us \<noteq> []"
  from assms(1) obtain kw where kw: "map folded (us @ u) = map byte kw"
    "\<forall>i < length kw. drop (Suc i) kw \<notin> set secret_words" by (rule named_secretE) blast
  from assms(2) obtain kw' where kw': "kw' \<in> set secret_words" "map folded u = map byte kw'" by (rule named_secretE) blast
  have "map byte (drop (length us) kw) = map byte kw'" using kw(1) kw'(2) by (metis append_eq_conv_conj drop_map length_map map_append)
  then have "drop (length us) kw = kw'" by (rule map_injective) (simp add: inj_def)
  moreover have "length us \<le> length kw" using kw(1) by (metis length_append length_map le_add1)
  ultimately show False using kw(2) [rule_format, of "length us - 1"] kw'(1) ne by (cases us) auto
qed

lemma secret_name_named:
  assumes "secret_name name"
  shows "ascii name" "named_secret (map byte name)" "name \<noteq> []" "word_rune (byte (hd name))"
proof -
  have f: "folded (byte c) = byte (ascii_lower c)" for c
  proof -
    have "byte c \<noteq> 383" "byte c \<noteq> 8490" using nat_of_char_less_256 [of c] by linarith+
    then show ?thesis by (auto simp: folded_def ascii_lower_def)
  qed
  have n: "named_secret (map byte name)"
    using assms f unfolding secret_name_def named_secret_def
    by (intro image_eqI [where x = "map ascii_lower name"]) (simp_all add: comp_def)
  then show "named_secret (map byte name)" .
  show ne: "name \<noteq> []" using named_last(1) [OF n] by simp
  from n obtain kw where kw: "map folded (map byte name) = map byte kw" "97 \<le> byte (hd kw)" "byte (hd kw) \<le> 122"
    "\<forall>c\<in>set kw. \<not> space_cls (byte c) \<and> \<not> separator (byte c) \<and> byte c \<noteq> 34 \<and> byte c < 128" by (rule named_secretE) blast
  have same: "kw = map ascii_lower name"
    by (rule map_injective [of byte]) (use kw(1) f in \<open>simp_all add: comp_def inj_def\<close>)
  show "ascii name"
    using kw(4) unfolding same ascii_def by (auto simp: list_all_iff ascii_lower_def split: if_splits)
  show "word_rune (byte (hd name))"
    using kw(2,3) ne unfolding same by (cases name) (auto simp: ascii_lower_def word_rune_def split: if_splits)
qed

subsection \<open>Properties\<close>

text \<open>The assignment redactor finds nothing, and \<open>Redact\<close> changes nothing unless another redactor does.\<close>

definition missed :: "string \<Rightarrow> bool" where
  "missed x \<longleftrightarrow> hits re_assignment x = 0 \<and>
     (list_all (\<lambda>r. hits (red_pattern r) x = 0) (tl redactors) \<longrightarrow> Redact x = (x, 0))"

lemma missedI: "hits re_assignment x = 0 \<Longrightarrow> missed x"
  unfolding missed_def Redact_def by (intro conjI impI redact_loop_no_hits, assumption) (subst redactors_Cons, simp)

lemma fst_ascii_toks: "map fst (ascii_toks s) = map byte s"
  by (simp add: ascii_toks_def comp_def)

lemma unseparated_toks: "ascii p \<Longrightarrow> unseparated p \<Longrightarrow> t \<in> set (ascii_toks p) \<Longrightarrow> \<not> separator (fst t)"
  by (simp add: unseparated_def runes_ascii list_all_iff)

lemma name_unseparated: "secret_name name \<Longrightarrow> t \<in> set (ascii_toks name) \<Longrightarrow> \<not> separator (fst t)"
  using named_chars [OF secret_name_named(2)] fst_ascii_toks by (metis image_eqI list.set_map)

lemma compound_name_missed:
  assumes "secret_name name" "separator (byte c)" "ascii p" "unseparated p" "unseparated v" "p \<noteq> []" "word_rune (byte (last p))"
  shows "hits re_assignment (p @ name @ [c] @ v) = 0"
proof (rule no_assignment)
  note name = secret_name_named [OF assms(1)]
  have "ascii [c]" using assms(2) by (auto simp: ascii_def separator_def)
  then have "ascii (p @ name @ [c])" using assms(3) name(1) by (simp add: ascii_def)
  then show "runes (p @ name @ [c] @ v) = ascii_toks (p @ name) @ (byte c, [c]) # runes v"
    using runes_ascii_append [of "p @ name @ [c]" v] by simp
  show "list_all (\<lambda>t. \<not> separator (fst t)) (ascii_toks (p @ name) @ runes v)"
    using assms(5) unseparated_toks [OF assms(3,4)] name_unseparated [OF assms(1)]
    by (auto simp: unseparated_def list_all_iff simp del: ascii_toks_simps(2))
  fix xs nm s sp
  assume split: "ascii_toks (p @ name) = xs @ nm @ s @ sp" and nm: "named_secret (map fst nm)"
    and s: "length s \<le> 1" "list_all (\<lambda>t. ci CHR ''s'' (fst t)) s" and sp: "list_all (\<lambda>t. space_cls (fst t)) sp"
    and b: "wordb (after None xs) (nm @ s @ sp @ (byte c, [c]) # runes v)"
  have nt: "named_secret (map fst (ascii_toks name))" using name(2) by (simp add: fst_ascii_toks)
  have ne: "ascii_toks name \<noteq> []" using name(3) by (cases name) simp_all
  let ?l = "last (ascii_toks name)"
  have "fst ?l \<in> set (map fst (ascii_toks name))" using ne by simp
  then have l: "\<not> space_cls (fst ?l)" "\<not> ci CHR ''s'' (fst ?l)"
    using named_chars [OF nt] named_last(2) [OF nt] ne by (auto simp: last_map)
  have l3: "?l = last (xs @ nm @ s @ sp)" using ne unfolding split [symmetric] by simp
  have "sp = []" using l(1) l3 sp by (cases sp rule: rev_cases) auto
  moreover from this have "s = []" using l(2) l3 s(2) by (cases s rule: rev_cases) auto
  ultimately have "ascii_toks p @ ascii_toks name = xs @ nm" using split by simp
  then have "xs = ascii_toks p \<and> nm = ascii_toks name"
    using named_suffix nm nt unfolding append_eq_append_conv2 by fastforce
  moreover have "after None (ascii_toks p) = Some (byte (last p))"
    using assms(6) by (simp add: after_def ascii_toks_def last_map)
  ultimately show False using b assms(7) name(3,4) by (cases name) (auto simp: wordb_def)
qed (use assms(2) in simp)

lemma quoted_name_missed:
  assumes "secret_name name" "separator (byte c)" "ascii p" "unseparated p" "unseparated v"
  shows "hits re_assignment (p @ quoted name @ [c] @ v) = 0"
proof (rule no_assignment)
  let ?t = "p @ quoted name"
  note name = secret_name_named [OF assms(1)]
  have "ascii [c]" using assms(2) by (auto simp: ascii_def separator_def)
  then have "ascii (?t @ [c])" using assms(3) name(1) by (simp add: ascii_def quoted_def)
  then show "runes (p @ quoted name @ [c] @ v) = ascii_toks ?t @ (byte c, [c]) # runes v"
    using runes_ascii_append [of "?t @ [c]" v] by simp
  show "list_all (\<lambda>t. \<not> separator (fst t)) (ascii_toks ?t @ runes v)"
    using assms(5) unseparated_toks [OF assms(3,4)] name_unseparated [OF assms(1)]
    by (auto simp: unseparated_def list_all_iff quoted_def separator_def)
  fix xs nm s sp
  assume split: "ascii_toks ?t = xs @ nm @ s @ sp" and nm: "named_secret (map fst nm)"
    and s: "list_all (\<lambda>t. ci CHR ''s'' (fst t)) s" and sp: "list_all (\<lambda>t. space_cls (fst t)) sp"
  have l: "fst (last (xs @ nm @ s @ sp)) = 34" unfolding split [symmetric] by (simp add: quoted_def)
  have "sp = []" using l sp by (cases sp rule: rev_cases) (auto simp: space_cls_def)
  moreover from this have "s = []" using l s by (cases s rule: rev_cases) (auto simp: ci_def)
  ultimately have "34 \<in> set (map fst nm)" using l named_last(1) [OF nm] by (cases nm rule: rev_cases) auto
  then show False using named_chars [OF nm] by blast
qed (use assms(2) in simp)

text \<open>C40. What the patterns miss: a secret whose name, in any case, is the tail of a longer identifier, as in
  an environment variable, or stands in double quotes, as a key in JSON, is not found by the assignment
  redactor, whatever its value and whatever ASCII text precedes the name, as long as neither contains
  another \<open>=\<close> or \<open>:\<close>; so unless another of the patterns matches, the text passes through unchanged and
  uncounted.\<close>

theorem Redact_misses_compound_and_quoted_names:
  assumes "secret_name name" "c \<in> {CHR ''='', CHR '':''}" "ascii p" "unseparated p" "unseparated v"
  shows "(p \<noteq> [] \<and> word_rune (byte (last p)) \<longrightarrow> missed (p @ name @ [c] @ v)) \<and>
    missed (p @ quoted name @ [c] @ v)"
proof -
  have "separator (byte c)" using assms(2) by (auto simp: separator_def)
  with compound_name_missed [OF assms(1) _ assms(3-5)] quoted_name_missed [OF assms(1) _ assms(3-5)]
  show ?thesis by (blast intro: missedI)
qed

theorem Redact_misses_compound_and_quoted_names_witness:
  "Redact ''DB_PASSWORD=hunter22'' = (''DB_PASSWORD=hunter22'', 0) \<and>
   Redact (quoted ''password'' @ '':'' @ quoted ''hunter22'') = (quoted ''password'' @ '':'' @ quoted ''hunter22'', 0)"
proof -
  have "missed (''DB_'' @ ''PASSWORD'' @ ''='' @ ''hunter22'')"
    by (rule Redact_misses_compound_and_quoted_names [THEN conjunct1, THEN mp]) code_simp+
  moreover have "missed ([] @ quoted ''password'' @ '':'' @ quoted ''hunter22'')"
    by (rule Redact_misses_compound_and_quoted_names [THEN conjunct2]) code_simp+
  moreover have "list_all (\<lambda>r. hits (red_pattern r) ''DB_PASSWORD=hunter22'' = 0) (tl redactors)"
    "list_all (\<lambda>r. hits (red_pattern r) (quoted ''password'' @ '':'' @ quoted ''hunter22'') = 0) (tl redactors)"
    by code_simp+
  ultimately show ?thesis by (simp add: missed_def)
qed

end
