(* ===== verification/Api.thy ===== *)
theory Api
  imports GoStrings
begin

text \<open>
  The API types of \<open>src/api/v1alpha1\<close>: the enumerations, the two custom resources with their
  spec and status, and the schema that the kubebuilder markers of those files declare, which the
  API server enforces on every write.

  A Go string type with declared constants is a datatype with one constructor per constant and a
  last one for any other text; \<open>x_str\<close> is the text of a value and \<open>x_of\<close> the conversion
  from text. A pointer is an \<open>option\<close>. Times are nanoseconds on the wall clock, \<open>int32\<close> and
  \<open>int64\<close> fields are integers of that range.
\<close>

type_synonym gotime = int

subsection \<open>Enumerations\<close>

datatype FailureType =
    FailureCrashLoopBackOff | FailureOOMKilled | FailureImagePullBackOff
  | FailureCreateContainerConfigError | FailureRunContainerError | FailureUnschedulable
  | FailureProbeFailure | FailureEvicted | FailureOther string

fun FailureType_str :: "FailureType \<Rightarrow> string" where
  "FailureType_str FailureCrashLoopBackOff = ''CrashLoopBackOff''"
| "FailureType_str FailureOOMKilled = ''OOMKilled''"
| "FailureType_str FailureImagePullBackOff = ''ImagePullBackOff''"
| "FailureType_str FailureCreateContainerConfigError = ''CreateContainerConfigError''"
| "FailureType_str FailureRunContainerError = ''RunContainerError''"
| "FailureType_str FailureUnschedulable = ''Unschedulable''"
| "FailureType_str FailureProbeFailure = ''ProbeFailure''"
| "FailureType_str FailureEvicted = ''Evicted''"
| "FailureType_str (FailureOther s) = s"

definition FailureTypes :: "FailureType list" where
  "FailureTypes =
     [FailureCrashLoopBackOff, FailureOOMKilled, FailureImagePullBackOff,
      FailureCreateContainerConfigError, FailureRunContainerError, FailureUnschedulable,
      FailureProbeFailure, FailureEvicted]"

text \<open>The conversion from text, for all enumerations: the constant with that text, or else the
  text itself.\<close>

definition enum_of :: "('a \<Rightarrow> string) \<Rightarrow> 'a list \<Rightarrow> (string \<Rightarrow> 'a) \<Rightarrow> string \<Rightarrow> 'a" where
  "enum_of str cs other s = (case List.find (\<lambda>c. str c = s) cs of Some c \<Rightarrow> c | None \<Rightarrow> other s)"

lemma str_enum_of: "(\<And>s. str (other s) = s) \<Longrightarrow> str (enum_of str cs other s) = s"
  by (auto simp: enum_of_def dest: find_SomeD split: option.split)

definition FailureType_of :: "string \<Rightarrow> FailureType" where
  "FailureType_of = enum_of FailureType_str FailureTypes FailureOther"

lemma FailureType_str_of [simp]: "FailureType_str (FailureType_of s) = s"
  by (simp add: FailureType_of_def str_enum_of)

datatype ActionType =
    ActionSetMemoryLimit | ActionSetCPULimit | ActionSetImage | ActionSetProbeDelay
  | ActionSetProbePort | ActionAddResourceRequests | ActionRollbackToRevision
  | ActionRestartWorkload | ActionNone | ActionOther string

fun ActionType_str :: "ActionType \<Rightarrow> string" where
  "ActionType_str ActionSetMemoryLimit = ''SetMemoryLimit''"
| "ActionType_str ActionSetCPULimit = ''SetCPULimit''"
| "ActionType_str ActionSetImage = ''SetImage''"
| "ActionType_str ActionSetProbeDelay = ''SetProbeDelay''"
| "ActionType_str ActionSetProbePort = ''SetProbePort''"
| "ActionType_str ActionAddResourceRequests = ''AddResourceRequests''"
| "ActionType_str ActionRollbackToRevision = ''RollbackToRevision''"
| "ActionType_str ActionRestartWorkload = ''RestartWorkload''"
| "ActionType_str ActionNone = ''None''"
| "ActionType_str (ActionOther s) = s"

definition ActionTypes :: "ActionType list" where
  "ActionTypes =
     [ActionSetMemoryLimit, ActionSetCPULimit, ActionSetImage, ActionSetProbeDelay,
      ActionSetProbePort, ActionAddResourceRequests, ActionRollbackToRevision,
      ActionRestartWorkload, ActionNone]"

definition ActionType_of :: "string \<Rightarrow> ActionType" where
  "ActionType_of = enum_of ActionType_str ActionTypes ActionOther"

lemma ActionType_str_of [simp]: "ActionType_str (ActionType_of s) = s"
  by (simp add: ActionType_of_def str_enum_of)

datatype RemediationMode =
  RemediationDryRun | RemediationPullRequest | RemediationDirect | RemediationOther string

datatype BlastRadius =
    BlastRadiusPod | BlastRadiusWorkload | BlastRadiusNamespace | BlastRadiusCluster
  | BlastRadiusOther string

datatype Reversibility =
    ReversibilityInstant | ReversibilityRollout | ReversibilityIrreversible
  | ReversibilityOther string

text \<open>The phase of a diagnosis whose status was never written is the empty text,
  \<open>PhaseOther []\<close>.\<close>

datatype Phase =
    PhaseDetected | PhaseEnriched | PhaseHypothesized | PhaseJudged | PhasePlanned
  | PhaseRemediating | PhaseVerifying | PhaseHealed | PhaseFailed | PhaseAwaitingHuman
  | PhaseOther string

fun Phase_str :: "Phase \<Rightarrow> string" where
  "Phase_str PhaseDetected = ''Detected''"
| "Phase_str PhaseEnriched = ''Enriched''"
| "Phase_str PhaseHypothesized = ''Hypothesized''"
| "Phase_str PhaseJudged = ''Judged''"
| "Phase_str PhasePlanned = ''Planned''"
| "Phase_str PhaseRemediating = ''Remediating''"
| "Phase_str PhaseVerifying = ''Verifying''"
| "Phase_str PhaseHealed = ''Healed''"
| "Phase_str PhaseFailed = ''Failed''"
| "Phase_str PhaseAwaitingHuman = ''AwaitingHuman''"
| "Phase_str (PhaseOther s) = s"

datatype EvidenceKind =
    EvidencePreviousLogs | EvidenceCurrentLogs | EvidenceEvents | EvidenceWorkloadSpec
  | EvidenceRolloutHistory | EvidenceConfigReferences | EvidenceServiceEndpoints
  | EvidenceNodeStatus | EvidenceSiblingPods | EvidenceResourceUsage | EvidenceOther string

fun EvidenceKind_str :: "EvidenceKind \<Rightarrow> string" where
  "EvidenceKind_str EvidencePreviousLogs = ''PreviousLogs''"
| "EvidenceKind_str EvidenceCurrentLogs = ''CurrentLogs''"
| "EvidenceKind_str EvidenceEvents = ''Events''"
| "EvidenceKind_str EvidenceWorkloadSpec = ''WorkloadSpec''"
| "EvidenceKind_str EvidenceRolloutHistory = ''RolloutHistory''"
| "EvidenceKind_str EvidenceConfigReferences = ''ConfigReferences''"
| "EvidenceKind_str EvidenceServiceEndpoints = ''ServiceEndpoints''"
| "EvidenceKind_str EvidenceNodeStatus = ''NodeStatus''"
| "EvidenceKind_str EvidenceSiblingPods = ''SiblingPods''"
| "EvidenceKind_str EvidenceResourceUsage = ''ResourceUsage''"
| "EvidenceKind_str (EvidenceOther s) = s"

datatype CollectionStatus =
    CollectionCollected | CollectionNotApplicable | CollectionUnavailable
  | CollectionOther string

datatype PlanDecision = PlanApply | PlanDefer | PlanNoAction | PlanOther string

subsection \<open>Diagnosis\<close>

record OwnerRef =
  or_kind :: string
  or_name :: string

record TargetRef =
  tr_name :: string
  tr_uid :: string
  tr_owner :: "OwnerRef option"

record DiagnosisSpec =
  ds_target :: TargetRef
  ds_failureType :: FailureType
  ds_container :: string
  ds_signature :: string
  ds_observedAt :: gotime
  ds_policyRef :: string

record Timings =
  tm_detectedAt :: "gotime option"
  tm_enrichedAt :: "gotime option"
  tm_hypothesizedAt :: "gotime option"
  tm_judgedAt :: "gotime option"
  tm_plannedAt :: "gotime option"
  tm_remediatedAt :: "gotime option"
  tm_healedAt :: "gotime option"

record EvidenceItem =
  ei_kind :: EvidenceKind
  ei_status :: CollectionStatus
  ei_required :: bool
  ei_reason :: string
  ei_content :: string

record Evidence =
  ev_items :: "EvidenceItem list"
  ev_complete :: bool
  ev_missingRequired :: "EvidenceKind list"
  ev_exitCode :: "int option"
  ev_restartCount :: int
  ev_terminationReason :: string
  ev_waitingReason :: string
  ev_redactedFields :: int

record ApiAction =
  aa_type :: ActionType
  aa_container :: string
  aa_value :: string

record ApiHypothesis =
  ah_id :: string
  ah_rank :: int
  ah_rootCause :: string
  ah_confidencePercent :: int
  ah_evidenceCitations :: "string list"
  ah_proposedActions :: "ApiAction list"

record ApiToolCall =
  tc_tool :: string
  tc_arguments :: string
  tc_summary :: string
  tc_durationMillis :: int
  tc_error :: string

record Investigation =
  iv_provider :: string
  iv_agentic :: bool
  iv_toolCalls :: "ApiToolCall list"
  iv_tokensUsed :: int
  iv_costMicroUSD :: int
  iv_durationMillis :: int
  iv_budgetExhausted :: bool
  iv_stopReason :: string
  iv_degraded :: bool
  iv_turns :: int

record Verdict =
  vd_hypothesisID :: string
  vd_supported :: bool
  vd_reasoning :: string
  vd_adjustedConfidencePercent :: int

record Judgement =
  jd_provider :: string
  jd_verdicts :: "Verdict list"
  jd_selectedHypothesisID :: string

record RankedAction =
  ra_action :: ApiAction
  ra_blastRadius :: BlastRadius
  ra_reversibility :: Reversibility
  ra_addressesRecentChange :: bool
  ra_policyEligible :: bool
  ra_score :: int

record ApiPlan =
  pl_decision :: PlanDecision
  pl_reason :: string
  pl_selected :: "ApiAction option"
  pl_candidates :: "RankedAction list"

record Remediation =
  rm_mode :: RemediationMode
  rm_applied :: bool
  rm_skipReason :: string
  rm_patch :: string
  rm_reference :: string
  rm_verified :: "bool option"

record Condition =
  cd_type :: string
  cd_status :: string
  cd_reason :: string
  cd_message :: string

record DiagnosisStatus =
  st_phase :: Phase
  st_conditions :: "Condition list"
  st_timings :: Timings
  st_timeToDiagnosis :: string
  st_timeToRecovery :: string
  st_evidence :: "Evidence option"
  st_investigation :: "Investigation option"
  st_hypotheses :: "ApiHypothesis list"
  st_judgement :: "Judgement option"
  st_plan :: "ApiPlan option"
  st_remediation :: "Remediation option"
  st_observedGeneration :: int

record Diagnosis =
  dg_name :: string
  dg_namespace :: string
  dg_resourceVersion :: string
  dg_labels :: "(string \<times> string) list"
  dg_creationTimestamp :: gotime
  dg_spec :: DiagnosisSpec
  dg_status :: DiagnosisStatus

text \<open>The zero values that Go gives what a composite literal leaves out.\<close>

definition Timings_zero :: Timings where
  "Timings_zero =
     \<lparr>tm_detectedAt = None, tm_enrichedAt = None, tm_hypothesizedAt = None, tm_judgedAt = None,
      tm_plannedAt = None, tm_remediatedAt = None, tm_healedAt = None\<rparr>"

definition Evidence_zero :: Evidence where
  "Evidence_zero =
     \<lparr>ev_items = [], ev_complete = False, ev_missingRequired = [], ev_exitCode = None,
      ev_restartCount = 0, ev_terminationReason = [], ev_waitingReason = [],
      ev_redactedFields = 0\<rparr>"

definition DiagnosisStatus_zero :: DiagnosisStatus where
  "DiagnosisStatus_zero =
     \<lparr>st_phase = PhaseOther [], st_conditions = [], st_timings = Timings_zero,
      st_timeToDiagnosis = [], st_timeToRecovery = [], st_evidence = None,
      st_investigation = None, st_hypotheses = [], st_judgement = None, st_plan = None,
      st_remediation = None, st_observedGeneration = 0\<rparr>"

text \<open>The zero \<open>time.Time\<close> is January 1, year 1, in nanoseconds from the Unix epoch.\<close>

definition time_zero :: gotime where
  "time_zero = - 62135596800 * 1000000000"

subsection \<open>HealingPolicy\<close>

record AnalyzerConfig =
  ac_provider :: string
  ac_escalateToProvider :: string
  ac_minRuleConfidence :: int

record AgentConfig =
  ag_enabled :: bool
  ag_maxToolCalls :: int
  ag_maxTokens :: int
  ag_maxCostMicroUSD :: int
  ag_timeoutSeconds :: int
  ag_judgeEnabled :: bool

record RemediationConfig =
  rc_mode :: RemediationMode
  rc_minConfidence :: int
  rc_allowedActions :: "ActionType list"
  rc_maxBlastRadius :: BlastRadius
  rc_requireReversible :: bool
  rc_verificationWindow :: int

record HealingPolicySpec =
  ps_failureTypes :: "FailureType list"
  ps_analyzer :: AnalyzerConfig
  ps_agent :: AgentConfig
  ps_remediation :: RemediationConfig
  ps_maxDiagnosesPerHour :: int
  ps_resolvedRetention :: int

record HealingPolicyStatus =
  hs_activeDiagnoses :: int
  hs_diagnosesThisHour :: int
  hs_conditions :: "Condition list"

record HealingPolicy =
  hp_name :: string
  hp_namespace :: string
  hp_spec :: HealingPolicySpec
  hp_status :: HealingPolicyStatus

end
