(* ===== verification/Matrix.thy ===== *)
theory Matrix
  imports Api
begin

text \<open>
  \<open>src/internal/evidence/matrix.go\<close>: what diagnosing each failure type needs. The nested Go map
  is an association list of association lists, read with \<open>map_of\<close>.
\<close>

datatype Requirement = NotApplicable | Opportunistic | Required

text \<open>The order of the constants, which \<open>iota\<close> numbers from zero.\<close>

fun iota :: "Requirement \<Rightarrow> nat" where
  "iota NotApplicable = 0"
| "iota Opportunistic = 1"
| "iota Required = 2"

instantiation Requirement :: linorder
begin

definition less_eq_Requirement :: "Requirement \<Rightarrow> Requirement \<Rightarrow> bool" where
  "less_eq_Requirement a b \<longleftrightarrow> iota a \<le> iota b"

definition less_Requirement :: "Requirement \<Rightarrow> Requirement \<Rightarrow> bool" where
  "less_Requirement a b \<longleftrightarrow> iota a < iota b"

instance
proof
  fix a b :: Requirement
  show "a \<le> b \<Longrightarrow> b \<le> a \<Longrightarrow> a = b"
    by (cases a; cases b) (auto simp: less_eq_Requirement_def)
qed (auto simp: less_eq_Requirement_def less_Requirement_def)

end

definition matrix :: "(FailureType \<times> (EvidenceKind \<times> Requirement) list) list" where
  "matrix =
    [(FailureCrashLoopBackOff,
       [(EvidencePreviousLogs, Required), (EvidenceEvents, Required),
        (EvidenceWorkloadSpec, Required), (EvidenceRolloutHistory, Required),
        (EvidenceCurrentLogs, Opportunistic), (EvidenceSiblingPods, Opportunistic)]),
     (FailureOOMKilled,
       [(EvidencePreviousLogs, Required), (EvidenceEvents, Required),
        (EvidenceWorkloadSpec, Required), (EvidenceRolloutHistory, Required),
        (EvidenceResourceUsage, Required), (EvidenceCurrentLogs, Opportunistic),
        (EvidenceSiblingPods, Opportunistic)]),
     (FailureImagePullBackOff,
       [(EvidenceEvents, Required), (EvidenceWorkloadSpec, Required),
        (EvidenceRolloutHistory, Opportunistic)]),
     (FailureCreateContainerConfigError,
       [(EvidenceEvents, Required), (EvidenceWorkloadSpec, Required),
        (EvidenceConfigReferences, Required), (EvidenceRolloutHistory, Opportunistic)]),
     (FailureRunContainerError,
       [(EvidenceEvents, Required), (EvidenceWorkloadSpec, Required),
        (EvidenceConfigReferences, Opportunistic)]),
     (FailureUnschedulable,
       [(EvidenceEvents, Required), (EvidenceWorkloadSpec, Required),
        (EvidenceNodeStatus, Required), (EvidenceSiblingPods, Opportunistic)]),
     (FailureProbeFailure,
       [(EvidenceCurrentLogs, Required), (EvidenceEvents, Required),
        (EvidenceWorkloadSpec, Required), (EvidenceServiceEndpoints, Required),
        (EvidencePreviousLogs, Opportunistic), (EvidenceRolloutHistory, Opportunistic)]),
     (FailureEvicted,
       [(EvidenceEvents, Required), (EvidenceWorkloadSpec, Required),
        (EvidenceNodeStatus, Required), (EvidenceSiblingPods, Required),
        (EvidencePreviousLogs, Opportunistic), (EvidenceResourceUsage, Opportunistic)])]"

definition allKinds :: "EvidenceKind list" where
  "allKinds =
     [EvidencePreviousLogs, EvidenceCurrentLogs, EvidenceEvents, EvidenceWorkloadSpec,
      EvidenceRolloutHistory, EvidenceConfigReferences, EvidenceServiceEndpoints,
      EvidenceNodeStatus, EvidenceSiblingPods, EvidenceResourceUsage]"

definition RequirementFor :: "FailureType \<Rightarrow> EvidenceKind \<Rightarrow> Requirement" where
  "RequirementFor failureType kind =
     (case map_of matrix failureType of
        None \<Rightarrow> NotApplicable
      | Some kinds \<Rightarrow> (case map_of kinds kind of None \<Rightarrow> NotApplicable | Some req \<Rightarrow> req))"

text \<open>The loop of \<open>Plan\<close>, with the two lists it appends to.\<close>

fun plan_loop :: "FailureType \<Rightarrow> EvidenceKind list \<Rightarrow> EvidenceKind list \<Rightarrow> EvidenceKind list \<Rightarrow> EvidenceKind list" where
  "plan_loop ft [] required opportunistic = required @ opportunistic"
| "plan_loop ft (kind # kinds) required opportunistic =
     (case RequirementFor ft kind of
        Required \<Rightarrow> plan_loop ft kinds (required @ [kind]) opportunistic
      | Opportunistic \<Rightarrow> plan_loop ft kinds required (opportunistic @ [kind])
      | NotApplicable \<Rightarrow> plan_loop ft kinds required opportunistic)"

definition Plan :: "FailureType \<Rightarrow> EvidenceKind list" where
  "Plan failureType = plan_loop failureType allKinds [] []"

definition NotApplicableReason :: "FailureType \<Rightarrow> EvidenceKind \<Rightarrow> string" where
  "NotApplicableReason failureType kind =
     (if kind \<in> set [EvidencePreviousLogs, EvidenceCurrentLogs] then
        (if failureType = FailureImagePullBackOff then ''no image was pulled, so no container ever ran''
         else if failureType \<in> set [FailureCreateContainerConfigError, FailureRunContainerError]
         then ''the container could not be created, so it produced no output''
         else if failureType = FailureUnschedulable then ''the pod was never placed on a node''
         else ''not relevant to this failure type'')
      else if kind = EvidenceServiceEndpoints then ''not relevant to this failure type''
      else if kind = EvidenceNodeStatus then ''the failure is not attributable to the host node''
      else ''not relevant to this failure type'')"

subsection \<open>Properties\<close>

lemma plan_loop_filter:
  "plan_loop ft kinds required opportunistic =
     required @ filter (\<lambda>k. RequirementFor ft k = Required) kinds @
     opportunistic @ filter (\<lambda>k. RequirementFor ft k = Opportunistic) kinds"
  by (induction kinds arbitrary: required opportunistic) (auto split: Requirement.split)

lemma Plan_filter:
  "Plan ft = filter (\<lambda>k. RequirementFor ft k = Required) allKinds @
             filter (\<lambda>k. RequirementFor ft k = Opportunistic) allKinds"
  by (simp add: Plan_def plan_loop_filter)

lemma distinct_allKinds [simp]: "distinct allKinds"
  by (simp add: allKinds_def)

lemma RequirementFor_allKinds: "RequirementFor ft k \<noteq> NotApplicable \<Longrightarrow> k \<in> set allKinds"
  by (auto simp: RequirementFor_def matrix_def allKinds_def split: if_splits option.splits)

text \<open>\<open>Plan\<close> lists every kind the matrix does not rule out, each once, and no other, and never
  an optional kind before a required one, so that a collection cut short by a deadline has
  spent its time on the requirements.\<close>

lemma Plan_required_first:
  "distinct (Plan ft) \<and> set (Plan ft) = {k. RequirementFor ft k \<noteq> NotApplicable} \<and>
   sorted (rev (map (RequirementFor ft) (Plan ft)))"
proof -
  have const: "map (RequirementFor ft) (filter (\<lambda>k. RequirementFor ft k = r) ks) =
      replicate (length (filter (\<lambda>k. RequirementFor ft k = r) ks)) r" for r ks
    by (induction ks) auto
  have "sorted (rev (map (RequirementFor ft) (Plan ft)))"
    unfolding Plan_filter map_append const
    by (simp add: sorted_append less_eq_Requirement_def)
  moreover have "k \<in> set (Plan ft)" if "RequirementFor ft k \<noteq> NotApplicable" for k
    using that RequirementFor_allKinds [OF that] by (cases "RequirementFor ft k") (auto simp: Plan_filter)
  moreover have "distinct (Plan ft)" by (auto simp: Plan_filter)
  ultimately show ?thesis by (auto simp: Plan_filter)
qed

text \<open>No failure is asked for evidence it cannot have, and each is asked for what its diagnosis
  rests on: a container that never ran is asked for no logs and the reason recorded says so,
  while every declared failure type requires the pod's events and the workload's spec, and
  only an unknown type requires nothing.\<close>

lemma matrix_matches_failures:
  "list_all (\<lambda>ft. list_all (\<lambda>k. RequirementFor ft k = NotApplicable \<and>
        NotApplicableReason ft k \<noteq> ''not relevant to this failure type'')
       [EvidencePreviousLogs, EvidenceCurrentLogs])
     [FailureImagePullBackOff, FailureCreateContainerConfigError, FailureRunContainerError,
      FailureUnschedulable] \<and>
   list_all (\<lambda>ft. RequirementFor ft EvidenceEvents = Required \<and>
                  RequirementFor ft EvidenceWorkloadSpec = Required) FailureTypes \<and>
   Plan (FailureOther s) = []"
  by (simp add: FailureTypes_def RequirementFor_def matrix_def NotApplicableReason_def
      Plan_filter allKinds_def)

end
