(* ===== verification/Json.thy ===== *)
theory Json
  imports GoStrings "HOL-Library.Code_Target_Nat"
begin

text \<open>
  The part of Go's \<open>encoding/json\<close> the program uses: the syntax the scanner accepts (with its
  limit on nesting), the text of a string token with its escapes and its treatment of invalid
  UTF-8, \<open>Decoder.Decode\<close> and \<open>Decoder.More\<close>, \<open>Unmarshal\<close>, \<open>Compact\<close>, and the rules by which a
  value is stored in a struct, a slice, a string, an integer or a boolean. Error messages are
  not modelled here; a decoding either succeeds or fails.
\<close>

datatype json =
    JNull
  | JBool bool
  | JNum string   \<comment> \<open>the literal\<close>
  | JStr string
  | JArr "json list"
  | JObj "(string \<times> json) list"

subsection \<open>Tokens\<close>

definition is_ws :: "char \<Rightarrow> bool" where
  "is_ws c \<longleftrightarrow> byte c = 32 \<or> byte c = 9 \<or> byte c = 10 \<or> byte c = 13"

definition skip_ws :: "string \<Rightarrow> string" where
  "skip_ws s = dropWhile is_ws s"

definition is_dig :: "char \<Rightarrow> bool" where
  "is_dig c \<longleftrightarrow> 48 \<le> byte c \<and> byte c \<le> 57"

definition hex_val :: "char \<Rightarrow> nat option" where
  "hex_val c =
     (let b = byte c in
      if 48 \<le> b \<and> b \<le> 57 then Some (b - 48)
      else if 65 \<le> b \<and> b \<le> 70 then Some (b - 55)
      else if 97 \<le> b \<and> b \<le> 102 then Some (b - 87) else None)"

fun hex4 :: "string \<Rightarrow> (nat \<times> string) option" where
  "hex4 (a # b # c # d # s) =
     (case (hex_val a, hex_val b, hex_val c, hex_val d) of
        (Some x, Some y, Some z, Some w) \<Rightarrow> Some (x * 4096 + y * 256 + z * 16 + w, s)
      | _ \<Rightarrow> None)"
| "hex4 _ = None"

text \<open>\<open>utf8.AppendRune\<close>.\<close>

definition encode_rune :: "nat \<Rightarrow> string" where
  "encode_rune r =
     (let r = (if (55296 \<le> r \<and> r \<le> 57343) \<or> 1114111 < r then 65533 else r) in
      if r < 128 then [char_of r]
      else if r < 2048 then [char_of (192 + r div 64), char_of (128 + r mod 64)]
      else if r < 65536 then
        [char_of (224 + r div 4096), char_of (128 + r div 64 mod 64), char_of (128 + r mod 64)]
      else [char_of (240 + r div 262144), char_of (128 + r div 4096 mod 64),
            char_of (128 + r div 64 mod 64), char_of (128 + r mod 64)])"

text \<open>The character a one letter escape stands for.\<close>

definition escape1 :: "char \<Rightarrow> char option" where
  "escape1 c = map_of
     [(CHR 0x22, CHR 0x22), (CHR 0x5C, CHR 0x5C), (CHR ''/'', CHR ''/''), (CHR ''b'', CHR 0x08),
      (CHR ''f'', CHR 0x0C), (CHR ''n'', CHR 0x0A), (CHR ''r'', CHR 0x0D), (CHR ''t'', CHR 0x09)] c"

definition high_surrogate :: "nat \<Rightarrow> bool" where
  "high_surrogate r \<longleftrightarrow> 55296 \<le> r \<and> r \<le> 56319"

definition low_surrogate :: "nat \<Rightarrow> bool" where
  "low_surrogate r \<longleftrightarrow> 56320 \<le> r \<and> r \<le> 57343"

text \<open>A \<open>\uXXXX\<close> escape: the code point and what follows it, a surrogate pair taken together.\<close>

definition escape_u :: "string \<Rightarrow> (nat \<times> string) option" where
  "escape_u s =
     (case hex4 s of None \<Rightarrow> None
      | Some (r, t) \<Rightarrow>
          if high_surrogate r then
            (case t of
               x # y # u \<Rightarrow>
                 if x = CHR 0x5C \<and> y = CHR ''u'' then
                   (case hex4 u of
                      Some (q, v) \<Rightarrow>
                        if low_surrogate q
                        then Some ((r - 55296) * 1024 + (q - 56320) + 65536, v) else Some (65533, t)
                    | None \<Rightarrow> Some (65533, t))
                 else Some (65533, t)
             | _ \<Rightarrow> Some (65533, t))
          else Some (r, t))"

lemma hex4_length: "hex4 s = Some (r, t) \<Longrightarrow> length t < length s"
  by (induction s rule: hex4.induct) (auto split: option.splits)

lemma escape_u_length: "escape_u s = Some (r, t) \<Longrightarrow> length t < length s"
  by (auto simp: escape_u_def dest!: hex4_length split: option.splits if_splits list.splits)

text \<open>The text of a string token after its opening quote, and what follows the closing one.\<close>

function lex_str :: "string \<Rightarrow> (string \<times> string) option" where
  "lex_str [] = None"
| "lex_str (c # s) =
     (if c = CHR 0x22 then Some ([], s)
      else if c = CHR 0x5C then
        (case s of [] \<Rightarrow> None
         | e # t \<Rightarrow>
             if e = CHR ''u'' then
               (case escape_u t of None \<Rightarrow> None
                | Some (r, u) \<Rightarrow> map_option (\<lambda>(x, y). (encode_rune r @ x, y)) (lex_str u))
             else (case escape1 e of None \<Rightarrow> None
                   | Some d \<Rightarrow> map_option (\<lambda>(x, y). (d # x, y)) (lex_str t)))
      else if byte c < 32 then None
      else (case rune1 c s of (r, w) \<Rightarrow>
              map_option (\<lambda>(x, y). (encode_rune r @ x, y)) (lex_str (drop (w - 1) s))))"
  by pat_completeness auto
termination
  by (relation "measure length") (auto dest!: escape_u_length)

declare lex_str.simps(2) [simp del]

lemma lex_str_length: "lex_str s = Some (x, t) \<Longrightarrow> length t < length s"
proof (induction "length s" arbitrary: s x rule: less_induct)
  case less
  note ih = less.hyps
  from less.prems show ?case
  proof (cases s)
    case (Cons c u)
    from less.prems have "t = u \<or> (\<exists>v y. lex_str v = Some (y, t) \<and> length v \<le> length u)"
      unfolding Cons
      by (subst (asm) lex_str.simps)
         (force split: if_splits list.splits option.splits prod.splits dest!: escape_u_length)
    then show ?thesis
    proof (elim disjE exE conjE)
      fix v y
      assume v: "lex_str v = Some (y, t)" "length v \<le> length u"
      with Cons have "length v < length s" by simp
      from ih [OF this v(1)] v(2) Cons show ?thesis by simp
    qed (use Cons in simp)
  qed simp
qed

definition digits1 :: "string \<Rightarrow> (string \<times> string) option" where
  "digits1 s = (case takeWhile is_dig s of [] \<Rightarrow> None | ds \<Rightarrow> Some (ds, dropWhile is_dig s))"

definition lex_int :: "string \<Rightarrow> (string \<times> string) option" where
  "lex_int s = (case s of [] \<Rightarrow> None
     | c # t \<Rightarrow> if c = CHR ''0'' then Some ([c], t) else digits1 s)"

definition lex_frac :: "string \<Rightarrow> (string \<times> string) option" where
  "lex_frac s = (case s of [] \<Rightarrow> Some ([], [])
     | c # t \<Rightarrow> if c = CHR ''.'' then map_option (\<lambda>(d, u). (c # d, u)) (digits1 t)
                else Some ([], s))"

definition lex_exp :: "string \<Rightarrow> (string \<times> string) option" where
  "lex_exp s = (case s of [] \<Rightarrow> Some ([], [])
     | c # t \<Rightarrow>
         if c = CHR ''e'' \<or> c = CHR ''E'' then
           (case t of [] \<Rightarrow> None
            | d # u \<Rightarrow>
                if d = CHR ''+'' \<or> d = CHR ''-''
                then map_option (\<lambda>(x, y). (c # d # x, y)) (digits1 u)
                else map_option (\<lambda>(x, y). (c # x, y)) (digits1 t))
         else Some ([], s))"

definition lex_num :: "string \<Rightarrow> (string \<times> string) option" where
  "lex_num s =
     (let (sign, s1) = (case s of c # t \<Rightarrow> if c = CHR ''-'' then ([c], t) else ([], s) | [] \<Rightarrow> ([], s))
      in (case lex_int s1 of None \<Rightarrow> None
          | Some (a, s2) \<Rightarrow>
              (case lex_frac s2 of None \<Rightarrow> None
               | Some (b, s3) \<Rightarrow>
                   (case lex_exp s3 of None \<Rightarrow> None
                    | Some (e, s4) \<Rightarrow> Some (sign @ a @ b @ e, s4)))))"

lemma digits1_length: "digits1 s = Some (d, t) \<Longrightarrow> length t < length s"
  unfolding digits1_def
  by (cases s) (auto split: list.splits if_splits simp: le_imp_less_Suc)

lemma lex_int_length: "lex_int s = Some (d, t) \<Longrightarrow> length t < length s"
  by (auto simp: lex_int_def split: list.splits if_splits dest: digits1_length)

lemma lex_frac_length: "lex_frac s = Some (d, t) \<Longrightarrow> length t \<le> length s"
  by (auto simp: lex_frac_def split: list.splits if_splits dest!: digits1_length)

lemma lex_exp_length: "lex_exp s = Some (d, t) \<Longrightarrow> length t \<le> length s"
  by (auto simp: lex_exp_def split: list.splits if_splits dest!: digits1_length)

lemma lex_num_length: "lex_num s = Some (d, t) \<Longrightarrow> length t < length s"
  unfolding lex_num_def
  by (auto split: list.splits if_splits option.splits prod.splits
      dest!: lex_int_length lex_frac_length lex_exp_length)

text \<open>A value that is neither an array nor an object.\<close>

definition lex_scalar :: "string \<Rightarrow> (json \<times> string) option" where
  "lex_scalar s =
     (case s of [] \<Rightarrow> None
      | c # t \<Rightarrow>
          if c = CHR 0x22 then map_option (\<lambda>(x, u). (JStr x, u)) (lex_str t)
          else if prefixb ''true'' s then Some (JBool True, drop 4 s)
          else if prefixb ''false'' s then Some (JBool False, drop 5 s)
          else if prefixb ''null'' s then Some (JNull, drop 4 s)
          else map_option (\<lambda>(x, u). (JNum x, u)) (lex_num s))"

lemma lex_scalar_length: "lex_scalar s = Some (v, t) \<Longrightarrow> length t < length s"
  by (auto simp: lex_scalar_def split: list.splits if_splits dest!: lex_str_length lex_num_length)

text \<open>A member name with its colon.\<close>

definition lex_key :: "string \<Rightarrow> (string \<times> string) option" where
  "lex_key s =
     (case s of [] \<Rightarrow> None
      | c # t \<Rightarrow>
          if c = CHR 0x22 then
            (case lex_str t of None \<Rightarrow> None
             | Some (k, u) \<Rightarrow>
                 (case skip_ws u of [] \<Rightarrow> None
                  | d # v \<Rightarrow> if d = CHR '':'' then Some (k, v) else None))
          else None)"

lemma length_skip_ws [simp]: "length (skip_ws s) \<le> length s"
  by (simp add: skip_ws_def)

lemma skip_ws_Cons_length: "skip_ws s = c # t \<Longrightarrow> length t < length s"
  by (metis length_Cons length_skip_ws less_eq_Suc_le)

lemma lex_key_length: "lex_key s = Some (k, t) \<Longrightarrow> length t < length s"
  by (auto simp: lex_key_def split: list.splits if_splits option.splits
      dest!: lex_str_length skip_ws_Cons_length)

subsection \<open>Values\<close>

text \<open>
  The scanner's state machine: an explicit stack of the arrays and objects that are open, the
  values read so far in reverse. \<open>Want\<close> reads a value, \<open>Got v\<close> hands one to the innermost open
  array or object. Opening one more than \<open>maxNestingDepth\<close> is an error.
\<close>

datatype frame = FArr "json list" | FObj "(string \<times> json) list" string
datatype mode = Want | Got json

definition max_nesting :: nat where
  "max_nesting = 10000"

function scan :: "mode \<Rightarrow> frame list \<Rightarrow> string \<Rightarrow> (json \<times> string) option" where
  "scan Want st s =
     (case skip_ws s of [] \<Rightarrow> None
      | c # r \<Rightarrow>
          if c = CHR 0x7B then
            (if max_nesting \<le> length st then None
             else (case skip_ws r of [] \<Rightarrow> None
               | d # r' \<Rightarrow>
                   if d = CHR 0x7D then scan (Got (JObj [])) st r'
                   else (case lex_key (d # r') of None \<Rightarrow> None
                         | Some (k, u) \<Rightarrow> scan Want (FObj [] k # st) u)))
          else if c = CHR 0x5B then
            (if max_nesting \<le> length st then None
             else (case skip_ws r of [] \<Rightarrow> None
               | d # r' \<Rightarrow>
                   if d = CHR 0x5D then scan (Got (JArr [])) st r'
                   else scan Want (FArr [] # st) r))
          else (case lex_scalar (c # r) of None \<Rightarrow> None | Some (v, u) \<Rightarrow> scan (Got v) st u))"
| "scan (Got v) [] s = Some (v, s)"
| "scan (Got v) (FArr vs # st) s =
     (case skip_ws s of [] \<Rightarrow> None
      | c # r \<Rightarrow>
          if c = CHR '','' then scan Want (FArr (v # vs) # st) r
          else if c = CHR 0x5D then scan (Got (JArr (rev (v # vs)))) st r
          else None)"
| "scan (Got v) (FObj ms k # st) s =
     (case skip_ws s of [] \<Rightarrow> None
      | c # r \<Rightarrow>
          if c = CHR '','' then
            (case lex_key (skip_ws r) of None \<Rightarrow> None
             | Some (k', u) \<Rightarrow> scan Want (FObj ((k, v) # ms) k' # st) u)
          else if c = CHR 0x7D then scan (Got (JObj (rev ((k, v) # ms)))) st r
          else None)"
  by pat_completeness auto
termination
proof (relation "measure (\<lambda>(m, st, s). length s)", goal_cases)
  case (2 st s c r d r')
  then show ?case by (auto dest!: skip_ws_Cons_length)
next
  case (3 st s c r d r' p k u)
  then show ?case by (fastforce dest!: skip_ws_Cons_length lex_key_length)
next
  case (6 st s c r p v u)
  then show ?case by (fastforce dest!: skip_ws_Cons_length lex_scalar_length)
next
  case (9 v ms k st s c r p k' u)
  then have "length u < length (skip_ws r)" "length r < length s"
    by (auto dest: skip_ws_Cons_length lex_key_length)
  then show ?case using length_skip_ws [of r] by (auto simp del: length_skip_ws)
qed (auto dest!: skip_ws_Cons_length)

declare scan.simps(1, 3, 4) [simp del]

text \<open>\<open>Decoder.Decode\<close> reads one value and leaves the rest; \<open>Decoder.More\<close>; \<open>Unmarshal\<close> wants
  nothing but white space after the value.\<close>

definition dec_value :: "string \<Rightarrow> (json \<times> string) option" where
  "dec_value s = scan Want [] s"

definition dec_more :: "string \<Rightarrow> bool" where
  "dec_more rest = (case skip_ws rest of [] \<Rightarrow> False | c # _ \<Rightarrow> c \<noteq> CHR 0x5D \<and> c \<noteq> CHR 0x7D)"

definition unmarshal :: "string \<Rightarrow> json option" where
  "unmarshal s =
     (case dec_value s of None \<Rightarrow> None | Some (v, r) \<Rightarrow> if skip_ws r = [] then Some v else None)"

text \<open>\<open>Compact\<close>: white space outside strings removed, of a valid text only.\<close>

fun strip_ws :: "bool \<Rightarrow> string \<Rightarrow> string" where
  "strip_ws q [] = []"
| "strip_ws False (c # s) =
     (if is_ws c then strip_ws False s else c # strip_ws (c = CHR 0x22) s)"
| "strip_ws True [c] = [c]"
| "strip_ws True (c # d # s) =
     (if c = CHR 0x5C then c # d # strip_ws True s
      else if c = CHR 0x22 then c # strip_ws False (d # s)
      else c # strip_ws True (d # s))"

definition json_compact :: "string \<Rightarrow> string option" where
  "json_compact s = (if unmarshal s = None then None else Some (strip_ws False s))"

subsection \<open>Storing values\<close>

text \<open>
  A member name selects a field by its exact spelling or, failing that, regardless of case
  (with the two non-ASCII letters that fold to s and k). \<open>null\<close> leaves a scalar or a struct as it
  is and empties a slice. An array is stored over the elements a slice already has, which only
  a repeated member name makes visible.
\<close>

definition fold_rune :: "nat \<Rightarrow> nat" where
  "fold_rune r = (if 97 \<le> r \<and> r \<le> 122 then r - 32 else if r = 383 then 83
     else if r = 8490 then 75 else r)"

definition key_is :: "string \<Rightarrow> string \<Rightarrow> bool" where
  "key_is field k \<longleftrightarrow> k = field \<or>
     map (fold_rune \<circ> fst) (runes k) = map (fold_rune \<circ> fst) (runes field)"

fun store_str :: "json \<Rightarrow> string \<Rightarrow> string option" where
  "store_str (JStr s) x = Some s"
| "store_str JNull x = Some x"
| "store_str _ x = None"

fun store_bool :: "json \<Rightarrow> bool \<Rightarrow> bool option" where
  "store_bool (JBool b) x = Some b"
| "store_bool JNull x = Some x"
| "store_bool _ x = None"

text \<open>An integer is a literal without fraction or exponent within \<open>int64\<close>.\<close>

definition parse_int :: "string \<Rightarrow> int option" where
  "parse_int s =
     (let (neg, ds) = (case s of c # t \<Rightarrow> if c = CHR ''-'' then (True, t) else (False, s)
                        | [] \<Rightarrow> (False, s));
          v = (if neg then - int (undigits ds) else int (undigits ds))
      in if ds \<noteq> [] \<and> list_all is_dig ds \<and> is_int64 v then Some v else None)"

fun store_int :: "json \<Rightarrow> int \<Rightarrow> int option" where
  "store_int (JNum l) x = parse_int l"
| "store_int JNull x = Some x"
| "store_int _ x = None"

fun store_elems :: "(json \<Rightarrow> 'a \<Rightarrow> 'a option) \<Rightarrow> 'a \<Rightarrow> json list \<Rightarrow> 'a list \<Rightarrow> 'a list option" where
  "store_elems f z [] old = Some []"
| "store_elems f z (j # js) old =
     (case f j (case old of [] \<Rightarrow> z | x # _ \<Rightarrow> x) of None \<Rightarrow> None
      | Some y \<Rightarrow> map_option (\<lambda>ys. y # ys) (store_elems f z js (tl old)))"

fun store_slice :: "(json \<Rightarrow> 'a \<Rightarrow> 'a option) \<Rightarrow> 'a \<Rightarrow> json \<Rightarrow> 'a list \<Rightarrow> 'a list option" where
  "store_slice f z (JArr js) old = store_elems f z js old"
| "store_slice f z JNull old = Some []"
| "store_slice f z _ old = None"

text \<open>A struct: \<open>f\<close> stores one member, None for a member the struct does not have (the decoder
  disallows unknown fields) or whose value does not fit.\<close>

fun store_members :: "(string \<Rightarrow> json \<Rightarrow> 'a \<Rightarrow> 'a option) \<Rightarrow> (string \<times> json) list \<Rightarrow> 'a \<Rightarrow> 'a option" where
  "store_members f [] x = Some x"
| "store_members f ((k, j) # ms) x =
     (case f k j x of None \<Rightarrow> None | Some y \<Rightarrow> store_members f ms y)"

fun store_struct :: "(string \<Rightarrow> json \<Rightarrow> 'a \<Rightarrow> 'a option) \<Rightarrow> json \<Rightarrow> 'a \<Rightarrow> 'a option" where
  "store_struct f (JObj ms) x = store_members f ms x"
| "store_struct f JNull x = Some x"
| "store_struct f _ x = None"

lemma store_members_known:
  "store_members f ms x = Some y \<Longrightarrow> (k, j) \<in> set ms \<Longrightarrow> \<exists>z. f k j z \<noteq> None"
  by (induction f ms x rule: store_members.induct) (auto split: option.splits)

end
