(* ===== verification/Kube.thy ===== *)
theory Kube
  imports Api Json
begin

text \<open>
  What the program sees of the cluster: the fields it reads of Kubernetes objects, and the client
  operations it calls. Both are code of other modules. The objects are records of the fields
  that are read; a part that is only passed on to the JSON encoder is the \<open>json\<close> value it
  renders to. The operations are the fields of \<open>kube\<close>, an argument of every definition that
  reads or writes: each takes the world \<open>'w\<close> and returns its answer and the next world, in
  which anything else may have happened too.

  \<open>logged k\<close> is the client \<open>k\<close> with a record of the requests made, which is how the properties
  speak of what a component asks of the API server.
\<close>

type_synonym labels = "(string \<times> string) list"

record OwnerReference =
  ow_kind :: string
  ow_name :: string
  ow_uid :: string
  ow_controller :: "bool option"

subsection \<open>Pods\<close>

record Terminated =
  te_reason :: string
  te_message :: string
  te_exitCode :: int

record Waiting =
  wa_reason :: string
  wa_message :: string

record ContainerState =
  cz_waiting :: "Waiting option"
  cz_running :: "gotime option"       \<comment> \<open>StartedAt\<close>
  cz_terminated :: "Terminated option"

record ContainerStatus =
  cs_name :: string
  cs_state :: ContainerState
  cs_lastTerminationState :: ContainerState
  cs_ready :: bool
  cs_restartCount :: int

record PodCondition =
  pc_type :: string
  pc_status :: string
  pc_reason :: string
  pc_message :: string
  pc_lastTransitionTime :: gotime

record PodStatus =
  po_phase :: string
  po_reason :: string
  po_message :: string
  po_conditions :: "PodCondition list"
  po_containerStatuses :: "ContainerStatus list"

record Probe =
  pr_initialDelaySeconds :: int
  pr_periodSeconds :: int
  pr_failureThreshold :: int
  pr_json :: json

record EnvFromSource =
  ef_configMapRef :: "string option"
  ef_secretRef :: "string option"

record EnvVarSource =
  es_configMapKeyRef :: "string option"
  es_secretKeyRef :: "string option"

record Container =
  co_name :: string
  co_image :: string
  co_command :: "string list"
  co_args :: "string list"
  co_resources :: json
  co_ports :: "json list"
  co_readinessProbe :: "Probe option"
  co_livenessProbe :: "Probe option"
  co_envFrom :: "EnvFromSource list"
  co_env :: "EnvVarSource option list" \<comment> \<open>ValueFrom of each variable\<close>

record Volume =
  vo_configMap :: "string option"
  vo_secret :: "string option"

record PodSpec =
  sp_containers :: "Container list"
  sp_volumes :: "Volume list"
  sp_restartPolicy :: string
  sp_nodeName :: string
  sp_nodeSelector :: json
  sp_tolerations :: "json list"

record Pod =
  pod_name :: string
  pod_namespace :: string
  pod_uid :: string
  pod_labels :: labels
  pod_deletionTimestamp :: "gotime option"
  pod_ownerReferences :: "OwnerReference list"
  pod_spec :: PodSpec
  pod_status :: PodStatus

definition PodSpec_zero :: PodSpec where
  "PodSpec_zero =
     \<lparr>sp_containers = [], sp_volumes = [], sp_restartPolicy = [], sp_nodeName = [],
      sp_nodeSelector = JNull, sp_tolerations = []\<rparr>"

definition PodStatus_zero :: PodStatus where
  "PodStatus_zero =
     \<lparr>po_phase = [], po_reason = [], po_message = [], po_conditions = [],
      po_containerStatuses = []\<rparr>"

text \<open>A pod literal with only its namespace and name set.\<close>

definition Pod_named :: "string \<Rightarrow> string \<Rightarrow> Pod" where
  "Pod_named ns n =
     \<lparr>pod_name = n, pod_namespace = ns, pod_uid = [], pod_labels = [],
      pod_deletionTimestamp = None, pod_ownerReferences = [], pod_spec = PodSpec_zero,
      pod_status = PodStatus_zero\<rparr>"

subsection \<open>Other objects\<close>

record ReplicaSet =
  rs_name :: string
  rs_uid :: string
  rs_ownerReferences :: "OwnerReference list"
  rs_annotations :: labels
  rs_creationTimestamp :: gotime
  rs_statusReplicas :: int
  rs_containers :: "Container list"

record Deployment =
  dp_uid :: string
  dp_annotations :: labels
  dp_selector :: json
  dp_template :: PodSpec

record Event =
  et_type :: string
  et_reason :: string
  et_count :: int
  et_message :: string
  et_lastTimestamp :: gotime
  et_eventTime :: gotime
  et_creationTimestamp :: gotime

record Service =
  sv_name :: string
  sv_namespace :: string
  sv_selector :: labels
  sv_ports :: json

record Endpoint =
  ep_ready :: "bool option"
  ep_targetRef :: "string option"

record NodeCondition =
  nc_type :: string
  nc_status :: string
  nc_reason :: string
  nc_message :: string

record Node =
  nd_name :: string
  nd_allocatable :: json
  nd_taints :: json
  nd_conditions :: "NodeCondition list"

subsection \<open>The client\<close>

type_synonym ('w, 'a) op = "'w \<Rightarrow> (goerror + 'a) \<times> 'w"

record 'w kube =
  kGetPod :: "string \<Rightarrow> string \<Rightarrow> ('w, Pod) op"
  kListPods :: "string \<Rightarrow> ('w, Pod list) op"
  kListPodsLabelled :: "string \<Rightarrow> labels \<Rightarrow> ('w, Pod list) op"
  kGetReplicaSet :: "string \<Rightarrow> string \<Rightarrow> ('w, ReplicaSet) op"
  kListReplicaSets :: "string \<Rightarrow> string \<Rightarrow> ('w, ReplicaSet list) op"
  kGetDeployment :: "string \<Rightarrow> string \<Rightarrow> ('w, Deployment) op"
  kGetStatefulSet :: "string \<Rightarrow> string \<Rightarrow> ('w, PodSpec) op"
  kGetDaemonSet :: "string \<Rightarrow> string \<Rightarrow> ('w, PodSpec) op"
  kGetConfigMap :: "string \<Rightarrow> string \<Rightarrow> ('w, string list) op"   \<comment> \<open>keys of Data\<close>
  kGetSecret :: "string \<Rightarrow> string \<Rightarrow> ('w, string list) op"      \<comment> \<open>keys of Data\<close>
  kListServices :: "string \<Rightarrow> ('w, Service list) op"
  kListEndpointSlices :: "string \<Rightarrow> string \<Rightarrow> ('w, Endpoint list list) op"
  kGetNode :: "string \<Rightarrow> ('w, Node) op"
  kListNodes :: "('w, Node list) op"
  kListEvents :: "string \<Rightarrow> string \<Rightarrow> nat \<Rightarrow> ('w, Event list) op"
  kLogs :: "string \<Rightarrow> string \<Rightarrow> string \<Rightarrow> bool \<Rightarrow> nat \<Rightarrow> ('w, goerror + string) op"
  kGetRaw :: "string \<Rightarrow> ('w, string) op"
  kGetDiagnosis :: "string \<Rightarrow> string \<Rightarrow> ('w, Diagnosis) op"
  kListDiagnoses :: "string \<Rightarrow> ('w, Diagnosis list) op"
  kGetPolicy :: "string \<Rightarrow> string \<Rightarrow> ('w, HealingPolicy) op"
  kListPolicies :: "string \<Rightarrow> ('w, HealingPolicy list) op"
  kCreate :: "Diagnosis \<Rightarrow> ('w, Diagnosis) op"
  kUpdateStatus :: "Diagnosis \<Rightarrow> ('w, Diagnosis) op"
  kNow :: "'w \<Rightarrow> gotime \<times> 'w"
  \<comment> \<open>pure functions of other modules\<close>
  kControllerOf :: "OwnerReference list \<Rightarrow> OwnerReference option"
  kSelectorOf :: "json \<Rightarrow> goerror + string"
  kSelects :: "labels \<Rightarrow> labels \<Rightarrow> bool"
  kNewNotFound :: "string \<Rightarrow> string \<Rightarrow> goerror"
  \<comment> \<open>the order in which \<open>sort.Slice\<close>, which is not stable, leaves elements with these keys\<close>
  kOrder :: "int list \<Rightarrow> nat list"

text \<open>\<open>sort.Slice\<close> by descending key.\<close>

definition sort_slice :: "(int list \<Rightarrow> nat list) \<Rightarrow> ('a \<Rightarrow> int) \<Rightarrow> 'a list \<Rightarrow> 'a list" where
  "sort_slice order key xs = map (\<lambda>i. xs ! i) (order (map key xs))"

text \<open>What the documentation of \<open>sort.Slice\<close> promises: a permutation that is in order.\<close>

definition sorts :: "(int list \<Rightarrow> nat list) \<Rightarrow> bool" where
  "sorts order \<longleftrightarrow>
     (\<forall>ks. distinct (order ks) \<and> set (order ks) = {..<length ks} \<and>
           sorted (rev (map (\<lambda>i. ks ! i) (order ks))))"

text \<open>A stable order, by insertion.\<close>

fun insert_desc :: "int list \<Rightarrow> nat \<Rightarrow> nat list \<Rightarrow> nat list" where
  "insert_desc ks i [] = [i]"
| "insert_desc ks i (j # js) = (if ks ! j \<le> ks ! i then i # j # js else j # insert_desc ks i js)"

definition stable_order :: "int list \<Rightarrow> nat list" where
  "stable_order ks = foldr (insert_desc ks) [0..<length ks] []"

lemma set_insert_desc [simp]: "set (insert_desc ks i js) = insert i (set js)"
  by (induction js) auto

lemma distinct_insert_desc: "i \<notin> set js \<Longrightarrow> distinct js \<Longrightarrow> distinct (insert_desc ks i js)"
  by (induction js) auto

lemma sorted_insert_desc:
  "sorted_wrt (\<lambda>a b. ks ! b \<le> ks ! a) js \<Longrightarrow> sorted_wrt (\<lambda>a b. ks ! b \<le> ks ! a) (insert_desc ks i js)"
  by (induction js) auto

lemma foldr_insert_desc:
  "distinct js \<Longrightarrow> distinct (foldr (insert_desc ks) js []) \<and> set (foldr (insert_desc ks) js []) = set js \<and>
     sorted_wrt (\<lambda>a b. ks ! b \<le> ks ! a) (foldr (insert_desc ks) js [])"
  by (induction js) (auto simp: distinct_insert_desc sorted_insert_desc)

lemma sorts_stable_order: "sorts stable_order"
proof -
  have "sorted (rev (map (\<lambda>i. ks ! i) (stable_order ks)))" for ks
    using foldr_insert_desc [of "[0..<length ks]" ks]
    by (simp add: stable_order_def sorted_wrt_map sorted_wrt_rev)
  then show ?thesis
    using foldr_insert_desc
    by (auto simp: sorts_def stable_order_def atLeast0LessThan)
qed

lemma sort_slice_set: "sorts order \<Longrightarrow> set (sort_slice order key xs) = set xs"
proof -
  assume s: "sorts order"
  have "set (sort_slice order key xs) = (\<lambda>i. xs ! i) ` {..<length xs}"
    using s unfolding sorts_def sort_slice_def by (metis length_map set_map)
  also have "\<dots> = set xs" by (auto simp: set_conv_nth)
  finally show ?thesis .
qed

lemma sort_slice_sorted:
  assumes "sorts order" shows "sorted (rev (map key (sort_slice order key xs)))"
proof -
  let ?is = "order (map key xs)"
  have "\<forall>i \<in> set ?is. i < length xs" using assms unfolding sorts_def by (metis lessThan_iff length_map)
  then have "map key (sort_slice order key xs) = map (\<lambda>i. map key xs ! i) ?is"
    by (simp add: sort_slice_def)
  then show ?thesis using assms unfolding sorts_def by metis
qed

lemma sort_slice_length: "sorts order \<Longrightarrow> length (sort_slice order key xs) = length xs"
  unfolding sorts_def sort_slice_def
  by (metis card_lessThan distinct_card length_map)

subsection \<open>Requests\<close>

datatype request =
    ReqGet string string string             \<comment> \<open>resource, namespace, name\<close>
  | ReqList string string string            \<comment> \<open>resource, namespace, restriction\<close>
  | ReqListLabelled string string labels
  | ReqLogs string string string bool nat   \<comment> \<open>namespace, pod, container, previous, lines\<close>
  | ReqRaw string                           \<comment> \<open>path\<close>
  | ReqGetNode string | ReqListNodes
  | ReqCreate Diagnosis | ReqUpdateStatus Diagnosis

fun is_write :: "request \<Rightarrow> bool" where
  "is_write (ReqCreate d) = True"
| "is_write (ReqUpdateStatus d) = True"
| "is_write _ = False"

text \<open>One operation with its request noted.\<close>

definition noted :: "request \<Rightarrow> ('w, 'a) op \<Rightarrow> ('w \<times> request list, 'a) op" where
  "noted r f w = (case f (fst w) of (x, w') \<Rightarrow> (x, w', snd w @ [r]))"

definition logged :: "'w kube \<Rightarrow> ('w \<times> request list) kube" where
  "logged k =
     \<lparr>kGetPod = \<lambda>ns n. noted (ReqGet ''pods'' ns n) (kGetPod k ns n),
      kListPods = \<lambda>ns. noted (ReqList ''pods'' ns []) (kListPods k ns),
      kListPodsLabelled = \<lambda>ns l. noted (ReqListLabelled ''pods'' ns l) (kListPodsLabelled k ns l),
      kGetReplicaSet = \<lambda>ns n. noted (ReqGet ''replicasets'' ns n) (kGetReplicaSet k ns n),
      kListReplicaSets = \<lambda>ns s. noted (ReqList ''replicasets'' ns s) (kListReplicaSets k ns s),
      kGetDeployment = \<lambda>ns n. noted (ReqGet ''deployments'' ns n) (kGetDeployment k ns n),
      kGetStatefulSet = \<lambda>ns n. noted (ReqGet ''statefulsets'' ns n) (kGetStatefulSet k ns n),
      kGetDaemonSet = \<lambda>ns n. noted (ReqGet ''daemonsets'' ns n) (kGetDaemonSet k ns n),
      kGetConfigMap = \<lambda>ns n. noted (ReqGet ''configmaps'' ns n) (kGetConfigMap k ns n),
      kGetSecret = \<lambda>ns n. noted (ReqGet ''secrets'' ns n) (kGetSecret k ns n),
      kListServices = \<lambda>ns. noted (ReqList ''services'' ns []) (kListServices k ns),
      kListEndpointSlices = \<lambda>ns s. noted (ReqList ''endpointslices'' ns s) (kListEndpointSlices k ns s),
      kGetNode = \<lambda>n. noted (ReqGetNode n) (kGetNode k n),
      kListNodes = noted ReqListNodes (kListNodes k),
      kListEvents = \<lambda>ns p l. noted (ReqList ''events'' ns p) (kListEvents k ns p l),
      kLogs = \<lambda>ns p c b l. noted (ReqLogs ns p c b l) (kLogs k ns p c b l),
      kGetRaw = \<lambda>p. noted (ReqRaw p) (kGetRaw k p),
      kGetDiagnosis = \<lambda>ns n. noted (ReqGet ''diagnoses'' ns n) (kGetDiagnosis k ns n),
      kListDiagnoses = \<lambda>ns. noted (ReqList ''diagnoses'' ns []) (kListDiagnoses k ns),
      kGetPolicy = \<lambda>ns n. noted (ReqGet ''healingpolicies'' ns n) (kGetPolicy k ns n),
      kListPolicies = \<lambda>ns. noted (ReqList ''healingpolicies'' ns []) (kListPolicies k ns),
      kCreate = \<lambda>d. noted (ReqCreate d) (kCreate k d),
      kUpdateStatus = \<lambda>d. noted (ReqUpdateStatus d) (kUpdateStatus k d),
      kNow = \<lambda>w. (case kNow k (fst w) of (t, w') \<Rightarrow> (t, w', snd w)),
      kControllerOf = kControllerOf k, kSelectorOf = kSelectorOf k, kSelects = kSelects k,
      kNewNotFound = kNewNotFound k, kOrder = kOrder k\<rparr>"

text \<open>The requests a step added to the record, each of them allowed.\<close>

definition logs_only :: "(request \<Rightarrow> bool) \<Rightarrow> 'w \<times> request list \<Rightarrow> 'w \<times> request list \<Rightarrow> bool" where
  "logs_only P w w' \<longleftrightarrow> (\<exists>l. snd w' = snd w @ l \<and> list_all P l)"

lemma logs_only_refl [simp]: "logs_only P w w"
  by (simp add: logs_only_def)

lemma logs_only_trans: "logs_only P u v \<Longrightarrow> logs_only P v w \<Longrightarrow> logs_only P u w"
  by (force simp: logs_only_def)

lemma logs_only_noted [simp]: "logs_only P w (snd (noted r f w)) \<longleftrightarrow> P r"
  by (auto simp: logs_only_def noted_def split: prod.splits)

lemma logs_only_mono: "logs_only P u v \<Longrightarrow> (\<And>r. P r \<Longrightarrow> Q r) \<Longrightarrow> logs_only Q u v"
  by (auto simp: logs_only_def list_all_iff)

subsection \<open>A client for examples\<close>

text \<open>A cluster of which every request fails in the same way; examples replace the operations they
  need.\<close>

definition failing :: "goerror \<Rightarrow> 'w kube" where
  "failing e =
     \<lparr>kGetPod = \<lambda>_ _ w. (Inl e, w), kListPods = \<lambda>_ w. (Inl e, w),
      kListPodsLabelled = \<lambda>_ _ w. (Inl e, w), kGetReplicaSet = \<lambda>_ _ w. (Inl e, w),
      kListReplicaSets = \<lambda>_ _ w. (Inl e, w), kGetDeployment = \<lambda>_ _ w. (Inl e, w),
      kGetStatefulSet = \<lambda>_ _ w. (Inl e, w), kGetDaemonSet = \<lambda>_ _ w. (Inl e, w),
      kGetConfigMap = \<lambda>_ _ w. (Inl e, w), kGetSecret = \<lambda>_ _ w. (Inl e, w),
      kListServices = \<lambda>_ w. (Inl e, w), kListEndpointSlices = \<lambda>_ _ w. (Inl e, w),
      kGetNode = \<lambda>_ w. (Inl e, w), kListNodes = \<lambda>w. (Inl e, w),
      kListEvents = \<lambda>_ _ _ w. (Inl e, w), kLogs = \<lambda>_ _ _ _ _ w. (Inl e, w),
      kGetRaw = \<lambda>_ w. (Inl e, w), kGetDiagnosis = \<lambda>_ _ w. (Inl e, w),
      kListDiagnoses = \<lambda>_ w. (Inl e, w), kGetPolicy = \<lambda>_ _ w. (Inl e, w),
      kListPolicies = \<lambda>_ w. (Inl e, w), kCreate = \<lambda>_ w. (Inl e, w),
      kUpdateStatus = \<lambda>_ w. (Inl e, w), kNow = \<lambda>w. (0, w),
      kControllerOf = List.find (\<lambda>ref. ow_controller ref = Some True),
      kSelectorOf = \<lambda>_. Inl e, kSelects = \<lambda>sel lbs. set sel \<subseteq> set lbs,
      kNewNotFound = \<lambda>res n. \<lparr>err_kind = ENotFound, err_msg = n\<rparr>, kOrder = stable_order\<rparr>"

end
