(* ===== verification/Render.thy ===== *)
theory Render
  imports Json "HOL-Library.List_Lexorder" "HOL-Library.Char_ord"
begin

text \<open>
  How the program writes text for people and for the model: \<open>json.MarshalIndent\<close> with the
  escapes of \<open>encoding/json\<close>, a UTC time in the layout \<open>2006-01-02T15:04:05Z\<close>, and \<open>strconv.Atoi\<close>.
\<close>

subsection \<open>JSON text\<close>

definition jstr_tok :: "tok \<Rightarrow> string" where
  "jstr_tok t =
     (case t of (r, bs) \<Rightarrow>
        if r = 34 \<or> r = 92 then CHR 0x5C # bs
        else if r = 8 then CHR 0x5C # ''b'' else if r = 12 then CHR 0x5C # ''f''
        else if r = 10 then CHR 0x5C # ''n'' else if r = 13 then CHR 0x5C # ''r''
        else if r = 9 then CHR 0x5C # ''t''
        else if r < 32 \<or> r = 60 \<or> r = 62 \<or> r = 38 then CHR 0x5C # ''u'' @ hex_pad 4 r
        else if r = 65533 \<and> length bs = 1 then CHR 0x5C # ''ufffd''
        else if r = 8232 \<or> r = 8233 then CHR 0x5C # ''u'' @ hex_pad 4 r
        else bs)"

definition jstr_text :: "string \<Rightarrow> string" where
  "jstr_text s = [CHR 0x22] @ concat (map jstr_tok (runes s)) @ [CHR 0x22]"

definition indent :: "nat \<Rightarrow> string" where
  "indent d = newline # replicate (2 * d) CHR '' ''"

fun marshal_indent :: "nat \<Rightarrow> json \<Rightarrow> string" where
  "marshal_indent d JNull = ''null''"
| "marshal_indent d (JBool b) = (if b then ''true'' else ''false'')"
| "marshal_indent d (JNum l) = l"
| "marshal_indent d (JStr s) = jstr_text s"
| "marshal_indent d (JArr js) =
     (if js = [] then [CHR 0x5B, CHR 0x5D]
      else [CHR 0x5B] @ join '','' (map (\<lambda>j. indent (d + 1) @ marshal_indent (d + 1) j) js)
           @ indent d @ [CHR 0x5D])"
| "marshal_indent d (JObj ms) =
     (if ms = [] then [CHR 0x7B, CHR 0x7D]
      else [CHR 0x7B] @ join '',''
             (map (\<lambda>(k, j). indent (d + 1) @ jstr_text k @ '': '' @ marshal_indent (d + 1) j) ms)
           @ indent d @ [CHR 0x7D])"

definition toJSON :: "json \<Rightarrow> string" where
  "toJSON v = marshal_indent 0 v"

text \<open>A \<open>map[string]any\<close> is written with its keys in order.\<close>

definition jmap :: "(string \<times> json) list \<Rightarrow> json" where
  "jmap kvs = JObj (sort_key fst kvs)"

definition jint :: "int \<Rightarrow> json" where
  "jint n = JNum (itoa n)"

subsection \<open>Times\<close>

definition pad_left0 :: "nat \<Rightarrow> string \<Rightarrow> string" where
  "pad_left0 w s = replicate (w - length s) CHR ''0'' @ s"

text \<open>Year, month and day of a day number, counted from the Unix epoch.\<close>

definition civil :: "int \<Rightarrow> int \<times> int \<times> int" where
  "civil days =
     (let z = days + 719468; era = z div 146097; doe = z mod 146097;
          yoe = (doe - doe div 1460 + doe div 36524 - doe div 146096) div 365;
          doy = doe - (365 * yoe + yoe div 4 - yoe div 100);
          mp = (5 * doy + 2) div 153;
          d = doy - (153 * mp + 2) div 5 + 1;
          m = (if mp < 10 then mp + 3 else mp - 9)
      in (yoe + era * 400 + (if m \<le> 2 then 1 else 0), m, d))"

definition format_utc :: "int \<Rightarrow> string" where
  "format_utc t =
     (let secs = t div 1000000000; rest = secs mod 86400;
          (y, m, d) = civil (secs div 86400);
          two = (\<lambda>n. pad_left0 2 (itoa n))
      in (if y < 0 then ''-'' @ pad_left0 4 (itoa (- y)) else pad_left0 4 (itoa y)) @ ''-'' @
         two m @ ''-'' @ two d @ ''T'' @ two (rest div 3600) @ '':'' @
         two (rest div 60 mod 60) @ '':'' @ two (rest mod 60) @ ''Z'')"

subsection \<open>Integers\<close>

definition atoi :: "string \<Rightarrow> int option" where
  "atoi s =
     (let (neg, ds) = (case s of c # t \<Rightarrow> if c = CHR ''-'' then (True, t)
                                 else if c = CHR ''+'' then (False, t) else (False, s)
                       | [] \<Rightarrow> (False, []));
          v = (if neg then - int (undigits ds) else int (undigits ds))
      in if ds \<noteq> [] \<and> list_all is_dig ds \<and> is_int64 v then Some v else None)"

end
