(* ===== verification/Collector.thy ===== *)
theory Collector
  imports Matrix Kube Redact Render
begin

text \<open>
  \<open>src/internal/evidence/collector.go\<close>: the reads behind every kind of evidence, and \<open>Collect\<close>,
  which runs them against the requirement matrix. Each read takes the client \<open>k\<close> and the world;
  \<open>gather\<close> is the one read path of baseline collection and of the tool broker.
\<close>

definition contentLimit :: nat where "contentLimit = 8192"
definition logTailLines :: nat where "logTailLines = 100"
definition revisionsReported :: nat where "revisionsReported = 3"

definition revisionAnnotation :: string where
  "revisionAnnotation = ''deployment.kubernetes.io/revision''"

record Target =
  tg_pod :: Pod
  tg_container :: string
  tg_failureType :: FailureType
  tg_ownerKind :: string
  tg_ownerName :: string

abbreviation tg_ns :: "Target \<Rightarrow> string" where
  "tg_ns t \<equiv> pod_namespace (tg_pod t)"

text \<open>The answer of a map lookup in Go: the empty text when the key is absent.\<close>

definition lookup :: "labels \<Rightarrow> string \<Rightarrow> string" where
  "lookup m key = (case map_of m key of None \<Rightarrow> [] | Some v \<Rightarrow> v)"

subsection \<open>Errors\<close>

definition summarise :: "goerror \<Rightarrow> goerror" where
  "summarise err =
     (if err_kind err = ENotFound then errorf ''not found''
      else if err_kind err = EForbidden then errorf ''access denied by RBAC''
      else (let msg = err_msg err in
            case str_index '':'' msg of
              Some idx \<Rightarrow> if 0 < idx \<and> 160 < length msg then errorf (take idx msg) else errorf msg
            | None \<Rightarrow> errorf msg))"

text \<open>A read whose failure is summarised, and whose answer is used by \<open>f\<close> with no further call.\<close>

definition read_then :: "('w, 'a) op \<Rightarrow> ('a \<Rightarrow> goerror + string) \<Rightarrow> ('w, string) op" where
  "read_then m f w =
     (case m w of (Inl e, w') \<Rightarrow> (Inl (summarise e), w') | (Inr x, w') \<Rightarrow> (f x, w'))"

subsection \<open>Logs and events\<close>

definition logs :: "'w kube \<Rightarrow> Target \<Rightarrow> bool \<Rightarrow> ('w, string) op" where
  "logs k target previous w =
     (case kLogs k (tg_ns target) (pod_name (tg_pod target)) (tg_container target) previous logTailLines w of
        (Inl e, w') \<Rightarrow> (Inl (wrapf ''reading logs: '' (summarise e)), w')
      | (Inr (Inl e), w') \<Rightarrow> (Inl (wrapf ''reading logs: '' e), w')
      | (Inr (Inr data), w') \<Rightarrow> (Inr data, w'))"

definition eventTime :: "Event \<Rightarrow> gotime" where
  "eventTime e =
     (if et_lastTimestamp e \<noteq> time_zero then et_lastTimestamp e
      else if et_eventTime e \<noteq> time_zero then et_eventTime e
      else et_creationTimestamp e)"

definition event_line :: "Event \<Rightarrow> string" where
  "event_line e =
     et_type e @ ''  '' @ pad_right 24 (et_reason e) @ ''  count='' @ itoa (et_count e) @ ''  '' @
     trim_space (et_message e) @ [newline]"

definition events :: "'w kube \<Rightarrow> Target \<Rightarrow> ('w, string) op" where
  "events k target w =
     (case kListEvents k (tg_ns target) (pod_name (tg_pod target)) 50 w of
        (Inl e, w') \<Rightarrow> (Inl (wrapf ''listing events: '' (summarise e)), w')
      | (Inr items, w') \<Rightarrow>
          (Inr (concat (map event_line (sort_slice (kOrder k) eventTime items))), w'))"

subsection \<open>The workload\<close>

text \<open>An entry that is left out when its list is empty or its pointer nil.\<close>

definition opt_entry :: "string \<Rightarrow> json option \<Rightarrow> (string \<times> json) list" where
  "opt_entry key v = (case v of None \<Rightarrow> [] | Some j \<Rightarrow> [(key, j)])"

definition jlist :: "json list \<Rightarrow> json option" where
  "jlist js = (if js = [] then None else Some (JArr js))"

definition summariseContainer :: "Container \<Rightarrow> json" where
  "summariseContainer c = jmap
     ([(''name'', JStr (co_name c)), (''image'', JStr (co_image c)), (''resources'', co_resources c)] @
      opt_entry ''command'' (jlist (map JStr (co_command c))) @
      opt_entry ''args'' (jlist (map JStr (co_args c))) @
      opt_entry ''readinessProbe'' (map_option pr_json (co_readinessProbe c)) @
      opt_entry ''livenessProbe'' (map_option pr_json (co_livenessProbe c)) @
      opt_entry ''ports'' (jlist (co_ports c)))"

definition summariseContainers :: "Container list \<Rightarrow> json" where
  "summariseContainers cs = JArr (map summariseContainer cs)"

definition podTemplate :: "'w kube \<Rightarrow> Target \<Rightarrow> ('w, PodSpec) op" where
  "podTemplate k target w =
     (if tg_ownerKind target = ''Deployment'' then
        (case kGetDeployment k (tg_ns target) (tg_ownerName target) w of
           (Inl e, w') \<Rightarrow> (Inl (summarise e), w') | (Inr d, w') \<Rightarrow> (Inr (dp_template d), w'))
      else if tg_ownerKind target = ''StatefulSet'' then
        (case kGetStatefulSet k (tg_ns target) (tg_ownerName target) w of
           (Inl e, w') \<Rightarrow> (Inl (summarise e), w') | (Inr s, w') \<Rightarrow> (Inr s, w'))
      else if tg_ownerKind target = ''DaemonSet'' then
        (case kGetDaemonSet k (tg_ns target) (tg_ownerName target) w of
           (Inl e, w') \<Rightarrow> (Inl (summarise e), w') | (Inr s, w') \<Rightarrow> (Inr s, w'))
      else (Inr (pod_spec (tg_pod target)), w))"

definition workload_json :: "Target \<Rightarrow> PodSpec \<Rightarrow> json" where
  "workload_json target spec = jmap
     ([(''owner'', JStr (tg_ownerKind target @ ''/'' @ tg_ownerName target)),
       (''restartPolicy'', JStr (sp_restartPolicy spec)),
       (''nodeSelector'', sp_nodeSelector spec),
       (''containers'', summariseContainers (sp_containers spec))] @
      opt_entry ''tolerations'' (jlist (sp_tolerations spec)))"

definition workloadSpec :: "'w kube \<Rightarrow> Target \<Rightarrow> ('w, string) op" where
  "workloadSpec k target w =
     (case podTemplate k target w of
        (Inl e, w') \<Rightarrow> (Inl e, w')
      | (Inr spec, w') \<Rightarrow> (Inr (toJSON (workload_json target spec)), w'))"

subsection \<open>Rollout history\<close>

definition revisionOf :: "ReplicaSet \<Rightarrow> int" where
  "revisionOf rs = (case atoi (lookup (rs_annotations rs) revisionAnnotation) of None \<Rightarrow> 0 | Some n \<Rightarrow> n)"

definition owned_by :: "string \<Rightarrow> ReplicaSet \<Rightarrow> bool" where
  "owned_by uid rs \<longleftrightarrow> list_ex (\<lambda>ref. ow_uid ref = uid) (rs_ownerReferences rs)"

definition revision_json :: "ReplicaSet \<Rightarrow> json" where
  "revision_json rs = jmap
     [(''revision'', jint (revisionOf rs)), (''created'', JStr (format_utc (rs_creationTimestamp rs))),
      (''replicas'', jint (rs_statusReplicas rs)), (''containers'', summariseContainers (rs_containers rs))]"

text \<open>The replica sets of the deployment, newest revision first, as many as are reported.\<close>

definition recent_revisions :: "(int list \<Rightarrow> nat list) \<Rightarrow> Deployment \<Rightarrow> ReplicaSet list \<Rightarrow> ReplicaSet list" where
  "recent_revisions order deployment items =
     take revisionsReported (sort_slice order revisionOf (filter (owned_by (dp_uid deployment)) items))"

definition rollout_json :: "(int list \<Rightarrow> nat list) \<Rightarrow> Deployment \<Rightarrow> ReplicaSet list \<Rightarrow> json" where
  "rollout_json order deployment items =
     jmap [(''currentRevision'', JStr (lookup (dp_annotations deployment) revisionAnnotation)),
           (''revisions'', JArr (map revision_json (recent_revisions order deployment items)))]"

definition rolloutHistory :: "'w kube \<Rightarrow> Target \<Rightarrow> ('w, string) op" where
  "rolloutHistory k target w =
     (if tg_ownerKind target \<noteq> ''Deployment''
      then (Inl (errorf (''rollout history is only available for Deployments, owner is '' @ tg_ownerKind target)), w)
      else (case kGetDeployment k (tg_ns target) (tg_ownerName target) w of
              (Inl e, w1) \<Rightarrow> (Inl (summarise e), w1)
            | (Inr deployment, w1) \<Rightarrow>
                (case kSelectorOf k (dp_selector deployment) of
                   Inl e \<Rightarrow> (Inl e, w1)
                 | Inr selector \<Rightarrow>
                     read_then (kListReplicaSets k (tg_ns target) selector)
                       (\<lambda>items. Inr (toJSON (rollout_json (kOrder k) deployment items))) w1)))"

subsection \<open>Configuration references\<close>

record reference =
  rf_kind :: string
  rf_name :: string
  rf_exists :: bool
  rf_keys :: "string list"
  rf_message :: string

text \<open>The calls of \<open>record\<close>, in order, as kind and name.\<close>

definition opt_ref :: "string \<Rightarrow> string option \<Rightarrow> (string \<times> string) list" where
  "opt_ref kind n = (case n of None \<Rightarrow> [] | Some name \<Rightarrow> [(kind, name)])"

definition container_references :: "Container \<Rightarrow> (string \<times> string) list" where
  "container_references c =
     concat (map (\<lambda>s. opt_ref ''ConfigMap'' (ef_configMapRef s) @ opt_ref ''Secret'' (ef_secretRef s))
               (co_envFrom c)) @
     concat (map (\<lambda>v. case v of None \<Rightarrow> []
                 | Some s \<Rightarrow> opt_ref ''ConfigMap'' (es_configMapKeyRef s) @
                             opt_ref ''Secret'' (es_secretKeyRef s)) (co_env c))"

definition pod_references :: "PodSpec \<Rightarrow> (string \<times> string) list" where
  "pod_references spec =
     concat (map container_references (sp_containers spec)) @
     concat (map (\<lambda>v. opt_ref ''ConfigMap'' (vo_configMap v) @ opt_ref ''Secret'' (vo_secret v))
               (sp_volumes spec))"

definition read_reference :: "'w kube \<Rightarrow> string \<Rightarrow> string \<times> string \<Rightarrow> 'w \<Rightarrow> reference \<times> 'w" where
  "read_reference k ns kn w =
     (case kn of (kind, name) \<Rightarrow>
        (case (if kind = ''ConfigMap'' then kGetConfigMap k ns name w else kGetSecret k ns name w) of
           (Inl e, w') \<Rightarrow>
             (\<lparr>rf_kind = kind, rf_name = name, rf_exists = False, rf_keys = [],
               rf_message = err_msg (summarise e)\<rparr>, w')
         | (Inr keys, w') \<Rightarrow>
             (\<lparr>rf_kind = kind, rf_name = name, rf_exists = True, rf_keys = sort keys,
               rf_message = []\<rparr>, w')))"

fun record_refs ::
    "'w kube \<Rightarrow> string \<Rightarrow> (string \<times> string) list \<Rightarrow> string list \<Rightarrow> reference list \<Rightarrow> 'w \<Rightarrow> reference list \<times> 'w" where
  "record_refs k ns [] seen refs w = (refs, w)"
| "record_refs k ns ((kind, name) # kns) seen refs w =
     (let i = kind @ ''/'' @ name in
      if name = [] \<or> i \<in> set seen then record_refs k ns kns seen refs w
      else (case read_reference k ns (kind, name) w of (ref, w') \<Rightarrow>
              record_refs k ns kns (i # seen) (refs @ [ref]) w'))"

definition reference_json :: "reference \<Rightarrow> json" where
  "reference_json r = JObj
     ([(''kind'', JStr (rf_kind r)), (''name'', JStr (rf_name r)), (''exists'', JBool (rf_exists r))] @
      opt_entry ''keys'' (jlist (map JStr (rf_keys r))) @
      (if rf_message r = [] then [] else [(''message'', JStr (rf_message r))]))"

definition configReferences :: "'w kube \<Rightarrow> Target \<Rightarrow> ('w, string) op" where
  "configReferences k target w =
     (case record_refs k (tg_ns target) (pod_references (pod_spec (tg_pod target))) [] [] w of
        (refs, w') \<Rightarrow>
          if refs = [] then (Inl (errorf ''the pod references no ConfigMaps or Secrets''), w')
          else (Inr (toJSON (JArr (map reference_json refs))), w'))"

subsection \<open>Services\<close>

definition ep_is_ready :: "Endpoint \<Rightarrow> bool" where
  "ep_is_ready ep \<longleftrightarrow> ep_ready ep = Some True"

definition endpoint_entries :: "string \<Rightarrow> Endpoint list list \<Rightarrow> (string \<times> json) list" where
  "endpoint_entries podName slices =
     (let eps = concat slices in
      [(''readyEndpoints'', jint (int (length (filter ep_is_ready eps)))),
       (''notReadyEndpoints'', jint (int (length (filter (\<lambda>ep. \<not> ep_is_ready ep) eps)))),
       (''thisPodIsServing'', JBool (list_ex (\<lambda>ep. ep_is_ready ep \<and> ep_targetRef ep = Some podName) eps))])"

fun service_loop :: "'w kube \<Rightarrow> Pod \<Rightarrow> Service list \<Rightarrow> json list \<Rightarrow> 'w \<Rightarrow> json list \<times> 'w" where
  "service_loop k pod [] matched w = (matched, w)"
| "service_loop k pod (svc # svcs) matched w =
     (if sv_selector svc = [] \<or> \<not> kSelects k (sv_selector svc) (pod_labels pod)
      then service_loop k pod svcs matched w
      else (case kListEndpointSlices k (sv_namespace svc) (sv_name svc) w of (r, w') \<Rightarrow>
              let entry = [(''service'', JStr (sv_name svc)), (''ports'', sv_ports svc)] @
                    (case r of Inl e \<Rightarrow> [] | Inr slices \<Rightarrow> endpoint_entries (pod_name pod) slices)
              in service_loop k pod svcs (matched @ [jmap entry]) w'))"

definition serviceEndpoints :: "'w kube \<Rightarrow> Target \<Rightarrow> ('w, string) op" where
  "serviceEndpoints k target w =
     (case kListServices k (tg_ns target) w of
        (Inl e, w1) \<Rightarrow> (Inl (summarise e), w1)
      | (Inr services, w1) \<Rightarrow>
          (case service_loop k (tg_pod target) services [] w1 of (matched, w2) \<Rightarrow>
             if matched = [] then (Inl (errorf ''no Service selects this pod''), w2)
             else (Inr (toJSON (JArr matched)), w2)))"

subsection \<open>Nodes\<close>

definition notable :: "NodeCondition \<Rightarrow> bool" where
  "notable cond \<longleftrightarrow>
     nc_type cond = ''Ready'' \<or> (nc_status cond = ''True'' \<and> nc_type cond \<noteq> ''Ready'')"

definition notableConditions :: "Node \<Rightarrow> json" where
  "notableConditions node = JArr (map (\<lambda>cond. jmap
     [(''type'', JStr (nc_type cond)), (''status'', JStr (nc_status cond)),
      (''reason'', JStr (nc_reason cond)), (''message'', JStr (nc_message cond))])
     (filter notable (nd_conditions node)))"

definition node_json :: "Node \<Rightarrow> json" where
  "node_json n = jmap
     [(''node'', JStr (nd_name n)), (''allocatable'', nd_allocatable n), (''taints'', nd_taints n),
      (''conditions'', notableConditions n)]"

definition nodeStatus :: "'w kube \<Rightarrow> Target \<Rightarrow> ('w, string) op" where
  "nodeStatus k target w =
     (let nodeName = sp_nodeName (pod_spec (tg_pod target)) in
      if nodeName = [] then
        read_then (kListNodes k) (\<lambda>nodes. Inr (toJSON (jmap
          [(''note'', JStr ''the pod is unscheduled; reporting all nodes so capacity can be compared against its requests''),
           (''nodes'', JArr (map node_json nodes))]))) w
      else read_then (kGetNode k nodeName) (\<lambda>node. Inr (toJSON (node_json node))) w)"

subsection \<open>Sibling pods and resource usage\<close>

definition sibling_json :: "string \<Rightarrow> Pod \<Rightarrow> json" where
  "sibling_json self p = jmap
     ([(''pod'', JStr (pod_name p)), (''phase'', JStr (po_phase (pod_status p))),
       (''self'', JBool (pod_name p = self))] @
      (case po_containerStatuses (pod_status p) of [] \<Rightarrow> []
       | cs # _ \<Rightarrow>
           [(''ready'', JBool (cs_ready cs)), (''restarts'', jint (cs_restartCount cs))] @
           opt_entry ''waiting'' (map_option (\<lambda>wt. JStr (wa_reason wt)) (cz_waiting (cs_state cs)))))"

definition siblingPods :: "'w kube \<Rightarrow> Target \<Rightarrow> ('w, string) op" where
  "siblingPods k target =
     read_then (kListPodsLabelled k (tg_ns target) (pod_labels (tg_pod target)))
       (\<lambda>pods. if length pods \<le> 1
               then Inl (errorf ''the workload has no other pods to compare against'')
               else Inr (toJSON (JArr (map (sibling_json (pod_name (tg_pod target))) pods))))"

definition metrics_path :: "string \<Rightarrow> string \<Rightarrow> string" where
  "metrics_path ns n = ''/apis/metrics.k8s.io/v1beta1/namespaces/'' @ ns @ ''/pods/'' @ n"

definition resourceUsage :: "'w kube \<Rightarrow> Target \<Rightarrow> ('w, string) op" where
  "resourceUsage k target w =
     (case kGetRaw k (metrics_path (tg_ns target) (pod_name (tg_pod target))) w of
        (Inl e, w') \<Rightarrow>
          (if err_kind e = ENotFound
           then (Inl (errorf ''no metrics server is installed in this cluster''), w')
           else (Inl (wrapf ''reading pod metrics: '' (summarise e)), w'))
      | (Inr raw, w') \<Rightarrow> (Inr raw, w'))"

subsection \<open>One read path\<close>

fun gather :: "'w kube \<Rightarrow> Target \<Rightarrow> EvidenceKind \<Rightarrow> ('w, string) op" where
  "gather k target EvidencePreviousLogs w = logs k target True w"
| "gather k target EvidenceCurrentLogs w = logs k target False w"
| "gather k target EvidenceEvents w = events k target w"
| "gather k target EvidenceWorkloadSpec w = workloadSpec k target w"
| "gather k target EvidenceRolloutHistory w = rolloutHistory k target w"
| "gather k target EvidenceConfigReferences w = configReferences k target w"
| "gather k target EvidenceServiceEndpoints w = serviceEndpoints k target w"
| "gather k target EvidenceNodeStatus w = nodeStatus k target w"
| "gather k target EvidenceSiblingPods w = siblingPods k target w"
| "gather k target EvidenceResourceUsage w = resourceUsage k target w"
| "gather k target (EvidenceOther s) w = (Inl (errorf (''no collector for '' @ s)), w)"

subsection \<open>Collection\<close>

text \<open>The first status of the target container, or the first of all when no container is named.\<close>

definition container_facts :: "ContainerStatus \<Rightarrow> Evidence \<Rightarrow> Evidence" where
  "container_facts cs ev =
     (let ev1 = ev\<lparr>ev_restartCount := cs_restartCount cs\<rparr>;
          term = (case cz_terminated (cs_lastTerminationState cs) of
                    Some t \<Rightarrow> Some t | None \<Rightarrow> cz_terminated (cs_state cs));
          ev2 = (case term of None \<Rightarrow> ev1
                 | Some t \<Rightarrow> ev1\<lparr>ev_terminationReason := te_reason t, ev_exitCode := Some (te_exitCode t)\<rparr>)
      in case cz_waiting (cs_state cs) of None \<Rightarrow> ev2
         | Some wait \<Rightarrow> ev2\<lparr>ev_waitingReason := wa_reason wait\<rparr>)"

definition populateContainerFacts :: "Evidence \<Rightarrow> Target \<Rightarrow> Evidence" where
  "populateContainerFacts ev target =
     (case List.find (\<lambda>cs. tg_container target = [] \<or> cs_name cs = tg_container target)
             (po_containerStatuses (pod_status (tg_pod target))) of
        None \<Rightarrow> ev | Some cs \<Rightarrow> container_facts cs ev)"

text \<open>The item for one kind that applies, and how many values were redacted in it.\<close>

definition collect_item :: "EvidenceKind \<Rightarrow> bool \<Rightarrow> goerror + string \<Rightarrow> EvidenceItem \<times> int" where
  "collect_item kind required r =
     (case r of
        Inl err \<Rightarrow>
          (\<lparr>ei_kind = kind, ei_status = CollectionUnavailable, ei_required = required,
            ei_reason = err_msg err, ei_content = []\<rparr>, 0)
      | Inr content \<Rightarrow>
          if trim_space content = [] then
            (\<lparr>ei_kind = kind, ei_status = CollectionUnavailable, ei_required = required,
              ei_reason = ''no content returned'', ei_content = []\<rparr>, 0)
          else (case Redact content of (redacted, count) \<Rightarrow>
            (\<lparr>ei_kind = kind, ei_status = CollectionCollected, ei_required = required,
              ei_reason = [], ei_content = Truncate redacted contentLimit\<rparr>, count)))"

definition not_applicable_item :: "FailureType \<Rightarrow> EvidenceKind \<Rightarrow> EvidenceItem" where
  "not_applicable_item ft kind =
     \<lparr>ei_kind = kind, ei_status = CollectionNotApplicable, ei_required = False,
      ei_reason = NotApplicableReason ft kind, ei_content = []\<rparr>"

fun collect_loop ::
    "'w kube \<Rightarrow> Target \<Rightarrow> EvidenceKind list \<Rightarrow> Evidence \<Rightarrow> int \<Rightarrow> 'w \<Rightarrow> (Evidence \<times> int) \<times> 'w" where
  "collect_loop k target [] ev redactions w = ((ev, redactions), w)"
| "collect_loop k target (kind # kinds) ev redactions w =
     (let requirement = RequirementFor (tg_failureType target) kind in
      if requirement = NotApplicable then
        collect_loop k target kinds
          (ev\<lparr>ev_items := ev_items ev @ [not_applicable_item (tg_failureType target) kind]\<rparr>) redactions w
      else
        (case gather k target kind w of (r, w') \<Rightarrow>
         (case collect_item kind (requirement = Required) r of (item, count) \<Rightarrow>
            let ev1 = (if ei_required item \<and> ei_status item \<noteq> CollectionCollected
                       then ev\<lparr>ev_missingRequired := ev_missingRequired ev @ [kind]\<rparr> else ev)
            in collect_loop k target kinds (ev1\<lparr>ev_items := ev_items ev1 @ [item]\<rparr>)
                 (wrap32 (redactions + count)) w')))"

definition Collect :: "'w kube \<Rightarrow> Target \<Rightarrow> 'w \<Rightarrow> Evidence \<times> 'w" where
  "Collect k target w =
     (case collect_loop k target allKinds (populateContainerFacts Evidence_zero target) 0 w of
        ((ev, redactions), w') \<Rightarrow>
          (ev\<lparr>ev_redactedFields := redactions, ev_complete := (ev_missingRequired ev = [])\<rparr>, w'))"

end
