(* ===== verification/Reads.thy ===== *)
theory Reads
  imports Collector
begin

text \<open>
  The interface between the readers of the cluster (the collector, the broker) and the client they
  read through, as a locale: \<open>R\<close> relates the worlds before and after any of the read operations on
  a namespace that is \<open>inside\<close>. What a reader does is then a chain of \<open>R\<close> steps, so it inherits
  from the single requests whatever \<open>R\<close> says: with the logged client, that nothing is written
  and that nothing outside one namespace is asked for.
\<close>

locale reader =
  fixes k :: "'w kube" and R :: "'w \<Rightarrow> 'w \<Rightarrow> bool" and inside :: "string \<Rightarrow> bool"
  assumes refl [simp, intro]: "R w w"
    and trans: "R u v \<Longrightarrow> R v w \<Longrightarrow> R u w"
    and get_pod: "inside ns \<Longrightarrow> R w (snd (kGetPod k ns n w))"
    and list_pods: "inside ns \<Longrightarrow> R w (snd (kListPods k ns w))"
    and list_pods_labelled: "inside ns \<Longrightarrow> R w (snd (kListPodsLabelled k ns lbs w))"
    and get_replica_set: "inside ns \<Longrightarrow> R w (snd (kGetReplicaSet k ns n w))"
    and list_replica_sets: "inside ns \<Longrightarrow> R w (snd (kListReplicaSets k ns s w))"
    and get_deployment: "inside ns \<Longrightarrow> R w (snd (kGetDeployment k ns n w))"
    and get_stateful_set: "inside ns \<Longrightarrow> R w (snd (kGetStatefulSet k ns n w))"
    and get_daemon_set: "inside ns \<Longrightarrow> R w (snd (kGetDaemonSet k ns n w))"
    and get_config_map: "inside ns \<Longrightarrow> R w (snd (kGetConfigMap k ns n w))"
    and get_secret: "inside ns \<Longrightarrow> R w (snd (kGetSecret k ns n w))"
    and list_services: "inside ns \<Longrightarrow> R w (snd (kListServices k ns w))"
    and services_inside: "inside ns \<Longrightarrow> kListServices k ns w = (Inr svcs, w') \<Longrightarrow>
      list_all (\<lambda>svc. inside (sv_namespace svc)) svcs"
    and pod_inside: "inside ns \<Longrightarrow> kGetPod k ns n w = (Inr pod, w') \<Longrightarrow> inside (pod_namespace pod)"
    and list_endpoint_slices: "inside ns \<Longrightarrow> R w (snd (kListEndpointSlices k ns s w))"
    and get_node: "R w (snd (kGetNode k n w))"
    and list_nodes: "R w (snd (kListNodes k w))"
    and list_events: "inside ns \<Longrightarrow> R w (snd (kListEvents k ns p l w))"
    and read_logs: "inside ns \<Longrightarrow> R w (snd (kLogs k ns p c b l w))"
    and read_metrics: "inside ns \<Longrightarrow> R w (snd (kGetRaw k (metrics_path ns n) w))"
    and list_diagnoses: "inside ns \<Longrightarrow> R w (snd (kListDiagnoses k ns w))"
begin

lemma logs_R: "inside (tg_ns t) \<Longrightarrow> R w (snd (logs k t b w))"
  using read_logs [of "tg_ns t" w]
  by (auto simp: logs_def split: prod.splits sum.splits) (metis snd_conv)+

lemma events_R: "inside (tg_ns t) \<Longrightarrow> R w (snd (events k t w))"
  using list_events [of "tg_ns t" w]
  by (auto simp: events_def split: prod.splits sum.splits) (metis snd_conv)+

lemma read_then_R: "R w (snd (m w)) \<Longrightarrow> R w (snd (read_then m f w))"
  by (auto simp: read_then_def split: prod.splits sum.splits)

lemma workloadSpec_R: "inside (tg_ns t) \<Longrightarrow> R w (snd (workloadSpec k t w))"
  using get_deployment [of "tg_ns t" w "tg_ownerName t"] get_stateful_set [of "tg_ns t" w "tg_ownerName t"]
    get_daemon_set [of "tg_ns t" w "tg_ownerName t"]
  by (auto simp: workloadSpec_def podTemplate_def split: prod.splits sum.splits)

lemma rolloutHistory_R:
  assumes "inside (tg_ns t)" shows "R w (snd (rolloutHistory k t w))"
proof (cases "tg_ownerKind t = ''Deployment''")
  case True
  obtain r w1 where d: "kGetDeployment k (tg_ns t) (tg_ownerName t) w = (r, w1)" by fastforce
  then have "R w w1" using get_deployment [OF assms, of w "tg_ownerName t"] by simp
  moreover have "R w1 (snd (read_then (kListReplicaSets k (tg_ns t) s) f w1))" for s f
    by (rule read_then_R) (rule list_replica_sets [OF assms])
  ultimately show ?thesis
    using True d by (auto simp: rolloutHistory_def split: sum.splits intro: trans)
qed (simp add: rolloutHistory_def)

lemma read_reference_R: "inside ns \<Longrightarrow> R w (snd (read_reference k ns kn w))"
  using get_config_map [of ns w "snd kn"] get_secret [of ns w "snd kn"]
  by (auto simp: read_reference_def split: prod.splits sum.splits)

lemma record_refs_R: "inside ns \<Longrightarrow> R w (snd (record_refs k ns kns seen refs w))"
proof (induction kns arbitrary: seen refs w)
  case (Cons kn kns)
  obtain kind name where kn: "kn = (kind, name)" by fastforce
  obtain ref w' where r: "read_reference k ns kn w = (ref, w')" by fastforce
  then have "R w w'" using read_reference_R [OF Cons.prems, of w kn] by simp
  then show ?case using Cons kn r by (auto simp: Let_def intro: trans)
qed simp

lemma configReferences_R: "inside (tg_ns t) \<Longrightarrow> R w (snd (configReferences k t w))"
  using record_refs_R [of "tg_ns t" w]
  by (auto simp: configReferences_def split: prod.splits) (metis snd_conv)+

lemma service_loop_R:
  "list_all (\<lambda>svc. inside (sv_namespace svc)) svcs \<Longrightarrow> R w (snd (service_loop k pod svcs matched w))"
proof (induction svcs arbitrary: matched w)
  case (Cons svc svcs)
  obtain r w' where r: "kListEndpointSlices k (sv_namespace svc) (sv_name svc) w = (r, w')" by fastforce
  then have "R w w'" using Cons.prems list_endpoint_slices [of "sv_namespace svc" w "sv_name svc"] by simp
  then show ?case using Cons r by (auto simp: Let_def intro: trans)
qed simp

lemma serviceEndpoints_R:
  assumes "inside (tg_ns t)" shows "R w (snd (serviceEndpoints k t w))"
proof -
  obtain r w1 where r: "kListServices k (tg_ns t) w = (r, w1)" by fastforce
  then have w1: "R w w1" using list_services [OF assms, of w] by simp
  show ?thesis
  proof (cases r)
    case (Inr svcs)
    then have "R w1 (snd (service_loop k (tg_pod t) svcs [] w1))"
      using services_inside [OF assms] r service_loop_R by blast
    then show ?thesis using r Inr w1 by (auto simp: serviceEndpoints_def split: prod.splits intro: trans)
  qed (use r w1 in \<open>simp add: serviceEndpoints_def\<close>)
qed

lemma nodeStatus_R: "R w (snd (nodeStatus k t w))"
  by (simp add: nodeStatus_def Let_def read_then_R get_node list_nodes)

lemma siblingPods_R: "inside (tg_ns t) \<Longrightarrow> R w (snd (siblingPods k t w))"
  by (simp add: siblingPods_def read_then_R list_pods_labelled)

lemma resourceUsage_R: "inside (tg_ns t) \<Longrightarrow> R w (snd (resourceUsage k t w))"
  using read_metrics [of "tg_ns t" w "pod_name (tg_pod t)"]
  by (auto simp: resourceUsage_def split: prod.splits sum.splits)

lemma gather_R: "inside (tg_ns t) \<Longrightarrow> R w (snd (gather k t kind w))"
  by (cases kind) (simp_all add: logs_R events_R workloadSpec_R rolloutHistory_R configReferences_R
      serviceEndpoints_R nodeStatus_R siblingPods_R resourceUsage_R)

lemma collect_loop_R:
  "inside (tg_ns t) \<Longrightarrow> R w (snd (collect_loop k t kinds ev n w))"
proof (induction kinds arbitrary: ev n w)
  case (Cons kind kinds)
  obtain r w' where r: "gather k t kind w = (r, w')" by fastforce
  then have "R w w'" using gather_R [OF Cons.prems, of w kind] by simp
  then show ?case using Cons r by (auto simp: Let_def split: prod.splits intro: trans)
qed simp

lemma Collect_R: "inside (tg_ns t) \<Longrightarrow> R w (snd (Collect k t w))"
  using collect_loop_R [of t w allKinds "populateContainerFacts Evidence_zero t" 0]
  by (auto simp: Collect_def split: prod.splits)

end

subsection \<open>The logged client\<close>

text \<open>A request that reads, and one that reads in a namespace; nodes belong to none.\<close>

fun reads_in :: "(string \<Rightarrow> bool) \<Rightarrow> request \<Rightarrow> bool" where
  "reads_in P (ReqGet res ns n) = P ns"
| "reads_in P (ReqList res ns s) = P ns"
| "reads_in P (ReqListLabelled res ns l) = P ns"
| "reads_in P (ReqLogs ns p c b l) = P ns"
| "reads_in P (ReqRaw path) = (\<exists>ns n. P ns \<and> path = metrics_path ns n)"
| "reads_in P (ReqGetNode n) = True"
| "reads_in P ReqListNodes = True"
| "reads_in P (ReqCreate d) = False"
| "reads_in P (ReqUpdateStatus d) = False"

lemma reads_in_not_write: "reads_in P r \<Longrightarrow> \<not> is_write r"
  by (cases r) auto

text \<open>What a request for a namespace returns lies in it.\<close>

definition namespaced :: "'w kube \<Rightarrow> string \<Rightarrow> bool" where
  "namespaced k ns \<longleftrightarrow>
     (\<forall>w svcs w'. kListServices k ns w = (Inr svcs, w') \<longrightarrow> list_all (\<lambda>svc. sv_namespace svc = ns) svcs) \<and>
     (\<forall>n w pod w'. kGetPod k ns n w = (Inr pod, w') \<longrightarrow> pod_namespace pod = ns)"

lemma reader_logged:
  assumes "\<And>ns. inside ns \<Longrightarrow> inside = (\<lambda>_. True) \<or> namespaced k ns \<and> inside = ((=) ns)"
  shows "reader (logged k) (logs_only (reads_in inside)) inside"
proof
  fix ns w svcs w'
  assume i: "inside ns" and l: "kListServices (logged k) ns w = (Inr svcs, w')"
  then have "\<exists>u u'. kListServices k ns u = (Inr svcs, u')"
    by (auto simp: logged_def noted_def split: prod.splits)
  with assms [OF i] show "list_all (\<lambda>svc. inside (sv_namespace svc)) svcs"
    by (auto simp: namespaced_def list_all_iff) metis
next
  fix ns n w pod w'
  assume i: "inside ns" and g: "kGetPod (logged k) ns n w = (Inr pod, w')"
  then have "\<exists>u u'. kGetPod k ns n u = (Inr pod, u')"
    by (auto simp: logged_def noted_def split: prod.splits)
  with assms [OF i] show "inside (pod_namespace pod)" by (auto simp: namespaced_def) metis
qed (auto simp: logged_def intro: logs_only_trans)

interpretation logged: reader "logged k" "logs_only (reads_in (\<lambda>_. True))" "\<lambda>_. True" for k
  by (rule reader_logged) simp

end
