(* ===== verification/AgentTypes.thy ===== *)
theory AgentTypes
  imports Json
begin

text \<open>
  The vocabulary of \<open>src/internal/agent\<close> (\<open>model.go\<close>, \<open>broker.go\<close>): messages, tool calls and
  results, and the two interfaces the investigation is built on. An interface is a record of its
  methods; each takes and returns the world. \<open>ProviderState\<close>, of type \<open>any\<close>, is the type
  parameter \<open>'p\<close>.
\<close>

datatype Role = RoleUser | RoleModel | RoleOther string

record ToolCall =
  call_id :: string
  call_name :: string
  call_arguments :: string

record ToolResult =
  res_callID :: string
  res_name :: string
  res_content :: string
  res_isError :: bool

record 'p Message =
  msg_role :: Role
  msg_text :: string
  msg_toolCalls :: "ToolCall list"
  msg_toolResults :: "ToolResult list"
  msg_providerState :: "'p option"

record Usage =
  us_inputTokens :: int
  us_outputTokens :: int

record ToolSpec =
  ts_name :: string
  ts_description :: string
  ts_inputSchema :: string

record 'p Request =
  rq_system :: string
  rq_messages :: "'p Message list"
  rq_tools :: "ToolSpec list"

record 'p Response =
  rs_message :: "'p Message"
  rs_usage :: Usage

record ('w, 'p) Model =
  md_name :: string
  md_generate :: "'p Request \<Rightarrow> 'w \<Rightarrow> (goerror + 'p Response) \<times> 'w"

record 'w Broker =
  bk_tools :: "ToolSpec list"
  bk_call :: "string \<Rightarrow> string \<Rightarrow> 'w \<Rightarrow> (goerror + string) \<times> 'w"

text \<open>\<open>ErrDenied\<close> wrapped with the reason for a refusal.\<close>

definition denied :: "string \<Rightarrow> goerror" where
  "denied m = \<lparr>err_kind = EDenied, err_msg = ''tool call denied: '' @ m\<rparr>"

lemma denied_sel [simp]: "err_kind (denied m) = EDenied" "err_msg (denied m) = ''tool call denied: '' @ m"
  by (simp_all add: denied_def)

text \<open>Text written with a backquote for each double quote, which no text of the program contains.\<close>

definition dq :: "string \<Rightarrow> string" where
  "dq s = map (\<lambda>c. if c = CHR ''`'' then CHR 0x22 else c) s"

text \<open>A raw string of several lines, each with the number of tabs before it.\<close>

definition raw_lines :: "(nat \<times> string) list \<Rightarrow> string" where
  "raw_lines ls = join [newline] (map (\<lambda>(n, s). replicate n CHR 0x09 @ dq s) ls)"

end
