(* ===== verification/Tools.thy ===== *)
theory Tools
  imports Reads AgentTypes
begin

text \<open>
  \<open>src/internal/tools\<close> (\<open>scope.go\<close>, \<open>catalog.go\<close>, \<open>broker.go\<close>, \<open>mcp.go\<close>): the scoped, scrubbed
  and audited read path the agent uses. A broker is the client \<open>k\<close>, the scope and the argument
  \<open>tenv\<close> of library texts; its only state is the audit record, which \<open>Call\<close> carries in the world.
\<close>

definition resultLimit :: nat where "resultLimit = 8192"
definition defaultMaxCalls :: int where "defaultMaxCalls = 25"
definition auditFieldLimit :: nat where "auditFieldLimit = 512"
definition similarLimit :: nat where "similarLimit = 10"

record Scope =
  sc_namespace :: string
  sc_diagnosisName :: string
  sc_failureType :: FailureType
  sc_container :: string
  sc_targetPod :: string
  sc_ownerKind :: string
  sc_ownerName :: string
  sc_maxCalls :: int

record tenv =
  te_uprint :: "nat \<Rightarrow> bool"
  te_jerr :: "string \<Rightarrow> string"

subsection \<open>Scope\<close>

definition ScopeForDiagnosis :: "Diagnosis \<Rightarrow> int \<Rightarrow> Scope" where
  "ScopeForDiagnosis d maxCalls =
     (let spec = dg_spec d; t = ds_target spec;
          scope = \<lparr>sc_namespace = dg_namespace d, sc_diagnosisName = dg_name d,
                   sc_failureType = ds_failureType spec, sc_container = ds_container spec,
                   sc_targetPod = tr_name t, sc_ownerKind = ''Pod'', sc_ownerName = tr_name t,
                   sc_maxCalls = maxCalls\<rparr>
      in case tr_owner t of None \<Rightarrow> scope
         | Some owner \<Rightarrow> scope\<lparr>sc_ownerKind := or_kind owner, sc_ownerName := or_name owner\<rparr>)"

definition inWorkload :: "'w kube \<Rightarrow> Scope \<Rightarrow> Pod \<Rightarrow> ('w, bool) op" where
  "inWorkload k sc pod w =
     (if pod_namespace pod \<noteq> sc_namespace sc then (Inr False, w)
      else if sc_ownerKind sc = ''Pod'' then (Inr (pod_name pod = sc_ownerName sc), w)
      else (case kControllerOf k (pod_ownerReferences pod) of
              None \<Rightarrow> (Inr False, w)
            | Some ref \<Rightarrow>
                if ow_kind ref = sc_ownerKind sc \<and> ow_name ref = sc_ownerName sc then (Inr True, w)
                else if ow_kind ref \<noteq> ''ReplicaSet'' \<or> sc_ownerKind sc \<noteq> ''Deployment'' then (Inr False, w)
                else (case kGetReplicaSet k (pod_namespace pod) (ow_name ref) w of
                        (Inl e, w') \<Rightarrow> if err_kind e = ENotFound then (Inr False, w') else (Inl e, w')
                      | (Inr rs, w') \<Rightarrow>
                          (Inr (case kControllerOf k (rs_ownerReferences rs) of None \<Rightarrow> False
                                | Some owner \<Rightarrow> ow_kind owner = ''Deployment'' \<and>
                                                 ow_name owner = sc_ownerName sc), w'))))"

fun first_member :: "'w kube \<Rightarrow> Scope \<Rightarrow> Pod list \<Rightarrow> ('w, Pod) op" where
  "first_member k sc [] w =
     (Inl (denied ''the diagnosed pod is gone and the workload has no remaining pods''), w)"
| "first_member k sc (p # ps) w =
     (case inWorkload k sc p w of
        (Inl e, w') \<Rightarrow> (Inl e, w')
      | (Inr member, w') \<Rightarrow> if member then (Inr p, w') else first_member k sc ps w')"

definition defaultPod :: "'w kube \<Rightarrow> Scope \<Rightarrow> ('w, Pod) op" where
  "defaultPod k sc w =
     (case kGetPod k (sc_namespace sc) (sc_targetPod sc) w of
        (Inr pod, w1) \<Rightarrow> (Inr pod, w1)
      | (Inl e, w1) \<Rightarrow>
          if err_kind e \<noteq> ENotFound then (Inl e, w1)
          else (case kListPods k (sc_namespace sc) w1 of
                  (Inl e, w2) \<Rightarrow> (Inl e, w2)
                | (Inr pods, w2) \<Rightarrow> first_member k sc pods w2))"

definition resolvePod :: "tenv \<Rightarrow> 'w kube \<Rightarrow> Scope \<Rightarrow> string \<Rightarrow> ('w, Pod) op" where
  "resolvePod T k sc name w =
     (if name = [] then defaultPod k sc w
      else (case kGetPod k (sc_namespace sc) name w of
              (Inl e, w1) \<Rightarrow>
                if err_kind e = ENotFound
                then (Inl (denied (''pod '' @ quote (te_uprint T) name @
                        '' does not exist in the investigated workload'')), w1)
                else (Inl e, w1)
            | (Inr pod, w1) \<Rightarrow>
                (case inWorkload k sc pod w1 of
                   (Inl e, w2) \<Rightarrow> (Inl e, w2)
                 | (Inr member, w2) \<Rightarrow>
                     if member then (Inr pod, w2)
                     else (Inl (denied (''pod '' @ quote (te_uprint T) name @
                             '' is outside the investigated workload '' @ sc_ownerKind sc @ ''/'' @
                             sc_ownerName sc)), w2))))"

definition target_for :: "Scope \<Rightarrow> Pod \<Rightarrow> string \<Rightarrow> Target" where
  "target_for sc pod container =
     \<lparr>tg_pod = pod, tg_container = (if container = [] then sc_container sc else container),
      tg_failureType = sc_failureType sc, tg_ownerKind = sc_ownerKind sc, tg_ownerName = sc_ownerName sc\<rparr>"

definition workloadTarget :: "Scope \<Rightarrow> Target" where
  "workloadTarget sc =
     \<lparr>tg_pod = Pod_named (sc_namespace sc) (sc_targetPod sc), tg_container = sc_container sc,
      tg_failureType = sc_failureType sc, tg_ownerKind = sc_ownerKind sc, tg_ownerName = sc_ownerName sc\<rparr>"

definition hasContainer :: "Pod \<Rightarrow> string \<Rightarrow> bool" where
  "hasContainer pod name \<longleftrightarrow> list_ex (\<lambda>c. co_name c = name) (sp_containers (pod_spec pod))"

subsection \<open>Arguments\<close>

definition decodeArgs :: "tenv \<Rightarrow> (string \<Rightarrow> json \<Rightarrow> 'a \<Rightarrow> 'a option) \<Rightarrow> 'a \<Rightarrow> string \<Rightarrow> goerror + 'a" where
  "decodeArgs T store zero arguments =
     (let t = trim_space arguments;
          trimmed = (if t = [] \<or> t = ''null'' then [CHR 0x7B, CHR 0x7D] else t) in
      case dec_value trimmed of
        None \<Rightarrow> Inl (denied (''invalid arguments: '' @ te_jerr T trimmed))
      | Some (v, rest) \<Rightarrow>
          (case store_struct store v zero of
             None \<Rightarrow> Inl (denied (''invalid arguments: '' @ te_jerr T trimmed))
           | Some a \<Rightarrow> if dec_more rest then Inl (denied ''invalid arguments: trailing content'') else Inr a))"

record logArgs =
  la_pod :: string
  la_container :: string
  la_previous :: bool

definition store_podArgs :: "string \<Rightarrow> json \<Rightarrow> string \<Rightarrow> string option" where
  "store_podArgs key j pod = (if key_is ''pod'' key then store_str j pod else None)"

definition store_logArgs :: "string \<Rightarrow> json \<Rightarrow> logArgs \<Rightarrow> logArgs option" where
  "store_logArgs key j a =
     (if key_is ''pod'' key then map_option (\<lambda>s. a\<lparr>la_pod := s\<rparr>) (store_str j (la_pod a))
      else if key_is ''container'' key then map_option (\<lambda>s. a\<lparr>la_container := s\<rparr>) (store_str j (la_container a))
      else if key_is ''previous'' key then map_option (\<lambda>b. a\<lparr>la_previous := b\<rparr>) (store_bool j (la_previous a))
      else None)"

definition store_similarArgs :: "string \<Rightarrow> json \<Rightarrow> string \<Rightarrow> string option" where
  "store_similarArgs key j ft = (if key_is ''failureType'' key then store_str j ft else None)"

definition store_noArgs :: "string \<Rightarrow> json \<Rightarrow> unit \<Rightarrow> unit option" where
  "store_noArgs key j u = None"

subsection \<open>Handlers\<close>

definition runLogs :: "tenv \<Rightarrow> 'w kube \<Rightarrow> Scope \<Rightarrow> string \<Rightarrow> ('w, string) op" where
  "runLogs T k sc arguments w =
     (case decodeArgs T store_logArgs \<lparr>la_pod = [], la_container = [], la_previous = False\<rparr> arguments of
        Inl e \<Rightarrow> (Inl e, w)
      | Inr args \<Rightarrow>
          (case resolvePod T k sc (la_pod args) w of
             (Inl e, w1) \<Rightarrow> (Inl e, w1)
           | (Inr pod, w1) \<Rightarrow>
               let target = target_for sc pod (la_container args) in
               if tg_container target \<noteq> [] \<and> \<not> hasContainer pod (tg_container target)
               then (Inl (denied (''pod '' @ quote (te_uprint T) (pod_name pod) @ '' has no container '' @
                       quote (te_uprint T) (tg_container target))), w1)
               else gather k target
                      (if la_previous args then EvidencePreviousLogs else EvidenceCurrentLogs) w1))"

definition podEvidence :: "EvidenceKind \<Rightarrow> tenv \<Rightarrow> 'w kube \<Rightarrow> Scope \<Rightarrow> string \<Rightarrow> ('w, string) op" where
  "podEvidence kind T k sc arguments w =
     (case decodeArgs T store_podArgs [] arguments of
        Inl e \<Rightarrow> (Inl e, w)
      | Inr name \<Rightarrow>
          (case resolvePod T k sc name w of
             (Inl e, w1) \<Rightarrow> (Inl e, w1)
           | (Inr pod, w1) \<Rightarrow> gather k (target_for sc pod []) kind w1))"

definition workloadEvidence :: "EvidenceKind \<Rightarrow> tenv \<Rightarrow> 'w kube \<Rightarrow> Scope \<Rightarrow> string \<Rightarrow> ('w, string) op" where
  "workloadEvidence kind T k sc arguments w =
     (case decodeArgs T store_noArgs () arguments of
        Inl e \<Rightarrow> (Inl e, w)
      | Inr u \<Rightarrow> gather k (workloadTarget sc) kind w)"

definition similar_entry :: "Diagnosis \<Rightarrow> json" where
  "similar_entry d =
     (let st = dg_status d in jmap
       ([(''diagnosis'', JStr (dg_name d)), (''created'', JStr (format_utc (dg_creationTimestamp d))),
         (''phase'', JStr (Phase_str (st_phase st)))] @
        opt_entry ''workload'' (map_option (\<lambda>o'. JStr (or_kind o' @ ''/'' @ or_name o')) (tr_owner (ds_target (dg_spec d)))) @
        (case st_hypotheses st of [] \<Rightarrow> [] | h # _ \<Rightarrow> [(''rootCause'', JStr (ah_rootCause h))]) @
        (case st_plan st of None \<Rightarrow> []
         | Some p \<Rightarrow> opt_entry ''action'' (map_option (\<lambda>a. JStr (ActionType_str (aa_type a))) (pl_selected p))) @
        (case st_remediation st of None \<Rightarrow> []
         | Some r \<Rightarrow> opt_entry ''verified'' (map_option JBool (rm_verified r)))))"

definition similar_to :: "Scope \<Rightarrow> FailureType \<Rightarrow> Diagnosis \<Rightarrow> bool" where
  "similar_to sc ft d \<longleftrightarrow> dg_name d \<noteq> sc_diagnosisName sc \<and> ds_failureType (dg_spec d) = ft"

definition runSimilar :: "tenv \<Rightarrow> 'w kube \<Rightarrow> Scope \<Rightarrow> string \<Rightarrow> ('w, string) op" where
  "runSimilar T k sc arguments w =
     (case decodeArgs T store_similarArgs [] arguments of
        Inl e \<Rightarrow> (Inl e, w)
      | Inr name \<Rightarrow>
          let ft = (if name = [] then sc_failureType sc else FailureType_of name) in
          (case kListDiagnoses k (sc_namespace sc) w of
             (Inl e, w1) \<Rightarrow> (Inl e, w1)
           | (Inr items, w1) \<Rightarrow>
               let found = take similarLimit
                     (filter (similar_to sc ft) (sort_slice (kOrder k) dg_creationTimestamp items)) in
               if found = []
               then (Inr (''no earlier '' @ FailureType_str ft @ '' diagnoses in this namespace''), w1)
               else (Inr (toJSON (JArr (map similar_entry found))), w1)))"

subsection \<open>Catalogue\<close>

datatype tool_run =
  RunLogs | PodEvidence EvidenceKind | WorkloadEvidence EvidenceKind | RunSimilar

fun run_tool :: "tool_run \<Rightarrow> tenv \<Rightarrow> 'w kube \<Rightarrow> Scope \<Rightarrow> string \<Rightarrow> ('w, string) op" where
  "run_tool RunLogs = runLogs"
| "run_tool (PodEvidence kind) = podEvidence kind"
| "run_tool (WorkloadEvidence kind) = workloadEvidence kind"
| "run_tool RunSimilar = runSimilar"

definition schemaNone :: string where
  "schemaNone = dq ''{`type`:`object`,`properties`:{},`additionalProperties`:false}''"

definition schemaPod :: string where
  "schemaPod = raw_lines
     [(0, ''{`type`:`object`,`properties`:{''),
      (2, ''`pod`:{`type`:`string`,`description`:`Pod name. Omit to use the diagnosed pod, or a live pod of the same workload if it has been replaced.`}''),
      (1, ''},`additionalProperties`:false}'')]"

definition schemaLogs :: string where
  "schemaLogs = raw_lines
     [(0, ''{`type`:`object`,`properties`:{''),
      (2, ''`pod`:{`type`:`string`,`description`:`Pod name. Omit to use the diagnosed pod.`},''),
      (2, ''`container`:{`type`:`string`,`description`:`Container name. Omit to use the failing container.`},''),
      (2, ''`previous`:{`type`:`boolean`,`description`:`Read the instance that terminated rather than the running one. A restarting container records its fatal error only in the previous instance.`}''),
      (1, ''},`additionalProperties`:false}'')]"

definition schemaSimilar :: string where
  "schemaSimilar = raw_lines
     [(0, ''{`type`:`object`,`properties`:{''),
      (2, ''`failureType`:{`type`:`string`,`description`:`Failure type to match. Omit to use the type under investigation.`}''),
      (1, ''},`additionalProperties`:false}'')]"

definition spec :: "string \<Rightarrow> string \<Rightarrow> string \<Rightarrow> ToolSpec" where
  "spec name description schema =
     \<lparr>ts_name = name, ts_description = description, ts_inputSchema = schema\<rparr>"

definition catalog :: "(ToolSpec \<times> tool_run) list" where
  "catalog =
     [(spec ''get_pod_logs'' ''Read container output. Use previous=true for a container that has restarted, since its fatal error is recorded only by the instance that died.'' schemaLogs,
       RunLogs),
      (spec ''get_pod_events'' (''Read a pod'' @ [CHR 0x27] @ ''s events, most recent first. Scheduler verdicts, image pull errors, and missing ConfigMap names appear here.'') schemaPod,
       PodEvidence EvidenceEvents),
      (spec ''get_workload_spec'' (''Read the owning workload'' @ [CHR 0x27] @ ''s pod template: images, commands, resource requests and limits, probes, and ports.'') schemaNone,
       WorkloadEvidence EvidenceWorkloadSpec),
      (spec ''get_recent_changes'' (''Read the workload'' @ [CHR 0x27] @ ''s recent revisions with their creation times and container specs. Use this to establish whether a change shortly preceded the failure.'') schemaNone,
       WorkloadEvidence EvidenceRolloutHistory),
      (spec ''get_related_pods'' ''Read the state of every pod in the same workload, to distinguish one unhealthy pod from a workload wide fault.'' schemaNone,
       PodEvidence EvidenceSiblingPods),
      (spec ''get_service_endpoints'' ''Read the Services selecting a pod and whether that pod is currently serving traffic through them.'' schemaPod,
       PodEvidence EvidenceServiceEndpoints),
      (spec ''get_node_status'' (''Read the host node'' @ [CHR 0x27] @ ''s conditions, taints, and allocatable capacity. For an unscheduled pod, reads every node.'') schemaPod,
       PodEvidence EvidenceNodeStatus),
      (spec ''get_config_references'' ''Report whether every ConfigMap and Secret a pod references exists, with their key names. Values are never read.'' schemaPod,
       PodEvidence EvidenceConfigReferences),
      (spec ''get_resource_usage'' (''Read a pod'' @ [CHR 0x27] @ ''s observed CPU and memory consumption. Reports when no metrics server is installed.'') schemaPod,
       PodEvidence EvidenceResourceUsage),
      (spec ''search_similar_diagnoses'' ''Find earlier diagnoses in this namespace with the same failure type, with their conclusions and outcomes.'' schemaSimilar,
       RunSimilar)]"

text \<open>\<open>Registry.byName\<close> and \<open>Registry.Specs\<close>.\<close>

definition byName :: "string \<Rightarrow> tool_run option" where
  "byName name = map_option snd (List.find (\<lambda>t. ts_name (fst t) = name) catalog)"

definition Specs :: "ToolSpec list" where
  "Specs = map fst catalog"

text \<open>The loop of \<open>NewRegistry\<close>, whose map would keep the last of two tools of one name. That its fields
  are the catalogue and \<open>byName\<close> is \<open>NewRegistry_fields\<close> in ToolsProps.\<close>

record Registry =
  rg_tools :: "(ToolSpec \<times> tool_run) list"
  rg_byName :: "string \<Rightarrow> (ToolSpec \<times> tool_run) option"

definition enter_tool :: "Registry \<Rightarrow> ToolSpec \<times> tool_run \<Rightarrow> Registry" where
  "enter_tool r t =
     r\<lparr>rg_tools := rg_tools r @ [t], rg_byName := (rg_byName r)(ts_name (fst t) \<mapsto> t)\<rparr>"

definition NewRegistry :: Registry where
  "NewRegistry = foldl enter_tool \<lparr>rg_tools = [], rg_byName = Map.empty\<rparr> catalog"

definition BindTo :: "Scope \<Rightarrow> Scope" where
  "BindTo scope = (if sc_maxCalls scope \<le> 0 then scope\<lparr>sc_maxCalls := defaultMaxCalls\<rparr> else scope)"

subsection \<open>The broker\<close>

definition clip :: "string \<Rightarrow> nat \<Rightarrow> string" where
  "clip s limit = (if length s \<le> limit then s else take (limit - 3) s @ ''...'')"

definition compactJSON :: "string \<Rightarrow> string" where
  "compactJSON raw = (case json_compact raw of None \<Rightarrow> raw | Some s \<Rightarrow> s)"

definition summariseResult :: "string \<Rightarrow> string" where
  "summariseResult result =
     itoa (int (length result)) @ '' bytes: '' @ clip (trim_space (first_line (trim_space result))) 160"

definition call_inner :: "tenv \<Rightarrow> 'w kube \<Rightarrow> Scope \<Rightarrow> nat \<Rightarrow> string \<Rightarrow> string \<Rightarrow> ('w, string) op" where
  "call_inner T k sc made name arguments w =
     (if sc_maxCalls sc \<le> int made
      then (Inl (denied (''call ceiling of '' @ itoa (sc_maxCalls sc) @ '' reached for this investigation'')), w)
      else (case byName name of
              None \<Rightarrow> (Inl (denied (''unknown tool '' @ quote (te_uprint T) name)), w)
            | Some t \<Rightarrow>
                (case run_tool t T k sc arguments w of
                   (Inl e, w') \<Rightarrow> (Inl e, w')
                 | (Inr raw, w') \<Rightarrow> (Inr (Truncate (fst (Redact raw)) resultLimit), w'))))"

definition millis :: "int \<Rightarrow> int" where
  "millis d = quot64 d 1000000"

definition audit_record :: "string \<Rightarrow> string \<Rightarrow> goerror + string \<Rightarrow> gotime \<Rightarrow> gotime \<Rightarrow> ApiToolCall" where
  "audit_record name arguments r started ended =
     \<lparr>tc_tool = name, tc_arguments = clip (compactJSON arguments) auditFieldLimit,
      tc_summary = (case r of Inl e \<Rightarrow> [] | Inr result \<Rightarrow> clip (summariseResult result) auditFieldLimit),
      tc_durationMillis = millis (sat64 (ended - started)),
      tc_error = (case r of Inl e \<Rightarrow> clip (err_msg e) auditFieldLimit | Inr result \<Rightarrow> [])\<rparr>"

definition Call :: "tenv \<Rightarrow> 'w kube \<Rightarrow> Scope \<Rightarrow> string \<Rightarrow> string \<Rightarrow> ('w \<times> ApiToolCall list, string) op" where
  "Call T k sc name arguments s =
     (case s of (w, calls) \<Rightarrow>
      (case kNow k w of (started, w1) \<Rightarrow>
      (case call_inner T k sc (length calls) name arguments w1 of (r, w2) \<Rightarrow>
      (case kNow k w2 of (ended, w3) \<Rightarrow>
        (r, w3, calls @ [audit_record name arguments r started ended])))))"

definition IsDenied :: "goerror \<Rightarrow> bool" where
  "IsDenied e \<longleftrightarrow> err_kind e = EDenied"

text \<open>The broker as the agent sees it.\<close>

definition broker :: "tenv \<Rightarrow> 'w kube \<Rightarrow> Scope \<Rightarrow> ('w \<times> ApiToolCall list) Broker" where
  "broker T k sc = \<lparr>bk_tools = Specs, bk_call = Call T k sc\<rparr>"

subsection \<open>The MCP server\<close>

record CallToolResult =
  cr_isError :: bool
  cr_text :: string

text \<open>The handler the server registers for each tool of the broker, under that tool's name.\<close>

definition mcp_handler ::
    "tenv \<Rightarrow> 'w kube \<Rightarrow> Scope \<Rightarrow> string \<Rightarrow> string \<Rightarrow> 'w \<times> ApiToolCall list \<Rightarrow> CallToolResult \<times> ('w \<times> ApiToolCall list)" where
  "mcp_handler T k sc name arguments s =
     (case Call T k sc name arguments s of
        (Inl e, s') \<Rightarrow> (\<lparr>cr_isError = True, cr_text = err_msg e\<rparr>, s')
      | (Inr result, s') \<Rightarrow> (\<lparr>cr_isError = False, cr_text = result\<rparr>, s'))"

record mcp_tool =
  mt_name :: string
  mt_description :: string
  mt_inputSchema :: string
  mt_readOnlyHint :: bool
  mt_idempotentHint :: bool
  mt_destructiveHint :: bool

definition NewMCPServer :: "'w Broker \<Rightarrow> mcp_tool list" where
  "NewMCPServer b = map (\<lambda>s. \<lparr>mt_name = ts_name s, mt_description = ts_description s,
     mt_inputSchema = ts_inputSchema s, mt_readOnlyHint = True, mt_idempotentHint = True,
     mt_destructiveHint = False\<rparr>) (bk_tools b)"

end
