(* ===== verification/Schema.thy ===== *)
theory Schema
  imports Api
begin

text \<open>
  The schema that the kubebuilder markers in \<open>src/api/v1alpha1\<close> declare for the status of a
  Diagnosis, which the API server checks on every write: enumerations admit the declared constants
  only, a length counts code points, a list marked as a map has distinct keys. A status that
  breaks it is refused, and with it the whole update.
\<close>

definition max_length :: "nat \<Rightarrow> string \<Rightarrow> bool" where
  "max_length n s \<longleftrightarrow> length (runes s) \<le> n"

lemma max_length_bytes: "length s \<le> n \<Longrightarrow> max_length n s"
  using length_runes_le [of s] by (simp add: max_length_def)

fun EvidenceKind_schema :: "EvidenceKind \<Rightarrow> bool" where
  "EvidenceKind_schema (EvidenceOther s) = False"
| "EvidenceKind_schema _ = True"

fun CollectionStatus_schema :: "CollectionStatus \<Rightarrow> bool" where
  "CollectionStatus_schema (CollectionOther s) = False"
| "CollectionStatus_schema _ = True"

fun ActionType_schema :: "ActionType \<Rightarrow> bool" where
  "ActionType_schema (ActionOther s) = False"
| "ActionType_schema _ = True"

fun Phase_schema :: "Phase \<Rightarrow> bool" where
  "Phase_schema (PhaseOther s) = False"
| "Phase_schema _ = True"

definition EvidenceItem_schema :: "EvidenceItem \<Rightarrow> bool" where
  "EvidenceItem_schema i \<longleftrightarrow>
     EvidenceKind_schema (ei_kind i) \<and> CollectionStatus_schema (ei_status i) \<and>
     max_length 512 (ei_reason i) \<and> max_length 8192 (ei_content i)"

definition Evidence_schema :: "Evidence \<Rightarrow> bool" where
  "Evidence_schema ev \<longleftrightarrow>
     list_all EvidenceItem_schema (ev_items ev) \<and> distinct (map ei_kind (ev_items ev)) \<and>
     list_all EvidenceKind_schema (ev_missingRequired ev)"

definition Action_schema :: "ApiAction \<Rightarrow> bool" where
  "Action_schema a \<longleftrightarrow> ActionType_schema (aa_type a) \<and> max_length 253 (aa_value a)"

definition Hypothesis_schema :: "ApiHypothesis \<Rightarrow> bool" where
  "Hypothesis_schema h \<longleftrightarrow>
     1 \<le> ah_rank h \<and> max_length 2048 (ah_rootCause h) \<and>
     0 \<le> ah_confidencePercent h \<and> ah_confidencePercent h \<le> 100 \<and>
     list_all Action_schema (ah_proposedActions h)"

definition ToolCall_schema :: "ApiToolCall \<Rightarrow> bool" where
  "ToolCall_schema c \<longleftrightarrow> max_length 512 (tc_arguments c) \<and> max_length 512 (tc_summary c)"

definition Investigation_schema :: "Investigation \<Rightarrow> bool" where
  "Investigation_schema i \<longleftrightarrow>
     list_all ToolCall_schema (iv_toolCalls i) \<and> max_length 256 (iv_stopReason i)"

end
