(* ===== verification/ToolsProps.thy ===== *)
theory ToolsProps
  imports Tools Schema
begin

text \<open>
  What the broker promises the operator: reads only, inside the namespace and the workload of one
  diagnosis, scrubbed and bounded results, a ceiling on calls, and a complete audit record.
\<close>

subsection \<open>The registry\<close>

lemma registry_loop:
  "distinct (map (ts_name \<circ> fst) ts) \<Longrightarrow>
     rg_tools (foldl enter_tool r ts) = rg_tools r @ ts \<and>
     rg_byName (foldl enter_tool r ts) name =
       (case List.find (\<lambda>t. ts_name (fst t) = name) ts of None \<Rightarrow> rg_byName r name | Some t \<Rightarrow> Some t)"
proof (induction ts arbitrary: r)
  case (Cons t ts)
  have "ts_name (fst t) = name \<Longrightarrow> List.find (\<lambda>t. ts_name (fst t) = name) ts = None"
    unfolding find_None_iff using Cons.prems by (auto simp: image_iff)
  then show ?case using Cons.IH [of "enter_tool r t"] Cons.prems by (auto simp: enter_tool_def split: option.splits)
qed simp

text \<open>No tool shadows another, so the registry is the catalogue and finds each tool by its name.\<close>

lemma NewRegistry_fields:
  "rg_tools NewRegistry = catalog \<and> map_option snd (rg_byName NewRegistry name) = byName name"
proof -
  have "distinct (map (ts_name \<circ> fst) catalog)" by code_simp
  from registry_loop [OF this, of "\<lparr>rg_tools = [], rg_byName = Map.empty\<rparr>" name]
  show ?thesis by (simp add: NewRegistry_def byName_def split: option.splits)
qed

subsection \<open>Every handler is a chain of reads\<close>

context reader
begin

lemma inWorkload_R: "inside (pod_namespace pod) \<Longrightarrow> R w (snd (inWorkload k sc pod w))"
  using get_replica_set [of "pod_namespace pod" w]
  by (auto simp: inWorkload_def split: prod.splits sum.splits option.splits) (metis snd_conv)+

lemma inWorkload_member: "inWorkload k sc pod w = (Inr True, w') \<Longrightarrow> pod_namespace pod = sc_namespace sc"
  by (auto simp: inWorkload_def split: if_splits)

lemma inWorkload_R': "inside (sc_namespace sc) \<Longrightarrow> R w (snd (inWorkload k sc pod w))"
  using inWorkload_R [of pod w sc] by (cases "pod_namespace pod = sc_namespace sc") (auto simp: inWorkload_def)

lemma first_member_R: "inside (sc_namespace sc) \<Longrightarrow> R w (snd (first_member k sc pods w))"
proof (induction pods arbitrary: w)
  case (Cons p ps)
  obtain r w' where r: "inWorkload k sc p w = (r, w')" by fastforce
  then have "R w w'" using inWorkload_R' [OF Cons.prems, of w p] by simp
  then show ?case using Cons r by (auto split: sum.splits intro: trans)
qed simp

lemma first_member_ns: "first_member k sc pods w = (Inr pod, w') \<Longrightarrow> pod_namespace pod = sc_namespace sc"
  by (induction pods arbitrary: w) (auto split: prod.splits sum.splits if_splits dest: inWorkload_member)

lemma defaultPod_R: "inside (sc_namespace sc) \<Longrightarrow> R w (snd (defaultPod k sc w))"
proof -
  assume i: "inside (sc_namespace sc)"
  obtain r w1 where r: "kGetPod k (sc_namespace sc) (sc_targetPod sc) w = (r, w1)" by fastforce
  obtain l w2 where l: "kListPods k (sc_namespace sc) w1 = (l, w2)" by fastforce
  have "R w w1" "R w1 w2" using get_pod [OF i] list_pods [OF i] r l by (metis snd_conv)+
  moreover have "R w2 (snd (first_member k sc ps w2))" for ps by (rule first_member_R [OF i])
  ultimately show ?thesis using r l by (auto simp: defaultPod_def split: sum.splits intro: trans)
qed

lemma defaultPod_ns:
  "inside (sc_namespace sc) \<Longrightarrow> defaultPod k sc w = (Inr pod, w') \<Longrightarrow> inside (pod_namespace pod)"
  by (auto simp: defaultPod_def split: prod.splits sum.splits if_splits
      dest: first_member_ns intro: pod_inside)

lemma resolvePod_R: "inside (sc_namespace sc) \<Longrightarrow> R w (snd (resolvePod T k sc name w))"
proof -
  assume i: "inside (sc_namespace sc)"
  obtain r w1 where r: "kGetPod k (sc_namespace sc) name w = (r, w1)" by fastforce
  have "R w w1" using get_pod [OF i] r by (metis snd_conv)
  moreover have "R w1 (snd (inWorkload k sc pod w1))" for pod by (rule inWorkload_R' [OF i])
  ultimately show ?thesis
    using r defaultPod_R [OF i, of w]
    by (auto simp: resolvePod_def split: prod.splits sum.splits intro: trans) (metis snd_conv trans)+
qed

lemma resolvePod_ns:
  "inside (sc_namespace sc) \<Longrightarrow> resolvePod T k sc name w = (Inr pod, w') \<Longrightarrow> inside (pod_namespace pod)"
  by (auto simp: resolvePod_def split: prod.splits sum.splits if_splits
      dest: defaultPod_ns inWorkload_member)

lemma resolved_R: "inside (sc_namespace sc) \<Longrightarrow> resolvePod T k sc name w = (r, w1) \<Longrightarrow> R w w1"
  using resolvePod_R [of sc w T name] by simp

lemma resolve_gather_R:
  assumes "inside (sc_namespace sc)" "resolvePod T k sc name w = (Inr pod, w1)"
  shows "R w (snd (gather k (target_for sc pod c) kind w1))"
proof -
  have "R w w1" by (rule resolved_R [OF assms])
  moreover have "inside (tg_ns (target_for sc pod c))"
    using resolvePod_ns [OF assms] by (simp add: target_for_def)
  ultimately show ?thesis using gather_R trans by blast
qed

lemma resolve_logs_R:
  assumes "inside (sc_namespace sc)" "resolvePod T k sc name w = (Inr pod, w1)"
  shows "R w (snd (logs k (target_for sc pod c) prev w1))"
  using resolve_gather_R [OF assms, of c EvidencePreviousLogs]
    resolve_gather_R [OF assms, of c EvidenceCurrentLogs]
  by (cases prev) simp_all

lemma resolve_then_R:
  assumes "inside (sc_namespace sc)"
    and "\<And>pod w1. resolvePod T k sc name w = (Inr pod, w1) \<Longrightarrow> R w (snd (f pod w1))"
  shows "R w (snd (case resolvePod T k sc name w of (Inl e, w1) \<Rightarrow> (Inl e, w1) | (Inr pod, w1) \<Rightarrow> f pod w1))"
proof -
  obtain r w1 where r: "resolvePod T k sc name w = (r, w1)" by fastforce
  then have "R w w1" by (rule resolved_R [OF assms(1)])
  with r assms(2) show ?thesis by (cases r) auto
qed

lemma run_tool_R:
  assumes i: "inside (sc_namespace sc)"
  shows "R w (snd (run_tool t T k sc a w))"
proof (cases t)
  case RunLogs
  show ?thesis
    unfolding RunLogs run_tool.simps runLogs_def
    by (cases "decodeArgs T store_logArgs \<lparr>la_pod = [], la_container = [], la_previous = False\<rparr> a")
      (auto simp: Let_def intro!: resolve_then_R [OF i] resolve_logs_R [OF i] intro: resolved_R [OF i])
next
  case (PodEvidence kind)
  show ?thesis
    unfolding PodEvidence run_tool.simps podEvidence_def
    by (cases "decodeArgs T store_podArgs [] a")
      (auto intro!: resolve_then_R [OF i] resolve_gather_R [OF i])
next
  case (WorkloadEvidence kind)
  then show ?thesis
    using gather_R [of "workloadTarget sc" w kind] i
    by (auto simp: workloadEvidence_def workloadTarget_def Pod_named_def split: sum.splits)
next
  case RunSimilar
  then show ?thesis
    using list_diagnoses [OF i, of w]
    by (auto simp: runSimilar_def Let_def split: sum.splits prod.splits)
qed

lemma call_inner_R: "inside (sc_namespace sc) \<Longrightarrow> R w (snd (call_inner T k sc n name a w))"
  using run_tool_R [of sc w _ T a]
  by (auto simp: call_inner_def split: sum.splits prod.splits option.splits) (metis snd_conv)+

end

subsection \<open>Confinement\<close>

text \<open>A request that reads in the namespace, or reads nodes, which belong to none.\<close>

fun in_ns :: "string \<Rightarrow> request \<Rightarrow> bool" where
  "in_ns ns (ReqGet res n name) \<longleftrightarrow> n = ns"
| "in_ns ns (ReqList res n s) \<longleftrightarrow> n = ns"
| "in_ns ns (ReqListLabelled res n l) \<longleftrightarrow> n = ns"
| "in_ns ns (ReqLogs n p c b l) \<longleftrightarrow> n = ns"
| "in_ns ns (ReqRaw path) \<longleftrightarrow> prefixb (metrics_path ns []) path"
| "in_ns ns (ReqGetNode n) \<longleftrightarrow> True"
| "in_ns ns ReqListNodes \<longleftrightarrow> True"
| "in_ns ns (ReqCreate d) \<longleftrightarrow> False"
| "in_ns ns (ReqUpdateStatus d) \<longleftrightarrow> False"

lemma metrics_path_prefix: "prefixb (metrics_path ns []) (metrics_path ns n)"
  using prefixb_append [of "metrics_path ns []" n] by (simp add: metrics_path_def)

lemma reads_in_in_ns: "reads_in ((=) ns) r \<Longrightarrow> in_ns ns r"
  by (cases r) (auto simp: metrics_path_prefix)

lemma kNow_logged: "snd (snd (kNow (logged k) w)) = snd w"
  by (simp add: logged_def split: prod.splits)

lemma logs_only_kNow [simp]: "logs_only P w (snd (kNow (logged k) w))"
  by (simp add: logs_only_def kNow_logged)

text \<open>A call reads as the broker's inner call reads, between two readings of the clock.\<close>

lemma Call_logs:
  assumes "\<And>n w. logs_only P w (snd (call_inner T (logged k) sc n name a w))"
  shows "logs_only P (fst s) (fst (snd (Call T (logged k) sc name a s)))"
proof -
  obtain w calls where s: "s = (w, calls)" by fastforce
  obtain t1 w1 where 1: "kNow (logged k) w = (t1, w1)" by (metis prod.exhaust)
  obtain r w2 where 2: "call_inner T (logged k) sc (length calls) name a w1 = (r, w2)" by (metis prod.exhaust)
  obtain t3 w3 where 3: "kNow (logged k) w2 = (t3, w3)" by (metis prod.exhaust)
  have "logs_only P w w1" "logs_only P w1 w2" "logs_only P w2 w3"
    using logs_only_kNow [of P w k] logs_only_kNow [of P w2 k] assms [of w1 "length calls"] 1 2 3 by simp_all
  then have "logs_only P w w3" by (blast intro: logs_only_trans)
  then show ?thesis by (simp add: s Call_def 1 2 3 Let_def)
qed

lemma Call_confined:
  assumes "namespaced k (sc_namespace sc)"
  shows "logs_only (in_ns (sc_namespace sc)) (fst s) (fst (snd (Call T (logged k) sc name a s)))"
proof (rule Call_logs)
  have "reader (logged k) (logs_only (reads_in ((=) (sc_namespace sc)))) ((=) (sc_namespace sc))"
    using assms by (intro reader_logged) auto
  then show "logs_only (in_ns (sc_namespace sc)) w (snd (call_inner T (logged k) sc n name a w))" for n w
    using reader.call_inner_R [of "logged k" _ "(=) (sc_namespace sc)" sc w T n name a]
    by (auto intro: logs_only_mono reads_in_in_ns)
qed

text \<open>A cluster in which every pod asked for exists, alone, and a scope in it, for the examples.\<close>

definition one_pod :: "unit kube" where
  "one_pod = (failing (errorf ''unreachable''))\<lparr>kGetPod := \<lambda>ns n w. (Inr (Pod_named ns n), w)\<rparr>"

definition example_scope :: Scope where
  "example_scope =
     \<lparr>sc_namespace = ''shop'', sc_diagnosisName = ''d'', sc_failureType = FailureOOMKilled, sc_container = [],
      sc_targetPod = ''web-1'', sc_ownerKind = ''Deployment'', sc_ownerName = ''web'', sc_maxCalls = 2\<rparr>"

definition example_tenv :: tenv where
  "example_tenv = \<lparr>te_uprint = \<lambda>_. True, te_jerr = \<lambda>_. ''syntax''\<rparr>"

text \<open>C12. A tool call stays in its scope: whatever tool and arguments the model chooses, every request
  that \<open>Broker.Call\<close> makes is a read, and a read in the namespace of the diagnosis or of a node,
  provided that the API server answers a request for a namespace with objects of that namespace.\<close>

theorem Call_stays_in_namespace:
  assumes "namespaced k (sc_namespace sc)"
  shows "list_all (in_ns (sc_namespace sc)) (snd (fst (snd (Call T (logged k) sc name arguments ((w, []), calls)))))"
  using Call_confined [OF assms, of "((w, []), calls)" T name arguments] by (auto simp: logs_only_def)

lemma namespaced_one_pod: "namespaced one_pod ns"
  by (simp add: namespaced_def one_pod_def failing_def Pod_named_def)

theorem Call_stays_in_namespace_witness:
  "list_all (in_ns ''shop'')
     (snd (fst (snd (Call example_tenv (logged one_pod) example_scope ''get_pod_events'' [] (((), []), [])))))"
  using Call_stays_in_namespace [of one_pod example_scope example_tenv "''get_pod_events''" "[]" "()" "[]"]
    namespaced_one_pod [of "''shop''"]
  by (simp add: example_scope_def)

subsection \<open>The audit record\<close>

lemma length_clip [bounds]: "3 \<le> limit \<Longrightarrow> length (clip s limit) \<le> limit"
  by (auto simp: clip_def)

lemma call_inner_scrubbed: "call_inner T k sc n name a w = (Inr result, w') \<Longrightarrow> scrubbed 8192 result"
  by (auto simp: call_inner_def scrubbed_def resultLimit_def split: if_splits option.splits prod.splits sum.splits)

lemma audit_record_schema: "ToolCall_schema (audit_record name a r started ended)"
proof -
  have b: "max_length 512 (clip t 512)" for t by (simp add: length_clip max_length_bytes)
  have "max_length 512 []" by (simp add: max_length_bytes)
  with b show ?thesis by (simp add: ToolCall_schema_def audit_record_def auditFieldLimit_def split: sum.split)
qed

lemma Call_appends:
  "\<exists>rec. snd (snd (Call T k sc name a s)) = snd s @ [rec] \<and> ToolCall_schema rec"
  by (simp add: Call_def audit_record_schema split: prod.splits)

text \<open>C14. Every call is recorded and nothing leaves unscrubbed: \<open>Broker.Call\<close> appends exactly one record
  to the audit, whatever the outcome, with the tool's name, the arguments in compact form, and either the error or
  the summary of the result, each clipped to 512 bytes; the record meets the schema of the Diagnosis, and a result is the truncation of a redacted text, of
  at most 8192 bytes.\<close>

theorem Call_audits:
  "case Call T k sc name arguments (w, calls) of (r, w', calls') \<Rightarrow>
     length calls' = length calls + 1 \<and> butlast calls' = calls \<and>
     tc_tool (last calls') = name \<and> tc_arguments (last calls') = clip (compactJSON arguments) 512 \<and>
     ToolCall_schema (last calls') \<and>
     (case r of
        Inl e \<Rightarrow> tc_error (last calls') = clip (err_msg e) 512 \<and> tc_summary (last calls') = []
      | Inr result \<Rightarrow> tc_error (last calls') = [] \<and>
          tc_summary (last calls') = clip (summariseResult result) 512 \<and> scrubbed 8192 result \<and> length result \<le> 8192)"
proof -
  obtain t1 w1 where 1: "kNow k w = (t1, w1)" by fastforce
  obtain r w2 where 2: "call_inner T k sc (length calls) name arguments w1 = (r, w2)" by fastforce
  obtain t3 w3 where 3: "kNow k w2 = (t3, w3)" by fastforce
  show ?thesis
    using call_inner_scrubbed [of T k sc "length calls" name arguments w1] 2 scrubbed_length
    by (auto simp: Call_def 1 2 3 audit_record_schema split: sum.splits)
      (simp_all add: audit_record_def auditFieldLimit_def)
qed

subsection \<open>Refusals\<close>

text \<open>A member name that no tool's arguments have.\<close>

definition foreign :: "string \<Rightarrow> bool" where
  "foreign key \<longleftrightarrow> \<not> list_ex (\<lambda>f. key_is f key) [''pod'', ''container'', ''previous'', ''failureType'']"

text \<open>Arguments whose object has such a member.\<close>

definition has_foreign :: "string \<Rightarrow> bool" where
  "has_foreign arguments \<longleftrightarrow>
     (case dec_value (trim_space arguments) of
        Some (JObj ms, rest) \<Rightarrow> list_ex (\<lambda>m. foreign (fst m)) ms
      | _ \<Rightarrow> False)"

lemma dec_value_blank: "dec_value [] = None" "dec_value ''null'' = Some (JNull, [])"
  by code_simp+

lemma decodeArgs_foreign:
  assumes "has_foreign a" "\<And>key j x. foreign key \<Longrightarrow> store key j x = None"
  shows "\<exists>m. decodeArgs T store zero a = Inl (denied m)"
proof -
  obtain ms rest where d: "dec_value (trim_space a) = Some (JObj ms, rest)" and f: "list_ex (\<lambda>m. foreign (fst m)) ms"
    using assms(1) by (auto simp: has_foreign_def split: option.splits json.splits)
  from d have t: "trim_space a \<noteq> []" "trim_space a \<noteq> ''null''"
    using dec_value_blank by auto
  have "store_members store ms x = None" for x
    using f assms(2) store_members_known [of store ms x] by (auto simp: list_ex_iff) (metis not_None_eq)
  then show ?thesis using t d by (auto simp: decodeArgs_def)
qed

lemma run_tool_foreign: "has_foreign a \<Longrightarrow> \<exists>m. run_tool t T k sc a w = (Inl (denied m), w)"
proof (cases t)
  case RunLogs
  then show "has_foreign a \<Longrightarrow> ?thesis"
    using decodeArgs_foreign [of a store_logArgs T "\<lparr>la_pod = [], la_container = [], la_previous = False\<rparr>"]
    by (auto simp: runLogs_def store_logArgs_def foreign_def)
next
  case (PodEvidence kind)
  then show "has_foreign a \<Longrightarrow> ?thesis"
    using decodeArgs_foreign [of a store_podArgs T "[]"] by (auto simp: podEvidence_def store_podArgs_def foreign_def)
next
  case (WorkloadEvidence kind)
  then show "has_foreign a \<Longrightarrow> ?thesis"
    using decodeArgs_foreign [of a store_noArgs T "()"] by (auto simp: workloadEvidence_def store_noArgs_def)
next
  case RunSimilar
  then show "has_foreign a \<Longrightarrow> ?thesis"
    using decodeArgs_foreign [of a store_similarArgs T "[]"]
    by (auto simp: runSimilar_def store_similarArgs_def foreign_def)
qed

lemma byName_None: "name \<notin> set (map ts_name Specs) \<Longrightarrow> byName name = None"
  by (force simp: byName_def Specs_def find_None_iff)

lemma call_inner_refuses:
  assumes "sc_maxCalls sc \<le> int n \<or> name \<notin> set (map ts_name Specs) \<or> has_foreign a"
  shows "\<exists>m. call_inner T k sc n name a w = (Inl (denied m), w)"
proof (cases "sc_maxCalls sc \<le> int n")
  case False
  show ?thesis
  proof (cases "byName name")
    case (Some t)
    with assms False have "has_foreign a" using byName_None [of name] by auto
    with run_tool_foreign [of a t T k sc w] False Some show ?thesis by (auto simp: call_inner_def)
  qed (use False in \<open>auto simp: call_inner_def\<close>)
qed (auto simp: call_inner_def)

text \<open>C13. What is out of bounds is refused before anything is read: past the ceiling of the scope, for a
  name that is not in the catalogue, and for arguments with a member no tool knows, a namespace
  above all, \<open>Broker.Call\<close> answers with a denial and has made no request to the cluster.\<close>

theorem Call_refuses_early:
  assumes "sc_maxCalls sc \<le> int (length calls) \<or> name \<notin> set (map ts_name Specs) \<or> has_foreign arguments"
  shows "case Call T (logged k) sc name arguments ((w, log), calls) of (r, (w', log'), calls') \<Rightarrow>
    log' = log \<and> (case r of Inl e \<Rightarrow> IsDenied e | Inr result \<Rightarrow> False)"
proof -
  obtain t1 w1 where 1: "kNow (logged k) (w, log) = (t1, w1)" by (metis prod.exhaust)
  obtain m where 2: "call_inner T (logged k) sc (length calls) name arguments w1 = (Inl (denied m), w1)"
    using call_inner_refuses [OF assms, of T "logged k" w1] by blast
  obtain t3 w3 where 3: "kNow (logged k) w1 = (t3, w3)" by (metis prod.exhaust)
  have "snd w3 = log" using kNow_logged [of k "(w, log)"] kNow_logged [of k w1] 1 3 by simp
  then show ?thesis by (cases w3) (simp add: Call_def 1 2 3 Let_def IsDenied_def)
qed

theorem Call_refuses_early_witness:
  "case Call example_tenv (logged one_pod) example_scope ''get_pod_events'' (dq ''{`namespace`:`kube-system`}'')
       (((), []), []) of (r, (w', log'), calls') \<Rightarrow>
    log' = [] \<and> (case r of Inl e \<Rightarrow> IsDenied e | Inr result \<Rightarrow> False)"
proof -
  have "has_foreign (dq ''{`namespace`:`kube-system`}'')" by code_simp
  then show ?thesis by (intro Call_refuses_early disjI2)
qed

subsection \<open>The workload\<close>

text \<open>The pods of the diagnosed workload: the pod itself if it has no owner, and otherwise those its controller
  owns, directly or, for a Deployment, through one of its replica sets, as the cluster answers in world \<open>w\<close>.\<close>

inductive belongs :: "'w kube \<Rightarrow> Scope \<Rightarrow> Pod \<Rightarrow> 'w \<Rightarrow> bool" for k sc pod w where
  bare: "pod_namespace pod = sc_namespace sc \<Longrightarrow> sc_ownerKind sc = ''Pod'' \<Longrightarrow>
    pod_name pod = sc_ownerName sc \<Longrightarrow> belongs k sc pod w"
| direct: "pod_namespace pod = sc_namespace sc \<Longrightarrow> sc_ownerKind sc \<noteq> ''Pod'' \<Longrightarrow>
    kControllerOf k (pod_ownerReferences pod) = Some ref \<Longrightarrow>
    ow_kind ref = sc_ownerKind sc \<Longrightarrow> ow_name ref = sc_ownerName sc \<Longrightarrow> belongs k sc pod w"
| deployment: "pod_namespace pod = sc_namespace sc \<Longrightarrow> sc_ownerKind sc = ''Deployment'' \<Longrightarrow>
    kControllerOf k (pod_ownerReferences pod) = Some ref \<Longrightarrow> ow_kind ref = ''ReplicaSet'' \<Longrightarrow>
    kGetReplicaSet k (sc_namespace sc) (ow_name ref) w = (Inr rs, w') \<Longrightarrow>
    kControllerOf k (rs_ownerReferences rs) = Some owner \<Longrightarrow>
    ow_kind owner = ''Deployment'' \<Longrightarrow> ow_name owner = sc_ownerName sc \<Longrightarrow> belongs k sc pod w"

lemma inWorkload_belongs: "(\<exists>w'. inWorkload k sc pod w = (Inr True, w')) \<longleftrightarrow> belongs k sc pod w"
proof
  assume "\<exists>w'. inWorkload k sc pod w = (Inr True, w')"
  then show "belongs k sc pod w"
    by (auto simp: inWorkload_def intro: bare direct deployment split: if_splits option.splits prod.splits sum.splits)
next
  assume "belongs k sc pod w"
  then show "\<exists>w'. inWorkload k sc pod w = (Inr True, w')"
    by (cases rule: belongs.cases) (auto simp: inWorkload_def)
qed

text \<open>C15. A pod named by the model is a pod of the workload: \<open>resolvePod\<close> returns a pod for a name precisely
  when the cluster has it under that name in the namespace of the scope and it belongs to the diagnosed
  workload, by its controller's kind and name or through a replica set of the Deployment.\<close>

theorem resolvePod_in_workload:
  assumes "name \<noteq> []"
  shows "(\<exists>w'. resolvePod T k sc name w = (Inr pod, w')) \<longleftrightarrow>
    (\<exists>w1. kGetPod k (sc_namespace sc) name w = (Inr pod, w1) \<and> belongs k sc pod w1)"
  using assms
  by (auto simp: resolvePod_def inWorkload_belongs [symmetric] split: prod.splits sum.splits if_splits)

definition bare_scope :: Scope where
  "bare_scope = example_scope\<lparr>sc_ownerKind := ''Pod'', sc_ownerName := ''web-1''\<rparr>"

theorem resolvePod_in_workload_witness:
  "belongs one_pod bare_scope (Pod_named ''shop'' ''web-1'') () \<and>
   (\<exists>w'. resolvePod example_tenv one_pod bare_scope ''web-1'' () = (Inr (Pod_named ''shop'' ''web-1''), w'))"
proof -
  have b: "belongs one_pod bare_scope (Pod_named ''shop'' ''web-1'') ()"
    by (rule bare) (simp_all add: bare_scope_def example_scope_def Pod_named_def)
  have "kGetPod one_pod (sc_namespace bare_scope) ''web-1'' () = (Inr (Pod_named ''shop'' ''web-1''), ())"
    by code_simp
  then show ?thesis using resolvePod_in_workload [of "''web-1''" example_tenv one_pod bare_scope "()"] b by auto
qed

text \<open>The pod that a call without a name reads is not checked: when a pod of another workload has
  taken the name of the diagnosed one, \<open>resolvePod\<close> refuses it by name and returns it by default.\<close>

lemma defaultPod_not_checked:
  "isr (fst (resolvePod example_tenv one_pod example_scope [] ())) \<and>
   \<not> isr (fst (resolvePod example_tenv one_pod example_scope ''web-1'' ()))"
  by code_simp

end
