(* ===== verification/Concurrent.thy ===== *)
theory Concurrent
  imports ToolsProps
begin

text \<open>
  The broker under concurrent calls, as the MCP server can make them. The mutex of
  \<open>src/internal/tools/broker.go\<close> protects the reading of the number of calls and the appending of the
  record, each by itself, so a call takes two steps: it is admitted with the number of records at
  that moment, and later it runs, is recorded and returns. The steps of different calls interleave.
\<close>

datatype task =
    Waiting string string                    \<comment> \<open>tool and arguments\<close>
  | Admitted string string nat gotime        \<comment> \<open>with the records seen and the time\<close>
  | Served string string nat "goerror + string"

inductive broker_step ::
    "tenv \<Rightarrow> 'w kube \<Rightarrow> Scope \<Rightarrow> task list \<times> 'w \<times> ApiToolCall list \<Rightarrow> task list \<times> 'w \<times> ApiToolCall list \<Rightarrow> bool"
  for T k sc where
  Admit: "i < length ts \<Longrightarrow> ts ! i = Waiting name a \<Longrightarrow> kNow k w = (t, w') \<Longrightarrow>
    broker_step T k sc (ts, w, calls) (ts[i := Admitted name a (length calls) t], w', calls)"
| Serve: "i < length ts \<Longrightarrow> ts ! i = Admitted name a made t \<Longrightarrow> call_inner T k sc made name a w = (r, w1) \<Longrightarrow>
    kNow k w1 = (t', w2) \<Longrightarrow>
    broker_step T k sc (ts, w, calls) (ts[i := Served name a made r], w2, calls @ [audit_record name a r t t'])"

inductive_cases broker_stepE: "broker_step T k sc s s'"

abbreviation broker_steps ::
    "tenv \<Rightarrow> 'w kube \<Rightarrow> Scope \<Rightarrow> task list \<times> 'w \<times> ApiToolCall list \<Rightarrow> task list \<times> 'w \<times> ApiToolCall list \<Rightarrow> bool" where
  "broker_steps T k sc \<equiv> (broker_step T k sc)\<^sup>*\<^sup>*"

fun is_served :: "task \<Rightarrow> bool" where
  "is_served (Served name a made r) = True"
| "is_served _ = False"

text \<open>What a task knows of the record is never more than its present length, and a served task that
  was admitted at the ceiling got a denial.\<close>

fun task_ok :: "Scope \<Rightarrow> nat \<Rightarrow> task \<Rightarrow> bool" where
  "task_ok sc n (Waiting name a) = True"
| "task_ok sc n (Admitted name a made t) = (made \<le> n)"
| "task_ok sc n (Served name a made r) =
     (made < n \<and> (sc_maxCalls sc \<le> int made \<longrightarrow> \<not> isr r) \<and> (isr r \<longrightarrow> scrubbed 8192 (projr r)))"

definition broker_inv :: "Scope \<Rightarrow> task list \<times> 'w \<times> ApiToolCall list \<Rightarrow> bool" where
  "broker_inv sc s \<longleftrightarrow>
     (case s of (ts, w, calls) \<Rightarrow>
        length calls = length (filter is_served ts) \<and> list_all ToolCall_schema calls \<and>
        list_all (task_ok sc (length calls)) ts)"

lemma task_ok_mono: "task_ok sc m t \<Longrightarrow> m \<le> n \<Longrightarrow> task_ok sc n t"
  by (cases t) auto

lemma list_all_update: "list_all P xs \<Longrightarrow> P y \<Longrightarrow> list_all P (xs[i := y])"
  using set_update_subset_insert [of xs i y] by (auto simp: list_all_iff)

lemma filter_update_same:
  "i < length ts \<Longrightarrow> is_served (ts ! i) = is_served t \<Longrightarrow>
     length (filter is_served (ts[i := t])) = length (filter is_served ts)"
  by (induction ts arbitrary: i) (auto simp: nth_Cons' split: nat.splits if_splits)

lemma filter_update_served:
  "i < length ts \<Longrightarrow> \<not> is_served (ts ! i) \<Longrightarrow> is_served t \<Longrightarrow>
     length (filter is_served (ts[i := t])) = Suc (length (filter is_served ts))"
  by (induction ts arbitrary: i) (auto simp: nth_Cons' split: nat.splits if_splits)

lemma call_inner_at_ceiling:
  "call_inner T k sc made name a w = (r, w') \<Longrightarrow> sc_maxCalls sc \<le> int made \<Longrightarrow> \<not> isr r"
  by (auto simp: call_inner_def isr_iff)

lemma broker_inv_step: "broker_step T k sc s s' \<Longrightarrow> broker_inv sc s \<Longrightarrow> broker_inv sc s'"
proof (induction rule: broker_step.induct)
  case (Admit i ts name a w t w' calls)
  then show ?case
    using filter_update_same [of i ts "Admitted name a (length calls) t"]
    by (auto simp: broker_inv_def intro: list_all_update)
next
  case (Serve i ts name a made t w r w1 t' w2 calls)
  have made: "made \<le> length calls"
    using Serve by (auto simp: broker_inv_def list_all_length)
  have "list_all (task_ok sc (Suc (length calls))) ts"
    using Serve.prems by (auto simp: broker_inv_def list_all_iff intro: task_ok_mono)
  moreover have "isr r \<Longrightarrow> scrubbed 8192 (projr r)"
    using call_inner_scrubbed [of T k sc made name a w] Serve.hyps(3) by (auto simp: isr_iff)
  ultimately show ?case
    using Serve filter_update_served [of i ts "Served name a made r"] call_inner_at_ceiling [OF Serve.hyps(3)] made
    by (simp add: broker_inv_def audit_record_schema list_all_update)
qed

lemma broker_inv_steps: "broker_steps T k sc s s' \<Longrightarrow> broker_inv sc s \<Longrightarrow> broker_inv sc s'"
  by (induction rule: rtranclp_induct) (auto intro: broker_inv_step)

text \<open>C16. The audit survives concurrency: from a broker without records, however the calls of any number of
  clients interleave, the number of records is the number of calls that have returned, every record
  meets the schema, every result returned is scrubbed, and a call admitted at the ceiling returned
  no result.\<close>

theorem concurrent_calls_audited:
  assumes "broker_steps T k sc (map (\<lambda>(name, a). Waiting name a) requests, w, []) (ts, w', calls)"
  shows "length calls = length (filter is_served ts) \<and> list_all ToolCall_schema calls \<and>
    list_all (task_ok sc (length calls)) ts"
proof -
  have "broker_inv sc (map (\<lambda>(name, a). Waiting name a) requests, w, [])"
    by (auto simp: broker_inv_def list_all_iff filter_empty_conv)
  from broker_inv_steps [OF assms this] show ?thesis by (auto simp: broker_inv_def)
qed

text \<open>One call after another is \<open>Call\<close>.\<close>

lemma sequential_call:
  assumes "Call T k sc name a (w, calls) = (r, w', calls')" "i < length ts" "ts ! i = Waiting name a"
  shows "broker_steps T k sc (ts, w, calls) (ts[i := Served name a (length calls) r], w', calls')"
proof -
  obtain t w1 where 1: "kNow k w = (t, w1)" by fastforce
  obtain x w2 where 2: "call_inner T k sc (length calls) name a w1 = (x, w2)" by fastforce
  obtain t' w3 where 3: "kNow k w2 = (t', w3)" by fastforce
  have c: "r = x" "w' = w3" "calls' = calls @ [audit_record name a r t t']"
    using assms(1) by (auto simp: Call_def 1 2 3)
  have "broker_step T k sc (ts, w, calls) (ts[i := Admitted name a (length calls) t], w1, calls)"
    using assms(2,3) 1 by (rule Admit)
  moreover have "broker_step T k sc (ts[i := Admitted name a (length calls) t], w1, calls)
      (ts[i := Admitted name a (length calls) t, i := Served name a (length calls) r], w', calls')"
    unfolding c by (rule Serve [OF _ _ 2 3]) (use assms(2) in simp_all)
  ultimately show ?thesis by simp
qed

subsection \<open>The ceiling\<close>

fun returned_result :: "task \<Rightarrow> bool" where
  "returned_result (Served name a made r) = isr r"
| "returned_result _ = False"

definition empty_history :: "unit kube" where
  "empty_history = one_pod\<lparr>kListDiagnoses := \<lambda>ns w. (Inr [], w)\<rparr>"

definition one_call :: Scope where
  "one_call = example_scope\<lparr>sc_maxCalls := 1\<rparr>"

definition search_result :: "goerror + string" where
  "search_result = fst (call_inner example_tenv empty_history one_call 0 ''search_similar_diagnoses'' [] ())"

lemma search_succeeds: "isr search_result"
  by code_simp

lemma both_served:
  "\<exists>calls. broker_steps example_tenv empty_history one_call
     ([Waiting ''search_similar_diagnoses'' [], Waiting ''search_similar_diagnoses'' []], (), [])
     ([Served ''search_similar_diagnoses'' [] 0 search_result, Served ''search_similar_diagnoses'' [] 0 search_result],
      (), calls)"
proof -
  let ?step = "broker_step example_tenv empty_history one_call" and ?n = "''search_similar_diagnoses''"
  have n: "kNow empty_history () = (0, ())" by (simp add: empty_history_def one_pod_def failing_def)
  have c: "call_inner example_tenv empty_history one_call 0 ?n [] () = (search_result, ())"
    by (simp add: search_result_def prod_eq_iff)
  have 1: "?step ([Waiting ?n [], Waiting ?n []], (), []) ([Admitted ?n [] 0 0, Waiting ?n []], (), [])"
    using Admit [where i = 0 and ts = "[Waiting ?n [], Waiting ?n []]" and calls = "[]", OF _ _ n] by simp
  have 2: "?step ([Admitted ?n [] 0 0, Waiting ?n []], (), []) ([Admitted ?n [] 0 0, Admitted ?n [] 0 0], (), [])"
    using Admit [where i = 1 and ts = "[Admitted ?n [] 0 0, Waiting ?n []]" and calls = "[]", OF _ _ n] by simp
  have 3: "?step ([Admitted ?n [] 0 0, Admitted ?n [] 0 0], (), l)
      ([Served ?n [] 0 search_result, Admitted ?n [] 0 0], (), l @ [audit_record ?n [] search_result 0 0])" for l
    using Serve [where i = 0 and ts = "[Admitted ?n [] 0 0, Admitted ?n [] 0 0]" and calls = l, OF _ _ c n] by simp
  have 4: "?step ([Served ?n [] 0 search_result, Admitted ?n [] 0 0], (), l)
      ([Served ?n [] 0 search_result, Served ?n [] 0 search_result], (), l @ [audit_record ?n [] search_result 0 0])" for l
    using Serve [where i = 1 and ts = "[Served ?n [] 0 search_result, Admitted ?n [] 0 0]" and calls = l, OF _ _ c n]
    by simp
  show ?thesis
    using 1 2 3 4 by (meson converse_rtranclp_into_rtranclp rtranclp.rtrancl_refl)
qed

text \<open>C39. The ceiling is not a limit for concurrent calls: with a ceiling of one call, two calls that are
  both admitted before either is recorded both return a result.\<close>

theorem ceiling_race:
  "\<exists>ts calls. broker_steps example_tenv empty_history one_call
     ([Waiting ''search_similar_diagnoses'' [], Waiting ''search_similar_diagnoses'' []], (), []) (ts, (), calls) \<and>
     sc_maxCalls one_call = 1 \<and> length (filter returned_result ts) = 2"
  using both_served search_succeeds by (fastforce simp: one_call_def)

theorem concurrent_calls_audited_witness:
  "\<exists>ts calls. broker_steps example_tenv empty_history one_call
     (map (\<lambda>(name, a). Waiting name a) [(''search_similar_diagnoses'', []), (''search_similar_diagnoses'', [])], (), [])
     (ts, (), calls) \<and> length calls = 2 \<and> list_all ToolCall_schema calls"
proof -
  let ?n = "''search_similar_diagnoses''"
  obtain calls where s: "broker_steps example_tenv empty_history one_call
      (map (\<lambda>(name, a). Waiting name a) [(?n, []), (?n, [])], (), [])
      ([Served ?n [] 0 search_result, Served ?n [] 0 search_result], (), calls)"
    using both_served by auto
  from concurrent_calls_audited [OF s] have "list_all ToolCall_schema calls" "length calls = 2" by simp_all
  with s show ?thesis by blast
qed

end
