(* ===== verification/GoHeap.thy ===== *)
theory GoHeap
  imports Prelude "HOL-Library.State_Monad"
begin

text \<open>
  Go's memory as the generated deep copies see it. A heap is a list of blocks, a block a list of
  elements; an address is the position of a block. A pointer is the address of a block of one element,
  \<open>nil\<close> is \<open>None\<close>; a slice is a block with an offset and a length. \<open>'c\<close> is the type of elements, one
  constructor per Go type that is ever allocated: \<open>put\<close> and \<open>get\<close> are that constructor and its
  partial inverse.

  The locale \<open>deep_copier\<close> is the contract of a deep copy: the copy has the value of the original,
  nothing that existed before is written, and the value of the copy depends on nothing that
  existed before. Pointers and slices of deep copiers are deep copiers; the rules \<open>copying\<close> carry the
  copies of structs.
\<close>

type_synonym addr = nat
type_synonym 'c heap = "'c list list"
type_synonym slice = "(addr \<times> nat \<times> nat) option"

definition deref :: "'c heap \<Rightarrow> addr \<Rightarrow> 'c list option" where
  "deref h a = (if a < length h then Some (h ! a) else None)"

definition alloc :: "'c list \<Rightarrow> ('c heap, addr) state" where
  "alloc xs = State (\<lambda>h. (length h, h @ [xs]))"

definition assign :: "addr \<Rightarrow> nat \<Rightarrow> 'c \<Rightarrow> ('c heap, unit) state" where
  "assign a i x = State (\<lambda>h. ((), h[a := (h ! a)[i := x]]))"

definition same_on :: "(addr \<Rightarrow> bool) \<Rightarrow> 'c heap \<Rightarrow> 'c heap \<Rightarrow> bool" where
  "same_on A h h' \<longleftrightarrow> (\<forall>a. A a \<longrightarrow> deref h' a = deref h a)"

text \<open>The blocks that exist, and those allocated between two points in time.\<close>

abbreviation old :: "'c heap \<Rightarrow> addr \<Rightarrow> bool" where
  "old h \<equiv> \<lambda>a. a < length h"

abbreviation young :: "'c heap \<Rightarrow> 'c heap \<Rightarrow> addr \<Rightarrow> bool" where
  "young h h' \<equiv> \<lambda>a. length h \<le> a \<and> a < length h'"

lemma same_on_refl [simp]: "same_on A h h"
  by (simp add: same_on_def)

lemma same_on_trans: "same_on A h h' \<Longrightarrow> same_on A h' h'' \<Longrightarrow> same_on A h h''"
  by (simp add: same_on_def)

lemma same_on_mono: "same_on A h h' \<Longrightarrow> (\<And>a. B a \<Longrightarrow> A a) \<Longrightarrow> same_on B h h'"
  by (simp add: same_on_def)

lemma deref_append: "a < length h \<Longrightarrow> deref (h @ t) a = deref h a"
  by (simp add: deref_def nth_append)

lemma deref_update: "deref (h[a := x]) b = (if a = b \<and> a < length h then Some x else deref h b)"
  by (auto simp: deref_def)

lemma deref_old: "deref h a = Some xs \<Longrightarrow> a < length h"
  by (simp add: deref_def split: if_splits)

subsection \<open>Reading\<close>

fun single :: "'c list \<Rightarrow> 'c option" where
  "single [x] = Some x"
| "single _ = None"

definition load :: "('c \<Rightarrow> 'm option) \<Rightarrow> 'c heap \<Rightarrow> addr \<Rightarrow> 'm option" where
  "load get h a = do { xs \<leftarrow> deref h a; x \<leftarrow> single xs; get x }"

definition read_ptr ::
    "('c \<Rightarrow> 'm option) \<Rightarrow> ('c heap \<Rightarrow> 'm \<Rightarrow> 'v option) \<Rightarrow> 'c heap \<Rightarrow> addr option \<Rightarrow> 'v option option" where
  "read_ptr get rd h p =
     (case p of
        None \<Rightarrow> Some None
      | Some a \<Rightarrow> do { m \<leftarrow> load get h a; v \<leftarrow> rd h m; Some (Some v) })"

fun read_all :: "('c \<Rightarrow> 'm option) \<Rightarrow> ('c heap \<Rightarrow> 'm \<Rightarrow> 'v option) \<Rightarrow> 'c heap \<Rightarrow> 'c list \<Rightarrow> 'v list option" where
  "read_all get rd h [] = Some []"
| "read_all get rd h (x # xs) =
     do { m \<leftarrow> get x; v \<leftarrow> rd h m; vs \<leftarrow> read_all get rd h xs; Some (v # vs) }"

definition window :: "nat \<Rightarrow> nat \<Rightarrow> 'c list \<Rightarrow> 'c list option" where
  "window off len xs = (if off + len \<le> length xs then Some (take len (drop off xs)) else None)"

definition read_slice ::
    "('c \<Rightarrow> 'm option) \<Rightarrow> ('c heap \<Rightarrow> 'm \<Rightarrow> 'v option) \<Rightarrow> 'c heap \<Rightarrow> slice \<Rightarrow> 'v list option" where
  "read_slice get rd h s =
     (case s of
        None \<Rightarrow> Some []
      | Some (a, off, len) \<Rightarrow> do { xs \<leftarrow> deref h a; ys \<leftarrow> window off len xs; read_all get rd h ys })"

text \<open>A value that holds no reference.\<close>

definition read_plain :: "'c heap \<Rightarrow> 'm \<Rightarrow> 'm option" where
  "read_plain h m = Some m"

subsection \<open>Copying\<close>

text \<open>\<open>if in == nil \<dots>; out := new(T); in.DeepCopyInto(out)\<close>, which is also what a struct does with a
  pointer of its own. \<open>zero\<close> is a cleared element. Go's types exclude the last case.\<close>

definition copy_ptr ::
    "'c \<Rightarrow> ('m \<Rightarrow> 'c) \<Rightarrow> ('c \<Rightarrow> 'm option) \<Rightarrow> ('m \<Rightarrow> ('c heap, 'm) state) \<Rightarrow> addr option \<Rightarrow>
     ('c heap, addr option) state" where
  "copy_ptr zero put get cp p =
     (case p of
        None \<Rightarrow> State_Monad.return None
      | Some a \<Rightarrow> do {
          h \<leftarrow> State_Monad.get;
          case load get h a of
            Some m \<Rightarrow> do {
              out \<leftarrow> alloc [zero];
              m' \<leftarrow> cp m;
              _ \<leftarrow> assign out 0 (put m');
              State_Monad.return (Some out) }
          | None \<Rightarrow> State_Monad.return p })"

text \<open>\<open>for i := range *in { (*in)[i].DeepCopyInto(&(*out)[i]) }\<close>, from index \<open>i\<close> on.\<close>

fun copy_loop ::
    "('m \<Rightarrow> 'c) \<Rightarrow> ('c \<Rightarrow> 'm option) \<Rightarrow> ('m \<Rightarrow> ('c heap, 'm) state) \<Rightarrow> addr \<Rightarrow> nat \<Rightarrow> 'c list \<Rightarrow>
     ('c heap, unit) state" where
  "copy_loop put get cp out i [] = State_Monad.return ()"
| "copy_loop put get cp out i (x # xs) =
     (case get x of
        Some m \<Rightarrow> do { m' \<leftarrow> cp m; _ \<leftarrow> assign out i (put m'); copy_loop put get cp out (Suc i) xs }
      | None \<Rightarrow> copy_loop put get cp out (Suc i) xs)"

text \<open>\<open>*out = make([]T, len(*in))\<close> and the loop, for elements with references.\<close>

definition copy_slice ::
    "'c \<Rightarrow> ('m \<Rightarrow> 'c) \<Rightarrow> ('c \<Rightarrow> 'm option) \<Rightarrow> ('m \<Rightarrow> ('c heap, 'm) state) \<Rightarrow> slice \<Rightarrow> ('c heap, slice) state" where
  "copy_slice zero put get cp s =
     (case s of
        None \<Rightarrow> State_Monad.return None
      | Some (a, off, len) \<Rightarrow> do {
          h \<leftarrow> State_Monad.get;
          case Option.bind (deref h a) (window off len) of
            Some ys \<Rightarrow> do {
              out \<leftarrow> alloc (replicate len zero);
              _ \<leftarrow> copy_loop put get cp out 0 ys;
              State_Monad.return (Some (out, 0, len)) }
          | None \<Rightarrow> State_Monad.return s })"

text \<open>\<open>*out = make([]T, len(*in)); copy(*out, *in)\<close>, for elements without references.\<close>

definition clone_slice :: "slice \<Rightarrow> ('c heap, slice) state" where
  "clone_slice s =
     (case s of
        None \<Rightarrow> State_Monad.return None
      | Some (a, off, len) \<Rightarrow> do {
          h \<leftarrow> State_Monad.get;
          case Option.bind (deref h a) (window off len) of
            Some ys \<Rightarrow> do { out \<leftarrow> alloc ys; State_Monad.return (Some (out, 0, len)) }
          | None \<Rightarrow> State_Monad.return s })"

subsection \<open>The contract\<close>

text \<open>A computation started in \<open>h\<close> that writes only what it allocates, and whose result satisfies
  \<open>Q\<close> in every later heap that leaves alone what it allocated.\<close>

definition copying :: "'c heap \<Rightarrow> ('c heap, 'm) state \<Rightarrow> ('c heap \<Rightarrow> 'm \<Rightarrow> bool) \<Rightarrow> bool" where
  "copying h p Q \<longleftrightarrow>
     (case run_state p h of (x, h') \<Rightarrow>
        length h \<le> length h' \<and> same_on (old h) h h' \<and> (\<forall>h''. same_on (young h h') h' h'' \<longrightarrow> Q h'' x))"

lemma copyingI:
  "run_state p h = (x, h') \<Longrightarrow> length h \<le> length h' \<Longrightarrow> same_on (old h) h h' \<Longrightarrow>
   (\<And>h''. same_on (young h h') h' h'' \<Longrightarrow> Q h'' x) \<Longrightarrow> copying h p Q"
  by (simp add: copying_def)

lemma copyingD:
  "copying h p Q \<Longrightarrow> run_state p h = (x, h') \<Longrightarrow>
     length h \<le> length h' \<and> same_on (old h) h h' \<and> (\<forall>h''. same_on (young h h') h' h'' \<longrightarrow> Q h'' x)"
  by (simp add: copying_def)

lemma copying_return: "(\<And>h''. Q h'' x) \<Longrightarrow> copying h (State_Monad.return x) Q"
  by (simp add: copying_def)

lemma copying_mono: "copying h p P \<Longrightarrow> (\<And>h'' x. P h'' x \<Longrightarrow> Q h'' x) \<Longrightarrow> copying h p Q"
  by (auto simp: copying_def)

lemma copying_bind:
  assumes "copying h p P"
    and "\<And>x h'. length h \<le> length h' \<Longrightarrow> same_on (old h) h h' \<Longrightarrow> copying h' (k x) (\<lambda>h'' y. P h'' x \<longrightarrow> Q h'' y)"
  shows "copying h (State_Monad.bind p k) Q"
proof -
  obtain x h1 where 1: "run_state p h = (x, h1)" by fastforce
  obtain y h2 where 2: "run_state (k x) h1 = (y, h2)" by fastforce
  have P: "length h \<le> length h1" "same_on (old h) h h1" "\<And>h''. same_on (young h h1) h1 h'' \<Longrightarrow> P h'' x"
    using copyingD [OF assms(1) 1] by auto
  have Q: "length h1 \<le> length h2" "same_on (old h1) h1 h2"
      "\<And>h''. same_on (young h1 h2) h2 h'' \<Longrightarrow> P h'' x \<Longrightarrow> Q h'' y"
    using copyingD [OF assms(2) [OF P(1,2)] 2] by auto
  show ?thesis
  proof (rule copyingI)
    show "run_state (State_Monad.bind p k) h = (y, h2)" by (simp add: 1 2)
    show "same_on (old h) h h2"
      using P(1,2) Q(2) by (auto simp: same_on_def)
    show "Q h'' y" if "same_on (young h h2) h2 h''" for h''
    proof (rule Q(3))
      show "same_on (young h1 h2) h2 h''" using that P(1) by (auto simp: same_on_def)
      show "P h'' x" using that P(1) Q(1,2) by (intro P(3)) (auto simp: same_on_def)
    qed
  qed (use P(1) Q(1) in simp)
qed

locale deep_copier =
  fixes read :: "'c heap \<Rightarrow> 'm \<Rightarrow> 'v option"
    and copy :: "'m \<Rightarrow> ('c heap, 'm) state"
  assumes local: "read h m = Some v \<Longrightarrow> same_on (old h) h h' \<Longrightarrow> read h' m = Some v"
    and copies: "read h m = Some v \<Longrightarrow> copying h (copy m) (\<lambda>h'' m'. read h'' m' = Some v)"
begin

lemma copies_later:
  "read h m = Some v \<Longrightarrow> same_on (old h) h h' \<Longrightarrow> copying h' (copy m) (\<lambda>h'' m'. read h'' m' = Some v)"
  by (rule copies [OF local])

text \<open>In the words of the two owners: whatever happens later to what the copy allocated, the original
  reads as before; whatever happens to everything else, the copy does.\<close>

lemma independent:
  assumes "read h m = Some v" "run_state (copy m) h = (m', h')"
  shows "read h' m' = Some v" "same_on (old h) h h'"
    and "same_on (old h) h' h'' \<Longrightarrow> read h'' m = Some v"
    and "same_on (young h h') h' h'' \<Longrightarrow> read h'' m' = Some v"
proof -
  have c: "length h \<le> length h'" "same_on (old h) h h'" "\<And>h''. same_on (young h h') h' h'' \<Longrightarrow> read h'' m' = Some v"
    using copyingD [OF copies [OF assms(1)] assms(2)] by auto
  show "read h' m' = Some v" by (rule c(3)) simp
  show "same_on (old h) h h'" by (rule c(2))
  show "same_on (old h) h' h'' \<Longrightarrow> read h'' m = Some v"
    using local [OF assms(1)] same_on_trans [OF c(2)] by blast
  show "same_on (young h h') h' h'' \<Longrightarrow> read h'' m' = Some v" by (rule c(3))
qed

end

subsection \<open>Pointers and slices\<close>

text \<open>Element constructors and their inverses.\<close>

definition kind :: "('m \<Rightarrow> 'c) \<Rightarrow> ('c \<Rightarrow> 'm option) \<Rightarrow> bool" where
  "kind put get \<longleftrightarrow> (\<forall>m. get (put m) = Some m)"

lemma kindD: "kind put get \<Longrightarrow> get (put m) = Some m"
  by (simp add: kind_def)

lemma deep_plain: "deep_copier read_plain State_Monad.return"
  by unfold_locales (auto simp: read_plain_def intro: copying_return)

lemma single_Some: "single xs = Some x \<longleftrightarrow> xs = [x]"
  by (cases xs rule: single.cases) auto

lemma load_Some: "load get h a = Some m \<longleftrightarrow> (\<exists>x. deref h a = Some [x] \<and> get x = Some m)"
  by (auto simp: load_def bind_eq_Some_conv single_Some)

lemma read_ptr_Some:
  "read_ptr get rd h (Some a) = Some v \<longleftrightarrow> (\<exists>m u. load get h a = Some m \<and> rd h m = Some u \<and> v = Some u)"
  by (auto simp: read_ptr_def bind_eq_Some_conv)

lemma read_ptr_None [simp]: "read_ptr get rd h None = Some v \<longleftrightarrow> v = None"
  by (auto simp: read_ptr_def)

lemma same_on_deref: "same_on (old h) h h' \<Longrightarrow> deref h a = Some xs \<Longrightarrow> deref h' a = Some xs"
  by (auto simp: same_on_def dest: deref_old)

text \<open>The new block, filled after the referenced parts have been copied.\<close>

lemma fill_block:
  assumes "copying (h @ [xs]) p P" "run_state p (h @ [xs]) = (x, h2)"
    and "h3 = h2[length h := ys]"
  shows "length h < length h3" "same_on (old h) h h3"
    and "same_on (young h h3) h3 h'' \<Longrightarrow> deref h'' (length h) = Some ys \<and> P h'' x"
    and "h2 ! length h = xs"
proof -
  have c: "length (h @ [xs]) \<le> length h2" "same_on (old (h @ [xs])) (h @ [xs]) h2"
      "\<And>h''. same_on (young (h @ [xs]) h2) h2 h'' \<Longrightarrow> P h'' x"
    using copyingD [OF assms(1,2)] by auto
  show l: "length h < length h3" using c(1) assms(3) by simp
  show "h2 ! length h = xs" using c(1) spec [OF c(2) [unfolded same_on_def], of "length h"] by (simp add: deref_def)
  show "same_on (old h) h h3"
    using c(1,2) assms(3) by (auto simp: same_on_def deref_append deref_update)
  assume s: "same_on (young h h3) h3 h''"
  have "deref h3 (length h) = Some ys" using c(1) assms(3) by (simp add: deref_def)
  then have "deref h'' (length h) = Some ys" using s l by (simp add: same_on_def)
  moreover have "same_on (young (h @ [xs]) h2) h2 h''"
    using s assms(3) by (auto simp: same_on_def deref_update)
  ultimately show "deref h'' (length h) = Some ys \<and> P h'' x" using c(3) by simp
qed

lemma deep_ptr:
  assumes "deep_copier rd cp" "kind put get"
  shows "deep_copier (read_ptr get rd) (copy_ptr zero put get cp)"
proof unfold_locales
  fix h p v h'
  assume r: "read_ptr get rd h p = Some v"
  show "read_ptr get rd h' p = Some v" if "same_on (old h) h h'"
  proof (cases p)
    case (Some a)
    with r obtain x m u where m: "deref h a = Some [x]" "get x = Some m" "rd h m = Some u" "v = Some u"
      by (auto simp: read_ptr_Some load_Some)
    show ?thesis
      using same_on_deref [OF that m(1)] deep_copier.local [OF assms(1) m(3) that] m(2,4)
      by (simp add: Some read_ptr_Some load_Some)
  qed (use r in simp)
  show "copying h (copy_ptr zero put get cp p) (\<lambda>h'' p'. read_ptr get rd h'' p' = Some v)"
  proof (cases p)
    case None
    then show ?thesis using r by (auto simp: copy_ptr_def intro: copying_return)
  next
    case (Some a)
    with r obtain m u where m: "load get h a = Some m" "rd h m = Some u" "v = Some u"
      by (auto simp: read_ptr_Some)
    obtain m' h2 where 2: "run_state (cp m) (h @ [[zero]]) = (m', h2)" by fastforce
    define h3 where "h3 = h2[length h := [put m']]"
    have "same_on (old h) h (h @ [[zero]])" by (simp add: same_on_def deref_append)
    then have "copying (h @ [[zero]]) (cp m) (\<lambda>h'' m'. rd h'' m' = Some u)"
      by (rule deep_copier.copies_later [OF assms(1) m(2)])
    note f = fill_block [OF this 2 h3_def]
    show ?thesis
    proof (rule copyingI)
      show "run_state (copy_ptr zero put get cp p) h = (Some (length h), h3)"
        using f(4) m(1) by (simp add: copy_ptr_def Some alloc_def assign_def 2 h3_def)
      show "read_ptr get rd h'' (Some (length h)) = Some v" if "same_on (young h h3) h3 h''" for h''
        using f(3) [OF that] m(3) kindD [OF assms(2)] by (auto simp: read_ptr_Some load_Some)
    qed (use f(1,2) in simp_all)
  qed
qed

lemma read_all_Cons:
  "read_all get rd h (x # xs) = Some vs \<longleftrightarrow>
     (\<exists>m v vs'. get x = Some m \<and> rd h m = Some v \<and> read_all get rd h xs = Some vs' \<and> vs = v # vs')"
  by (auto simp: bind_eq_Some_conv)

lemma read_all_length: "read_all get rd h xs = Some vs \<Longrightarrow> length vs = length xs"
  by (induction xs arbitrary: vs) (auto simp: bind_eq_Some_conv)

lemma read_all_local:
  assumes "deep_copier rd cp" "same_on (old h) h h'"
  shows "read_all get rd h xs = Some vs \<Longrightarrow> read_all get rd h' xs = Some vs"
proof (induction xs arbitrary: vs)
  case (Cons x xs)
  from Cons.prems obtain m v vs' where m: "get x = Some m" "rd h m = Some v"
      "read_all get rd h xs = Some vs'" "vs = v # vs'"
    unfolding read_all_Cons by blast
  show ?case unfolding read_all_Cons
    using m(1,4) deep_copier.local [OF assms(1) m(2) assms(2)] Cons.IH [OF m(3)] by blast
qed simp

lemma read_slice_Some:
  "read_slice get rd h (Some (a, off, len)) = Some vs \<longleftrightarrow>
     (\<exists>xs ys. deref h a = Some xs \<and> window off len xs = Some ys \<and> read_all get rd h ys = Some vs)"
  by (auto simp: read_slice_def bind_eq_Some_conv)

lemma read_slice_None [simp]: "read_slice get rd h None = Some vs \<longleftrightarrow> vs = []"
  by (auto simp: read_slice_def)

lemma window_length: "window off len xs = Some ys \<Longrightarrow> length ys = len"
  by (auto simp: window_def split: if_splits)

lemma window_whole [simp]: "length xs = len \<Longrightarrow> window 0 len xs = Some xs"
  by (simp add: window_def)

lemma read_slice_local:
  assumes "deep_copier rd cp" "same_on (old h) h h'" "read_slice get rd h s = Some vs"
  shows "read_slice get rd h' s = Some vs"
proof (cases s)
  case (Some s')
  then obtain a off len where s: "s = Some (a, off, len)" by (cases s') auto
  with assms(3) obtain xs ys where x: "deref h a = Some xs" "window off len xs = Some ys"
      "read_all get rd h ys = Some vs"
    by (auto simp: read_slice_Some)
  show ?thesis
    using same_on_deref [OF assms(2) x(1)] x(2) read_all_local [OF assms(1,2) x(3)]
    by (simp add: s read_slice_Some)
qed (use assms(3) in simp)

text \<open>The loop, while it fills the block \<open>out\<close>: the elements it wrote read as the originals did when
  \<open>out\<close> was allocated, and depend only on blocks allocated since.\<close>

lemma copy_loop_fills:
  assumes "deep_copier rd cp" "kind put get"
  shows "read_all get rd h0 xs = Some vs \<Longrightarrow> same_on (old h0) h0 h \<Longrightarrow> length h0 \<le> out \<Longrightarrow> out < length h \<Longrightarrow>
    h ! out = ys @ zs \<Longrightarrow> length zs = length xs \<Longrightarrow>
    run_state (copy_loop put get cp out (length ys) xs) h = ((), h') \<Longrightarrow>
    length h \<le> length h' \<and> same_on (\<lambda>a. a < length h \<and> a \<noteq> out) h h' \<and>
    (\<exists>ws. h' ! out = ys @ ws \<and> length ws = length xs \<and>
       (\<forall>h''. same_on (young h h') h' h'' \<longrightarrow> read_all get rd h'' ws = Some vs))"
proof (induction xs arbitrary: vs h ys zs)
  case Nil
  then show ?case by simp
next
  case (Cons x xs)
  from Cons.prems(1) obtain m v vs' where m: "get x = Some m" "rd h0 m = Some v"
      "read_all get rd h0 xs = Some vs'" "vs = v # vs'"
    unfolding read_all_Cons by blast
  obtain z zs' where zs: "zs = z # zs'" "length zs' = length xs" using Cons.prems(6) by (cases zs) auto
  obtain m' h1 where 1: "run_state (cp m) h = (m', h1)" by fastforce
  note c = copyingD [OF deep_copier.copies_later [OF assms(1) m(2) Cons.prems(2)] 1]
  define h2 where "h2 = h1[out := (h1 ! out)[length ys := put m']]"
  have "deref h1 out = deref h out" using c Cons.prems(4) by (auto simp: same_on_def)
  then have "h1 ! out = ys @ z # zs'"
    using c Cons.prems(4,5) zs(1) by (simp add: deref_def split: if_splits)
  then have out: "h2 ! out = (ys @ [put m']) @ zs'" "out < length h2"
    using c Cons.prems(4) by (simp_all add: h2_def)
  have h02: "same_on (old h0) h0 h2"
    using Cons.prems(2-4) c by (auto simp: same_on_def h2_def deref_update)
  have "run_state (copy_loop put get cp out (length (ys @ [put m'])) xs) h2 = ((), h')"
    using Cons.prems(7) m(1) by (simp add: 1 assign_def h2_def)
  from Cons.IH [OF m(3) h02 Cons.prems(3) out(2,1) zs(2) this] obtain ws where
    ih: "length h2 \<le> length h'" "same_on (\<lambda>a. a < length h2 \<and> a \<noteq> out) h2 h'"
      "h' ! out = (ys @ [put m']) @ ws" "length ws = length xs"
      "\<And>h''. same_on (young h2 h') h' h'' \<Longrightarrow> read_all get rd h'' ws = Some vs'"
    by blast
  have len: "length h \<le> length h2" using c by (simp add: h2_def)
  have "read_all get rd h'' (put m' # ws) = Some vs" if s: "same_on (young h h') h' h''" for h''
  proof -
    have "same_on (young h h1) h1 h''"
      using s ih(1,2) Cons.prems(4) by (auto simp: same_on_def h2_def deref_update)
    then have "rd h'' m' = Some v" using c by blast
    moreover have "read_all get rd h'' ws = Some vs'"
      using s len by (intro ih(5)) (auto simp: same_on_def)
    ultimately show ?thesis using m(4) kindD [OF assms(2)] by simp
  qed
  moreover have "same_on (\<lambda>a. a < length h \<and> a \<noteq> out) h h'"
    using ih(2) c len by (auto simp: same_on_def h2_def deref_update)
  ultimately show ?case using ih(1,3,4) len by (intro conjI exI [of _ "put m' # ws"]) auto
qed

lemma deep_slice:
  assumes "deep_copier rd cp" "kind put get"
  shows "deep_copier (read_slice get rd) (copy_slice zero put get cp)"
proof unfold_locales
  fix h s v h'
  assume r: "read_slice get rd h s = Some v"
  show "read_slice get rd h' s = Some v" if "same_on (old h) h h'"
    by (rule read_slice_local [OF assms(1) that r])
  show "copying h (copy_slice zero put get cp s) (\<lambda>h'' s'. read_slice get rd h'' s' = Some v)"
  proof (cases s)
    case None
    then show ?thesis using r by (auto simp: copy_slice_def intro: copying_return)
  next
    case (Some s')
    then obtain a off len where s: "s = Some (a, off, len)" by (cases s') auto
    with r obtain xs ys where x: "deref h a = Some xs" "window off len xs = Some ys" "read_all get rd h ys = Some v"
      by (auto simp: read_slice_Some)
    define h1 where "h1 = h @ [replicate len zero]"
    obtain h2 where 2: "run_state (copy_loop put get cp (length h) 0 ys) h1 = ((), h2)"
      by (cases "run_state (copy_loop put get cp (length h) 0 ys) h1") simp
    have h1: "same_on (old h) h h1" "length h < length h1" "h1 ! length h = [] @ replicate len zero"
      by (simp_all add: h1_def same_on_def deref_append)
    have "length (replicate len zero) = length ys" using window_length [OF x(2)] by simp
    from copy_loop_fills [OF assms x(3) h1(1) order_refl h1(2,3) this, of h2] 2 obtain ws where
      ws: "length h1 \<le> length h2" "same_on (\<lambda>a. a < length h1 \<and> a \<noteq> length h) h1 h2"
        "h2 ! length h = ws" "length ws = length ys"
        "\<And>h''. same_on (young h1 h2) h2 h'' \<Longrightarrow> read_all get rd h'' ws = Some v"
      by auto
    show ?thesis
    proof (rule copyingI)
      show "run_state (copy_slice zero put get cp s) h = (Some (length h, 0, len), h2)"
        using x 2 by (simp add: copy_slice_def s alloc_def h1_def)
      show "length h \<le> length h2" using ws(1) h1(2) by simp
      show "same_on (old h) h h2" using h1(1,2) ws(2) by (auto simp: same_on_def)
      show "read_slice get rd h'' (Some (length h, 0, len)) = Some v" if "same_on (young h h2) h2 h''" for h''
      proof -
        have "deref h2 (length h) = Some ws" using ws(1,3) h1(2) by (simp add: deref_def)
        then have "deref h'' (length h) = Some ws" using that ws(1) h1(2) by (auto simp: same_on_def deref_def)
        moreover have "read_all get rd h'' ws = Some v"
          using that h1(2) by (intro ws(5)) (auto simp: same_on_def)
        ultimately show ?thesis using ws(4) window_length [OF x(2)] by (simp add: read_slice_Some)
      qed
    qed
  qed
qed

lemma read_all_plain: "read_all get read_plain h xs = Some vs \<Longrightarrow> read_all get read_plain h' xs = Some vs"
  by (induction xs arbitrary: vs) (auto simp: read_plain_def bind_eq_Some_conv)

lemma deep_clone: "deep_copier (read_slice get read_plain) clone_slice"
proof unfold_locales
  fix h s v h'
  assume r: "read_slice get read_plain h s = Some v"
  show "read_slice get read_plain h' s = Some v" if "same_on (old h) h h'"
    by (rule read_slice_local [OF deep_plain that r])
  show "copying h (clone_slice s) (\<lambda>h'' s'. read_slice get read_plain h'' s' = Some v)"
  proof (cases s)
    case None
    then show ?thesis using r by (auto simp: clone_slice_def intro: copying_return)
  next
    case (Some s')
    then obtain a off len where s: "s = Some (a, off, len)" by (cases s') auto
    with r obtain xs ys where x: "deref h a = Some xs" "window off len xs = Some ys"
        "read_all get read_plain h ys = Some v"
      by (auto simp: read_slice_Some)
    show ?thesis
    proof (rule copyingI)
      show "run_state (clone_slice s) h = (Some (length h, 0, len), h @ [ys])"
        using x by (simp add: clone_slice_def s alloc_def)
      show "read_slice get read_plain h'' (Some (length h, 0, len)) = Some v"
        if "same_on (young h (h @ [ys])) (h @ [ys]) h''" for h''
      proof -
        have "deref h'' (length h) = Some ys" using that by (simp add: same_on_def deref_def)
        then show ?thesis
          using x(3) window_length [OF x(2)] by (auto simp: read_slice_Some dest: read_all_plain)
      qed
    qed (simp_all add: same_on_def deref_append)
  qed
qed

end
