(* ===== verification/DeepCopy.thy ===== *)
theory DeepCopy
  imports GoHeap Api
begin

text \<open>
  \<open>src/api/v1alpha1/zz_generated.deepcopy.go\<close>: the deep copies of the API types, over the heap of GoHeap.
  A type with references has a second record here, its layout in memory, whose pointers and slices are
  addresses; \<open>read_T\<close> is the value in Api that a layout stands for. \<open>T_DeepCopyInto\<close> takes \<open>*in\<close> and
  returns \<open>*out\<close>, one line for each block of the generated code; \<open>T_DeepCopy\<close> is the method on pointers.

  What the generated code calls of \<open>apimachinery\<close> (the copies of \<open>ObjectMeta\<close>, \<open>ListMeta\<close>, \<open>Condition\<close> and
  \<open>Time\<close>) is the record \<open>foreign\<close>. Its structs have a type \<open>'f\<close> of their own, and it may allocate blocks
  of that type.
\<close>

subsection \<open>Layouts\<close>

record TypeMeta =
  ty_kind :: string
  ty_apiVersion :: string

record TargetRefM =
  mtr_name :: string
  mtr_uid :: string
  mtr_owner :: "addr option"

record DiagnosisSpecM =
  mds_target :: TargetRefM
  mds_failureType :: FailureType
  mds_container :: string
  mds_signature :: string
  mds_observedAt :: gotime
  mds_policyRef :: string

record TimingsM =
  mtm_detectedAt :: "addr option"
  mtm_enrichedAt :: "addr option"
  mtm_hypothesizedAt :: "addr option"
  mtm_judgedAt :: "addr option"
  mtm_plannedAt :: "addr option"
  mtm_remediatedAt :: "addr option"
  mtm_healedAt :: "addr option"

record EvidenceM =
  mev_items :: slice
  mev_complete :: bool
  mev_missingRequired :: slice
  mev_exitCode :: "addr option"
  mev_restartCount :: int
  mev_terminationReason :: string
  mev_waitingReason :: string
  mev_redactedFields :: int

record HypothesisM =
  mah_id :: string
  mah_rank :: int
  mah_rootCause :: string
  mah_confidencePercent :: int
  mah_evidenceCitations :: slice
  mah_proposedActions :: slice

record InvestigationM =
  miv_provider :: string
  miv_agentic :: bool
  miv_toolCalls :: slice
  miv_tokensUsed :: int
  miv_costMicroUSD :: int
  miv_durationMillis :: int
  miv_budgetExhausted :: bool
  miv_stopReason :: string
  miv_degraded :: bool
  miv_turns :: int

record JudgementM =
  mjd_provider :: string
  mjd_verdicts :: slice
  mjd_selectedHypothesisID :: string

record PlanM =
  mpl_decision :: PlanDecision
  mpl_reason :: string
  mpl_selected :: "addr option"
  mpl_candidates :: slice

record RemediationM =
  mrm_mode :: RemediationMode
  mrm_applied :: bool
  mrm_skipReason :: string
  mrm_patch :: string
  mrm_reference :: string
  mrm_verified :: "addr option"

record DiagnosisStatusM =
  mst_phase :: Phase
  mst_conditions :: slice
  mst_timings :: TimingsM
  mst_timeToDiagnosis :: string
  mst_timeToRecovery :: string
  mst_evidence :: "addr option"
  mst_investigation :: "addr option"
  mst_hypotheses :: slice
  mst_judgement :: "addr option"
  mst_plan :: "addr option"
  mst_remediation :: "addr option"
  mst_observedGeneration :: int

record 'f DiagnosisM =
  mdg_type :: TypeMeta
  mdg_meta :: 'f
  mdg_spec :: DiagnosisSpecM
  mdg_status :: DiagnosisStatusM

record 'f DiagnosisListM =
  mdl_type :: TypeMeta
  mdl_meta :: 'f
  mdl_items :: slice

record RemediationConfigM =
  mrc_mode :: RemediationMode
  mrc_minConfidence :: int
  mrc_allowedActions :: slice
  mrc_maxBlastRadius :: BlastRadius
  mrc_requireReversible :: bool
  mrc_verificationWindow :: int

record HealingPolicySpecM =
  mps_failureTypes :: slice
  mps_analyzer :: AnalyzerConfig
  mps_agent :: AgentConfig
  mps_remediation :: RemediationConfigM
  mps_maxDiagnosesPerHour :: int
  mps_resolvedRetention :: int

record HealingPolicyStatusM =
  mhs_activeDiagnoses :: int
  mhs_diagnosesThisHour :: int
  mhs_conditions :: slice

record 'f HealingPolicyM =
  mhp_type :: TypeMeta
  mhp_meta :: 'f
  mhp_spec :: HealingPolicySpecM
  mhp_status :: HealingPolicyStatusM

record 'f HealingPolicyListM =
  mhl_type :: TypeMeta
  mhl_meta :: 'f
  mhl_items :: slice

text \<open>The elements of blocks: one constructor for every type that is allocated, and the cleared
  element.\<close>

datatype 'f obj =
    OZero
  | OTime gotime
  | OInt int
  | OBool bool
  | OString string
  | OEvidenceKind EvidenceKind
  | OFailureType FailureType
  | OActionType ActionType
  | OEvidenceItem EvidenceItem
  | OAction ApiAction
  | ORankedAction RankedAction
  | OToolCall ApiToolCall
  | OVerdict Verdict
  | OOwnerRef OwnerRef
  | OTargetRef TargetRefM
  | ODiagnosisSpec DiagnosisSpecM
  | OTimings TimingsM
  | OEvidence EvidenceM
  | OHypothesis HypothesisM
  | OInvestigation InvestigationM
  | OJudgement JudgementM
  | OPlan PlanM
  | ORemediation RemediationM
  | ODiagnosisStatus DiagnosisStatusM
  | ODiagnosis "'f DiagnosisM"
  | ODiagnosisList "'f DiagnosisListM"
  | OAnalyzerConfig AnalyzerConfig
  | OAgentConfig AgentConfig
  | ORemediationConfig RemediationConfigM
  | OHealingPolicySpec HealingPolicySpecM
  | OHealingPolicyStatus HealingPolicyStatusM
  | OHealingPolicy "'f HealingPolicyM"
  | OHealingPolicyList "'f HealingPolicyListM"
  | OForeign "'f"

definition get_Time :: "'f obj \<Rightarrow> gotime option" where
  "get_Time x = (case x of OTime m \<Rightarrow> Some m | _ \<Rightarrow> None)"

definition get_Int :: "'f obj \<Rightarrow> int option" where
  "get_Int x = (case x of OInt m \<Rightarrow> Some m | _ \<Rightarrow> None)"

definition get_Bool :: "'f obj \<Rightarrow> bool option" where
  "get_Bool x = (case x of OBool m \<Rightarrow> Some m | _ \<Rightarrow> None)"

definition get_String :: "'f obj \<Rightarrow> string option" where
  "get_String x = (case x of OString m \<Rightarrow> Some m | _ \<Rightarrow> None)"

definition get_EvidenceKind :: "'f obj \<Rightarrow> EvidenceKind option" where
  "get_EvidenceKind x = (case x of OEvidenceKind m \<Rightarrow> Some m | _ \<Rightarrow> None)"

definition get_FailureType :: "'f obj \<Rightarrow> FailureType option" where
  "get_FailureType x = (case x of OFailureType m \<Rightarrow> Some m | _ \<Rightarrow> None)"

definition get_ActionType :: "'f obj \<Rightarrow> ActionType option" where
  "get_ActionType x = (case x of OActionType m \<Rightarrow> Some m | _ \<Rightarrow> None)"

definition get_EvidenceItem :: "'f obj \<Rightarrow> EvidenceItem option" where
  "get_EvidenceItem x = (case x of OEvidenceItem m \<Rightarrow> Some m | _ \<Rightarrow> None)"

definition get_Action :: "'f obj \<Rightarrow> ApiAction option" where
  "get_Action x = (case x of OAction m \<Rightarrow> Some m | _ \<Rightarrow> None)"

definition get_RankedAction :: "'f obj \<Rightarrow> RankedAction option" where
  "get_RankedAction x = (case x of ORankedAction m \<Rightarrow> Some m | _ \<Rightarrow> None)"

definition get_ToolCall :: "'f obj \<Rightarrow> ApiToolCall option" where
  "get_ToolCall x = (case x of OToolCall m \<Rightarrow> Some m | _ \<Rightarrow> None)"

definition get_Verdict :: "'f obj \<Rightarrow> Verdict option" where
  "get_Verdict x = (case x of OVerdict m \<Rightarrow> Some m | _ \<Rightarrow> None)"

definition get_OwnerRef :: "'f obj \<Rightarrow> OwnerRef option" where
  "get_OwnerRef x = (case x of OOwnerRef m \<Rightarrow> Some m | _ \<Rightarrow> None)"

definition get_TargetRef :: "'f obj \<Rightarrow> TargetRefM option" where
  "get_TargetRef x = (case x of OTargetRef m \<Rightarrow> Some m | _ \<Rightarrow> None)"

definition get_DiagnosisSpec :: "'f obj \<Rightarrow> DiagnosisSpecM option" where
  "get_DiagnosisSpec x = (case x of ODiagnosisSpec m \<Rightarrow> Some m | _ \<Rightarrow> None)"

definition get_Timings :: "'f obj \<Rightarrow> TimingsM option" where
  "get_Timings x = (case x of OTimings m \<Rightarrow> Some m | _ \<Rightarrow> None)"

definition get_Evidence :: "'f obj \<Rightarrow> EvidenceM option" where
  "get_Evidence x = (case x of OEvidence m \<Rightarrow> Some m | _ \<Rightarrow> None)"

definition get_Hypothesis :: "'f obj \<Rightarrow> HypothesisM option" where
  "get_Hypothesis x = (case x of OHypothesis m \<Rightarrow> Some m | _ \<Rightarrow> None)"

definition get_Investigation :: "'f obj \<Rightarrow> InvestigationM option" where
  "get_Investigation x = (case x of OInvestigation m \<Rightarrow> Some m | _ \<Rightarrow> None)"

definition get_Judgement :: "'f obj \<Rightarrow> JudgementM option" where
  "get_Judgement x = (case x of OJudgement m \<Rightarrow> Some m | _ \<Rightarrow> None)"

definition get_Plan :: "'f obj \<Rightarrow> PlanM option" where
  "get_Plan x = (case x of OPlan m \<Rightarrow> Some m | _ \<Rightarrow> None)"

definition get_Remediation :: "'f obj \<Rightarrow> RemediationM option" where
  "get_Remediation x = (case x of ORemediation m \<Rightarrow> Some m | _ \<Rightarrow> None)"

definition get_DiagnosisStatus :: "'f obj \<Rightarrow> DiagnosisStatusM option" where
  "get_DiagnosisStatus x = (case x of ODiagnosisStatus m \<Rightarrow> Some m | _ \<Rightarrow> None)"

definition get_Diagnosis :: "'f obj \<Rightarrow> ('f DiagnosisM) option" where
  "get_Diagnosis x = (case x of ODiagnosis m \<Rightarrow> Some m | _ \<Rightarrow> None)"

definition get_DiagnosisList :: "'f obj \<Rightarrow> ('f DiagnosisListM) option" where
  "get_DiagnosisList x = (case x of ODiagnosisList m \<Rightarrow> Some m | _ \<Rightarrow> None)"

definition get_AnalyzerConfig :: "'f obj \<Rightarrow> AnalyzerConfig option" where
  "get_AnalyzerConfig x = (case x of OAnalyzerConfig m \<Rightarrow> Some m | _ \<Rightarrow> None)"

definition get_AgentConfig :: "'f obj \<Rightarrow> AgentConfig option" where
  "get_AgentConfig x = (case x of OAgentConfig m \<Rightarrow> Some m | _ \<Rightarrow> None)"

definition get_RemediationConfig :: "'f obj \<Rightarrow> RemediationConfigM option" where
  "get_RemediationConfig x = (case x of ORemediationConfig m \<Rightarrow> Some m | _ \<Rightarrow> None)"

definition get_HealingPolicySpec :: "'f obj \<Rightarrow> HealingPolicySpecM option" where
  "get_HealingPolicySpec x = (case x of OHealingPolicySpec m \<Rightarrow> Some m | _ \<Rightarrow> None)"

definition get_HealingPolicyStatus :: "'f obj \<Rightarrow> HealingPolicyStatusM option" where
  "get_HealingPolicyStatus x = (case x of OHealingPolicyStatus m \<Rightarrow> Some m | _ \<Rightarrow> None)"

definition get_HealingPolicy :: "'f obj \<Rightarrow> ('f HealingPolicyM) option" where
  "get_HealingPolicy x = (case x of OHealingPolicy m \<Rightarrow> Some m | _ \<Rightarrow> None)"

definition get_HealingPolicyList :: "'f obj \<Rightarrow> ('f HealingPolicyListM) option" where
  "get_HealingPolicyList x = (case x of OHealingPolicyList m \<Rightarrow> Some m | _ \<Rightarrow> None)"

definition get_Foreign :: "'f obj \<Rightarrow> 'f option" where
  "get_Foreign x = (case x of OForeign m \<Rightarrow> Some m | _ \<Rightarrow> None)"

lemmas get_defs =
  get_Time_def get_Int_def get_Bool_def get_String_def
  get_EvidenceKind_def get_FailureType_def get_ActionType_def get_EvidenceItem_def
  get_Action_def get_RankedAction_def get_ToolCall_def get_Verdict_def
  get_OwnerRef_def get_TargetRef_def get_DiagnosisSpec_def get_Timings_def
  get_Evidence_def get_Hypothesis_def get_Investigation_def get_Judgement_def
  get_Plan_def get_Remediation_def get_DiagnosisStatus_def get_Diagnosis_def
  get_DiagnosisList_def get_AnalyzerConfig_def get_AgentConfig_def get_RemediationConfig_def
  get_HealingPolicySpec_def get_HealingPolicyStatus_def get_HealingPolicy_def get_HealingPolicyList_def
  get_Foreign_def

lemma kinds [simp]:
  "kind OTime get_Time"
  "kind OInt get_Int"
  "kind OBool get_Bool"
  "kind OString get_String"
  "kind OEvidenceKind get_EvidenceKind"
  "kind OFailureType get_FailureType"
  "kind OActionType get_ActionType"
  "kind OEvidenceItem get_EvidenceItem"
  "kind OAction get_Action"
  "kind ORankedAction get_RankedAction"
  "kind OToolCall get_ToolCall"
  "kind OVerdict get_Verdict"
  "kind OOwnerRef get_OwnerRef"
  "kind OTargetRef get_TargetRef"
  "kind ODiagnosisSpec get_DiagnosisSpec"
  "kind OTimings get_Timings"
  "kind OEvidence get_Evidence"
  "kind OHypothesis get_Hypothesis"
  "kind OInvestigation get_Investigation"
  "kind OJudgement get_Judgement"
  "kind OPlan get_Plan"
  "kind ORemediation get_Remediation"
  "kind ODiagnosisStatus get_DiagnosisStatus"
  "kind ODiagnosis get_Diagnosis"
  "kind ODiagnosisList get_DiagnosisList"
  "kind OAnalyzerConfig get_AnalyzerConfig"
  "kind OAgentConfig get_AgentConfig"
  "kind ORemediationConfig get_RemediationConfig"
  "kind OHealingPolicySpec get_HealingPolicySpec"
  "kind OHealingPolicyStatus get_HealingPolicyStatus"
  "kind OHealingPolicy get_HealingPolicy"
  "kind OHealingPolicyList get_HealingPolicyList"
  "kind OForeign get_Foreign"
  by (simp_all add: kind_def get_defs)


subsection \<open>What apimachinery provides\<close>

record ObjectMeta =
  om_name :: string
  om_namespace :: string
  om_resourceVersion :: string
  om_labels :: "(string \<times> string) list"
  om_creationTimestamp :: gotime

record 'f foreign =
  fo_metaRead :: "'f obj heap \<Rightarrow> 'f \<Rightarrow> ObjectMeta option"
  fo_metaInto :: "'f \<Rightarrow> ('f obj heap, 'f) state"                         \<comment> \<open>\<open>ObjectMeta.DeepCopyInto\<close>\<close>
  fo_listRead :: "'f obj heap \<Rightarrow> 'f \<Rightarrow> string option"
  fo_listInto :: "'f \<Rightarrow> ('f obj heap, 'f) state"                         \<comment> \<open>\<open>ListMeta.DeepCopyInto\<close>\<close>
  fo_condRead :: "'f obj heap \<Rightarrow> 'f \<Rightarrow> Condition option"
  fo_condInto :: "'f \<Rightarrow> ('f obj heap, 'f) state"                         \<comment> \<open>\<open>Condition.DeepCopyInto\<close>\<close>
  fo_timeInto :: "gotime \<Rightarrow> ('f obj heap, gotime) state"                 \<comment> \<open>\<open>Time.DeepCopyInto\<close>\<close>
  fo_timeCopy :: "addr option \<Rightarrow> ('f obj heap, addr option) state"       \<comment> \<open>\<open>Time.DeepCopy\<close>\<close>

text \<open>What their documentation promises: they are deep copies.\<close>

definition foreign_ok :: "'f foreign \<Rightarrow> bool" where
  "foreign_ok F \<longleftrightarrow>
     deep_copier (fo_metaRead F) (fo_metaInto F) \<and> deep_copier (fo_listRead F) (fo_listInto F) \<and>
     deep_copier (fo_condRead F) (fo_condInto F) \<and> deep_copier read_plain (fo_timeInto F) \<and>
     deep_copier (read_ptr get_Time read_plain) (fo_timeCopy F)"

text \<open>The two shapes of a referenced value.\<close>

abbreviation new_copy ::
    "('m \<Rightarrow> 'f obj) \<Rightarrow> ('f obj \<Rightarrow> 'm option) \<Rightarrow> ('m \<Rightarrow> ('f obj heap, 'm) state) \<Rightarrow> addr option \<Rightarrow>
     ('f obj heap, addr option) state" where
  "new_copy put get into \<equiv> copy_ptr OZero put get into"

abbreviation make_copy ::
    "('m \<Rightarrow> 'f obj) \<Rightarrow> ('f obj \<Rightarrow> 'm option) \<Rightarrow> ('m \<Rightarrow> ('f obj heap, 'm) state) \<Rightarrow> slice \<Rightarrow>
     ('f obj heap, slice) state" where
  "make_copy put get into \<equiv> copy_slice OZero put get into"

subsection \<open>Types without references\<close>

definition Action_DeepCopyInto :: "ApiAction \<Rightarrow> ('f obj heap, ApiAction) state" where
  "Action_DeepCopyInto i = State_Monad.return i"

definition AgentConfig_DeepCopyInto :: "AgentConfig \<Rightarrow> ('f obj heap, AgentConfig) state" where
  "AgentConfig_DeepCopyInto i = State_Monad.return i"

definition AnalyzerConfig_DeepCopyInto :: "AnalyzerConfig \<Rightarrow> ('f obj heap, AnalyzerConfig) state" where
  "AnalyzerConfig_DeepCopyInto i = State_Monad.return i"

definition EvidenceItem_DeepCopyInto :: "EvidenceItem \<Rightarrow> ('f obj heap, EvidenceItem) state" where
  "EvidenceItem_DeepCopyInto i = State_Monad.return i"

definition OwnerRef_DeepCopyInto :: "OwnerRef \<Rightarrow> ('f obj heap, OwnerRef) state" where
  "OwnerRef_DeepCopyInto i = State_Monad.return i"

definition RankedAction_DeepCopyInto :: "RankedAction \<Rightarrow> ('f obj heap, RankedAction) state" where
  "RankedAction_DeepCopyInto i = State_Monad.return (i\<lparr>ra_action := ra_action i\<rparr>)"

definition ToolCall_DeepCopyInto :: "ApiToolCall \<Rightarrow> ('f obj heap, ApiToolCall) state" where
  "ToolCall_DeepCopyInto i = State_Monad.return i"

definition Verdict_DeepCopyInto :: "Verdict \<Rightarrow> ('f obj heap, Verdict) state" where
  "Verdict_DeepCopyInto i = State_Monad.return i"

subsection \<open>The parts of a diagnosis\<close>

definition TargetRef_DeepCopyInto :: "TargetRefM \<Rightarrow> ('f obj heap, TargetRefM) state" where
  "TargetRef_DeepCopyInto i = do {
     owner \<leftarrow> new_copy OOwnerRef get_OwnerRef State_Monad.return (mtr_owner i);
     State_Monad.return (i\<lparr>mtr_owner := owner\<rparr>) }"

definition DiagnosisSpec_DeepCopyInto :: "'f foreign \<Rightarrow> DiagnosisSpecM \<Rightarrow> ('f obj heap, DiagnosisSpecM) state" where
  "DiagnosisSpec_DeepCopyInto F i = do {
     target \<leftarrow> TargetRef_DeepCopyInto (mds_target i);
     observedAt \<leftarrow> fo_timeInto F (mds_observedAt i);
     State_Monad.return (i\<lparr>mds_target := target, mds_observedAt := observedAt\<rparr>) }"

definition Timings_DeepCopyInto :: "'f foreign \<Rightarrow> TimingsM \<Rightarrow> ('f obj heap, TimingsM) state" where
  "Timings_DeepCopyInto F i = do {
     detectedAt \<leftarrow> fo_timeCopy F (mtm_detectedAt i);
     enrichedAt \<leftarrow> fo_timeCopy F (mtm_enrichedAt i);
     hypothesizedAt \<leftarrow> fo_timeCopy F (mtm_hypothesizedAt i);
     judgedAt \<leftarrow> fo_timeCopy F (mtm_judgedAt i);
     plannedAt \<leftarrow> fo_timeCopy F (mtm_plannedAt i);
     remediatedAt \<leftarrow> fo_timeCopy F (mtm_remediatedAt i);
     healedAt \<leftarrow> fo_timeCopy F (mtm_healedAt i);
     State_Monad.return (i\<lparr>mtm_detectedAt := detectedAt, mtm_enrichedAt := enrichedAt,
       mtm_hypothesizedAt := hypothesizedAt, mtm_judgedAt := judgedAt, mtm_plannedAt := plannedAt,
       mtm_remediatedAt := remediatedAt, mtm_healedAt := healedAt\<rparr>) }"

definition Evidence_DeepCopyInto :: "EvidenceM \<Rightarrow> ('f obj heap, EvidenceM) state" where
  "Evidence_DeepCopyInto i = do {
     items \<leftarrow> clone_slice (mev_items i);
     missingRequired \<leftarrow> clone_slice (mev_missingRequired i);
     exitCode \<leftarrow> new_copy OInt get_Int State_Monad.return (mev_exitCode i);
     State_Monad.return (i\<lparr>mev_items := items, mev_missingRequired := missingRequired,
       mev_exitCode := exitCode\<rparr>) }"

definition Hypothesis_DeepCopyInto :: "HypothesisM \<Rightarrow> ('f obj heap, HypothesisM) state" where
  "Hypothesis_DeepCopyInto i = do {
     evidenceCitations \<leftarrow> clone_slice (mah_evidenceCitations i);
     proposedActions \<leftarrow> clone_slice (mah_proposedActions i);
     State_Monad.return (i\<lparr>mah_evidenceCitations := evidenceCitations,
       mah_proposedActions := proposedActions\<rparr>) }"

definition Investigation_DeepCopyInto :: "InvestigationM \<Rightarrow> ('f obj heap, InvestigationM) state" where
  "Investigation_DeepCopyInto i = do {
     toolCalls \<leftarrow> clone_slice (miv_toolCalls i);
     State_Monad.return (i\<lparr>miv_toolCalls := toolCalls\<rparr>) }"

definition Judgement_DeepCopyInto :: "JudgementM \<Rightarrow> ('f obj heap, JudgementM) state" where
  "Judgement_DeepCopyInto i = do {
     verdicts \<leftarrow> clone_slice (mjd_verdicts i);
     State_Monad.return (i\<lparr>mjd_verdicts := verdicts\<rparr>) }"

definition Plan_DeepCopyInto :: "PlanM \<Rightarrow> ('f obj heap, PlanM) state" where
  "Plan_DeepCopyInto i = do {
     selected \<leftarrow> new_copy OAction get_Action State_Monad.return (mpl_selected i);
     candidates \<leftarrow> clone_slice (mpl_candidates i);
     State_Monad.return (i\<lparr>mpl_selected := selected, mpl_candidates := candidates\<rparr>) }"

definition Remediation_DeepCopyInto :: "RemediationM \<Rightarrow> ('f obj heap, RemediationM) state" where
  "Remediation_DeepCopyInto i = do {
     verified \<leftarrow> new_copy OBool get_Bool State_Monad.return (mrm_verified i);
     State_Monad.return (i\<lparr>mrm_verified := verified\<rparr>) }"

definition DiagnosisStatus_DeepCopyInto ::
    "'f foreign \<Rightarrow> DiagnosisStatusM \<Rightarrow> ('f obj heap, DiagnosisStatusM) state" where
  "DiagnosisStatus_DeepCopyInto F i = do {
     conditions \<leftarrow> make_copy OForeign get_Foreign (fo_condInto F) (mst_conditions i);
     timings \<leftarrow> Timings_DeepCopyInto F (mst_timings i);
     evidence \<leftarrow> new_copy OEvidence get_Evidence Evidence_DeepCopyInto (mst_evidence i);
     investigation \<leftarrow> new_copy OInvestigation get_Investigation Investigation_DeepCopyInto (mst_investigation i);
     hypotheses \<leftarrow> make_copy OHypothesis get_Hypothesis Hypothesis_DeepCopyInto (mst_hypotheses i);
     judgement \<leftarrow> new_copy OJudgement get_Judgement Judgement_DeepCopyInto (mst_judgement i);
     plan \<leftarrow> new_copy OPlan get_Plan Plan_DeepCopyInto (mst_plan i);
     remediation \<leftarrow> new_copy ORemediation get_Remediation Remediation_DeepCopyInto (mst_remediation i);
     State_Monad.return (i\<lparr>mst_conditions := conditions, mst_timings := timings, mst_evidence := evidence,
       mst_investigation := investigation, mst_hypotheses := hypotheses, mst_judgement := judgement,
       mst_plan := plan, mst_remediation := remediation\<rparr>) }"

subsection \<open>The custom resources\<close>

definition Diagnosis_DeepCopyInto :: "'f foreign \<Rightarrow> 'f DiagnosisM \<Rightarrow> ('f obj heap, 'f DiagnosisM) state" where
  "Diagnosis_DeepCopyInto F i = do {
     meta \<leftarrow> fo_metaInto F (mdg_meta i);
     spec \<leftarrow> DiagnosisSpec_DeepCopyInto F (mdg_spec i);
     status \<leftarrow> DiagnosisStatus_DeepCopyInto F (mdg_status i);
     State_Monad.return (i\<lparr>mdg_type := mdg_type i, mdg_meta := meta, mdg_spec := spec, mdg_status := status\<rparr>) }"

definition DiagnosisList_DeepCopyInto ::
    "'f foreign \<Rightarrow> 'f DiagnosisListM \<Rightarrow> ('f obj heap, 'f DiagnosisListM) state" where
  "DiagnosisList_DeepCopyInto F i = do {
     meta \<leftarrow> fo_listInto F (mdl_meta i);
     items \<leftarrow> make_copy ODiagnosis get_Diagnosis (Diagnosis_DeepCopyInto F) (mdl_items i);
     State_Monad.return (i\<lparr>mdl_type := mdl_type i, mdl_meta := meta, mdl_items := items\<rparr>) }"

definition RemediationConfig_DeepCopyInto :: "RemediationConfigM \<Rightarrow> ('f obj heap, RemediationConfigM) state" where
  "RemediationConfig_DeepCopyInto i = do {
     allowedActions \<leftarrow> clone_slice (mrc_allowedActions i);
     State_Monad.return (i\<lparr>mrc_allowedActions := allowedActions,
       mrc_verificationWindow := mrc_verificationWindow i\<rparr>) }"

definition HealingPolicySpec_DeepCopyInto :: "HealingPolicySpecM \<Rightarrow> ('f obj heap, HealingPolicySpecM) state" where
  "HealingPolicySpec_DeepCopyInto i = do {
     failureTypes \<leftarrow> clone_slice (mps_failureTypes i);
     remediation \<leftarrow> RemediationConfig_DeepCopyInto (mps_remediation i);
     State_Monad.return (i\<lparr>mps_failureTypes := failureTypes, mps_analyzer := mps_analyzer i,
       mps_agent := mps_agent i, mps_remediation := remediation,
       mps_resolvedRetention := mps_resolvedRetention i\<rparr>) }"

definition HealingPolicyStatus_DeepCopyInto ::
    "'f foreign \<Rightarrow> HealingPolicyStatusM \<Rightarrow> ('f obj heap, HealingPolicyStatusM) state" where
  "HealingPolicyStatus_DeepCopyInto F i = do {
     conditions \<leftarrow> make_copy OForeign get_Foreign (fo_condInto F) (mhs_conditions i);
     State_Monad.return (i\<lparr>mhs_conditions := conditions\<rparr>) }"

definition HealingPolicy_DeepCopyInto ::
    "'f foreign \<Rightarrow> 'f HealingPolicyM \<Rightarrow> ('f obj heap, 'f HealingPolicyM) state" where
  "HealingPolicy_DeepCopyInto F i = do {
     meta \<leftarrow> fo_metaInto F (mhp_meta i);
     spec \<leftarrow> HealingPolicySpec_DeepCopyInto (mhp_spec i);
     status \<leftarrow> HealingPolicyStatus_DeepCopyInto F (mhp_status i);
     State_Monad.return (i\<lparr>mhp_type := mhp_type i, mhp_meta := meta, mhp_spec := spec, mhp_status := status\<rparr>) }"

definition HealingPolicyList_DeepCopyInto ::
    "'f foreign \<Rightarrow> 'f HealingPolicyListM \<Rightarrow> ('f obj heap, 'f HealingPolicyListM) state" where
  "HealingPolicyList_DeepCopyInto F i = do {
     meta \<leftarrow> fo_listInto F (mhl_meta i);
     items \<leftarrow> make_copy OHealingPolicy get_HealingPolicy (HealingPolicy_DeepCopyInto F) (mhl_items i);
     State_Monad.return (i\<lparr>mhl_type := mhl_type i, mhl_meta := meta, mhl_items := items\<rparr>) }"

subsection \<open>The methods on pointers\<close>

definition Action_DeepCopy :: "addr option \<Rightarrow> ('f obj heap, addr option) state" where
  "Action_DeepCopy = new_copy OAction get_Action Action_DeepCopyInto"

definition AgentConfig_DeepCopy :: "addr option \<Rightarrow> ('f obj heap, addr option) state" where
  "AgentConfig_DeepCopy = new_copy OAgentConfig get_AgentConfig AgentConfig_DeepCopyInto"

definition AnalyzerConfig_DeepCopy :: "addr option \<Rightarrow> ('f obj heap, addr option) state" where
  "AnalyzerConfig_DeepCopy = new_copy OAnalyzerConfig get_AnalyzerConfig AnalyzerConfig_DeepCopyInto"

definition Diagnosis_DeepCopy :: "'f foreign \<Rightarrow> addr option \<Rightarrow> ('f obj heap, addr option) state" where
  "Diagnosis_DeepCopy F = new_copy ODiagnosis get_Diagnosis (Diagnosis_DeepCopyInto F)"

definition DiagnosisList_DeepCopy :: "'f foreign \<Rightarrow> addr option \<Rightarrow> ('f obj heap, addr option) state" where
  "DiagnosisList_DeepCopy F = new_copy ODiagnosisList get_DiagnosisList (DiagnosisList_DeepCopyInto F)"

definition DiagnosisSpec_DeepCopy :: "'f foreign \<Rightarrow> addr option \<Rightarrow> ('f obj heap, addr option) state" where
  "DiagnosisSpec_DeepCopy F = new_copy ODiagnosisSpec get_DiagnosisSpec (DiagnosisSpec_DeepCopyInto F)"

definition DiagnosisStatus_DeepCopy :: "'f foreign \<Rightarrow> addr option \<Rightarrow> ('f obj heap, addr option) state" where
  "DiagnosisStatus_DeepCopy F = new_copy ODiagnosisStatus get_DiagnosisStatus (DiagnosisStatus_DeepCopyInto F)"

definition Evidence_DeepCopy :: "addr option \<Rightarrow> ('f obj heap, addr option) state" where
  "Evidence_DeepCopy = new_copy OEvidence get_Evidence Evidence_DeepCopyInto"

definition EvidenceItem_DeepCopy :: "addr option \<Rightarrow> ('f obj heap, addr option) state" where
  "EvidenceItem_DeepCopy = new_copy OEvidenceItem get_EvidenceItem EvidenceItem_DeepCopyInto"

definition HealingPolicy_DeepCopy :: "'f foreign \<Rightarrow> addr option \<Rightarrow> ('f obj heap, addr option) state" where
  "HealingPolicy_DeepCopy F = new_copy OHealingPolicy get_HealingPolicy (HealingPolicy_DeepCopyInto F)"

definition HealingPolicyList_DeepCopy :: "'f foreign \<Rightarrow> addr option \<Rightarrow> ('f obj heap, addr option) state" where
  "HealingPolicyList_DeepCopy F = new_copy OHealingPolicyList get_HealingPolicyList (HealingPolicyList_DeepCopyInto F)"

definition HealingPolicySpec_DeepCopy :: "addr option \<Rightarrow> ('f obj heap, addr option) state" where
  "HealingPolicySpec_DeepCopy = new_copy OHealingPolicySpec get_HealingPolicySpec HealingPolicySpec_DeepCopyInto"

definition HealingPolicyStatus_DeepCopy :: "'f foreign \<Rightarrow> addr option \<Rightarrow> ('f obj heap, addr option) state" where
  "HealingPolicyStatus_DeepCopy F = new_copy OHealingPolicyStatus get_HealingPolicyStatus (HealingPolicyStatus_DeepCopyInto F)"

definition Hypothesis_DeepCopy :: "addr option \<Rightarrow> ('f obj heap, addr option) state" where
  "Hypothesis_DeepCopy = new_copy OHypothesis get_Hypothesis Hypothesis_DeepCopyInto"

definition Investigation_DeepCopy :: "addr option \<Rightarrow> ('f obj heap, addr option) state" where
  "Investigation_DeepCopy = new_copy OInvestigation get_Investigation Investigation_DeepCopyInto"

definition Judgement_DeepCopy :: "addr option \<Rightarrow> ('f obj heap, addr option) state" where
  "Judgement_DeepCopy = new_copy OJudgement get_Judgement Judgement_DeepCopyInto"

definition OwnerRef_DeepCopy :: "addr option \<Rightarrow> ('f obj heap, addr option) state" where
  "OwnerRef_DeepCopy = new_copy OOwnerRef get_OwnerRef OwnerRef_DeepCopyInto"

definition Plan_DeepCopy :: "addr option \<Rightarrow> ('f obj heap, addr option) state" where
  "Plan_DeepCopy = new_copy OPlan get_Plan Plan_DeepCopyInto"

definition RankedAction_DeepCopy :: "addr option \<Rightarrow> ('f obj heap, addr option) state" where
  "RankedAction_DeepCopy = new_copy ORankedAction get_RankedAction RankedAction_DeepCopyInto"

definition Remediation_DeepCopy :: "addr option \<Rightarrow> ('f obj heap, addr option) state" where
  "Remediation_DeepCopy = new_copy ORemediation get_Remediation Remediation_DeepCopyInto"

definition RemediationConfig_DeepCopy :: "addr option \<Rightarrow> ('f obj heap, addr option) state" where
  "RemediationConfig_DeepCopy = new_copy ORemediationConfig get_RemediationConfig RemediationConfig_DeepCopyInto"

definition TargetRef_DeepCopy :: "addr option \<Rightarrow> ('f obj heap, addr option) state" where
  "TargetRef_DeepCopy = new_copy OTargetRef get_TargetRef TargetRef_DeepCopyInto"

definition Timings_DeepCopy :: "'f foreign \<Rightarrow> addr option \<Rightarrow> ('f obj heap, addr option) state" where
  "Timings_DeepCopy F = new_copy OTimings get_Timings (Timings_DeepCopyInto F)"

definition ToolCall_DeepCopy :: "addr option \<Rightarrow> ('f obj heap, addr option) state" where
  "ToolCall_DeepCopy = new_copy OToolCall get_ToolCall ToolCall_DeepCopyInto"

definition Verdict_DeepCopy :: "addr option \<Rightarrow> ('f obj heap, addr option) state" where
  "Verdict_DeepCopy = new_copy OVerdict get_Verdict Verdict_DeepCopyInto"

text \<open>\<open>DeepCopyObject\<close> returns an interface: \<open>nil\<close> of its own, and not a nil pointer of the type, when
  there is nothing to copy.\<close>

datatype Object = NoObject | DiagnosisObject "addr option" | DiagnosisListObject "addr option"
  | HealingPolicyObject "addr option" | HealingPolicyListObject "addr option"

definition as_object :: "(addr option \<Rightarrow> Object) \<Rightarrow> addr option \<Rightarrow> Object" where
  "as_object mk c = (if c \<noteq> None then mk c else NoObject)"

definition Diagnosis_DeepCopyObject :: "'f foreign \<Rightarrow> addr option \<Rightarrow> ('f obj heap, Object) state" where
  "Diagnosis_DeepCopyObject F p = do { c \<leftarrow> Diagnosis_DeepCopy F p; State_Monad.return (as_object DiagnosisObject c) }"

definition DiagnosisList_DeepCopyObject :: "'f foreign \<Rightarrow> addr option \<Rightarrow> ('f obj heap, Object) state" where
  "DiagnosisList_DeepCopyObject F p = do { c \<leftarrow> DiagnosisList_DeepCopy F p; State_Monad.return (as_object DiagnosisListObject c) }"

definition HealingPolicy_DeepCopyObject :: "'f foreign \<Rightarrow> addr option \<Rightarrow> ('f obj heap, Object) state" where
  "HealingPolicy_DeepCopyObject F p = do { c \<leftarrow> HealingPolicy_DeepCopy F p; State_Monad.return (as_object HealingPolicyObject c) }"

definition HealingPolicyList_DeepCopyObject :: "'f foreign \<Rightarrow> addr option \<Rightarrow> ('f obj heap, Object) state" where
  "HealingPolicyList_DeepCopyObject F p = do { c \<leftarrow> HealingPolicyList_DeepCopy F p; State_Monad.return (as_object HealingPolicyListObject c) }"

end
