(* ===== verification/Detector.thy ===== *)
theory Detector
  imports Kube
begin

text \<open>
  \<open>src/internal/detector/detector.go\<close>: the classification of one pod. Durations are \<open>int64\<close>
  nanoseconds whose arithmetic wraps, and the difference of two times saturates, as in Go's
  \<open>time\<close> package.
\<close>

definition second :: int where
  "second = 1000000000"

definition unschedulableGrace :: int where
  "unschedulableGrace = 30 * second"

definition probeGraceBuffer :: int where
  "probeGraceBuffer = 15 * second"

definition defaultProbePeriod :: int where
  "defaultProbePeriod = 10 * second"

definition defaultProbeFailureThreshold :: int where
  "defaultProbeFailureThreshold = 3"

lemmas grace_defs = second_def unschedulableGrace_def probeGraceBuffer_def defaultProbePeriod_def
  defaultProbeFailureThreshold_def

definition time_sub :: "gotime \<Rightarrow> gotime \<Rightarrow> int" where
  "time_sub a b = sat64 (a - b)"

record Signal =
  sg_failureType :: FailureType
  sg_container :: string
  sg_reason :: string
  sg_observedReason :: string
  sg_message :: string
  sg_exitCode :: "int option"
  sg_restartCount :: int

definition reasonOOMKilled :: string where
  "reasonOOMKilled = ''OOMKilled''"

definition waitingReasonToFailureType :: "string \<Rightarrow> FailureType option" where
  "waitingReasonToFailureType reason =
     (if reason = ''CrashLoopBackOff'' then Some FailureCrashLoopBackOff
      else if reason \<in> set [''ImagePullBackOff'', ''ErrImagePull'', ''InvalidImageName'',
                            ''ImageInspectError'', ''ErrImageNeverPull'']
      then Some FailureImagePullBackOff
      else if reason = ''CreateContainerConfigError'' then Some FailureCreateContainerConfigError
      else if reason \<in> set [''RunContainerError'', ''CreateContainerError'']
      then Some FailureRunContainerError
      else None)"

definition currentReason :: "ContainerStatus \<Rightarrow> string" where
  "currentReason cs =
     (case cz_waiting (cs_state cs) of Some wait \<Rightarrow> wa_reason wait
      | None \<Rightarrow> (case cz_terminated (cs_state cs) of Some term \<Rightarrow> te_reason term | None \<Rightarrow> []))"

definition lastExitCode :: "ContainerStatus \<Rightarrow> int option" where
  "lastExitCode cs = map_option te_exitCode (cz_terminated (cs_lastTerminationState cs))"

definition probe_budget :: "Probe \<Rightarrow> int" where
  "probe_budget probe =
     (let p = wrap64 (pr_periodSeconds probe * second);
          period = (if p \<le> 0 then defaultProbePeriod else p);
          t = pr_failureThreshold probe;
          threshold = (if t \<le> 0 then defaultProbeFailureThreshold else t);
          initial = wrap64 (pr_initialDelaySeconds probe * second)
      in wrap64 (wrap64 (initial + wrap64 (threshold * period)) + probeGraceBuffer))"

definition readinessBudget :: "Pod \<Rightarrow> string \<Rightarrow> int option" where
  "readinessBudget pod container =
     (case List.find (\<lambda>c. co_name c = container) (sp_containers (pod_spec pod)) of
        None \<Rightarrow> None
      | Some c \<Rightarrow> map_option probe_budget (co_readinessProbe c))"

definition classifyProbeFailure :: "Pod \<Rightarrow> ContainerStatus \<Rightarrow> gotime \<Rightarrow> Signal option" where
  "classifyProbeFailure pod cs now =
     (case cz_running (cs_state cs) of None \<Rightarrow> None
      | Some startedAt \<Rightarrow>
          if cs_ready cs then None
          else (case readinessBudget pod (cs_name cs) of None \<Rightarrow> None
                | Some grace \<Rightarrow>
                    if time_sub now startedAt < grace then None
                    else Some
                      \<lparr>sg_failureType = FailureProbeFailure, sg_container = cs_name cs,
                       sg_reason = ''ReadinessProbeFailed'', sg_observedReason = [],
                       sg_message = ''container has been running past its declared readiness budget without becoming ready'',
                       sg_exitCode = None, sg_restartCount = cs_restartCount cs\<rparr>))"

text \<open>The checks of \<open>classifyContainer\<close> in order, each None when it does not apply.\<close>

definition oom_last :: "ContainerStatus \<Rightarrow> Signal option" where
  "oom_last cs =
     (case cz_terminated (cs_lastTerminationState cs) of None \<Rightarrow> None
      | Some term \<Rightarrow>
          if te_reason term = reasonOOMKilled then Some
            \<lparr>sg_failureType = FailureOOMKilled, sg_container = cs_name cs,
             sg_reason = te_reason term, sg_observedReason = currentReason cs,
             sg_message = te_message term, sg_exitCode = Some (te_exitCode term),
             sg_restartCount = cs_restartCount cs\<rparr>
          else None)"

definition oom_now :: "ContainerStatus \<Rightarrow> Signal option" where
  "oom_now cs =
     (case cz_terminated (cs_state cs) of None \<Rightarrow> None
      | Some term \<Rightarrow>
          if te_reason term = reasonOOMKilled then Some
            \<lparr>sg_failureType = FailureOOMKilled, sg_container = cs_name cs,
             sg_reason = te_reason term, sg_observedReason = [],
             sg_message = te_message term, sg_exitCode = Some (te_exitCode term),
             sg_restartCount = cs_restartCount cs\<rparr>
          else None)"

definition waiting_failure :: "ContainerStatus \<Rightarrow> Signal option" where
  "waiting_failure cs =
     (case cz_waiting (cs_state cs) of None \<Rightarrow> None
      | Some wait \<Rightarrow>
          (case waitingReasonToFailureType (wa_reason wait) of None \<Rightarrow> None
           | Some ft \<Rightarrow> Some
              \<lparr>sg_failureType = ft, sg_container = cs_name cs, sg_reason = wa_reason wait,
               sg_observedReason = [], sg_message = wa_message wait,
               sg_exitCode = lastExitCode cs, sg_restartCount = cs_restartCount cs\<rparr>))"

definition exited_nonzero :: "Pod \<Rightarrow> ContainerStatus \<Rightarrow> Signal option" where
  "exited_nonzero pod cs =
     (case cz_terminated (cs_state cs) of None \<Rightarrow> None
      | Some term \<Rightarrow>
          if te_exitCode term \<noteq> 0 \<and> sp_restartPolicy (pod_spec pod) \<noteq> ''Never'' then Some
            \<lparr>sg_failureType = FailureCrashLoopBackOff, sg_container = cs_name cs,
             sg_reason = te_reason term, sg_observedReason = [],
             sg_message = te_message term, sg_exitCode = Some (te_exitCode term),
             sg_restartCount = cs_restartCount cs\<rparr>
          else None)"

definition classifyContainer :: "Pod \<Rightarrow> ContainerStatus \<Rightarrow> gotime \<Rightarrow> Signal option" where
  "classifyContainer pod cs now =
     (case oom_last cs of Some s \<Rightarrow> Some s | None \<Rightarrow>
      (case oom_now cs of Some s \<Rightarrow> Some s | None \<Rightarrow>
       (case waiting_failure cs of Some s \<Rightarrow> Some s | None \<Rightarrow>
        (case exited_nonzero pod cs of Some s \<Rightarrow> Some s | None \<Rightarrow>
         classifyProbeFailure pod cs now))))"

text \<open>The loop over the conditions ends at the first that reports an unschedulable pod, within its
  grace or not.\<close>

definition unschedulable_condition :: "PodCondition \<Rightarrow> bool" where
  "unschedulable_condition cond \<longleftrightarrow>
     pc_type cond = ''PodScheduled'' \<and> pc_status cond = ''False'' \<and>
     pc_reason cond = ''Unschedulable''"

fun unschedulable_loop :: "PodCondition list \<Rightarrow> gotime \<Rightarrow> Signal option" where
  "unschedulable_loop [] now = None"
| "unschedulable_loop (cond # conds) now =
     (if \<not> unschedulable_condition cond then unschedulable_loop conds now
      else if time_sub now (pc_lastTransitionTime cond) < unschedulableGrace then None
      else Some
        \<lparr>sg_failureType = FailureUnschedulable, sg_container = [], sg_reason = pc_reason cond,
         sg_observedReason = [], sg_message = pc_message cond, sg_exitCode = None,
         sg_restartCount = 0\<rparr>)"

definition classifyUnschedulable :: "Pod \<Rightarrow> gotime \<Rightarrow> Signal option" where
  "classifyUnschedulable pod now =
     (if po_phase (pod_status pod) \<noteq> ''Pending'' then None
      else unschedulable_loop (po_conditions (pod_status pod)) now)"

fun classify_containers :: "Pod \<Rightarrow> ContainerStatus list \<Rightarrow> gotime \<Rightarrow> Signal option" where
  "classify_containers pod [] now = None"
| "classify_containers pod (cs # css) now =
     (case classifyContainer pod cs now of
        Some s \<Rightarrow> Some s | None \<Rightarrow> classify_containers pod css now)"

definition Classify :: "Pod option \<Rightarrow> gotime \<Rightarrow> Signal option" where
  "Classify p now =
     (case p of None \<Rightarrow> None
      | Some pod \<Rightarrow>
          if pod_deletionTimestamp pod \<noteq> None then None
          else if po_reason (pod_status pod) = ''Evicted'' then Some
            \<lparr>sg_failureType = FailureEvicted, sg_container = [],
             sg_reason = po_reason (pod_status pod), sg_observedReason = [],
             sg_message = po_message (pod_status pod), sg_exitCode = None, sg_restartCount = 0\<rparr>
          else (case classifyUnschedulable pod now of Some s \<Rightarrow> Some s
                | None \<Rightarrow> classify_containers pod (po_containerStatuses (pod_status pod)) now))"

end
