(* ===== verification/DetectorProps.thy ===== *)
theory DetectorProps
  imports Detector
begin

text \<open>
  What \<open>Classify\<close> promises. \<open>container_fault\<close> is the specification of ADR-013, stated as rules
  with the precedence of causes over symptoms in their side conditions; the theorems show that
  the cascade of checks implements it, that nothing failing goes unreported, that what is
  reported stays reported as time passes, and where the readiness budget can be trusted.
\<close>

lemma sat64_mono: "a \<le> b \<Longrightarrow> sat64 a \<le> sat64 b"
  by (auto simp: sat64_def)

lemma time_sub_mono: "a \<le> b \<Longrightarrow> time_sub a t \<le> time_sub b t"
  by (simp add: time_sub_def sat64_mono)

subsection \<open>The specification\<close>

definition oom_killed :: "ContainerState \<Rightarrow> bool" where
  "oom_killed st \<longleftrightarrow> (\<exists>term. cz_terminated st = Some term \<and> te_reason term = ''OOMKilled'')"

definition was_oom :: "ContainerStatus \<Rightarrow> bool" where
  "was_oom cs \<longleftrightarrow> oom_killed (cs_lastTerminationState cs) \<or> oom_killed (cs_state cs)"

definition held_back :: "ContainerStatus \<Rightarrow> FailureType \<Rightarrow> bool" where
  "held_back cs ft \<longleftrightarrow>
     (\<exists>wait. cz_waiting (cs_state cs) = Some wait \<and> waitingReasonToFailureType (wa_reason wait) = Some ft)"

definition crashed :: "Pod \<Rightarrow> ContainerStatus \<Rightarrow> bool" where
  "crashed pod cs \<longleftrightarrow>
     (\<exists>term. cz_terminated (cs_state cs) = Some term \<and> te_exitCode term \<noteq> 0) \<and>
     sp_restartPolicy (pod_spec pod) \<noteq> ''Never''"

definition unready :: "Pod \<Rightarrow> gotime \<Rightarrow> ContainerStatus \<Rightarrow> bool" where
  "unready pod now cs \<longleftrightarrow>
     (\<exists>since budget. cz_running (cs_state cs) = Some since \<and> \<not> cs_ready cs \<and>
        readinessBudget pod (cs_name cs) = Some budget \<and> budget \<le> time_sub now since)"

inductive container_fault :: "Pod \<Rightarrow> gotime \<Rightarrow> ContainerStatus \<Rightarrow> FailureType \<Rightarrow> bool" where
  oom: "was_oom cs \<Longrightarrow> container_fault pod now cs FailureOOMKilled"
| waiting: "\<not> was_oom cs \<Longrightarrow> held_back cs ft \<Longrightarrow> container_fault pod now cs ft"
| crash: "\<not> was_oom cs \<Longrightarrow> (\<And>ft. \<not> held_back cs ft) \<Longrightarrow> crashed pod cs \<Longrightarrow>
    container_fault pod now cs FailureCrashLoopBackOff"
| probe: "\<not> was_oom cs \<Longrightarrow> (\<And>ft. \<not> held_back cs ft) \<Longrightarrow> \<not> crashed pod cs \<Longrightarrow> unready pod now cs \<Longrightarrow>
    container_fault pod now cs FailureProbeFailure"

inductive_cases container_faultE: "container_fault pod now cs ft"

lemma oom_last_eq: "oom_last cs = None \<longleftrightarrow> \<not> oom_killed (cs_lastTerminationState cs)"
  "oom_now cs = None \<longleftrightarrow> \<not> oom_killed (cs_state cs)"
  by (auto simp: oom_last_def oom_now_def oom_killed_def reasonOOMKilled_def split: option.splits)

lemma waiting_failure_eq:
  "waiting_failure cs = None \<longleftrightarrow> (\<forall>ft. \<not> held_back cs ft)"
  "waiting_failure cs = Some s \<Longrightarrow> held_back cs (sg_failureType s)"
  by (auto simp: waiting_failure_def held_back_def split: option.splits)

lemma exited_nonzero_eq: "exited_nonzero pod cs = None \<longleftrightarrow> \<not> crashed pod cs"
  by (auto simp: exited_nonzero_def crashed_def split: option.splits)

lemma classifyProbeFailure_eq: "classifyProbeFailure pod cs now = None \<longleftrightarrow> \<not> unready pod now cs"
  by (auto simp: classifyProbeFailure_def unready_def split: option.splits)

lemmas check_eqs = oom_last_eq waiting_failure_eq(1) exited_nonzero_eq classifyProbeFailure_eq

lemma check_types [simp]:
  "oom_last cs = Some s \<Longrightarrow> sg_failureType s = FailureOOMKilled"
  "oom_now cs = Some s \<Longrightarrow> sg_failureType s = FailureOOMKilled"
  "exited_nonzero pod cs = Some s \<Longrightarrow> sg_failureType s = FailureCrashLoopBackOff"
  "classifyProbeFailure pod cs now = Some s \<Longrightarrow> sg_failureType s = FailureProbeFailure"
  by (auto simp: oom_last_def oom_now_def exited_nonzero_def classifyProbeFailure_def
      split: option.splits if_splits)

lemma check_names [simp]:
  "oom_last cs = Some s \<Longrightarrow> sg_container s = cs_name cs"
  "oom_now cs = Some s \<Longrightarrow> sg_container s = cs_name cs"
  by (auto simp: oom_last_def oom_now_def split: option.splits if_splits)

lemma waiting_failure_name [simp]: "waiting_failure cs = Some s \<Longrightarrow> sg_container s = cs_name cs"
  by (auto simp: waiting_failure_def split: option.splits)

lemma exited_nonzero_name [simp]: "exited_nonzero pod cs = Some s \<Longrightarrow> sg_container s = cs_name cs"
  by (auto simp: exited_nonzero_def split: option.splits if_splits)

lemma classifyProbeFailure_name [simp]:
  "classifyProbeFailure pod cs now = Some s \<Longrightarrow> sg_container s = cs_name cs"
  by (auto simp: classifyProbeFailure_def split: option.splits if_splits)

lemma classifyContainer_name:
  "classifyContainer pod cs now = Some s \<Longrightarrow> sg_container s = cs_name cs"
  by (auto simp: classifyContainer_def split: option.splits)

lemma container_fault_det:
  "container_fault pod now cs ft \<Longrightarrow> container_fault pod now cs ft' \<Longrightarrow> ft = ft'"
  by (auto elim!: container_faultE simp: held_back_def)

lemma classifyContainer_fault:
  assumes "classifyContainer pod cs now = Some s"
  shows "container_fault pod now cs (sg_failureType s)"
proof (cases "was_oom cs")
  case True
  then have "sg_failureType s = FailureOOMKilled"
    using assms oom_last_eq [of cs] check_types(1,2) [of cs s]
    by (auto simp: classifyContainer_def was_oom_def split: option.splits)
  with True show ?thesis by (auto intro: oom)
next
  case False
  then have "oom_last cs = None" "oom_now cs = None" by (auto simp: was_oom_def check_eqs)
  with assms consider "waiting_failure cs = Some s"
    | "waiting_failure cs = None" "exited_nonzero pod cs = Some s"
    | "waiting_failure cs = None" "exited_nonzero pod cs = None" "classifyProbeFailure pod cs now = Some s"
    by (auto simp: classifyContainer_def split: option.splits)
  then show ?thesis
  proof cases
    case 1 then show ?thesis using False by (blast intro: waiting waiting_failure_eq(2))
  next
    case 2
    then have "crashed pod cs" using exited_nonzero_eq [of pod cs] by simp
    with 2 False show ?thesis by (auto simp: check_eqs intro: crash)
  next
    case 3
    then have "unready pod now cs" using classifyProbeFailure_eq [of pod cs now] by simp
    with 3 False show ?thesis by (auto simp: check_eqs intro: probe)
  qed
qed

lemma classifyContainer_None:
  "classifyContainer pod cs now = None \<Longrightarrow> \<not> container_fault pod now cs ft"
  by (auto simp: classifyContainer_def check_eqs was_oom_def elim!: container_faultE split: option.splits)

lemma classify_containers_Some:
  "classify_containers pod css now = Some s \<Longrightarrow>
     \<exists>cs \<in> set css. classifyContainer pod cs now = Some s"
  by (induction css) (auto split: option.splits)

lemma classify_containers_None:
  "classify_containers pod css now = None \<longleftrightarrow> (\<forall>cs \<in> set css. classifyContainer pod cs now = None)"
  by (induction css) (auto split: option.splits)

lemma unschedulable_loop_Some:
  "unschedulable_loop conds now = Some s \<Longrightarrow> sg_failureType s = FailureUnschedulable \<and>
     (\<exists>c \<in> set conds. unschedulable_condition c \<and> unschedulableGrace \<le> time_sub now (pc_lastTransitionTime c))"
  by (induction conds) (auto split: if_splits)

text \<open>The three ways a pod can be reported.\<close>

lemma Classify_cases:
  assumes "Classify (Some pod) now = Some s"
  obtains (evicted) "pod_deletionTimestamp pod = None" "po_reason (pod_status pod) = ''Evicted''"
      "sg_failureType s = FailureEvicted"
  | (unschedulable) "pod_deletionTimestamp pod = None" "po_reason (pod_status pod) \<noteq> ''Evicted''"
      "classifyUnschedulable pod now = Some s"
  | (container) cs where "pod_deletionTimestamp pod = None" "po_reason (pod_status pod) \<noteq> ''Evicted''"
      "cs \<in> set (po_containerStatuses (pod_status pod))" "classifyContainer pod cs now = Some s"
  using assms
  by (auto simp: Classify_def split: if_splits option.splits dest!: classify_containers_Some)

subsection \<open>Properties\<close>

lemma classify_loops_None:
  "Classify (Some pod) now = None \<Longrightarrow> pod_deletionTimestamp pod = None \<Longrightarrow>
     po_reason (pod_status pod) \<noteq> ''Evicted'' \<and> classifyUnschedulable pod now = None \<and>
     (\<forall>cs \<in> set (po_containerStatuses (pod_status pod)). classifyContainer pod cs now = None)"
  by (auto simp: Classify_def classify_containers_None split: if_splits option.splits)

text \<open>C21. Soundness of \<open>Classify\<close>: a signal names a failure the pod exhibits. An eviction is a pod
  evicted by the kubelet, an unschedulable report rests on a condition of a pending pod older than
  the grace, and any other type is the failure that the precedence of ADR-013 gives the container
  the signal names; a pod being deleted is never reported.\<close>

theorem Classify_sound:
  assumes "Classify (Some pod) now = Some s"
  shows "pod_deletionTimestamp pod = None \<and>
    (sg_failureType s = FailureEvicted \<and> po_reason (pod_status pod) = ''Evicted'' \<or>
     sg_failureType s = FailureUnschedulable \<and> po_phase (pod_status pod) = ''Pending'' \<and>
       list_ex (\<lambda>c. unschedulable_condition c \<and>
                    unschedulableGrace \<le> time_sub now (pc_lastTransitionTime c))
         (po_conditions (pod_status pod)) \<or>
     list_ex (\<lambda>cs. cs_name cs = sg_container s \<and> container_fault pod now cs (sg_failureType s))
       (po_containerStatuses (pod_status pod)))"
  using assms
proof (cases rule: Classify_cases)
  case unschedulable
  then show ?thesis
    by (auto simp: classifyUnschedulable_def list_ex_iff split: if_splits dest!: unschedulable_loop_Some)
next
  case (container cs)
  then show ?thesis
    by (auto simp: list_ex_iff classifyContainer_name classifyContainer_fault)
qed simp

text \<open>C22. Completeness of \<open>Classify\<close>: a pod that is not being deleted and has a container that
  exhibits a failure is always reported, whatever the other containers do.\<close>

theorem Classify_complete:
  assumes "pod_deletionTimestamp pod = None" "cs \<in> set (po_containerStatuses (pod_status pod))"
    and "container_fault pod now cs ft"
  shows "\<exists>s. Classify (Some pod) now = Some s"
  using assms classify_loops_None [of pod now] classifyContainer_None [of pod cs now ft]
  by (cases "Classify (Some pod) now") auto

lemma unready_later: "unready pod now cs \<Longrightarrow> now \<le> later \<Longrightarrow> unready pod later cs"
  unfolding unready_def by (meson order_trans time_sub_mono)

lemma container_fault_later:
  "container_fault pod now cs ft \<Longrightarrow> now \<le> later \<Longrightarrow> container_fault pod later cs ft"
  by (auto elim!: container_faultE intro: container_fault.intros unready_later)

lemma unschedulable_loop_later:
  "unschedulable_loop conds now = Some s \<Longrightarrow> now \<le> later \<Longrightarrow> unschedulable_loop conds later = Some s"
proof (induction conds)
  case (Cons c conds)
  then show ?case using time_sub_mono [of now later "pc_lastTransitionTime c"]
    by (auto split: if_splits)
qed simp

lemma classifyContainer_later:
  assumes "classifyContainer pod cs now = Some s" "now \<le> later"
  shows "classifyContainer pod cs later = Some s"
proof -
  have "classifyProbeFailure pod cs now = Some x \<Longrightarrow> classifyProbeFailure pod cs later = Some x" for x
    using time_sub_mono [OF assms(2)]
    by (auto simp: classifyProbeFailure_def split: option.splits if_splits dest: order_trans)
      (meson not_less order_trans time_sub_mono assms(2))
  then show ?thesis using assms(1) by (auto simp: classifyContainer_def split: option.splits)
qed

lemma classify_containers_later:
  assumes "classify_containers pod css now = Some s" "now \<le> later"
  shows "\<exists>s'. classify_containers pod css later = Some s' \<and>
    (s' = s \<or> list_ex (\<lambda>cs. classifyContainer pod cs now = None \<and> classifyContainer pod cs later = Some s') css)"
  using assms(1)
proof (induction css)
  case (Cons cs css)
  show ?case
  proof (cases "classifyContainer pod cs now")
    case None
    with Cons show ?thesis by (cases "classifyContainer pod cs later") auto
  next
    case (Some t)
    with Cons.prems show ?thesis using classifyContainer_later [OF Some assms(2)] by simp
  qed
qed simp

lemma classifyContainer_new:
  assumes "classifyContainer pod cs now = None" "classifyContainer pod cs later = Some s"
  shows "sg_failureType s = FailureProbeFailure"
  using assms by (auto simp: classifyContainer_def split: option.splits)

lemma unschedulable_later:
  "classifyUnschedulable pod now = Some s \<Longrightarrow> now \<le> later \<Longrightarrow> classifyUnschedulable pod later = Some s"
  using unschedulable_loop_later [of _ now s later] by (simp add: classifyUnschedulable_def split: if_split_asm)

text \<open>C24. A failure that is reported stays reported as time passes while the pod does not change, by the same
  signal unless a grace period has run out in between, that of the scheduler or of another container's
  readiness, and that failure comes first in the order of the checks; then the container reported before
  still shows its failure. The grace periods delay detection and never withdraw it.\<close>

theorem Classify_persists:
  assumes "Classify (Some pod) now = Some s" "now \<le> later"
  shows "\<exists>s'. Classify (Some pod) later = Some s' \<and>
    (s' = s \<or>
     list_ex (\<lambda>cs. cs_name cs = sg_container s \<and> classifyContainer pod cs later = Some s)
       (po_containerStatuses (pod_status pod)) \<and>
     (sg_failureType s' = FailureUnschedulable \<and> classifyUnschedulable pod now = None \<or>
      sg_failureType s' = FailureProbeFailure \<and>
      list_ex (\<lambda>cs. cs_name cs = sg_container s' \<and> classifyContainer pod cs now = None \<and>
          classifyContainer pod cs later = Some s')
        (po_containerStatuses (pod_status pod))))"
  using assms(1)
proof (cases rule: Classify_cases)
  case evicted
  then show ?thesis using assms(1) by (simp add: Classify_def)
next
  case unschedulable
  then show ?thesis using unschedulable_later [OF _ assms(2)] by (simp add: Classify_def)
next
  case (container cs)
  let ?css = "po_containerStatuses (pod_status pod)"
  have still: "list_ex (\<lambda>cs. cs_name cs = sg_container s \<and> classifyContainer pod cs later = Some s) ?css"
    using container classifyContainer_later [OF container(4) assms(2)] classifyContainer_name [OF container(4)]
    by (auto simp: list_ex_iff)
  show ?thesis
  proof (cases "classifyUnschedulable pod now")
    case (Some u)
    then have "u = s" using assms(1) container by (simp add: Classify_def)
    then show ?thesis using Some unschedulable_later [OF _ assms(2)] container by (simp add: Classify_def)
  next
    case None
    with assms(1) container have "classify_containers pod ?css now = Some s" by (simp add: Classify_def)
    from classify_containers_later [OF this assms(2)] obtain t where t: "classify_containers pod ?css later = Some t"
      "t = s \<or> list_ex (\<lambda>cs. classifyContainer pod cs now = None \<and> classifyContainer pod cs later = Some t) ?css"
      by blast
    show ?thesis
    proof (cases "classifyUnschedulable pod later")
      case (Some u)
      then have "sg_failureType u = FailureUnschedulable"
        by (auto simp: classifyUnschedulable_def split: if_splits dest!: unschedulable_loop_Some)
      with Some None still container show ?thesis by (simp add: Classify_def)
    next
      case no: None
      have "t \<noteq> s \<Longrightarrow> sg_failureType t = FailureProbeFailure \<and>
          list_ex (\<lambda>cs. cs_name cs = sg_container t \<and> classifyContainer pod cs now = None \<and>
            classifyContainer pod cs later = Some t) ?css"
        using t(2) by (auto simp: list_ex_iff classifyContainer_name intro: classifyContainer_new)
      with t(1) no still container show ?thesis by (auto simp: Classify_def)
    qed
  qed
qed

text \<open>The readiness budget is the declared one: for a probe with positive period and threshold,
  a delay that is not negative and a total below the range of \<open>time.Duration\<close>, \<open>readinessBudget\<close> is exactly
  initial delay plus threshold times period plus the 15 second buffer, in nanoseconds.\<close>

lemma readinessBudget_exact:
  assumes "List.find (\<lambda>c. co_name c = name) (sp_containers (pod_spec pod)) = Some c"
    and "co_readinessProbe c = Some probe"
    and "0 \<le> pr_initialDelaySeconds probe" "0 < pr_periodSeconds probe"
    and "0 < pr_failureThreshold probe"
    and "pr_initialDelaySeconds probe + pr_failureThreshold probe * pr_periodSeconds probe + 15
           \<le> 9223372036"
  shows "readinessBudget pod name =
    Some ((pr_initialDelaySeconds probe + pr_failureThreshold probe * pr_periodSeconds probe + 15) *
          1000000000)"
proof -
  let ?i = "pr_initialDelaySeconds probe" and ?p = "pr_periodSeconds probe"
    and ?t = "pr_failureThreshold probe"
  define T where "T = ?t * ?p"
  have T: "?p \<le> T" using assms(4,5) by (simp add: T_def mult_le_cancel_right1)
  have le: "?i + T + 15 \<le> 9223372036" using assms(6) by (simp add: T_def)
  have ranges: "is_int64 (?p * 1000000000)" "is_int64 (?i * 1000000000)" "is_int64 (T * 1000000000)"
    "is_int64 (?i * 1000000000 + T * 1000000000)"
    "is_int64 (?i * 1000000000 + T * 1000000000 + 15000000000)"
    unfolding is_int64_def using T le assms(3,4) by linarith+
  have tG: "?t * (?p * 1000000000) = T * 1000000000" by (simp add: T_def)
  have "probe_budget probe = ?i * 1000000000 + T * 1000000000 + 15000000000"
    using assms(4,5) ranges by (simp add: probe_budget_def Let_def grace_defs tG)
  then have "probe_budget probe = (?i + ?t * ?p + 15) * 1000000000" by (simp add: T_def algebra_simps)
  with assms(1,2) show ?thesis by (simp add: readinessBudget_def)
qed

text \<open>C23. A container that does not become ready is reported on time: with a readiness probe of positive period
  and threshold, a delay that is not negative and a total within the range of \<open>time.Duration\<close>, a running
  container that is not ready is a probe failure precisely from initial delay plus threshold times period
  plus 15 seconds after its start, and a ready one never is.\<close>

theorem classifyProbeFailure_timed:
  assumes "List.find (\<lambda>c. co_name c = cs_name cs) (sp_containers (pod_spec pod)) = Some c"
    and "co_readinessProbe c = Some probe" "cz_running (cs_state cs) = Some since"
    and "0 \<le> pr_initialDelaySeconds probe" "0 < pr_periodSeconds probe" "0 < pr_failureThreshold probe"
    and "pr_initialDelaySeconds probe + pr_failureThreshold probe * pr_periodSeconds probe + 15 \<le> 9223372036"
  shows "classifyProbeFailure pod cs now \<noteq> None \<longleftrightarrow> \<not> cs_ready cs \<and>
    since + (pr_initialDelaySeconds probe + pr_failureThreshold probe * pr_periodSeconds probe + 15) * 1000000000 \<le> now"
proof -
  define total where "total = pr_initialDelaySeconds probe + pr_failureThreshold probe * pr_periodSeconds probe + 15"
  have "readinessBudget pod (cs_name cs) = Some (total * 1000000000)"
    unfolding total_def using assms(1,2,4-7) by (rule readinessBudget_exact)
  moreover have "0 \<le> total" using assms(4-6) by (simp add: total_def)
  moreover have "total \<le> 9223372036" using assms(7) by (simp add: total_def)
  ultimately show ?thesis
    using assms(3) unfolding total_def [symmetric] classifyProbeFailure_eq unready_def
    by (auto simp: time_sub_def sat64_def)
qed

text \<open>The probe that a second long period and three failures make.\<close>

definition cs_unready :: "string \<Rightarrow> gotime \<Rightarrow> ContainerStatus" where
  "cs_unready n since =
     \<lparr>cs_name = n, cs_state = \<lparr>cz_waiting = None, cz_running = Some since, cz_terminated = None\<rparr>,
      cs_lastTerminationState = \<lparr>cz_waiting = None, cz_running = None, cz_terminated = None\<rparr>,
      cs_ready = False, cs_restartCount = 0\<rparr>"

definition pod_probed :: "int \<Rightarrow> int \<Rightarrow> int \<Rightarrow> ContainerStatus list \<Rightarrow> Pod" where
  "pod_probed i p t css =
     (Pod_named ''default'' ''web-1'')
       \<lparr>pod_spec := PodSpec_zero
          \<lparr>sp_containers :=
             [\<lparr>co_name = ''web'', co_image = [], co_command = [], co_args = [], co_resources = JNull,
               co_ports = [],
               co_readinessProbe = Some \<lparr>pr_initialDelaySeconds = i, pr_periodSeconds = p,
                                         pr_failureThreshold = t, pr_json = JNull\<rparr>,
               co_livenessProbe = None, co_envFrom = [], co_env = []\<rparr>]\<rparr>,
        pod_status := PodStatus_zero\<lparr>po_containerStatuses := css\<rparr>\<rparr>"

lemma pod_probed_simps [simp]:
  "pod_deletionTimestamp (pod_probed i p t css) = None"
  "pod_status (pod_probed i p t css) = PodStatus_zero\<lparr>po_containerStatuses := css\<rparr>"
  by (simp_all add: pod_probed_def Pod_named_def)

lemma PodStatus_zero_simps [simp]:
  "po_reason PodStatus_zero = []" "po_phase PodStatus_zero = []" "po_conditions PodStatus_zero = []"
  by (simp_all add: PodStatus_zero_def)

definition cs_crashing :: ContainerStatus where
  "cs_crashing =
     \<lparr>cs_name = ''web'',
      cs_state = \<lparr>cz_waiting = Some \<lparr>wa_reason = ''CrashLoopBackOff'', wa_message = []\<rparr>,
                  cz_running = None, cz_terminated = None\<rparr>,
      cs_lastTerminationState =
        \<lparr>cz_waiting = None, cz_running = None,
         cz_terminated = Some \<lparr>te_reason = ''OOMKilled'', te_message = [], te_exitCode = 137\<rparr>\<rparr>,
      cs_ready = False, cs_restartCount = 4\<rparr>"

text \<open>The readiness budget can overflow: the largest period and threshold an \<open>int32\<close> holds give a
  negative budget, so a container that started this instant is reported as a probe failure.\<close>

lemma readinessBudget_overflows:
  "readinessBudget (pod_probed 0 2147483647 2147483647 []) ''web'' = Some (- 4294967280000000000) \<and>
   map_option sg_failureType
     (Classify (Some (pod_probed 0 2147483647 2147483647 [cs_unready ''web'' now])) now) =
   Some FailureProbeFailure"
proof -
  have b: "readinessBudget (pod_probed 0 2147483647 2147483647 css) ''web'' = Some (- 4294967280000000000)" for css
    by (simp add: readinessBudget_def pod_probed_def probe_budget_def grace_defs wrap64_def)
  then show ?thesis
    by (simp add: Classify_def classifyUnschedulable_def classifyContainer_def oom_last_def oom_now_def
        waiting_failure_def exited_nonzero_def classifyProbeFailure_def cs_unready_def time_sub_def
        sat64_def)
qed

lemma Classify_sound_witness:
  "pod_deletionTimestamp (pod_probed 0 10 3 [cs_crashing]) = None \<and>
   list_ex (\<lambda>cs. cs_name cs = ''web'' \<and> container_fault (pod_probed 0 10 3 [cs_crashing]) 0 cs FailureOOMKilled)
     [cs_crashing]"
proof -
  have "map_option (\<lambda>s. (sg_failureType s, sg_container s))
      (Classify (Some (pod_probed 0 10 3 [cs_crashing])) 0) = Some (FailureOOMKilled, ''web'')"
    by code_simp
  then obtain s where "Classify (Some (pod_probed 0 10 3 [cs_crashing])) 0 = Some s"
    and "sg_failureType s = FailureOOMKilled" "sg_container s = ''web''" by auto
  then show ?thesis
    using Classify_sound [of "pod_probed 0 10 3 [cs_crashing]" 0 s] by (simp add: pod_probed_def PodStatus_zero_def)
qed

lemma classifyProbeFailure_timed_witness:
  "classifyProbeFailure (pod_probed 0 10 3 []) (cs_unready ''web'' 0) 44999999999 = None \<and>
   classifyProbeFailure (pod_probed 0 10 3 []) (cs_unready ''web'' 0) 45000000000 \<noteq> None"
proof -
  let ?c = "hd (sp_containers (pod_spec (pod_probed 0 10 3 [])))"
  have w: "classifyProbeFailure (pod_probed 0 10 3 []) (cs_unready ''web'' 0) now \<noteq> None \<longleftrightarrow> 45000000000 \<le> now" for now
    using classifyProbeFailure_timed [of "cs_unready ''web'' 0" "pod_probed 0 10 3 []" ?c "the (co_readinessProbe ?c)" 0 now]
    by (simp add: pod_probed_def cs_unready_def)
  show ?thesis using w [of 44999999999] w [of 45000000000] by simp
qed

lemma Classify_complete_witness:
  "\<exists>s. Classify (Some (pod_probed 0 10 3 [cs_unready ''sidecar'' 0, cs_crashing])) 0 = Some s"
proof (rule Classify_complete [where cs = cs_crashing])
  show "container_fault (pod_probed 0 10 3 [cs_unready ''sidecar'' 0, cs_crashing]) 0 cs_crashing FailureOOMKilled"
    by (rule oom) (simp add: was_oom_def oom_killed_def cs_crashing_def)
qed (simp_all add: pod_probed_def Pod_named_def)

lemma Classify_persists_witness:
  "let p = pod_probed 0 10 3 [cs_unready ''web'' 0, cs_crashing\<lparr>cs_name := ''side''\<rparr>] in
     \<exists>s. Classify (Some p) 0 = Some s \<and> sg_container s = ''side'' \<and>
       list_ex (\<lambda>cs. cs_name cs = ''side'' \<and> classifyContainer p cs 3600000000000 = Some s)
         (po_containerStatuses (pod_status p))"
proof -
  let ?p = "pod_probed 0 10 3 [cs_unready ''web'' 0, cs_crashing\<lparr>cs_name := ''side''\<rparr>]"
  have m: "map_option sg_container (Classify (Some ?p) 0) = Some ''side''"
    "map_option sg_container (Classify (Some ?p) 3600000000000) = Some ''web''"
    by code_simp+
  then obtain s where s: "Classify (Some ?p) 0 = Some s" "sg_container s = ''side''" by auto
  have "(0 :: int) \<le> 3600000000000" by simp
  from Classify_persists [OF s(1) this] m(2) s show ?thesis
    by (auto simp del: pod_probed_simps simp: Let_def)
qed

end
