(* ===== verification/Naming.thy ===== *)
theory Naming
  imports Kube Regex
begin

text \<open>
  \<open>src/internal/detector/signature.go\<close>: the deduplication key of a failure and the object name
  derived from it. SHA-256 is the argument \<open>sha\<close>, the lower case of code points from U+0080 on
  the argument \<open>ulower\<close> (the tables of \<open>crypto/sha256\<close> and \<open>unicode\<close>).
\<close>

definition signatureLength :: nat where "signatureLength = 8"
definition maxNameLength :: nat where "maxNameLength = 253"
definition maxWorkloadSegment :: nat where "maxWorkloadSegment = 180"

definition hex_encode :: "string \<Rightarrow> string" where
  "hex_encode s = concat (map (\<lambda>c. hex_pad 2 (byte c)) s)"

text \<open>What is hashed: the five parts with a NUL between them.\<close>

definition signature_text :: "string \<Rightarrow> string \<Rightarrow> string \<Rightarrow> string \<Rightarrow> FailureType \<Rightarrow> string" where
  "signature_text namespace ownerKind ownerName container failureType =
     join [CHR 0x00] [namespace, ownerKind, ownerName, container, FailureType_str failureType]"

definition Signature ::
    "(string \<Rightarrow> string) \<Rightarrow> string \<Rightarrow> string \<Rightarrow> string \<Rightarrow> string \<Rightarrow> FailureType \<Rightarrow> string" where
  "Signature sha namespace ownerKind ownerName container failureType =
     take signatureLength
       (hex_encode (sha (signature_text namespace ownerKind ownerName container failureType)))"

definition DirectOwner :: "Pod \<Rightarrow> (string \<times> string) option" where
  "DirectOwner pod =
     map_option (\<lambda>ref. (ow_kind ref, ow_name ref))
       (List.find (\<lambda>ref. ow_controller ref = Some True) (pod_ownerReferences pod))"

text \<open>\<open>strings.ToLower\<close>, which rewrites invalid UTF-8 once a text has any non-ASCII byte.\<close>

definition lower_rune :: "(nat \<Rightarrow> nat) \<Rightarrow> nat \<Rightarrow> nat" where
  "lower_rune ulower r =
     (if r < 128 then (if 65 \<le> r \<and> r \<le> 90 then r + 32 else r) else ulower r)"

definition ToLower :: "(nat \<Rightarrow> nat) \<Rightarrow> string \<Rightarrow> string" where
  "ToLower ulower s =
     (if ascii s then map (\<lambda>c. char_of (lower_rune ulower (byte c))) s
      else concat (map (\<lambda>t. encode_rune (lower_rune ulower (fst t))) (runes s)))"

definition name_rune :: "nat \<Rightarrow> bool" where
  "name_rune r \<longleftrightarrow> (97 \<le> r \<and> r \<le> 122) \<or> (48 \<le> r \<and> r \<le> 57) \<or> r = 46 \<or> r = 45"

definition nonNameChars :: re where
  "nonNameChars = Rep (\<lambda>r. \<not> name_rune r) 1 None"

definition sanitizeNameSegment :: "(nat \<Rightarrow> nat) \<Rightarrow> string \<Rightarrow> string" where
  "sanitizeNameSegment ulower s =
     trim_set ''-.'' (replace_re nonNameChars [Lit ''-''] (ToLower ulower s))"

definition workload_segment :: "(nat \<Rightarrow> nat) \<Rightarrow> string \<Rightarrow> string" where
  "workload_segment ulower workload =
     (let w = sanitizeNameSegment ulower workload;
          w = (if w = [] then ''pod'' else w)
      in if length w > maxWorkloadSegment then trim_set ''-.'' (take maxWorkloadSegment w) else w)"

definition DiagnosisName :: "(nat \<Rightarrow> nat) \<Rightarrow> string \<Rightarrow> FailureType \<Rightarrow> string \<Rightarrow> string" where
  "DiagnosisName ulower workload failureType signature =
     (let name = workload_segment ulower workload @ ''-'' @
                 sanitizeNameSegment ulower (FailureType_str failureType) @ ''-'' @ signature
      in if length name > maxNameLength then take maxNameLength name else name)"

subsection \<open>Sanitized segments\<close>

abbreviation name_char :: "char \<Rightarrow> bool" where
  "name_char c \<equiv> name_rune (byte c)"

definition alnum_char :: "char \<Rightarrow> bool" where
  "alnum_char c \<longleftrightarrow> name_char c \<and> c \<noteq> CHR ''-'' \<and> c \<noteq> CHR ''.''"

lemma rune1_small:
  assumes "rune1 c s = (r, w)" "r < 128" shows "r = byte c \<and> w = 1"
proof (cases "byte c < 128")
  case True
  with assms(1) show ?thesis by (auto simp: rune1_def)
next
  case False
  have two: "194 \<le> a \<Longrightarrow> fst (rune2 a s) \<ge> 128" for a
    by (cases "(a, s)" rule: rune2.cases) auto
  have three: "224 \<le> a \<Longrightarrow> fst (rune3 a s) \<ge> 128" for a
    by (cases "(a, s)" rule: rune3.cases) auto
  have four: "240 \<le> a \<Longrightarrow> fst (rune4 a s) \<ge> 128" for a
    by (cases "(a, s)" rule: rune4.cases) auto
  have "fst (rune1 c s) \<ge> 128"
    using False two three four by (simp add: rune1_def Let_def)
  with assms show ?thesis by simp
qed

lemma runes_small: "(r, bs) \<in> set (runes s) \<Longrightarrow> r < 128 \<Longrightarrow> bs = [char_of r]"
proof (induction s rule: runes.induct)
  case (2 c s)
  obtain r' w where rw: "rune1 c s = (r', w)" by fastforce
  from 2(2) rw consider "(r, bs) = (r', c # take (w - 1) s)" | "(r, bs) \<in> set (runes (drop (w - 1) s))"
    by auto
  then show ?case
  proof cases
    case 1
    with rune1_small [OF rw] 2(3) show ?thesis by simp
  next
    case 2
    from "2.IH" [OF rw [symmetric] this "2.prems"(2)] show ?thesis .
  qed
qed simp

lemma name_rune_small: "name_rune r \<Longrightarrow> r < 128"
  by (auto simp: name_rune_def)

lemma pieces_class_kept: "Keep k \<in> set (pieces (Rep p 1 None) pr ts) \<Longrightarrow> \<not> p (fst k) \<and> k \<in> set ts"
proof (induction "Rep p 1 None" pr ts rule: pieces.induct)
  case (2 pr t ts)
  show ?case
  proof (cases "p (fst t)")
    case True
    then have "first_match (Rep p 1 None) pr (t # ts) \<noteq> None"
      by (cases ts) (auto simp: first_match_def split: list.splits)
    then obtain pr' ts' cs where m: "first_match (Rep p 1 None) pr (t # ts) = Some (pr', ts', cs)"
      by (cases "first_match (Rep p 1 None) pr (t # ts)") auto
    obtain used where used: "t # ts = used @ ts'" "1 \<le> length used"
      using first_match_consumes [OF m] by auto
    have "length ts' < length (t # ts)" using used arg_cong [of "t # ts" "used @ ts'" length] by (cases used) auto
    moreover have "set ts' \<subseteq> set (t # ts)" using used by (metis Un_upper2 set_append)
    moreover have "\<not> p (fst k) \<and> k \<in> set ts'" using 2 m \<open>length ts' < length (t # ts)\<close> by auto
    ultimately show ?thesis by blast
  next
    case False
    then have "first_match (Rep p 1 None) pr (t # ts) = None" by (simp add: first_match_def)
    with 2 False show ?thesis by auto
  qed
qed simp

lemma pieces_class_free: "list_all (\<lambda>t. \<not> p (fst t)) ts \<Longrightarrow> pieces (Rep p 1 None) pr ts = map Keep ts"
  by (induction ts arbitrary: pr) (auto simp: first_match_def)

lemma sanitize_replace_chars: "list_all name_char (replace_re nonNameChars [Lit ''-''] s)"
proof -
  have "list_all name_char (piece_text [Lit ''-''] p)" if p: "p \<in> set (pieces nonNameChars None (runes s))" for p
  proof (cases p)
    case (Keep t)
    with p have "name_rune (fst t)" "t \<in> set (runes s)"
      using pieces_class_kept [of t "\<lambda>r. \<not> name_rune r" None "runes s"] by (auto simp: nonNameChars_def)
    then have "snd t = [char_of (fst t)]"
      using runes_small [of "fst t" "snd t" s] name_rune_small by simp
    with Keep \<open>name_rune (fst t)\<close> show ?thesis using name_rune_small [of "fst t"] by simp
  qed (simp add: name_rune_def)
  then show ?thesis unfolding replace_re_def list_all_iff by fastforce
qed

lemma sanitize_chars: "list_all name_char (sanitizeNameSegment ulower s)"
  using sanitize_replace_chars set_trim_set
  unfolding sanitizeNameSegment_def list_all_iff by blast

lemma alnum_ends:
  "list_all name_char s \<Longrightarrow> s \<noteq> [] \<Longrightarrow> hd s \<notin> set ''-.'' \<Longrightarrow> alnum_char (hd s)"
  "list_all name_char s \<Longrightarrow> s \<noteq> [] \<Longrightarrow> last s \<notin> set ''-.'' \<Longrightarrow> alnum_char (last s)"
  by (auto simp: alnum_char_def list_all_iff)

lemma sanitize_ends:
  "sanitizeNameSegment ulower s \<noteq> [] \<Longrightarrow>
     alnum_char (hd (sanitizeNameSegment ulower s)) \<and> alnum_char (last (sanitizeNameSegment ulower s))"
  using alnum_ends [OF sanitize_chars] trim_set_hd trim_set_last
  unfolding sanitizeNameSegment_def by blast

text \<open>A text of name characters is its own sanitized form, up to trimming.\<close>

lemma name_char_ascii: "list_all name_char s \<Longrightarrow> ascii s"
  using name_rune_small by (auto simp: ascii_def list_all_iff)

lemma ToLower_name: "list_all name_char s \<Longrightarrow> ToLower ulower s = s"
proof -
  assume n: "list_all name_char s"
  have "map (\<lambda>c. char_of (lower_rune ulower (byte c))) s = map (\<lambda>c. c) s"
    by (rule map_cong) (use n in \<open>auto simp: list_all_iff lower_rune_def name_rune_def\<close>)
  with name_char_ascii [OF n] show ?thesis by (simp add: ToLower_def)
qed

lemma replace_name: "list_all name_char s \<Longrightarrow> replace_re nonNameChars [Lit ''-''] s = s"
proof -
  assume n: "list_all name_char s"
  then have "list_all (\<lambda>t. \<not> \<not> name_rune (fst t)) (runes s)"
    by (auto simp: runes_ascii name_char_ascii ascii_toks_def list_all_iff)
  then have "hits nonNameChars s = 0"
    unfolding hits_def nonNameChars_def by (subst pieces_class_free) (auto simp: filter_empty_conv)
  then show ?thesis by (rule replace_no_hits)
qed

lemma dropWhile_hd_id: "xs = [] \<or> \<not> P (hd xs) \<Longrightarrow> dropWhile P xs = xs"
  by (cases xs) auto

lemma trim_set_id: "s = [] \<or> (hd s \<notin> set cs \<and> last s \<notin> set cs) \<Longrightarrow> trim_set cs s = s"
  by (auto simp: trim_set_def dropWhile_hd_id hd_rev)

lemma sanitize_name:
  assumes "list_all name_char s" "s \<noteq> []" "alnum_char (hd s)" "alnum_char (last s)"
  shows "sanitizeNameSegment ulower s = s"
  using assms(2-4) by (auto simp: sanitizeNameSegment_def ToLower_name [OF assms(1)]
      replace_name [OF assms(1)] alnum_char_def intro!: trim_set_id)

lemma trim_set_prefix:
  assumes "s \<noteq> []" "hd s \<notin> set cs"
  shows "\<exists>t. s = trim_set cs s @ t \<and> trim_set cs s \<noteq> []"
proof -
  have d: "dropWhile (\<lambda>c. c \<in> set cs) s = s" using assms by (cases s) auto
  obtain t where t: "s = rev (dropWhile (\<lambda>c. c \<in> set cs) (rev s)) @ t"
    using rev_dropWhile_rev_prefix by blast
  have "dropWhile (\<lambda>c. c \<in> set cs) (rev s) \<noteq> []"
    using assms hd_in_set [OF assms(1)] by (auto simp: dropWhile_eq_Nil_conv)
  with t d show ?thesis unfolding trim_set_def by auto
qed

lemma workload_segment_props:
  "list_all name_char (workload_segment ulower w) \<and> workload_segment ulower w \<noteq> [] \<and>
   alnum_char (hd (workload_segment ulower w)) \<and> alnum_char (last (workload_segment ulower w)) \<and>
   length (workload_segment ulower w) \<le> maxWorkloadSegment"
proof -
  define v where "v = (if sanitizeNameSegment ulower w = [] then ''pod'' else sanitizeNameSegment ulower w)"
  have v: "list_all name_char v" "v \<noteq> []" "alnum_char (hd v)" "alnum_char (last v)"
    using sanitize_chars [of ulower w] sanitize_ends [of ulower w]
    by (auto simp: v_def alnum_char_def name_rune_def)
  let ?t = "take maxWorkloadSegment v"
  have t: "?t \<noteq> []" "hd ?t \<notin> set ''-.''" "list_all name_char ?t"
    using v by (auto simp: maxWorkloadSegment_def alnum_char_def hd_take list_all_iff dest!: in_set_takeD)
  obtain r where r: "?t = trim_set ''-.'' ?t @ r" "trim_set ''-.'' ?t \<noteq> []"
    using trim_set_prefix [OF t(1,2)] by blast
  have "hd (trim_set ''-.'' ?t) = hd v"
    using r t(1) by (metis hd_append2 hd_take maxWorkloadSegment_def zero_less_numeral)
  moreover have "list_all name_char (trim_set ''-.'' ?t)"
    using t(3) set_trim_set [of "''-.''" ?t] by (auto simp: list_all_iff)
  moreover have "length (trim_set ''-.'' ?t) \<le> maxWorkloadSegment"
    using length_trim_set [of "''-.''" ?t] by simp
  moreover have "last (trim_set ''-.'' ?t) \<notin> set ''-.''" using r(2) by (rule trim_set_last)
  moreover have "workload_segment ulower w = (if length v > maxWorkloadSegment then trim_set ''-.'' ?t else v)"
    by (simp add: workload_segment_def v_def Let_def)
  ultimately show ?thesis
    using v r(2) alnum_ends(2) [of "trim_set ''-.'' ?t"] by auto
qed

text \<open>The segments of the declared failure types do not depend on the Unicode tables.\<close>

lemma sanitize_lower:
  assumes "ToLower ulower s = t" "list_all alnum_char t" "t \<noteq> []"
  shows "sanitizeNameSegment ulower s = t"
proof -
  have "list_all name_char t" using assms(2) by (auto simp: list_all_iff alnum_char_def)
  moreover have "alnum_char (hd t)" "alnum_char (last t)" using assms(2,3) by (auto simp: list_all_iff)
  ultimately have "sanitizeNameSegment ulower t = t" "ToLower ulower t = t"
    using assms(3) by (auto intro: sanitize_name ToLower_name)
  with assms(1) show ?thesis by (simp add: sanitizeNameSegment_def)
qed

fun failure_segment :: "FailureType \<Rightarrow> string" where
  "failure_segment FailureCrashLoopBackOff = ''crashloopbackoff''"
| "failure_segment FailureOOMKilled = ''oomkilled''"
| "failure_segment FailureImagePullBackOff = ''imagepullbackoff''"
| "failure_segment FailureCreateContainerConfigError = ''createcontainerconfigerror''"
| "failure_segment FailureRunContainerError = ''runcontainererror''"
| "failure_segment FailureUnschedulable = ''unschedulable''"
| "failure_segment FailureProbeFailure = ''probefailure''"
| "failure_segment FailureEvicted = ''evicted''"
| "failure_segment (FailureOther s) = s"

lemma failure_segment_alnum:
  "ft \<in> set FailureTypes \<Longrightarrow> list_all alnum_char (failure_segment ft) \<and> failure_segment ft \<noteq> [] \<and>
     length (failure_segment ft) \<le> 26"
  by (auto simp: FailureTypes_def alnum_char_def name_rune_def)

lemma failure_segment_lower:
  "ft \<in> set FailureTypes \<Longrightarrow> ToLower ulower (FailureType_str ft) = failure_segment ft"
  by (auto simp: FailureTypes_def ToLower_def lower_rune_def char_of_def bit_0)

lemma failure_segments:
  assumes "ft \<in> set FailureTypes"
  shows "sanitizeNameSegment ulower (FailureType_str ft) = failure_segment ft"
  using failure_segment_alnum [OF assms] failure_segment_lower [OF assms] by (blast intro: sanitize_lower)

subsection \<open>Properties\<close>

text \<open>
  What the API server demands of an object name, an RFC 1123 subdomain: letters, digits, dots and
  dashes, a letter or digit at both ends and on both sides of every dot.
\<close>

definition beside_dot :: "char \<Rightarrow> char \<Rightarrow> bool" where
  "beside_dot a b \<longleftrightarrow> (a = CHR ''.'' \<longrightarrow> alnum_char b) \<and> (b = CHR ''.'' \<longrightarrow> alnum_char a)"

definition dns_subdomain :: "string \<Rightarrow> bool" where
  "dns_subdomain s \<longleftrightarrow>
     s \<noteq> [] \<and> list_all name_char s \<and> alnum_char (hd s) \<and> alnum_char (last s) \<and>
     successively beside_dot s \<and> length s \<le> 253"

definition hex_string :: "string \<Rightarrow> bool" where
  "hex_string s \<longleftrightarrow>
     list_all (\<lambda>c. (48 \<le> byte c \<and> byte c \<le> 57) \<or> (97 \<le> byte c \<and> byte c \<le> 102)) s"

lemma hex_alnum: "hex_string s \<Longrightarrow> c \<in> set s \<Longrightarrow> alnum_char c"
  by (auto simp: hex_string_def list_all_iff alnum_char_def name_rune_def)

lemma hex_string_encode: "hex_string (hex_encode s)"
  by (auto simp: hex_string_def hex_encode_def list_all_iff dest!: hex_pad_chars)

lemma length_hex_encode: "length (hex_encode s) = 2 * length s"
  by (induction s) (auto simp: hex_encode_def)

lemma DiagnosisName_parts:
  assumes "ft \<in> set FailureTypes" "length sig = 8"
  shows "DiagnosisName ulower w ft sig = workload_segment ulower w @ ''-'' @
           sanitizeNameSegment ulower (FailureType_str ft) @ ''-'' @ sig"
  using workload_segment_props [of ulower w] failure_segments [OF assms(1), of ulower] failure_segment_alnum [OF assms(1)] assms(2)
  by (simp add: DiagnosisName_def Let_def maxNameLength_def maxWorkloadSegment_def)

text \<open>The failure type and the signature always survive truncation: for a declared failure type
  and an eight character signature the name is the bounded workload segment, the type and the whole
  signature, in at most 216 of the 253 characters allowed.\<close>

lemma DiagnosisName_keeps_signature:
  assumes "ft \<in> set FailureTypes" "length sig = 8"
  shows "DiagnosisName ulower workload ft sig =
           workload_segment ulower workload @ ''-'' @
           sanitizeNameSegment ulower (FailureType_str ft) @ ''-'' @ sig \<and>
         length (DiagnosisName ulower workload ft sig) \<le> 216"
  using workload_segment_props [of ulower workload] failure_segments [OF assms(1), of ulower] failure_segment_alnum [OF assms(1)] assms
  by (simp add: DiagnosisName_parts maxWorkloadSegment_def)


lemma workload_segment_dns:
  assumes "dns_subdomain w" shows "dns_subdomain (workload_segment ulower w)"
proof -
  have s: "sanitizeNameSegment ulower w = w"
    using assms by (auto simp: dns_subdomain_def intro: sanitize_name)
  have "\<exists>t. w = workload_segment ulower w @ t"
  proof (cases "length w > maxWorkloadSegment")
    case True
    let ?t = "take maxWorkloadSegment w"
    have "?t \<noteq> []" "hd ?t \<notin> set ''-.''"
      using assms by (auto simp: dns_subdomain_def maxWorkloadSegment_def alnum_char_def hd_take)
    then obtain r where "?t = trim_set ''-.'' ?t @ r" using trim_set_prefix by blast
    then have "w = trim_set ''-.'' ?t @ r @ drop maxWorkloadSegment w"
      by (metis append.assoc append_take_drop_id)
    with True s assms show ?thesis by (auto simp: workload_segment_def dns_subdomain_def)
  qed (use s assms in \<open>simp add: workload_segment_def dns_subdomain_def\<close>)
  then obtain t where "w = workload_segment ulower w @ t" by blast
  with assms have "successively beside_dot (workload_segment ulower w)"
    by (metis dns_subdomain_def successively_append_iff)
  with workload_segment_props [of ulower w] show ?thesis by (simp add: dns_subdomain_def maxWorkloadSegment_def)
qed

lemma successively_dotless: "CHR ''.'' \<notin> set s \<Longrightarrow> successively beside_dot s"
  by (induction s rule: induct_list012) (auto simp: beside_dot_def)

text \<open>C31. The name derived for a failure is one the API server accepts: from a workload name that
  is an RFC 1123 subdomain, a declared failure type and a hexadecimal signature it is an RFC 1123
  subdomain again, of at most 253 characters.\<close>

theorem DiagnosisName_valid:
  assumes "dns_subdomain workload" "ft \<in> set FailureTypes" "length sig = 8" "hex_string sig"
  shows "dns_subdomain (DiagnosisName ulower workload ft sig)"
proof -
  let ?w = "workload_segment ulower workload" and ?f = "sanitizeNameSegment ulower (FailureType_str ft)"
  let ?tail = "''-'' @ ?f @ ''-'' @ sig"
  have w: "dns_subdomain ?w" using assms(1) by (rule workload_segment_dns)
  have f: "list_all alnum_char ?f" using assms(2) by (simp add: failure_segments failure_segment_alnum)
  have g: "sig \<noteq> []" "list_all alnum_char sig" using assms(3,4) hex_alnum by (auto simp: list_all_iff)
  have dotless: "CHR ''.'' \<notin> set ?tail" using f g by (auto simp: list_all_iff alnum_char_def)
  have "beside_dot (last ?w) CHR ''-''"
    using w by (auto simp: dns_subdomain_def beside_dot_def alnum_char_def)
  then have "successively beside_dot (?w @ ?tail)"
    using w successively_dotless [OF dotless] by (simp add: successively_append_iff dns_subdomain_def)
  moreover have "list_all name_char (?w @ ?tail)"
    using w f g by (auto simp: dns_subdomain_def list_all_iff alnum_char_def name_rune_def)
  moreover have "alnum_char (last (?w @ ?tail))" using g by (auto simp: list_all_iff)
  moreover have "length (?w @ ?tail) \<le> 253"
    using DiagnosisName_keeps_signature [OF assms(2,3), of ulower workload]
    unfolding DiagnosisName_parts [OF assms(2,3)] by simp
  moreover have "?w @ ?tail \<noteq> []" "hd (?w @ ?tail) = hd ?w" using w by (simp_all add: dns_subdomain_def)
  ultimately show ?thesis
    using w unfolding DiagnosisName_parts [OF assms(2,3)] by (simp add: dns_subdomain_def)
qed

lemma DiagnosisName_valid_witness:
  "dns_subdomain (DiagnosisName id ''web.v1-api'' FailureCrashLoopBackOff ''0123abcd'')"
  by (rule DiagnosisName_valid; code_simp)

text \<open>Equal names come from equal signatures: two declared failures that get the same object
  name, in which case the second is taken for a duplicate, have the same signature.\<close>

lemma DiagnosisName_same_signature:
  assumes "DiagnosisName ulower w ft sig = DiagnosisName ulower w' ft' sig'"
    and "ft \<in> set FailureTypes" "ft' \<in> set FailureTypes" "length sig = 8" "length sig' = 8"
  shows "sig = sig'"
proof -
  let ?pre = "\<lambda>w ft. workload_segment ulower w @ ''-'' @
    sanitizeNameSegment ulower (FailureType_str ft) @ ''-''"
  have "?pre w ft @ sig = ?pre w' ft' @ sig'"
    using assms(1) unfolding DiagnosisName_parts [OF assms(2,4)] DiagnosisName_parts [OF assms(3,5)] by simp
  then show ?thesis using assms(4,5) by (metis append_eq_append_conv)
qed

lemma DiagnosisName_same_signature_witness: "\<exists>sig. sig = ''0123abcd''"
proof
  show "''0123abcd'' = ''0123abcd''"
    by (rule DiagnosisName_same_signature
        [of id "''web''" FailureEvicted "''0123abcd''" "''web''" FailureEvicted])
      (simp_all add: FailureTypes_def)
qed

lemma append_sep_inj:
  "c \<notin> set a \<Longrightarrow> c \<notin> set b \<Longrightarrow> a @ [c] @ s = b @ [c] @ t \<Longrightarrow> a = b \<and> s = t"
proof (induction a arbitrary: b)
  case Nil then show ?case by (cases b) auto
next
  case (Cons x a) then show ?case by (cases b) auto
qed

lemma join_inj:
  "length xs = length ys \<Longrightarrow> list_all (\<lambda>s. c \<notin> set s) xs \<Longrightarrow> list_all (\<lambda>s. c \<notin> set s) ys \<Longrightarrow>
     join [c] xs = join [c] ys \<Longrightarrow> xs = ys"
proof (induction "[c]" xs arbitrary: ys rule: join.induct)
  case (3 s t ss)
  then obtain s' t' ss' where ys: "ys = s' # t' # ss'" by (auto simp: length_Suc_conv Suc_length_conv)
  with "3.prems" have "s = s' \<and> join [c] (t # ss) = join [c] (t' # ss')"
    using append_sep_inj [of c s s' "join [c] (t # ss)" "join [c] (t' # ss')"] by simp
  then have "s = s'" "t # ss = t' # ss'" using "3.hyps" [of "t' # ss'"] "3.prems" ys by simp_all
  with ys show ?case by simp
next
  case (2 s) then show ?case by (cases ys) auto
qed simp

text \<open>C32. The deduplication key separates failures: the text that is hashed determines namespace,
  owner, container and failure type, as long as none of them contains a NUL.\<close>

theorem signature_text_injective:
  assumes "list_all (\<lambda>s. CHR 0x00 \<notin> set s)
      [ns, k, n, c, FailureType_str ft, ns', k', n', c', FailureType_str ft']"
  shows "signature_text ns k n c ft = signature_text ns' k' n' c' ft' \<longleftrightarrow>
    ns = ns' \<and> k = k' \<and> n = n' \<and> c = c' \<and> FailureType_str ft = FailureType_str ft'"
  using join_inj [of "[ns, k, n, c, FailureType_str ft]" "[ns', k', n', c', FailureType_str ft']" "CHR 0x00"] assms
  by (auto simp: signature_text_def)

lemma signature_text_injective_witness:
  "signature_text ''prod'' ''Deployment'' ''web'' ''app'' FailureOOMKilled \<noteq>
   signature_text ''prod'' ''Deployment'' ''weba'' ''pp'' FailureOOMKilled"
  by (subst signature_text_injective) simp_all

text \<open>A signature is eight lower case hexadecimal digits, whatever is signed, given that SHA-256
  returns 32 bytes.\<close>

lemma Signature_well_formed:
  assumes "\<And>t. length (sha t) = 32"
  shows "length (Signature sha ns k n c ft) = 8 \<and> hex_string (Signature sha ns k n c ft)"
  using hex_string_encode assms
  by (auto simp: Signature_def signatureLength_def length_hex_encode hex_string_def list_all_iff
      dest: in_set_takeD)


end
