(* ===== verification/PodController.thy ===== *)
theory PodController
  imports Reads DetectorProps Naming
begin

text \<open>
  \<open>src/internal/controller/pod_controller.go\<close>: the detector. A reconcile takes the namespace and
  name of the request and returns the result, the error and the world. SHA-256 and the Unicode case
  table are the record \<open>denv\<close>.
\<close>

definition defaultPolicyName :: string where "defaultPolicyName = ''default''"

definition systemNamespaces :: "string list" where
  "systemNamespaces =
     [''kube-system'', ''kube-public'', ''kube-node-lease'', ''local-path-storage'', ''kubecure-system'']"

definition hour :: int where "hour = 3600 * second"

record denv =
  de_sha :: "string \<Rightarrow> string"
  de_ulower :: "nat \<Rightarrow> nat"

text \<open>\<open>ctrl.Result\<close> with its error, and the two filters of \<open>controller-runtime\<close>.\<close>

record Result =
  requeueAfter :: int

type_synonym 'w reconciled = "(Result \<times> goerror option) \<times> 'w"

abbreviation finished :: "goerror option \<Rightarrow> 'w \<Rightarrow> 'w reconciled" where
  "finished e w \<equiv> ((\<lparr>requeueAfter = 0\<rparr>, e), w)"

definition IgnoreNotFound :: "goerror \<Rightarrow> goerror option" where
  "IgnoreNotFound e = (if err_kind e = ENotFound then None else Some e)"

definition IgnoreAlreadyExists :: "goerror \<Rightarrow> goerror option" where
  "IgnoreAlreadyExists e = (if err_kind e = EAlreadyExists then None else Some e)"

record workloadRef =
  wr_kind :: string
  wr_name :: string
  wr_uid :: string

definition resolveWorkload :: "'w kube \<Rightarrow> Pod \<Rightarrow> ('w, workloadRef) op" where
  "resolveWorkload k pod w =
     (case DirectOwner pod of
        None \<Rightarrow> (Inr \<lparr>wr_kind = ''Pod'', wr_name = pod_name pod, wr_uid = pod_uid pod\<rparr>, w)
      | Some (kind, name) \<Rightarrow>
          if kind \<noteq> ''ReplicaSet'' then (Inr \<lparr>wr_kind = kind, wr_name = name, wr_uid = []\<rparr>, w)
          else (case kGetReplicaSet k (pod_namespace pod) name w of
                  (Inl e, w') \<Rightarrow>
                    if err_kind e = ENotFound
                    then (Inr \<lparr>wr_kind = kind, wr_name = name, wr_uid = []\<rparr>, w')
                    else (Inl e, w')
                | (Inr rs, w') \<Rightarrow>
                    (case List.find (\<lambda>ref. ow_controller ref = Some True) (rs_ownerReferences rs) of
                       Some ref \<Rightarrow> (Inr \<lparr>wr_kind = ow_kind ref, wr_name = ow_name ref, wr_uid = ow_uid ref\<rparr>, w')
                     | None \<Rightarrow> (Inr \<lparr>wr_kind = kind, wr_name = name, wr_uid = rs_uid rs\<rparr>, w'))))"

definition policyFor :: "'w kube \<Rightarrow> string \<Rightarrow> ('w, HealingPolicy option) op" where
  "policyFor k namespace w =
     (case kListPolicies k namespace w of
        (Inl e, w') \<Rightarrow> (Inl e, w')
      | (Inr [], w') \<Rightarrow> (Inr None, w')
      | (Inr (p # ps), w') \<Rightarrow>
          (case List.find (\<lambda>q. hp_name q = defaultPolicyName) (p # ps) of
             Some q \<Rightarrow> (Inr (Some q), w')
           | None \<Rightarrow> (Inr (Some p), w')))"

definition policyCovers :: "HealingPolicy \<Rightarrow> FailureType \<Rightarrow> bool" where
  "policyCovers policy failureType \<longleftrightarrow>
     (let ts = ps_failureTypes (hp_spec policy) in ts = [] \<or> list_ex (\<lambda>t. t = failureType) ts)"

definition recent_count :: "gotime \<Rightarrow> Diagnosis list \<Rightarrow> int" where
  "recent_count cutoff ds =
     foldl (\<lambda>n d. if cutoff < dg_creationTimestamp d then wrap32 (n + 1) else n) 0 ds"

definition withinRateLimit :: "'w kube \<Rightarrow> string \<Rightarrow> HealingPolicy \<Rightarrow> ('w, bool) op" where
  "withinRateLimit k namespace policy w =
     (let limit = ps_maxDiagnosesPerHour (hp_spec policy) in
      if limit \<le> 0 then (Inr True, w)
      else (case kListDiagnoses k namespace w of
              (Inl e, w1) \<Rightarrow> (Inl e, w1)
            | (Inr ds, w1) \<Rightarrow>
                (case kNow k w1 of (now, w2) \<Rightarrow> (Inr (recent_count (now - hour) ds < limit), w2))))"

text \<open>The fields the API server assigns are still empty; \<open>now\<close> is the reading of the clock.\<close>

definition buildDiagnosis ::
    "Pod \<Rightarrow> workloadRef \<Rightarrow> Signal \<Rightarrow> HealingPolicy \<Rightarrow> string \<Rightarrow> string \<Rightarrow> gotime \<Rightarrow> Diagnosis" where
  "buildDiagnosis pod workload signal policy name signature now =
     \<lparr>dg_name = name, dg_namespace = pod_namespace pod, dg_resourceVersion = [],
      dg_labels =
        [(''kubecure.io/failure-type'', FailureType_str (sg_failureType signal)),
         (''kubecure.io/workload'', wr_name workload),
         (''kubecure.io/signature'', signature)],
      dg_creationTimestamp = time_zero,
      dg_spec =
        \<lparr>ds_target =
           \<lparr>tr_name = pod_name pod, tr_uid = pod_uid pod,
            tr_owner = (if wr_kind workload \<noteq> ''Pod''
                        then Some \<lparr>or_kind = wr_kind workload, or_name = wr_name workload\<rparr> else None)\<rparr>,
         ds_failureType = sg_failureType signal, ds_container = sg_container signal,
         ds_signature = signature, ds_observedAt = now, ds_policyRef = hp_name policy\<rparr>,
      dg_status = DiagnosisStatus_zero\<rparr>"

definition detected :: "gotime \<Rightarrow> Diagnosis \<Rightarrow> Diagnosis" where
  "detected now d =
     d\<lparr>dg_status := (dg_status d)
         \<lparr>st_phase := PhaseDetected,
          st_timings := (st_timings (dg_status d))\<lparr>tm_detectedAt := Some now\<rparr>\<rparr>\<rparr>"

text \<open>The end of the reconcile: the object is created and then marked as detected.\<close>

definition open_diagnosis ::
    "'w kube \<Rightarrow> Pod \<Rightarrow> workloadRef \<Rightarrow> Signal \<Rightarrow> HealingPolicy \<Rightarrow> string \<Rightarrow> string \<Rightarrow> 'w \<Rightarrow> 'w reconciled" where
  "open_diagnosis k pod workload signal policy name signature w =
     (case kNow k w of (observed, w1) \<Rightarrow>
      (case kCreate k (buildDiagnosis pod workload signal policy name signature observed) w1 of
         (Inl e, w2) \<Rightarrow> finished (IgnoreAlreadyExists e) w2
       | (Inr d, w2) \<Rightarrow>
           (case kNow k w2 of (now, w3) \<Rightarrow>
            (case kUpdateStatus k (detected now d) w3 of
               (Inl e, w4) \<Rightarrow> finished (Some e) w4
             | (Inr d', w4) \<Rightarrow> finished None w4))))"

text \<open>The part after a covered failure was found: the name, the duplicate and the rate limit.\<close>

definition attribute_failure ::
    "denv \<Rightarrow> 'w kube \<Rightarrow> Pod \<Rightarrow> Signal \<Rightarrow> HealingPolicy \<Rightarrow> 'w \<Rightarrow> 'w reconciled" where
  "attribute_failure D k pod signal policy w =
     (case resolveWorkload k pod w of
        (Inl e, w1) \<Rightarrow> finished (Some (wrapf ''resolving owning workload: '' e)) w1
      | (Inr workload, w1) \<Rightarrow>
          let signature = Signature (de_sha D) (pod_namespace pod) (wr_kind workload) (wr_name workload)
                (sg_container signal) (sg_failureType signal);
              name = DiagnosisName (de_ulower D) (wr_name workload) (sg_failureType signal) signature in
          (case kGetDiagnosis k (pod_namespace pod) name w1 of
             (Inr existing, w2) \<Rightarrow> finished None w2
           | (Inl e, w2) \<Rightarrow>
               if err_kind e \<noteq> ENotFound then finished (Some e) w2
               else (case withinRateLimit k (pod_namespace pod) policy w2 of
                       (Inl e', w3) \<Rightarrow> finished (Some e') w3
                     | (Inr within, w3) \<Rightarrow>
                         if \<not> within then ((\<lparr>requeueAfter = 300 * second\<rparr>, None), w3)
                         else open_diagnosis k pod workload signal policy name signature w3)))"

definition PodReconciler_Reconcile :: "denv \<Rightarrow> 'w kube \<Rightarrow> string \<Rightarrow> string \<Rightarrow> 'w \<Rightarrow> 'w reconciled" where
  "PodReconciler_Reconcile D k ns n w =
     (if ns \<in> set systemNamespaces then finished None w
      else (case kGetPod k ns n w of
              (Inl e, w1) \<Rightarrow> finished (IgnoreNotFound e) w1
            | (Inr pod, w1) \<Rightarrow>
                (case kNow k w1 of (now, w2) \<Rightarrow>
                 (case Classify (Some pod) now of
                    None \<Rightarrow> finished None w2
                  | Some signal \<Rightarrow>
                      (case policyFor k (pod_namespace pod) w2 of
                         (Inl e, w3) \<Rightarrow> finished (Some e) w3
                       | (Inr None, w3) \<Rightarrow> finished None w3
                       | (Inr (Some policy), w3) \<Rightarrow>
                           if \<not> policyCovers policy (sg_failureType signal) then finished None w3
                           else attribute_failure D k pod signal policy w3)))))"

text \<open>The filter on pod events. \<open>equality.Semantic.DeepEqual\<close> on pod statuses is a parameter.\<close>

datatype pod_event = CreateEvent Pod | DeleteEvent Pod | UpdateEvent Pod Pod | GenericEvent Pod

fun podStatusChanged :: "(PodStatus \<Rightarrow> PodStatus \<Rightarrow> bool) \<Rightarrow> pod_event \<Rightarrow> bool" where
  "podStatusChanged deepEqual (CreateEvent p) = True"
| "podStatusChanged deepEqual (DeleteEvent p) = False"
| "podStatusChanged deepEqual (UpdateEvent old new) = (\<not> deepEqual (pod_status old) (pod_status new))"
| "podStatusChanged deepEqual (GenericEvent p) = True"

end
