(* ===== verification/EvidenceController.thy ===== *)
theory EvidenceController
  imports PodController Schema
begin

text \<open>
  \<open>src/internal/controller/evidence_controller.go\<close>: a detected diagnosis gets its evidence. The log
  line at the end of a reconcile is in Logs.
\<close>

definition enriched :: "gotime \<Rightarrow> Evidence \<Rightarrow> Diagnosis \<Rightarrow> Diagnosis" where
  "enriched now ev d =
     d\<lparr>dg_status := (dg_status d)
         \<lparr>st_evidence := Some ev, st_phase := PhaseEnriched,
          st_timings := (st_timings (dg_status d))\<lparr>tm_enrichedAt := Some now\<rparr>\<rparr>\<rparr>"

definition targetFor :: "'w kube \<Rightarrow> Diagnosis \<Rightarrow> ('w, Target) op" where
  "targetFor k d w =
     (let t = ds_target (dg_spec d) in
      case kGetPod k (dg_namespace d) (tr_name t) w of
        (Inl e, w') \<Rightarrow> (Inl e, w')
      | (Inr pod, w') \<Rightarrow>
          if pod_uid pod \<noteq> tr_uid t
          then (Inl (kNewNotFound k ''pods'' (pod_name pod @ '' (UID mismatch)'')), w')
          else
            let target = \<lparr>tg_pod = pod, tg_container = ds_container (dg_spec d),
                          tg_failureType = ds_failureType (dg_spec d),
                          tg_ownerKind = ''Pod'', tg_ownerName = pod_name pod\<rparr>
            in (Inr (case tr_owner t of
                       None \<Rightarrow> target
                     | Some owner \<Rightarrow> target\<lparr>tg_ownerKind := or_kind owner, tg_ownerName := or_name owner\<rparr>), w'))"

definition evidence_without_pod :: Evidence where
  "evidence_without_pod =
     Evidence_zero
       \<lparr>ev_complete := False,
        ev_items :=
          [\<lparr>ei_kind = EvidencePreviousLogs, ei_status = CollectionUnavailable, ei_required = True,
            ei_reason = ''the pod was deleted before evidence could be gathered'', ei_content = []\<rparr>],
        ev_missingRequired := [EvidencePreviousLogs]\<rparr>"

definition update_error :: "(goerror + Diagnosis) \<times> 'w \<Rightarrow> 'w reconciled" where
  "update_error r = finished (case fst r of Inl e \<Rightarrow> Some e | Inr d \<Rightarrow> None) (snd r)"

definition advanceWithoutPod :: "'w kube \<Rightarrow> Diagnosis \<Rightarrow> 'w \<Rightarrow> 'w reconciled" where
  "advanceWithoutPod k d w =
     (case kNow k w of (now, w1) \<Rightarrow> update_error (kUpdateStatus k (enriched now evidence_without_pod d) w1))"

definition EvidenceReconciler_Reconcile :: "'w kube \<Rightarrow> string \<Rightarrow> string \<Rightarrow> 'w \<Rightarrow> 'w reconciled" where
  "EvidenceReconciler_Reconcile k ns n w =
     (case kGetDiagnosis k ns n w of
        (Inl e, w1) \<Rightarrow> finished (IgnoreNotFound e) w1
      | (Inr d, w1) \<Rightarrow>
          if st_phase (dg_status d) \<noteq> PhaseDetected then finished None w1
          else (case targetFor k d w1 of
                  (Inl e, w2) \<Rightarrow>
                    if err_kind e = ENotFound then advanceWithoutPod k d w2 else finished (Some e) w2
                | (Inr target, w2) \<Rightarrow>
                    (case Collect k target w2 of (collected, w3) \<Rightarrow>
                     (case kNow k w3 of (now, w4) \<Rightarrow>
                        update_error (kUpdateStatus k (enriched now collected d) w4)))))"

definition countCollected :: "Evidence \<Rightarrow> nat" where
  "countCollected ev = foldl (\<lambda>n i. if ei_status i = CollectionCollected then n + 1 else n) 0 (ev_items ev)"

text \<open>The filter of the two later controllers: events of diagnoses in one phase.\<close>

definition phaseIs :: "Phase \<Rightarrow> Diagnosis \<Rightarrow> bool" where
  "phaseIs phase d \<longleftrightarrow> st_phase (dg_status d) = phase"

end
