(* ===== verification/DeepCopyProps.thy ===== *)
theory DeepCopyProps
  imports DeepCopy EvidenceController
begin

text \<open>
  The deep copies are deep: \<open>read_T\<close> gives the value of Api that a layout in memory stands for, and every
  \<open>T_DeepCopyInto\<close> meets the contract \<open>deep_copier\<close> for it. So an object that was copied out of a shared
  cache can be changed in place without the cache noticing, and the evidence controller's in place writes
  to its copy do what the model of that controller, over values, says.
\<close>

subsection \<open>The values in memory\<close>

definition read_TargetRef :: "'f obj heap \<Rightarrow> TargetRefM \<Rightarrow> TargetRef option" where
  "read_TargetRef h m = do {
     owner \<leftarrow> read_ptr get_OwnerRef read_plain h (mtr_owner m);
     Some \<lparr>tr_name = mtr_name m, tr_uid = mtr_uid m, tr_owner = owner\<rparr> }"

definition read_DiagnosisSpec :: "'f obj heap \<Rightarrow> DiagnosisSpecM \<Rightarrow> DiagnosisSpec option" where
  "read_DiagnosisSpec h m = do {
     target \<leftarrow> read_TargetRef h (mds_target m);
     observedAt \<leftarrow> read_plain h (mds_observedAt m);
     Some \<lparr>ds_target = target, ds_failureType = mds_failureType m, ds_container = mds_container m,
           ds_signature = mds_signature m, ds_observedAt = observedAt, ds_policyRef = mds_policyRef m\<rparr> }"

abbreviation read_time :: "'f obj heap \<Rightarrow> addr option \<Rightarrow> gotime option option" where
  "read_time \<equiv> read_ptr get_Time read_plain"

definition read_Timings :: "'f obj heap \<Rightarrow> TimingsM \<Rightarrow> Timings option" where
  "read_Timings h m = do {
     detectedAt \<leftarrow> read_time h (mtm_detectedAt m);
     enrichedAt \<leftarrow> read_time h (mtm_enrichedAt m);
     hypothesizedAt \<leftarrow> read_time h (mtm_hypothesizedAt m);
     judgedAt \<leftarrow> read_time h (mtm_judgedAt m);
     plannedAt \<leftarrow> read_time h (mtm_plannedAt m);
     remediatedAt \<leftarrow> read_time h (mtm_remediatedAt m);
     healedAt \<leftarrow> read_time h (mtm_healedAt m);
     Some \<lparr>tm_detectedAt = detectedAt, tm_enrichedAt = enrichedAt, tm_hypothesizedAt = hypothesizedAt,
           tm_judgedAt = judgedAt, tm_plannedAt = plannedAt, tm_remediatedAt = remediatedAt,
           tm_healedAt = healedAt\<rparr> }"

definition read_Evidence :: "'f obj heap \<Rightarrow> EvidenceM \<Rightarrow> Evidence option" where
  "read_Evidence h m = do {
     items \<leftarrow> read_slice get_EvidenceItem read_plain h (mev_items m);
     missingRequired \<leftarrow> read_slice get_EvidenceKind read_plain h (mev_missingRequired m);
     exitCode \<leftarrow> read_ptr get_Int read_plain h (mev_exitCode m);
     Some \<lparr>ev_items = items, ev_complete = mev_complete m, ev_missingRequired = missingRequired,
           ev_exitCode = exitCode, ev_restartCount = mev_restartCount m,
           ev_terminationReason = mev_terminationReason m, ev_waitingReason = mev_waitingReason m,
           ev_redactedFields = mev_redactedFields m\<rparr> }"

definition read_Hypothesis :: "'f obj heap \<Rightarrow> HypothesisM \<Rightarrow> ApiHypothesis option" where
  "read_Hypothesis h m = do {
     evidenceCitations \<leftarrow> read_slice get_String read_plain h (mah_evidenceCitations m);
     proposedActions \<leftarrow> read_slice get_Action read_plain h (mah_proposedActions m);
     Some \<lparr>ah_id = mah_id m, ah_rank = mah_rank m, ah_rootCause = mah_rootCause m,
           ah_confidencePercent = mah_confidencePercent m, ah_evidenceCitations = evidenceCitations,
           ah_proposedActions = proposedActions\<rparr> }"

definition read_Investigation :: "'f obj heap \<Rightarrow> InvestigationM \<Rightarrow> Investigation option" where
  "read_Investigation h m = do {
     toolCalls \<leftarrow> read_slice get_ToolCall read_plain h (miv_toolCalls m);
     Some \<lparr>iv_provider = miv_provider m, iv_agentic = miv_agentic m, iv_toolCalls = toolCalls,
           iv_tokensUsed = miv_tokensUsed m, iv_costMicroUSD = miv_costMicroUSD m,
           iv_durationMillis = miv_durationMillis m, iv_budgetExhausted = miv_budgetExhausted m,
           iv_stopReason = miv_stopReason m, iv_degraded = miv_degraded m, iv_turns = miv_turns m\<rparr> }"

definition read_Judgement :: "'f obj heap \<Rightarrow> JudgementM \<Rightarrow> Judgement option" where
  "read_Judgement h m = do {
     verdicts \<leftarrow> read_slice get_Verdict read_plain h (mjd_verdicts m);
     Some \<lparr>jd_provider = mjd_provider m, jd_verdicts = verdicts,
           jd_selectedHypothesisID = mjd_selectedHypothesisID m\<rparr> }"

definition read_Plan :: "'f obj heap \<Rightarrow> PlanM \<Rightarrow> ApiPlan option" where
  "read_Plan h m = do {
     selected \<leftarrow> read_ptr get_Action read_plain h (mpl_selected m);
     candidates \<leftarrow> read_slice get_RankedAction read_plain h (mpl_candidates m);
     Some \<lparr>pl_decision = mpl_decision m, pl_reason = mpl_reason m, pl_selected = selected,
           pl_candidates = candidates\<rparr> }"

definition read_Remediation :: "'f obj heap \<Rightarrow> RemediationM \<Rightarrow> Remediation option" where
  "read_Remediation h m = do {
     verified \<leftarrow> read_ptr get_Bool read_plain h (mrm_verified m);
     Some \<lparr>rm_mode = mrm_mode m, rm_applied = mrm_applied m, rm_skipReason = mrm_skipReason m,
           rm_patch = mrm_patch m, rm_reference = mrm_reference m, rm_verified = verified\<rparr> }"

definition read_DiagnosisStatus :: "'f foreign \<Rightarrow> 'f obj heap \<Rightarrow> DiagnosisStatusM \<Rightarrow> DiagnosisStatus option" where
  "read_DiagnosisStatus F h m = do {
     conditions \<leftarrow> read_slice get_Foreign (fo_condRead F) h (mst_conditions m);
     timings \<leftarrow> read_Timings h (mst_timings m);
     evidence \<leftarrow> read_ptr get_Evidence read_Evidence h (mst_evidence m);
     investigation \<leftarrow> read_ptr get_Investigation read_Investigation h (mst_investigation m);
     hypotheses \<leftarrow> read_slice get_Hypothesis read_Hypothesis h (mst_hypotheses m);
     judgement \<leftarrow> read_ptr get_Judgement read_Judgement h (mst_judgement m);
     plan \<leftarrow> read_ptr get_Plan read_Plan h (mst_plan m);
     remediation \<leftarrow> read_ptr get_Remediation read_Remediation h (mst_remediation m);
     Some \<lparr>st_phase = mst_phase m, st_conditions = conditions, st_timings = timings,
           st_timeToDiagnosis = mst_timeToDiagnosis m, st_timeToRecovery = mst_timeToRecovery m,
           st_evidence = evidence, st_investigation = investigation, st_hypotheses = hypotheses,
           st_judgement = judgement, st_plan = plan, st_remediation = remediation,
           st_observedGeneration = mst_observedGeneration m\<rparr> }"

definition read_Diagnosis :: "'f foreign \<Rightarrow> 'f obj heap \<Rightarrow> 'f DiagnosisM \<Rightarrow> (TypeMeta \<times> Diagnosis) option" where
  "read_Diagnosis F h m = do {
     meta \<leftarrow> fo_metaRead F h (mdg_meta m);
     spec \<leftarrow> read_DiagnosisSpec h (mdg_spec m);
     status \<leftarrow> read_DiagnosisStatus F h (mdg_status m);
     Some (mdg_type m,
           \<lparr>dg_name = om_name meta, dg_namespace = om_namespace meta,
            dg_resourceVersion = om_resourceVersion meta, dg_labels = om_labels meta,
            dg_creationTimestamp = om_creationTimestamp meta, dg_spec = spec, dg_status = status\<rparr>) }"

definition read_DiagnosisList ::
    "'f foreign \<Rightarrow> 'f obj heap \<Rightarrow> 'f DiagnosisListM \<Rightarrow> (TypeMeta \<times> string \<times> (TypeMeta \<times> Diagnosis) list) option" where
  "read_DiagnosisList F h m = do {
     meta \<leftarrow> fo_listRead F h (mdl_meta m);
     items \<leftarrow> read_slice get_Diagnosis (read_Diagnosis F) h (mdl_items m);
     Some (mdl_type m, meta, items) }"

definition read_RemediationConfig :: "'f obj heap \<Rightarrow> RemediationConfigM \<Rightarrow> RemediationConfig option" where
  "read_RemediationConfig h m = do {
     allowedActions \<leftarrow> read_slice get_ActionType read_plain h (mrc_allowedActions m);
     Some \<lparr>rc_mode = mrc_mode m, rc_minConfidence = mrc_minConfidence m, rc_allowedActions = allowedActions,
           rc_maxBlastRadius = mrc_maxBlastRadius m, rc_requireReversible = mrc_requireReversible m,
           rc_verificationWindow = mrc_verificationWindow m\<rparr> }"

definition read_HealingPolicySpec :: "'f obj heap \<Rightarrow> HealingPolicySpecM \<Rightarrow> HealingPolicySpec option" where
  "read_HealingPolicySpec h m = do {
     failureTypes \<leftarrow> read_slice get_FailureType read_plain h (mps_failureTypes m);
     remediation \<leftarrow> read_RemediationConfig h (mps_remediation m);
     Some \<lparr>ps_failureTypes = failureTypes, ps_analyzer = mps_analyzer m, ps_agent = mps_agent m,
           ps_remediation = remediation, ps_maxDiagnosesPerHour = mps_maxDiagnosesPerHour m,
           ps_resolvedRetention = mps_resolvedRetention m\<rparr> }"

definition read_HealingPolicyStatus ::
    "'f foreign \<Rightarrow> 'f obj heap \<Rightarrow> HealingPolicyStatusM \<Rightarrow> HealingPolicyStatus option" where
  "read_HealingPolicyStatus F h m = do {
     conditions \<leftarrow> read_slice get_Foreign (fo_condRead F) h (mhs_conditions m);
     Some \<lparr>hs_activeDiagnoses = mhs_activeDiagnoses m, hs_diagnosesThisHour = mhs_diagnosesThisHour m,
           hs_conditions = conditions\<rparr> }"

definition read_HealingPolicy :: "'f foreign \<Rightarrow> 'f obj heap \<Rightarrow> 'f HealingPolicyM \<Rightarrow> (TypeMeta \<times> ObjectMeta \<times> HealingPolicy) option" where
  "read_HealingPolicy F h m = do {
     meta \<leftarrow> fo_metaRead F h (mhp_meta m);
     spec \<leftarrow> read_HealingPolicySpec h (mhp_spec m);
     status \<leftarrow> read_HealingPolicyStatus F h (mhp_status m);
     Some (mhp_type m, meta,
           \<lparr>hp_name = om_name meta, hp_namespace = om_namespace meta, hp_spec = spec, hp_status = status\<rparr>) }"

definition read_HealingPolicyList ::
    "'f foreign \<Rightarrow> 'f obj heap \<Rightarrow> 'f HealingPolicyListM \<Rightarrow>
     (TypeMeta \<times> string \<times> (TypeMeta \<times> ObjectMeta \<times> HealingPolicy) list) option" where
  "read_HealingPolicyList F h m = do {
     meta \<leftarrow> fo_listRead F h (mhl_meta m);
     items \<leftarrow> read_slice get_HealingPolicy (read_HealingPolicy F) h (mhl_items m);
     Some (mhl_type m, meta, items) }"

subsection \<open>Every type keeps the contract\<close>

text \<open>A struct is read and copied part by part. \<open>step P R C rd\<close> says of a rest \<open>R\<close> of its reading and the
  rest \<open>C\<close> of its copying that they agree, where \<open>P\<close> collects what is known of the parts copied so far.\<close>

definition step ::
    "('c heap \<Rightarrow> bool) \<Rightarrow> ('c heap \<Rightarrow> 'v option) \<Rightarrow> ('c heap, 'm) state \<Rightarrow> ('c heap \<Rightarrow> 'm \<Rightarrow> 'v option) \<Rightarrow> bool" where
  "step P R C rd \<longleftrightarrow>
     (\<forall>h0 v h. R h0 = Some v \<longrightarrow> same_on (old h0) h0 h \<longrightarrow>
        R h = Some v \<and> copying h C (\<lambda>h'' y. P h'' \<longrightarrow> rd h'' y = Some v))"

lemma step_return: "(\<And>h. P h \<Longrightarrow> rd h y = Some v) \<Longrightarrow> step P (\<lambda>h. Some v) (State_Monad.return y) rd"
  by (simp add: step_def copying_return)

lemma same_on_length: "same_on (old h) h h' \<Longrightarrow> length h \<le> length h'"
  by (metis same_on_def deref_def linorder_not_less option.distinct(1) order_refl)

lemma step_bind:
  assumes "deep_copier rd1 cp1"
    and "\<And>x v. step (\<lambda>h. P h \<and> rd1 h x = Some v) (R2 v) (C2 x) rd"
  shows "step P (\<lambda>h. Option.bind (rd1 h m1) (\<lambda>v. R2 v h)) (State_Monad.bind (cp1 m1) C2) rd"
  unfolding step_def
proof (intro allI impI)
  fix h0 v h
  assume "Option.bind (rd1 h0 m1) (\<lambda>v. R2 v h0) = Some v" and s: "same_on (old h0) h0 h"
  then obtain u where u: "rd1 h0 m1 = Some u" "R2 u h0 = Some v" by (auto simp: bind_eq_Some_conv)
  note rest = assms(2) [unfolded step_def, rule_format, OF u(2)]
  have "rd1 h m1 = Some u" by (rule deep_copier.local [OF assms(1) u(1) s])
  moreover have "copying h (State_Monad.bind (cp1 m1) C2) (\<lambda>h'' y. P h'' \<longrightarrow> rd h'' y = Some v)"
  proof (rule copying_bind)
    show "copying h (cp1 m1) (\<lambda>h'' x. rd1 h'' x = Some u)"
      by (rule deep_copier.copies_later [OF assms(1) u(1) s])
    fix x h'
    assume "length h \<le> length h'" "same_on (old h) h h'"
    then have "same_on (old h0) h0 h'" using s same_on_length [OF s] by (auto simp: same_on_def)
    from conjunct2 [OF rest [OF this]]
    show "copying h' (C2 x) (\<lambda>h'' y. rd1 h'' x = Some u \<longrightarrow> P h'' \<longrightarrow> rd h'' y = Some v)"
      by (rule copying_mono) simp
  qed
  ultimately show "Option.bind (rd1 h m1) (\<lambda>v. R2 v h) = Some v \<and>
      copying h (State_Monad.bind (cp1 m1) C2) (\<lambda>h'' y. P h'' \<longrightarrow> rd h'' y = Some v)"
    using conjunct1 [OF rest [OF s]] by simp
qed

lemma deep_struct: "(\<And>m. step (\<lambda>h. True) (\<lambda>h. rd h m) (cp m) rd) \<Longrightarrow> deep_copier rd cp"
proof unfold_locales
  fix h m v h'
  assume s: "\<And>m. step (\<lambda>h. True) (\<lambda>h. rd h m) (cp m) rd" and r: "rd h m = Some v"
  note u = s [of m, unfolded step_def, rule_format, OF r]
  show "rd h' m = Some v" if "same_on (old h) h h'" using u [OF that] by blast
  show "copying h (cp m) (\<lambda>h'' m'. rd h'' m' = Some v)" using u [OF same_on_refl] by simp
qed

named_theorems parts \<open>the deep copiers of parts, as steps\<close>

lemmas deep_ptr_plain = deep_ptr [OF deep_plain]

lemma foreign_okD:
  "foreign_ok F \<Longrightarrow> deep_copier (fo_metaRead F) (fo_metaInto F)"
  "foreign_ok F \<Longrightarrow> deep_copier (fo_listRead F) (fo_listInto F)"
  "foreign_ok F \<Longrightarrow> deep_copier (fo_condRead F) (fo_condInto F)"
  "foreign_ok F \<Longrightarrow> deep_copier read_plain (fo_timeInto F)"
  "foreign_ok F \<Longrightarrow> deep_copier read_time (fo_timeCopy F)"
  by (simp_all add: foreign_ok_def)

lemmas foreign_parts [parts] = foreign_okD [THEN step_bind]
lemmas plain_parts [parts] = deep_clone [THEN step_bind] deep_ptr_plain [THEN step_bind, OF kinds(2)]
  deep_ptr_plain [THEN step_bind, OF kinds(3)]

text \<open>Types without references are copied by the assignment alone.\<close>

lemma plain_copies:
  "Action_DeepCopyInto = State_Monad.return" "AgentConfig_DeepCopyInto = State_Monad.return"
  "AnalyzerConfig_DeepCopyInto = State_Monad.return" "EvidenceItem_DeepCopyInto = State_Monad.return"
  "OwnerRef_DeepCopyInto = State_Monad.return" "RankedAction_DeepCopyInto = State_Monad.return"
  "ToolCall_DeepCopyInto = State_Monad.return" "Verdict_DeepCopyInto = State_Monad.return"
  by (simp_all add: fun_eq_iff Action_DeepCopyInto_def AgentConfig_DeepCopyInto_def AnalyzerConfig_DeepCopyInto_def
      EvidenceItem_DeepCopyInto_def OwnerRef_DeepCopyInto_def RankedAction_DeepCopyInto_def ToolCall_DeepCopyInto_def
      Verdict_DeepCopyInto_def)

lemmas plain_ptr = deep_ptr_plain [THEN step_bind]

lemma deep_TargetRef: "deep_copier read_TargetRef TargetRef_DeepCopyInto"
  by (intro deep_struct, unfold read_TargetRef_def TargetRef_DeepCopyInto_def)
    (intro parts plain_ptr kinds step_return; simp)

lemma deep_DiagnosisSpec: "foreign_ok F \<Longrightarrow> deep_copier read_DiagnosisSpec (DiagnosisSpec_DeepCopyInto F)"
  by (intro deep_struct, unfold read_DiagnosisSpec_def DiagnosisSpec_DeepCopyInto_def)
    (intro parts deep_TargetRef [THEN step_bind] kinds step_return; simp)

lemma deep_Timings: "foreign_ok F \<Longrightarrow> deep_copier read_Timings (Timings_DeepCopyInto F)"
  by (intro deep_struct, unfold read_Timings_def Timings_DeepCopyInto_def)
    (intro parts kinds step_return; simp)

lemma deep_Evidence: "deep_copier read_Evidence Evidence_DeepCopyInto"
  by (intro deep_struct, unfold read_Evidence_def Evidence_DeepCopyInto_def)
    (intro parts plain_ptr kinds step_return; simp)

lemma deep_Hypothesis: "deep_copier read_Hypothesis Hypothesis_DeepCopyInto"
  by (intro deep_struct, unfold read_Hypothesis_def Hypothesis_DeepCopyInto_def)
    (intro parts kinds step_return; simp)

lemma deep_Investigation: "deep_copier read_Investigation Investigation_DeepCopyInto"
  by (intro deep_struct, unfold read_Investigation_def Investigation_DeepCopyInto_def)
    (intro parts kinds step_return; simp)

lemma deep_Judgement: "deep_copier read_Judgement Judgement_DeepCopyInto"
  by (intro deep_struct, unfold read_Judgement_def Judgement_DeepCopyInto_def)
    (intro parts kinds step_return; simp)

lemma deep_Plan: "deep_copier read_Plan Plan_DeepCopyInto"
  by (intro deep_struct, unfold read_Plan_def Plan_DeepCopyInto_def)
    (intro parts plain_ptr kinds step_return; simp)

lemma deep_Remediation: "deep_copier read_Remediation Remediation_DeepCopyInto"
  by (intro deep_struct, unfold read_Remediation_def Remediation_DeepCopyInto_def)
    (intro parts plain_ptr kinds step_return; simp)

lemmas status_parts =
  deep_Timings [THEN step_bind] deep_slice [OF foreign_okD(3), THEN step_bind]
  deep_ptr [OF deep_Evidence, THEN step_bind] deep_ptr [OF deep_Investigation, THEN step_bind]
  deep_slice [OF deep_Hypothesis, THEN step_bind] deep_ptr [OF deep_Judgement, THEN step_bind]
  deep_ptr [OF deep_Plan, THEN step_bind] deep_ptr [OF deep_Remediation, THEN step_bind]

lemma deep_DiagnosisStatus: "foreign_ok F \<Longrightarrow> deep_copier (read_DiagnosisStatus F) (DiagnosisStatus_DeepCopyInto F)"
  by (intro deep_struct, unfold read_DiagnosisStatus_def DiagnosisStatus_DeepCopyInto_def)
    (intro parts status_parts kinds step_return; simp)

lemma deep_Diagnosis: "foreign_ok F \<Longrightarrow> deep_copier (read_Diagnosis F) (Diagnosis_DeepCopyInto F)"
  by (intro deep_struct, unfold read_Diagnosis_def Diagnosis_DeepCopyInto_def)
    (intro parts deep_DiagnosisSpec [THEN step_bind] deep_DiagnosisStatus [THEN step_bind] kinds step_return; simp)

lemma deep_DiagnosisList: "foreign_ok F \<Longrightarrow> deep_copier (read_DiagnosisList F) (DiagnosisList_DeepCopyInto F)"
  by (intro deep_struct, unfold read_DiagnosisList_def DiagnosisList_DeepCopyInto_def)
    (intro parts deep_slice [OF deep_Diagnosis, THEN step_bind] kinds step_return; simp)

lemma deep_RemediationConfig: "deep_copier read_RemediationConfig RemediationConfig_DeepCopyInto"
  by (intro deep_struct, unfold read_RemediationConfig_def RemediationConfig_DeepCopyInto_def)
    (intro parts kinds step_return; simp)

lemma deep_HealingPolicySpec: "deep_copier read_HealingPolicySpec HealingPolicySpec_DeepCopyInto"
  by (intro deep_struct, unfold read_HealingPolicySpec_def HealingPolicySpec_DeepCopyInto_def)
    (intro parts deep_RemediationConfig [THEN step_bind] kinds step_return; simp)

lemma deep_HealingPolicyStatus: "foreign_ok F \<Longrightarrow> deep_copier (read_HealingPolicyStatus F) (HealingPolicyStatus_DeepCopyInto F)"
  by (intro deep_struct, unfold read_HealingPolicyStatus_def HealingPolicyStatus_DeepCopyInto_def)
    (intro parts status_parts kinds step_return; simp)

lemma deep_HealingPolicy: "foreign_ok F \<Longrightarrow> deep_copier (read_HealingPolicy F) (HealingPolicy_DeepCopyInto F)"
  by (intro deep_struct, unfold read_HealingPolicy_def HealingPolicy_DeepCopyInto_def)
    (intro parts deep_HealingPolicySpec [THEN step_bind] deep_HealingPolicyStatus [THEN step_bind] kinds step_return; simp)

lemma deep_HealingPolicyList: "foreign_ok F \<Longrightarrow> deep_copier (read_HealingPolicyList F) (HealingPolicyList_DeepCopyInto F)"
  by (intro deep_struct, unfold read_HealingPolicyList_def HealingPolicyList_DeepCopyInto_def)
    (intro parts deep_slice [OF deep_HealingPolicy, THEN step_bind] kinds step_return; simp)

subsection \<open>The methods\<close>

abbreviation diagnosis_at :: "'f foreign \<Rightarrow> 'f obj heap \<Rightarrow> addr option \<Rightarrow> (TypeMeta \<times> Diagnosis) option option" where
  "diagnosis_at F \<equiv> read_ptr get_Diagnosis (read_Diagnosis F)"

lemma deep_methods:
  assumes "foreign_ok F"
  shows "deep_copier (diagnosis_at F) (Diagnosis_DeepCopy F)"
    and "deep_copier (read_ptr get_DiagnosisList (read_DiagnosisList F)) (DiagnosisList_DeepCopy F)"
    and "deep_copier (read_ptr get_HealingPolicy (read_HealingPolicy F)) (HealingPolicy_DeepCopy F)"
    and "deep_copier (read_ptr get_HealingPolicyList (read_HealingPolicyList F)) (HealingPolicyList_DeepCopy F)"
  using deep_ptr [OF deep_Diagnosis [OF assms]] deep_ptr [OF deep_DiagnosisList [OF assms]]
    deep_ptr [OF deep_HealingPolicy [OF assms]] deep_ptr [OF deep_HealingPolicyList [OF assms]]
  by (simp_all add: Diagnosis_DeepCopy_def DiagnosisList_DeepCopy_def HealingPolicy_DeepCopy_def
      HealingPolicyList_DeepCopy_def)

interpretation evidence_copy: deep_copier "read_ptr get_Evidence read_Evidence" "Evidence_DeepCopy :: addr option \<Rightarrow> ('f obj heap, addr option) state"
  unfolding Evidence_DeepCopy_def by (rule deep_ptr [OF deep_Evidence]) simp

text \<open>An interface that holds a nil pointer is not nil, so \<open>DeepCopyObject\<close> must not return one.\<close>

lemma DeepCopyObject_nil:
  "run_state (Diagnosis_DeepCopyObject F None) h = (NoObject, h)"
  "run_state (HealingPolicy_DeepCopyObject F None) h = (NoObject, h)"
  by (simp_all add: Diagnosis_DeepCopyObject_def HealingPolicy_DeepCopyObject_def Diagnosis_DeepCopy_def
      HealingPolicy_DeepCopy_def copy_ptr_def as_object_def)

subsection \<open>Writing to a copy\<close>

text \<open>The assignments at the end of \<open>EvidenceReconciler.Reconcile\<close>, on the object the client returned:
  \<open>c\<close> is the pointer to the collected evidence, \<open>now\<close> a variable whose address is kept.\<close>

definition enrich_in_place :: "addr option \<Rightarrow> addr option \<Rightarrow> gotime \<Rightarrow> ('f obj heap, unit) state" where
  "enrich_in_place q c now =
     (case q of
        None \<Rightarrow> State_Monad.return ()
      | Some a \<Rightarrow> do {
          h \<leftarrow> State_Monad.get;
          case load get_Diagnosis h a of
            None \<Rightarrow> State_Monad.return ()
          | Some d \<Rightarrow> do {
              t \<leftarrow> alloc [OTime now];
              assign a 0 (ODiagnosis (d\<lparr>mdg_status := (mdg_status d)
                \<lparr>mst_evidence := c, mst_phase := PhaseEnriched,
                 mst_timings := (mst_timings (mdg_status d))\<lparr>mtm_enrichedAt := Some t\<rparr>\<rparr>\<rparr>)) } })"

text \<open>A cached object is copied for the caller, who collects evidence and writes it to the copy.\<close>

definition enrich_copy ::
    "'f foreign \<Rightarrow> ('f obj heap, addr option) state \<Rightarrow> gotime \<Rightarrow> addr option \<Rightarrow> ('f obj heap, addr option) state" where
  "enrich_copy F collect now p = do {
     q \<leftarrow> Diagnosis_DeepCopy F p;
     c \<leftarrow> collect;
     _ \<leftarrow> enrich_in_place q c now;
     State_Monad.return q }"

lemma read_enriched:
  assumes "read_Diagnosis F h m = Some (ty, d)" "read_ptr get_Evidence read_Evidence h c = Some (Some ev)"
    and "deref h t = Some [OTime now]"
  shows "read_Diagnosis F h (m\<lparr>mdg_status := (mdg_status m)
                \<lparr>mst_evidence := c, mst_phase := PhaseEnriched,
                 mst_timings := (mst_timings (mdg_status m))\<lparr>mtm_enrichedAt := Some t\<rparr>\<rparr>\<rparr>) =
    Some (ty, enriched now ev d)"
proof -
  have "read_time h (Some t) = Some (Some now)"
    using assms(3) by (auto simp: read_ptr_Some load_Some read_plain_def get_defs)
  then show ?thesis
    using assms(1,2)
    by (auto simp: read_Diagnosis_def read_DiagnosisStatus_def read_Timings_def bind_eq_Some_conv enriched_def)
qed

lemma copy_ptr_cases:
  assumes "deep_copier rd cp" "kind put get" "read_ptr get rd h p = Some (Some v)"
  obtains m' h2 where
    "run_state (copy_ptr zero put get cp p) h = (Some (length h), h2[length h := [put m']])"
    "length h < length h2" "same_on (old h) h h2"
    "\<And>h''. same_on (\<lambda>a. length h < a \<and> a < length h2) h2 h'' \<Longrightarrow> rd h'' m' = Some v"
proof -
  from assms(3) obtain a m where m: "p = Some a" "load get h a = Some m" "rd h m = Some v"
    by (cases p) (auto simp: read_ptr_Some)
  obtain m' h2 where 2: "run_state (cp m) (h @ [[zero]]) = (m', h2)" by fastforce
  have "same_on (old h) h (h @ [[zero]])" by (simp add: same_on_def deref_append)
  then have c: "copying (h @ [[zero]]) (cp m) (\<lambda>h'' m'. rd h'' m' = Some v)"
    by (rule deep_copier.copies_later [OF assms(1) m(3)])
  note d = copyingD [OF c 2]
  show ?thesis
  proof (rule that)
    show "run_state (copy_ptr zero put get cp p) h = (Some (length h), h2[length h := [put m']])"
      using fill_block(4) [OF c 2 refl] m(1,2) by (simp add: copy_ptr_def alloc_def assign_def 2)
    show "length h < length h2" using d by simp
    show "same_on (old h) h h2" using d by (auto simp: same_on_def deref_append)
    show "rd h'' m' = Some v" if "same_on (\<lambda>a. length h < a \<and> a < length h2) h2 h''" for h''
      using d that by (auto simp: same_on_def Suc_le_eq)
  qed
qed

lemma enrich_copy_copying:
  assumes F: "foreign_ok F" and d: "diagnosis_at F h p = Some (Some (ty, d))"
    and c: "\<And>h. copying h collect (\<lambda>h'' c. read_ptr get_Evidence read_Evidence h'' c = Some (Some ev))"
  shows "copying h (enrich_copy F collect now p)
    (\<lambda>h'' q. diagnosis_at F h'' q = Some (Some (ty, enriched now ev d)))"
proof -
  obtain m h1 where 1: "run_state (Diagnosis_DeepCopy F p) h = (Some (length h), h1[length h := [ODiagnosis m]])"
      "length h < length h1" "same_on (old h) h h1"
      "\<And>h''. same_on (\<lambda>a. length h < a \<and> a < length h1) h1 h'' \<Longrightarrow> read_Diagnosis F h'' m = Some (ty, d)"
    unfolding Diagnosis_DeepCopy_def
    by (rule copy_ptr_cases [OF deep_Diagnosis [OF F] _ d, of ODiagnosis OZero]) simp_all
  define h1' where "h1' = h1[length h := [ODiagnosis m]]"
  obtain e h2 where 2: "run_state collect h1' = (e, h2)" by fastforce
  note col = copyingD [OF c 2]
  define m' where "m' = m\<lparr>mdg_status := (mdg_status m)
                \<lparr>mst_evidence := e, mst_phase := PhaseEnriched,
                 mst_timings := (mst_timings (mdg_status m))\<lparr>mtm_enrichedAt := Some (length h2)\<rparr>\<rparr>\<rparr>"
  define h3 where "h3 = (h2 @ [[OTime now]])[length h := [ODiagnosis m']]"
  have len: "length h1 \<le> length h2" "length h1' = length h1" using col by (simp_all add: h1'_def)
  have q: "deref h2 (length h) = Some [ODiagnosis m]"
    using col 1(2) by (auto simp: same_on_def h1'_def deref_update)
  then have l: "load get_Diagnosis h2 (length h) = Some m" "h2 ! length h = [ODiagnosis m]"
    using 1(2) len by (simp_all add: load_Some get_defs deref_def)
  have h12: "deref h2 a = deref h1 a" if "a < length h1" "a \<noteq> length h" for a
    using col that by (auto simp: same_on_def h1'_def deref_update)
  have h3: "deref h3 a = deref h2 a" if "a < length h2" "a \<noteq> length h" for a
    using that by (simp add: h3_def deref_update deref_append)
  show ?thesis
  proof (rule copyingI)
    show "run_state (enrich_copy F collect now p) h = (Some (length h), h3)"
      using 1(1) 2 l 1(2) len
      by (simp add: enrich_copy_def enrich_in_place_def h1'_def alloc_def assign_def h3_def m'_def nth_append)
    show "length h \<le> length h3" using 1(2) len by (simp add: h3_def)
    show "same_on (old h) h h3" using 1(2,3) len h12 h3 by (auto simp: same_on_def)
    fix h'' assume s: "same_on (young h h3) h3 h''"
    have young: "deref h'' a = deref h2 a" if "length h < a" "a < length h2" for a
      using s h3 that by (simp add: same_on_def h3_def)
    have "read_Diagnosis F h'' m = Some (ty, d)"
      by (rule 1(4)) (use young h12 len in \<open>auto simp: same_on_def\<close>)
    moreover have "read_ptr get_Evidence read_Evidence h'' e = Some (Some ev)"
      using col young 1(2) len by (auto simp: same_on_def)
    moreover have "deref h'' (length h2) = Some [OTime now]"
      using s 1(2) len by (simp add: same_on_def h3_def deref_update) (simp add: deref_def)
    ultimately have "read_Diagnosis F h'' m' = Some (ty, enriched now ev d)"
      unfolding m'_def by (rule read_enriched)
    moreover have "deref h'' (length h) = Some [ODiagnosis m']"
      using s 1(2) len by (simp add: same_on_def h3_def deref_update)
    ultimately show "diagnosis_at F h'' (Some (length h)) = Some (Some (ty, enriched now ev d))"
      by (auto simp: read_ptr_Some load_Some get_defs)
  qed
qed

subsection \<open>Properties\<close>

text \<open>The object behind \<open>p\<close> and its copy, from then on: nothing that existed was written, the two have the
  same value, and neither is affected by whatever is done to what the other consists of.\<close>

definition isolated ::
    "('c heap \<Rightarrow> addr option \<Rightarrow> 'v option) \<Rightarrow> (addr option \<Rightarrow> ('c heap, addr option) state) \<Rightarrow> 'c heap \<Rightarrow>
     addr option \<Rightarrow> 'v \<Rightarrow> bool" where
  "isolated rd copy h p v \<longleftrightarrow>
     (case run_state (copy p) h of (q, h') \<Rightarrow>
        rd h' q = Some v \<and> same_on (old h) h h' \<and>
        (\<forall>h''. same_on (old h) h' h'' \<longrightarrow> rd h'' p = Some v) \<and>
        (\<forall>h''. same_on (young h h') h' h'' \<longrightarrow> rd h'' q = Some v))"

lemma isolatedI: "deep_copier rd copy \<Longrightarrow> rd h p = Some v \<Longrightarrow> isolated rd copy h p v"
proof -
  assume d: "deep_copier rd copy" and r: "rd h p = Some v"
  obtain q h' where 1: "run_state (copy p) h = (q, h')" by fastforce
  show ?thesis using deep_copier.independent [OF d r 1] by (auto simp: isolated_def 1)
qed

abbreviation diagnosis_list_at where
  "diagnosis_list_at F \<equiv> read_ptr get_DiagnosisList (read_DiagnosisList F)"

abbreviation policy_at where
  "policy_at F \<equiv> read_ptr get_HealingPolicy (read_HealingPolicy F)"

abbreviation policy_list_at where
  "policy_list_at F \<equiv> read_ptr get_HealingPolicyList (read_HealingPolicyList F)"

text \<open>C8. The generated deep copies are deep: if the copies of ObjectMeta, ListMeta, Condition and Time are,
  then copying a diagnosis, a list of diagnoses, a policy or a list of policies writes nothing that
  existed before, yields the same value, and afterwards neither the original nor the copy can be
  changed through the other; nil is copied to nil.\<close>

theorem DeepCopy_isolates:
  assumes "foreign_ok F"
  shows "(diagnosis_at F h p = Some d \<longrightarrow> isolated (diagnosis_at F) (Diagnosis_DeepCopy F) h p d) \<and>
    (diagnosis_list_at F h p = Some ds \<longrightarrow> isolated (diagnosis_list_at F) (DiagnosisList_DeepCopy F) h p ds) \<and>
    (policy_at F h p = Some po \<longrightarrow> isolated (policy_at F) (HealingPolicy_DeepCopy F) h p po) \<and>
    (policy_list_at F h p = Some pos \<longrightarrow> isolated (policy_list_at F) (HealingPolicyList_DeepCopy F) h p pos)"
  by (intro conjI impI) (rule isolatedI [OF deep_methods(1) [OF assms]] isolatedI [OF deep_methods(2) [OF assms]]
    isolatedI [OF deep_methods(3) [OF assms]] isolatedI [OF deep_methods(4) [OF assms]], assumption)+

text \<open>C20. The evidence controller may write to the object its client gave it: when the client hands out a
  deep copy of a cached diagnosis and the collector returns evidence it built itself, the assignments in
  place leave the copy with the value the model of the controller gives it, and the cached diagnosis with
  the one it had.\<close>

theorem enrich_copy_refines:
  assumes "foreign_ok F" "diagnosis_at F h p = Some (Some (ty, d))"
    and "\<And>h. copying h collect (\<lambda>h'' c. read_ptr get_Evidence read_Evidence h'' c = Some (Some ev))"
    and "run_state (enrich_copy F collect now p) h = (q, h')"
  shows "diagnosis_at F h' q = Some (Some (ty, enriched now ev d)) \<and> diagnosis_at F h' p = Some (Some (ty, d))"
  using copyingD [OF enrich_copy_copying [OF assms(1-3)] assms(4)] same_on_refl
    deep_copier.local [OF deep_methods(1) [OF assms(1)] assms(2), of h'] by blast

subsection \<open>An instance\<close>

text \<open>Metadata whose labels are a block of their own, as Go's maps are.\<close>

datatype example_struct =
    ExampleMeta string string string "addr option" gotime
  | ExampleLabels "(string \<times> string) list"
  | ExampleList string
  | ExampleCondition Condition

fun get_labels :: "example_struct obj \<Rightarrow> (string \<times> string) list option" where
  "get_labels (OForeign (ExampleLabels l)) = Some l"
| "get_labels _ = None"

fun example_metaRead :: "example_struct obj heap \<Rightarrow> example_struct \<Rightarrow> ObjectMeta option" where
  "example_metaRead h (ExampleMeta n ns v l t) = do {
     labels \<leftarrow> read_ptr get_labels read_plain h l;
     Some \<lparr>om_name = n, om_namespace = ns, om_resourceVersion = v,
           om_labels = (case labels of None \<Rightarrow> [] | Some x \<Rightarrow> x), om_creationTimestamp = t\<rparr> }"
| "example_metaRead h _ = None"

fun example_metaInto :: "example_struct \<Rightarrow> (example_struct obj heap, example_struct) state" where
  "example_metaInto (ExampleMeta n ns v l t) = do {
     labels \<leftarrow> copy_ptr OZero (\<lambda>l. OForeign (ExampleLabels l)) get_labels State_Monad.return l;
     State_Monad.return (ExampleMeta n ns v labels t) }"
| "example_metaInto x = State_Monad.return x"

fun example_listRead :: "example_struct obj heap \<Rightarrow> example_struct \<Rightarrow> string option" where
  "example_listRead h (ExampleList v) = Some v"
| "example_listRead h _ = None"

fun example_condRead :: "example_struct obj heap \<Rightarrow> example_struct \<Rightarrow> Condition option" where
  "example_condRead h (ExampleCondition c) = Some c"
| "example_condRead h _ = None"

definition example_foreign :: "example_struct foreign" where
  "example_foreign =
     \<lparr>fo_metaRead = example_metaRead, fo_metaInto = example_metaInto, fo_listRead = example_listRead,
      fo_listInto = State_Monad.return, fo_condRead = example_condRead, fo_condInto = State_Monad.return,
      fo_timeInto = State_Monad.return, fo_timeCopy = copy_ptr OZero OTime get_Time State_Monad.return\<rparr>"

lemma deep_returned:
  assumes "\<And>h h' m. rd h m = rd h' m"
  shows "deep_copier rd State_Monad.return"
proof unfold_locales
  fix h m v h'
  assume "rd h m = Some v"
  then have r: "rd h' m = Some v" for h' using assms [of h' m h] by simp
  show "rd h' m = Some v" by (rule r)
  show "copying h (State_Monad.return m) (\<lambda>h'' m'. rd h'' m' = Some v)" by (rule copying_return) (rule r)
qed

lemma deep_example_meta: "deep_copier example_metaRead example_metaInto"
proof (rule deep_struct)
  fix m
  have k: "kind (\<lambda>l. OForeign (ExampleLabels l)) get_labels" by (simp add: kind_def)
  show "step (\<lambda>h. True) (\<lambda>h. example_metaRead h m) (example_metaInto m) example_metaRead"
  proof (cases m)
    case (ExampleMeta n ns v l t)
    show ?thesis unfolding ExampleMeta example_metaRead.simps example_metaInto.simps
      by (intro plain_ptr k step_return) simp
  qed (simp_all add: step_def)
qed

lemma example_foreign_ok: "foreign_ok example_foreign"
proof -
  have "example_listRead h m = example_listRead h' m" "example_condRead h m = example_condRead h' m" for h h' m
    by (cases m; simp)+
  then show ?thesis
    unfolding foreign_ok_def example_foreign_def
    by (simp add: deep_example_meta deep_returned deep_plain deep_ptr_plain)
qed

definition example_cache :: "example_struct obj heap" where
  "example_cache =
     [[ODiagnosis \<lparr>mdg_type = \<lparr>ty_kind = ''Diagnosis'', ty_apiVersion = ''v1''\<rparr>,
         mdg_meta = ExampleMeta ''web'' ''shop'' ''7'' (Some 1) 0,
         mdg_spec =
           \<lparr>mds_target = \<lparr>mtr_name = ''web-1'', mtr_uid = ''u'', mtr_owner = Some 2\<rparr>,
            mds_failureType = FailureOOMKilled, mds_container = ''app'', mds_signature = ''s'',
            mds_observedAt = 0, mds_policyRef = ''default''\<rparr>,
         mdg_status =
           \<lparr>mst_phase = PhaseDetected, mst_conditions = Some (3, 0, 1),
            mst_timings =
              \<lparr>mtm_detectedAt = Some 4, mtm_enrichedAt = None, mtm_hypothesizedAt = None, mtm_judgedAt = None,
               mtm_plannedAt = None, mtm_remediatedAt = None, mtm_healedAt = None\<rparr>,
            mst_timeToDiagnosis = [], mst_timeToRecovery = [], mst_evidence = None, mst_investigation = None,
            mst_hypotheses = Some (5, 1, 1), mst_judgement = None, mst_plan = None, mst_remediation = None,
            mst_observedGeneration = 0\<rparr>\<rparr>],
      [OForeign (ExampleLabels [(''app'', ''web'')])],
      [OOwnerRef \<lparr>or_kind = ''Deployment'', or_name = ''web''\<rparr>],
      [OForeign (ExampleCondition \<lparr>cd_type = ''Ready'', cd_status = ''False'', cd_reason = [], cd_message = []\<rparr>)],
      [OTime 5],
      [OZero, OHypothesis \<lparr>mah_id = ''H1'', mah_rank = 1, mah_rootCause = ''limit'', mah_confidencePercent = 70,
         mah_evidenceCitations = Some (6, 0, 2), mah_proposedActions = None\<rparr>],
      [OString ''E1'', OString ''E2'']]"

definition example_cached :: "TypeMeta \<times> Diagnosis" where
  "example_cached =
     (\<lparr>ty_kind = ''Diagnosis'', ty_apiVersion = ''v1''\<rparr>,
      \<lparr>dg_name = ''web'', dg_namespace = ''shop'', dg_resourceVersion = ''7'', dg_labels = [(''app'', ''web'')],
       dg_creationTimestamp = 0,
       dg_spec =
         \<lparr>ds_target = \<lparr>tr_name = ''web-1'', tr_uid = ''u'', tr_owner = Some \<lparr>or_kind = ''Deployment'', or_name = ''web''\<rparr>\<rparr>,
          ds_failureType = FailureOOMKilled, ds_container = ''app'', ds_signature = ''s'', ds_observedAt = 0,
          ds_policyRef = ''default''\<rparr>,
       dg_status = DiagnosisStatus_zero
         \<lparr>st_phase := PhaseDetected,
          st_conditions := [\<lparr>cd_type = ''Ready'', cd_status = ''False'', cd_reason = [], cd_message = []\<rparr>],
          st_timings := Timings_zero\<lparr>tm_detectedAt := Some 5\<rparr>,
          st_hypotheses := [\<lparr>ah_id = ''H1'', ah_rank = 1, ah_rootCause = ''limit'', ah_confidencePercent = 70,
             ah_evidenceCitations = [''E1'', ''E2''], ah_proposedActions = []\<rparr>]\<rparr>\<rparr>)"

lemma example_cache_read: "diagnosis_at example_foreign example_cache (Some 0) = Some (Some example_cached)"
  by code_simp

theorem DeepCopy_isolates_witness:
  "isolated (diagnosis_at example_foreign) (Diagnosis_DeepCopy example_foreign) example_cache (Some 0)
     (Some example_cached)"
  using DeepCopy_isolates [OF example_foreign_ok, of example_cache "Some 0" "Some example_cached"] example_cache_read
  by blast

definition example_collect :: "(example_struct obj heap, addr option) state" where
  "example_collect = do {
     items \<leftarrow> alloc [OEvidenceItem \<lparr>ei_kind = EvidenceEvents, ei_status = CollectionCollected, ei_required = True,
       ei_reason = [], ei_content = ''Killing''\<rparr>];
     c \<leftarrow> alloc [OEvidence \<lparr>mev_items = Some (items, 0, 1), mev_complete = True, mev_missingRequired = None,
       mev_exitCode = None, mev_restartCount = 3, mev_terminationReason = [], mev_waitingReason = [],
       mev_redactedFields = 0\<rparr>];
     State_Monad.return (Some c) }"

definition example_collected :: Evidence where
  "example_collected = Evidence_zero
     \<lparr>ev_items := [\<lparr>ei_kind = EvidenceEvents, ei_status = CollectionCollected, ei_required = True,
       ei_reason = [], ei_content = ''Killing''\<rparr>], ev_complete := True, ev_restartCount := 3\<rparr>"

lemma example_collect_copying:
  "copying h example_collect (\<lambda>h'' c. read_ptr get_Evidence read_Evidence h'' c = Some (Some example_collected))"
proof (rule copyingI)
  show "run_state example_collect h = (Some (Suc (length h)), snd (run_state example_collect h))"
    by (simp add: example_collect_def alloc_def)
  let ?h' = "snd (run_state example_collect h)"
  show "same_on (old h) h ?h'" by (simp add: example_collect_def alloc_def same_on_def deref_def nth_append)
  show "read_ptr get_Evidence read_Evidence h'' (Some (Suc (length h))) = Some (Some example_collected)"
    if "same_on (young h ?h') ?h' h''" for h''
  proof -
    have "deref h'' (length h) = deref ?h' (length h)" "deref h'' (Suc (length h)) = deref ?h' (Suc (length h))"
      using that by (simp_all add: same_on_def example_collect_def alloc_def)
    then show ?thesis
      by (simp add: read_ptr_def load_def read_Evidence_def read_slice_def window_def read_plain_def get_defs
          example_collect_def alloc_def deref_def nth_append example_collected_def Evidence_zero_def)
  qed
qed (simp add: example_collect_def alloc_def)

theorem enrich_copy_refines_witness:
  "let (q, h') = run_state (enrich_copy example_foreign example_collect 9 (Some 0)) example_cache in
     q \<noteq> Some 0 \<and>
     diagnosis_at example_foreign h' q =
       Some (Some (fst example_cached, enriched 9 example_collected (snd example_cached))) \<and>
     diagnosis_at example_foreign h' (Some 0) = Some (Some example_cached)"
proof -
  obtain q h' where r: "run_state (enrich_copy example_foreign example_collect 9 (Some 0)) example_cache = (q, h')"
    by fastforce
  have "fst (run_state (enrich_copy example_foreign example_collect 9 (Some 0)) example_cache) \<noteq> Some 0"
    by code_simp
  then show ?thesis
    using enrich_copy_refines [OF example_foreign_ok _ example_collect_copying r, of "fst example_cached" "snd example_cached"]
      example_cache_read r by simp
qed

end
