(* ===== verification/Findings.thy ===== *)
theory Findings
  imports AgentTypes Render
begin

text \<open>
  \<open>src/internal/agent/findings.go\<close>: the concluding tool, the validation of a submission against
  the evidence gathered, ranking, and the confidence cap. The text \<open>encoding/json\<close> gives for
  a decoding error is the argument \<open>jerr\<close>, the printable code points the argument \<open>uprint\<close>.
\<close>

definition SubmitTool :: string where "SubmitTool = ''submit_findings''"
definition maxHypotheses :: nat where "maxHypotheses = 5"
definition rootCauseLimit :: nat where "rootCauseLimit = 2048"
definition actionValueLimit :: nat where "actionValueLimit = 253"
definition degradedConfidenceCap :: int where "degradedConfidenceCap = 70"

record Action =
  ac_type :: string
  ac_container :: string
  ac_value :: string

record Hypothesis =
  hy_id :: string
  hy_rank :: int
  hy_rootCause :: string
  hy_confidencePercent :: int
  hy_evidenceCitations :: "string list"
  hy_proposedActions :: "Action list"

record SubmittedHypothesis =
  sh_rootCause :: string
  sh_confidencePercent :: int
  sh_evidenceCitations :: "string list"
  sh_proposedActions :: "Action list"

type_synonym submission = "SubmittedHypothesis list"

subsection \<open>The concluding tool\<close>

definition marshal_strings :: "string list \<Rightarrow> string" where
  "marshal_strings ss = [CHR 0x5B] @ join '','' (map jstr_text ss) @ [CHR 0x5D]"

definition submit_schema :: "string list \<Rightarrow> string" where
  "submit_schema allowedActions = raw_lines
     [(0, ''{''),
      (2, ''`type`:`object`,''),
      (2, ''`properties`:{''),
      (3, ''`hypotheses`:{''),
      (4, ''`type`:`array`,`minItems`:1,`maxItems`:'' @ itoa (int maxHypotheses) @ '',''),
      (4, ''`description`:`Candidate explanations, most likely first.`,''),
      (4, ''`items`:{''),
      (5, ''`type`:`object`,''),
      (5, ''`properties`:{''),
      (6, ''`rootCause`:{`type`:`string`,`description`:`The cause of the failure, stated for an engineer reading a pull request.`},''),
      (6, ''`confidencePercent`:{`type`:`integer`,`minimum`:0,`maximum`:100},''),
      (6, ''`evidenceCitations`:{`type`:`array`,`minItems`:1,`items`:{`type`:`string`},''),
      (7, ''`description`:`Identifiers of the evidence supporting this explanation, such as B:Events or E2. Cite only identifiers that appear in the evidence.`},''),
      (6, ''`proposedActions`:{`type`:`array`,`items`:{''),
      (7, ''`type`:`object`,''),
      (7, ''`properties`:{'')] @
     newline # replicate 8 CHR 0x09 @ dq ''`type`:{`type`:`string`,`enum`:'' @
     marshal_strings allowedActions @ ''},'' @ [newline] @
     raw_lines
     [(8, ''`container`:{`type`:`string`},''),
      (8, ''`value`:{`type`:`string`,`description`:`The action'' @ [CHR 0x27] @ ''s parameter, such as 384Mi, an image reference, or a revision number.`}''),
      (7, ''},''),
      (7, ''`required`:['' @ ''`type`]}}''),
      (5, ''},''),
      (5, ''`required`:['' @ ''`rootCause`,`confidencePercent`,`evidenceCitations`]''),
      (4, ''}''),
      (3, ''}''),
      (2, ''},''),
      (2, ''`required`:['' @ ''`hypotheses`]''),
      (1, ''}'')]"

definition submitSpec :: "string list \<Rightarrow> ToolSpec" where
  "submitSpec allowedActions =
     \<lparr>ts_name = SubmitTool,
      ts_description = ''Conclude the investigation with ranked hypotheses. Call this only once the evidence supports a conclusion. Every hypothesis must cite evidence identifiers.'',
      ts_inputSchema = submit_schema allowedActions\<rparr>"

subsection \<open>Decoding\<close>

definition store_action :: "json \<Rightarrow> Action \<Rightarrow> Action option" where
  "store_action = store_struct (\<lambda>k j a.
     if key_is ''type'' k then map_option (\<lambda>s. a\<lparr>ac_type := s\<rparr>) (store_str j (ac_type a))
     else if key_is ''container'' k then map_option (\<lambda>s. a\<lparr>ac_container := s\<rparr>) (store_str j (ac_container a))
     else if key_is ''value'' k then map_option (\<lambda>s. a\<lparr>ac_value := s\<rparr>) (store_str j (ac_value a))
     else None)"

definition Action_zero :: Action where
  "Action_zero = \<lparr>ac_type = [], ac_container = [], ac_value = []\<rparr>"

definition store_hypothesis :: "json \<Rightarrow> SubmittedHypothesis \<Rightarrow> SubmittedHypothesis option" where
  "store_hypothesis = store_struct (\<lambda>k j h.
     if key_is ''rootCause'' k
     then map_option (\<lambda>s. h\<lparr>sh_rootCause := s\<rparr>) (store_str j (sh_rootCause h))
     else if key_is ''confidencePercent'' k
     then map_option (\<lambda>n. h\<lparr>sh_confidencePercent := n\<rparr>) (store_int j (sh_confidencePercent h))
     else if key_is ''evidenceCitations'' k
     then map_option (\<lambda>ss. h\<lparr>sh_evidenceCitations := ss\<rparr>)
            (store_slice store_str [] j (sh_evidenceCitations h))
     else if key_is ''proposedActions'' k
     then map_option (\<lambda>as. h\<lparr>sh_proposedActions := as\<rparr>)
            (store_slice store_action Action_zero j (sh_proposedActions h))
     else None)"

definition SubmittedHypothesis_zero :: SubmittedHypothesis where
  "SubmittedHypothesis_zero =
     \<lparr>sh_rootCause = [], sh_confidencePercent = 0, sh_evidenceCitations = [], sh_proposedActions = []\<rparr>"

definition store_submission :: "json \<Rightarrow> submission \<Rightarrow> submission option" where
  "store_submission = store_struct (\<lambda>k j s.
     if key_is ''hypotheses'' k
     then store_slice store_hypothesis SubmittedHypothesis_zero j s
     else None)"

definition decode_submission :: "string \<Rightarrow> submission option" where
  "decode_submission arguments =
     (case dec_value arguments of None \<Rightarrow> None | Some (v, rest) \<Rightarrow> store_submission v [])"

subsection \<open>Validation\<close>

definition action_problems :: "(nat \<Rightarrow> bool) \<Rightarrow> string list \<Rightarrow> string \<Rightarrow> Action \<Rightarrow> string list" where
  "action_problems uprint allowed label a =
     (if ac_type a \<in> set allowed then []
      else [label @ '' proposes unknown action type '' @ quote uprint (ac_type a)]) @
     (if actionValueLimit < length (ac_value a)
      then [label @ '' action value exceeds '' @ itoa (int actionValueLimit) @ '' characters''] else [])"

definition hypothesis_problems ::
    "(nat \<Rightarrow> bool) \<Rightarrow> (string \<Rightarrow> string option) \<Rightarrow> string list \<Rightarrow> nat \<Rightarrow> SubmittedHypothesis \<Rightarrow> string list" where
  "hypothesis_problems uprint ledger allowed i h =
     (let label = ''hypothesis '' @ itoa (int i + 1); cause = trim_space (sh_rootCause h) in
      (if cause = [] then [label @ '' has no root cause'']
       else if rootCauseLimit < length cause
       then [label @ '' root cause exceeds '' @ itoa (int rootCauseLimit) @ '' characters''] else []) @
      (if sh_confidencePercent h < 0 \<or> 100 < sh_confidencePercent h
       then [label @ '' confidence must be between 0 and 100''] else []) @
      (if sh_evidenceCitations h = []
       then [label @ '' cites no evidence; every hypothesis must cite what supports it''] else []) @
      concat (map (\<lambda>c. if ledger c = None
        then [label @ '' cites '' @ quote uprint c @
              '', which does not exist; cite only identifiers from the evidence''] else [])
        (sh_evidenceCitations h)) @
      concat (map (action_problems uprint allowed label) (sh_proposedActions h)))"

fun dedupe_loop :: "string list \<Rightarrow> string list \<Rightarrow> string list" where
  "dedupe_loop seen [] = []"
| "dedupe_loop seen (s # ss) =
     (if s \<in> set seen then dedupe_loop seen ss else s # dedupe_loop (s # seen) ss)"

definition dedupe :: "string list \<Rightarrow> string list" where
  "dedupe items = dedupe_loop [] items"

definition accepted :: "SubmittedHypothesis \<Rightarrow> Hypothesis" where
  "accepted h =
     \<lparr>hy_id = [], hy_rank = 0, hy_rootCause = trim_space (sh_rootCause h),
      hy_confidencePercent = sh_confidencePercent h,
      hy_evidenceCitations = dedupe (sh_evidenceCitations h),
      hy_proposedActions = sh_proposedActions h\<rparr>"

fun number :: "nat \<Rightarrow> Hypothesis list \<Rightarrow> Hypothesis list" where
  "number i [] = []"
| "number i (h # hs) =
     h\<lparr>hy_id := ''H'' @ itoa (int i + 1), hy_rank := int i + 1\<rparr> # number (Suc i) hs"

text \<open>\<open>sort.SliceStable\<close> by descending confidence, then the identifiers and ranks.\<close>

definition rank :: "Hypothesis list \<Rightarrow> Hypothesis list" where
  "rank hypotheses = number 0 (sort_key (\<lambda>h. - hy_confidencePercent h) hypotheses)"

fun problems_loop ::
    "(nat \<Rightarrow> bool) \<Rightarrow> (string \<Rightarrow> string option) \<Rightarrow> string list \<Rightarrow> nat \<Rightarrow> submission \<Rightarrow> string list" where
  "problems_loop uprint ledger allowed i [] = []"
| "problems_loop uprint ledger allowed i (h # hs) =
     hypothesis_problems uprint ledger allowed i h @ problems_loop uprint ledger allowed (Suc i) hs"

definition validateSubmission ::
    "(nat \<Rightarrow> bool) \<Rightarrow> (string \<Rightarrow> string) \<Rightarrow> string \<Rightarrow> (string \<Rightarrow> string option) \<Rightarrow> string list \<Rightarrow>
     string list + Hypothesis list" where
  "validateSubmission uprint jerr arguments ledger allowed =
     (case decode_submission arguments of
        None \<Rightarrow> Inl [''the submission is not valid against the schema: '' @ jerr arguments]
      | Some sub \<Rightarrow>
          let problems =
                (if sub = [] then [''submit at least one hypothesis''] else []) @
                (if maxHypotheses < length sub
                 then [''submit at most '' @ itoa (int maxHypotheses) @ '' hypotheses''] else []) @
                problems_loop uprint ledger allowed 0 sub
          in if problems \<noteq> [] then Inl problems else Inr (rank (map accepted sub)))"

definition capConfidence :: "Hypothesis list \<Rightarrow> int \<Rightarrow> Hypothesis list" where
  "capConfidence hypotheses ceiling =
     map (\<lambda>h. if ceiling < hy_confidencePercent h then h\<lparr>hy_confidencePercent := ceiling\<rparr> else h)
       hypotheses"

end
