(* ===== verification/FindingsProps.thy ===== *)
theory FindingsProps
  imports Findings
begin

text \<open>
  What a submission has to be to conclude an investigation, as an abstract predicate, and that
  \<open>validateSubmission\<close> accepts exactly that; what \<open>rank\<close> and \<open>capConfidence\<close> do to what is accepted.
\<close>

subsection \<open>The specification\<close>

definition action_ok :: "string list \<Rightarrow> Action \<Rightarrow> bool" where
  "action_ok allowed a \<longleftrightarrow> ac_type a \<in> set allowed \<and> length (ac_value a) \<le> 253"

definition submitted_ok :: "(string \<Rightarrow> string option) \<Rightarrow> string list \<Rightarrow> SubmittedHypothesis \<Rightarrow> bool" where
  "submitted_ok ledger allowed h \<longleftrightarrow>
     trim_space (sh_rootCause h) \<noteq> [] \<and> length (trim_space (sh_rootCause h)) \<le> 2048 \<and>
     0 \<le> sh_confidencePercent h \<and> sh_confidencePercent h \<le> 100 \<and>
     sh_evidenceCitations h \<noteq> [] \<and> list_all (\<lambda>c. ledger c \<noteq> None) (sh_evidenceCitations h) \<and>
     list_all (action_ok allowed) (sh_proposedActions h)"

definition submission_ok :: "(string \<Rightarrow> string option) \<Rightarrow> string list \<Rightarrow> submission \<Rightarrow> bool" where
  "submission_ok ledger allowed sub \<longleftrightarrow>
     1 \<le> length sub \<and> length sub \<le> 5 \<and> list_all (submitted_ok ledger allowed) sub"

text \<open>And what the accepted hypotheses are.\<close>

definition hypothesis_ok :: "(string \<Rightarrow> string option) \<Rightarrow> string list \<Rightarrow> Hypothesis \<Rightarrow> bool" where
  "hypothesis_ok ledger allowed h \<longleftrightarrow>
     hy_rootCause h \<noteq> [] \<and> length (hy_rootCause h) \<le> 2048 \<and>
     0 \<le> hy_confidencePercent h \<and> hy_confidencePercent h \<le> 100 \<and>
     hy_evidenceCitations h \<noteq> [] \<and> distinct (hy_evidenceCitations h) \<and>
     list_all (\<lambda>c. ledger c \<noteq> None) (hy_evidenceCitations h) \<and>
     list_all (action_ok allowed) (hy_proposedActions h)"

definition ranked :: "Hypothesis list \<Rightarrow> bool" where
  "ranked hs \<longleftrightarrow>
     map hy_rank hs = map (\<lambda>i. int i + 1) [0..<length hs] \<and>
     map hy_id hs = map (\<lambda>i. ''H'' @ itoa (int i + 1)) [0..<length hs] \<and>
     sorted (rev (map hy_confidencePercent hs))"

subsection \<open>Helper lemmas\<close>

lemma action_problems_Nil: "action_problems uprint allowed label a = [] \<longleftrightarrow> action_ok allowed a"
  by (auto simp: action_problems_def action_ok_def actionValueLimit_def)

lemma concat_map_Nil: "concat (map f xs) = [] \<longleftrightarrow> list_all (\<lambda>x. f x = []) xs"
  by (induction xs) auto

lemma hypothesis_problems_Nil:
  "hypothesis_problems uprint ledger allowed i h = [] \<longleftrightarrow> submitted_ok ledger allowed h"
  unfolding hypothesis_problems_def Let_def append_is_Nil_conv concat_map_Nil action_problems_Nil
  by (auto simp: submitted_ok_def rootCauseLimit_def list_all_iff)

lemma problems_loop_Nil:
  "problems_loop uprint ledger allowed i sub = [] \<longleftrightarrow> list_all (submitted_ok ledger allowed) sub"
  by (induction sub arbitrary: i) (auto simp: hypothesis_problems_Nil)

lemma dedupe_loop_set: "set (dedupe_loop seen ss) = set ss - set seen"
  by (induction seen ss rule: dedupe_loop.induct) auto

lemma dedupe_loop_distinct: "distinct (dedupe_loop seen ss)"
  by (induction seen ss rule: dedupe_loop.induct) (auto simp: dedupe_loop_set)

lemma dedupe_set [simp]: "set (dedupe ss) = set ss"
  by (simp add: dedupe_def dedupe_loop_set)

lemma dedupe_distinct [simp]: "distinct (dedupe ss)"
  by (simp add: dedupe_def dedupe_loop_distinct)

lemma dedupe_Nil [simp]: "dedupe ss = [] \<longleftrightarrow> ss = []"
  by (metis dedupe_set set_empty)

lemma accepted_ok: "submitted_ok ledger allowed h \<Longrightarrow> hypothesis_ok ledger allowed (accepted h)"
  by (simp add: submitted_ok_def hypothesis_ok_def accepted_def list_all_iff)

lemma number_ranks:
  "map hy_rank (number i hs) = map (\<lambda>j. int (i + j) + 1) [0..<length hs]"
  "map hy_id (number i hs) = map (\<lambda>j. ''H'' @ itoa (int (i + j) + 1)) [0..<length hs]"
proof (induction hs arbitrary: i)
  case (Cons h hs)
  have u: "[0..<length (h # hs)] = 0 # map Suc [0..<length hs]"
    by (simp add: upt_conv_Cons map_Suc_upt del: upt_Suc)
  { case 1 show ?case unfolding u using Cons(1) [of "Suc i"] by (simp add: comp_def) }
  { case 2 show ?case unfolding u using Cons(2) [of "Suc i"] by (simp add: comp_def) }
qed simp_all

definition unnumbered :: "Hypothesis \<Rightarrow> Hypothesis" where
  "unnumbered h = h\<lparr>hy_id := [], hy_rank := 0\<rparr>"

lemma unnumbered_number: "map unnumbered (number i hs) = map unnumbered hs"
  by (induction hs arbitrary: i) (auto simp: unnumbered_def)

lemma number_conf [simp]:
  "map hy_confidencePercent (number i hs) = map hy_confidencePercent hs" "length (number i hs) = length hs"
  by (induction hs arbitrary: i) auto

lemma unnumbered_fields [simp]:
  "hy_confidencePercent (unnumbered h) = hy_confidencePercent h"
  "hypothesis_ok ledger allowed (unnumbered h) = hypothesis_ok ledger allowed h"
  by (simp_all add: unnumbered_def hypothesis_ok_def)

lemma unnumbered_accepted [simp]: "unnumbered (accepted h) = accepted h"
  by (simp add: unnumbered_def accepted_def)

lemma rank_sorted: "sorted (rev (map hy_confidencePercent (rank hs)))"
proof -
  have "sorted (map (\<lambda>h. - hy_confidencePercent h) (sort_key (\<lambda>h. - hy_confidencePercent h) hs))"
    by (rule sorted_sort_key)
  then have "sorted_wrt (\<lambda>a b. hy_confidencePercent b \<le> hy_confidencePercent a)
      (sort_key (\<lambda>h. - hy_confidencePercent h) hs)"
    by (simp add: sorted_map)
  then show ?thesis by (simp add: rank_def sorted_wrt_rev sorted_wrt_map rev_map [symmetric] sorted_map)
qed

lemma ranked_rank: "ranked (rank hs)"
  unfolding ranked_def using rank_sorted [of hs]
  by (simp add: rank_def number_ranks)

lemma rank_set: "unnumbered ` set (rank hs) = unnumbered ` set hs"
  using arg_cong [OF unnumbered_number [of 0 "sort_key (\<lambda>h. - hy_confidencePercent h) hs"], of set]
  by (simp add: rank_def)

lemma rank_ok: "list_all (hypothesis_ok ledger allowed) (rank hs) \<longleftrightarrow> list_all (hypothesis_ok ledger allowed) hs"
proof -
  have "(\<forall>h \<in> S. hypothesis_ok ledger allowed h) \<longleftrightarrow> (\<forall>h \<in> unnumbered ` S. hypothesis_ok ledger allowed h)" for S
    by simp
  then show ?thesis unfolding list_all_iff using rank_set [of hs] by metis
qed

lemma length_rank [simp]: "length (rank hs) = length hs"
  by (simp add: rank_def)

lemma validateSubmission_cases:
  "validateSubmission uprint jerr arguments ledger allowed = Inr hs \<longleftrightarrow>
     (\<exists>sub. decode_submission arguments = Some sub \<and> submission_ok ledger allowed sub \<and>
            hs = rank (map accepted sub))"
  by (cases "decode_submission arguments")
    (auto simp: validateSubmission_def Let_def problems_loop_Nil submission_ok_def maxHypotheses_def
      Suc_le_eq split: if_splits)

subsection \<open>Properties\<close>

text \<open>C19. A submission is accepted precisely when it decodes strictly and meets the contract (one to
  five hypotheses, each with a cause of at most 2048 bytes, a confidence from 0 to 100, at least
  one citation and only citations of evidence that exists, and only allowed actions); any other
  is answered with the problems found, never accepted in part.\<close>

theorem validateSubmission_accepts_iff:
  "isr (validateSubmission uprint jerr arguments ledger allowed) \<longleftrightarrow>
     (case decode_submission arguments of None \<Rightarrow> False | Some sub \<Rightarrow> submission_ok ledger allowed sub)"
  by (auto simp: isr_iff validateSubmission_cases split: option.split)

text \<open>What is accepted is grounded and ranked: between one and five hypotheses, each citing,
  without repetition, only evidence in the ledger and proposing only allowed actions, numbered H1,
  H2, ... in order of descending confidence.\<close>

lemma validateSubmission_sound:
  assumes "validateSubmission uprint jerr arguments ledger allowed = Inr hs"
  shows "1 \<le> length hs \<and> length hs \<le> 5 \<and> list_all (hypothesis_ok ledger allowed) hs \<and> ranked hs"
proof -
  from assms obtain sub where sub: "submission_ok ledger allowed sub" and hs: "hs = rank (map accepted sub)"
    by (auto simp: validateSubmission_cases)
  then have "list_all (hypothesis_ok ledger allowed) (map accepted sub)"
    by (auto simp: submission_ok_def list_all_iff accepted_ok)
  with sub show ?thesis unfolding hs by (simp add: submission_ok_def rank_ok ranked_rank)
qed

definition example_ledger :: "string \<Rightarrow> string option" where
  "example_ledger = [''B:Events'' \<mapsto> ''Events'', ''E1'' \<mapsto> ''get_pod_logs'']"

definition example_arguments :: string where
  "example_arguments =
     dq ''{`hypotheses`:[{`rootCause`:` x `,`confidencePercent`:60,`evidenceCitations`:[`E1`,`E1`]},{`rootCause`:`y`,`confidencePercent`:90,`evidenceCitations`:[`B:Events`],`proposedActions`:[{`type`:`None`}]}]}''"

lemma example_accepted:
  "validateSubmission (\<lambda>_. True) (\<lambda>_. []) example_arguments example_ledger [''None''] = Inr
     [\<lparr>hy_id = ''H1'', hy_rank = 1, hy_rootCause = ''y'', hy_confidencePercent = 90,
       hy_evidenceCitations = [''B:Events''],
       hy_proposedActions = [\<lparr>ac_type = ''None'', ac_container = [], ac_value = []\<rparr>]\<rparr>,
      \<lparr>hy_id = ''H2'', hy_rank = 2, hy_rootCause = ''x'', hy_confidencePercent = 60,
       hy_evidenceCitations = [''E1''], hy_proposedActions = []\<rparr>]"
  by code_simp

text \<open>Ranking reorders by confidence and nothing else: hypotheses of equal confidence stay in the
  order the model gave them, and apart from the identifiers and ranks none is changed, added or
  lost.\<close>

lemma rank_stable:
  "filter (\<lambda>h. hy_confidencePercent h = c) (map unnumbered (rank hs)) =
   filter (\<lambda>h. hy_confidencePercent h = c) (map unnumbered hs)"
proof -
  let ?f = "\<lambda>h. - hy_confidencePercent h"
  have "filter (\<lambda>h. ?f h = - c) (sort_key ?f hs) = filter (\<lambda>h. ?f h = - c) hs"
    by (metis (mono_tags, lifting) filter_cong sort_key_stable)
  then show ?thesis
    by (simp add: rank_def unnumbered_number filter_map comp_def)
qed

text \<open>Capping keeps hypotheses in order and bounded: the ceiling holds for every confidence, the
  ranking stays descending, and what was below the ceiling is untouched.\<close>

lemma capConfidence_bounds:
  assumes "ranked hs"
  shows "list_all (\<lambda>h. hy_confidencePercent h \<le> ceiling) (capConfidence hs ceiling) \<and>
    ranked (capConfidence hs ceiling) \<and>
    map hy_confidencePercent (capConfidence hs ceiling) = map (\<lambda>h. min (hy_confidencePercent h) ceiling) hs"
proof -
  have conf: "map hy_confidencePercent (capConfidence hs ceiling) = map (\<lambda>h. min (hy_confidencePercent h) ceiling) hs"
    by (auto simp: capConfidence_def)
  have "sorted_wrt (\<lambda>a b. b \<le> a) (map hy_confidencePercent hs)"
    using assms by (simp add: ranked_def sorted_wrt_rev)
  then have "sorted_wrt (\<lambda>a b. b \<le> a) (map (\<lambda>h. min (hy_confidencePercent h) ceiling) hs)"
    unfolding sorted_wrt_map by (rule sorted_wrt_mono_rel [rotated]) auto
  then have "sorted (rev (map hy_confidencePercent (capConfidence hs ceiling)))"
    unfolding conf by (simp add: sorted_wrt_rev)
  moreover have "map hy_rank (capConfidence hs ceiling) = map hy_rank hs"
    "map hy_id (capConfidence hs ceiling) = map hy_id hs" "length (capConfidence hs ceiling) = length hs"
    by (auto simp: capConfidence_def)
  moreover have "list_all (\<lambda>h. hy_confidencePercent h \<le> ceiling) (capConfidence hs ceiling)"
    by (auto simp: capConfidence_def list_all_iff)
  ultimately show ?thesis using assms conf by (simp add: ranked_def)
qed

end
