(* ===== verification/Floats.thy ===== *)
theory Floats
  imports Prelude
begin

text \<open>
  The little of \<open>float64\<close> the program needs: integers converted, multiplied by a constant and
  compared. A value is \<open>m * 2 ^ e\<close>; every operation rounds to 53 significant bits, to nearest,
  ties to even. Magnitudes here stay far from the exponent range.
\<close>

type_synonym float64 = "int \<times> int"

function bit_len :: "nat \<Rightarrow> nat" where
  "bit_len n = (if n = 0 then 0 else Suc (bit_len (n div 2)))"
  by pat_completeness auto
termination by (relation "measure id") auto

declare bit_len.simps [simp del]

definition f64_round :: "int \<Rightarrow> int \<Rightarrow> float64" where
  "f64_round m e =
     (let a = \<bar>m\<bar>; n = bit_len (nat a) in
      if n \<le> 53 then (m, e)
      else let k = n - 53; q = a div 2 ^ k; r = a mod 2 ^ k; half = 2 ^ (k - 1);
               q' = (if half < r \<or> (r = half \<and> odd q) then q + 1 else q)
           in (sgn m * q', e + int k))"

definition f64_of_int :: "int \<Rightarrow> float64" where
  "f64_of_int n = f64_round n 0"

definition f64_mul :: "float64 \<Rightarrow> float64 \<Rightarrow> float64" where
  "f64_mul x y = f64_round (fst x * fst y) (snd x + snd y)"

definition f64_le :: "float64 \<Rightarrow> float64 \<Rightarrow> bool" where
  "f64_le x y \<longleftrightarrow>
     (let e = min (snd x) (snd y)
      in fst x * 2 ^ nat (snd x - e) \<le> fst y * 2 ^ nat (snd y - e))"

text \<open>The double nearest to 0.8.\<close>

definition f64_point8 :: float64 where
  "f64_point8 = (7205759403792794, - 53)"

end
