(* ===== verification/Investigator.thy ===== *)
theory Investigator
  imports Prompt FindingsProps Floats
begin

text \<open>
  \<open>src/internal/agent/investigator.go\<close>: the goal directed loop. It reasons through a \<open>Model\<close> and
  reads through a \<open>Broker\<close>; the clock and the context are the record \<open>env\<close>. Integers are Go's
  \<open>int\<close> and \<open>int64\<close>, both of 64 bits.
\<close>

definition extraTurns :: int where "extraTurns = 6"
definition StopConcluded :: string where "StopConcluded = ''concluded''"

definition known :: "Pricing \<Rightarrow> bool" where
  "known p \<longleftrightarrow> 0 < pg_inputMicroUSDPerMillion p \<or> 0 < pg_outputMicroUSDPerMillion p"

record Findings =
  fd_hypotheses :: "Hypothesis list"
  fd_toolCalls :: int
  fd_turns :: int
  fd_tokens :: int
  fd_costMicroUSD :: int
  fd_costKnown :: bool
  fd_duration :: int
  fd_budgetExhausted :: bool
  fd_degraded :: bool
  fd_missingRequired :: "string list"
  fd_stopReason :: string

record loopState =
  ls_in :: Input
  ls_findings :: Findings
  ls_ledger :: "string \<Rightarrow> string option"
  ls_allowed :: "string list"
  ls_started :: int
  ls_nextEvidence :: int

record 'w env =
  env_now :: "'w \<Rightarrow> int \<times> 'w"
  env_withTimeout :: "int \<Rightarrow> 'w \<Rightarrow> 'w"
  env_ctxErr :: "'w \<Rightarrow> bool \<times> 'w"
  env_uprint :: "nat \<Rightarrow> bool"
  env_jerr :: "string \<Rightarrow> string"

record ('w, 'p) Investigator =
  inv_model :: "('w, 'p) Model"
  inv_broker :: "'w Broker"
  inv_env :: "'w env"

abbreviation upd_findings :: "(Findings \<Rightarrow> Findings) \<Rightarrow> loopState \<Rightarrow> loopState" where
  "upd_findings f st \<equiv> st\<lparr>ls_findings := f (ls_findings st)\<rparr>"

abbreviation ls_budget :: "loopState \<Rightarrow> Budget" where
  "ls_budget st \<equiv> in_budget (ls_in st)"

subsection \<open>Accounting\<close>

definition account :: "Usage \<Rightarrow> loopState \<Rightarrow> loopState" where
  "account u st =
     (let f = ls_findings st; p = in_pricing (ls_in st);
          f1 = f\<lparr>fd_tokens := wrap64 (fd_tokens f + wrap64 (us_inputTokens u + us_outputTokens u))\<rparr>
      in st\<lparr>ls_findings :=
           (if fd_costKnown f1 then
              f1\<lparr>fd_costMicroUSD := wrap64 (fd_costMicroUSD f1 +
                   wrap64 (quot64 (wrap64 (us_inputTokens u * pg_inputMicroUSDPerMillion p)) 1000000 +
                           quot64 (wrap64 (us_outputTokens u * pg_outputMicroUSDPerMillion p)) 1000000))\<rparr>
            else f1)\<rparr>)"

definition exhausted :: "'w env \<Rightarrow> loopState \<Rightarrow> 'w \<Rightarrow> string option \<times> 'w" where
  "exhausted E st w =
     (case env_ctxErr E w of (cancelled, w') \<Rightarrow>
        let b = ls_budget st; f = ls_findings st in
        (if cancelled then Some ''wall clock budget exhausted''
         else if 0 < bd_maxTokens b \<and> bd_maxTokens b \<le> fd_tokens f then Some ''token budget exhausted''
         else if fd_costKnown f \<and> 0 < bd_maxCostMicroUSD b \<and> bd_maxCostMicroUSD b \<le> fd_costMicroUSD f
         then Some ''cost budget exhausted'' else None, w'))"

definition over_threshold :: "int \<Rightarrow> int \<Rightarrow> bool" where
  "over_threshold used limit \<longleftrightarrow> f64_le (f64_mul f64_point8 (f64_of_int limit)) (f64_of_int used)"

definition nearlyExhausted :: "loopState \<Rightarrow> bool" where
  "nearlyExhausted st \<longleftrightarrow>
     (let b = ls_budget st; f = ls_findings st in
      0 < bd_maxToolCalls b \<and> wrap64 (bd_maxToolCalls b - 1) \<le> fd_toolCalls f \<or>
      0 < bd_maxTokens b \<and> over_threshold (fd_tokens f) (bd_maxTokens b) \<or>
      fd_costKnown f \<and> 0 < bd_maxCostMicroUSD b \<and>
        over_threshold (fd_costMicroUSD f) (bd_maxCostMicroUSD b))"

definition stop :: "string \<Rightarrow> bool \<Rightarrow> loopState \<Rightarrow> loopState" where
  "stop reason exh = upd_findings (\<lambda>f. f\<lparr>fd_stopReason := reason, fd_budgetExhausted := exh,
     fd_hypotheses := []\<rparr>)"

subsection \<open>Requirements\<close>

definition req_matches :: "ToolCall \<Rightarrow> AgentRequirement \<Rightarrow> bool" where
  "req_matches call r =
     (case ar_satisfiedBy r of
        None \<Rightarrow> ar_tool r = call_name call
      | Some f \<Rightarrow> f (call_name call) (call_arguments call))"

definition record_one :: "ToolCall \<Rightarrow> goerror option \<Rightarrow> AgentRequirement \<Rightarrow> AgentRequirement" where
  "record_one call err r =
     (if ar_collected r then r
      else if \<not> req_matches call r then r
      else (case err of
              None \<Rightarrow> r\<lparr>ar_collected := True\<rparr>
            | Some e \<Rightarrow> if err_kind e \<noteq> EDenied then r\<lparr>ar_obtainable := False\<rparr> else r))"

definition recordRequirement :: "ToolCall \<Rightarrow> goerror option \<Rightarrow> loopState \<Rightarrow> loopState" where
  "recordRequirement call err st =
     st\<lparr>ls_in := (ls_in st)\<lparr>in_requirements := map (record_one call err) (in_requirements (ls_in st))\<rparr>\<rparr>"

definition missing_obtainable :: "AgentRequirement list \<Rightarrow> string list" where
  "missing_obtainable rs =
     map (\<lambda>r. ar_kind r @ '' (call '' @ ar_tool r @ '')'')
       (filter (\<lambda>r. \<not> ar_collected r \<and> ar_obtainable r) rs)"

definition missing_unobtainable :: "AgentRequirement list \<Rightarrow> string list" where
  "missing_unobtainable rs = map ar_kind (filter (\<lambda>r. \<not> ar_collected r \<and> \<not> ar_obtainable r) rs)"

text \<open>\<open>accept\<close>: the problems of a submission, or its hypotheses and the state with what was missing.\<close>

definition accept :: "'w env \<Rightarrow> string \<Rightarrow> loopState \<Rightarrow> string list + Hypothesis list \<times> loopState" where
  "accept E arguments st =
     (case validateSubmission (env_uprint E) (env_jerr E) arguments (ls_ledger st) (ls_allowed st) of
        Inl problems \<Rightarrow> Inl problems
      | Inr hypotheses \<Rightarrow>
          let rs = in_requirements (ls_in st); mo = missing_obtainable rs; mu = missing_unobtainable rs in
          if mo \<noteq> [] \<and> fd_toolCalls (ls_findings st) < bd_maxToolCalls (ls_budget st)
          then Inl [''required evidence has not been gathered yet: '' @ join '', '' mo]
          else if mu @ mo \<noteq> []
          then Inr (capConfidence hypotheses degradedConfidenceCap,
                    upd_findings (\<lambda>f. f\<lparr>fd_degraded := True, fd_missingRequired := mu @ mo\<rparr>) st)
          else Inr (hypotheses, st))"

subsection \<open>One turn's tool calls\<close>

definition tool_error :: "ToolCall \<Rightarrow> string \<Rightarrow> ToolResult" where
  "tool_error call content =
     \<lparr>res_callID = call_id call, res_name = call_name call, res_content = content, res_isError = True\<rparr>"

definition conclude :: "Hypothesis list \<Rightarrow> loopState \<Rightarrow> loopState" where
  "conclude hypotheses = upd_findings (\<lambda>f. f\<lparr>fd_hypotheses := hypotheses, fd_stopReason := StopConcluded\<rparr>)"

definition count_call :: "loopState \<Rightarrow> loopState" where
  "count_call = upd_findings (\<lambda>f. f\<lparr>fd_toolCalls := wrap64 (fd_toolCalls f + 1)\<rparr>)"

definition evidence_id :: "loopState \<Rightarrow> string" where
  "evidence_id st = ''E'' @ itoa (ls_nextEvidence st)"

definition add_evidence :: "string \<Rightarrow> loopState \<Rightarrow> loopState" where
  "add_evidence name st =
     st\<lparr>ls_nextEvidence := wrap64 (ls_nextEvidence st + 1),
        ls_ledger := (ls_ledger st)(evidence_id st \<mapsto> name)\<rparr>"

fun handleCalls ::
    "('w, 'p) Investigator \<Rightarrow> ToolCall list \<Rightarrow> loopState \<Rightarrow> ToolResult list \<Rightarrow> 'w \<Rightarrow>
     (loopState \<times> ToolResult list option) \<times> 'w" where
  "handleCalls iv [] st results w = ((st, Some results), w)"
| "handleCalls iv (call # calls) st results w =
     (if call_name call = SubmitTool then
        (case accept (inv_env iv) (call_arguments call) st of
           Inr (hypotheses, st') \<Rightarrow> ((conclude hypotheses st', None), w)
         | Inl problems \<Rightarrow>
             handleCalls iv calls st
               (results @ [tool_error call
                  (''The submission was rejected and the investigation continues:'' @ [newline] @ ''- '' @
                   join (newline # ''- '') problems)]) w)
      else if bd_maxToolCalls (ls_budget st) \<le> fd_toolCalls (ls_findings st) then
        handleCalls iv calls st
          (results @ [tool_error call
             (''The tool call budget is exhausted. Call '' @ SubmitTool @ '' now.'')]) w
      else
        (case bk_call (inv_broker iv) (call_name call) (call_arguments call) w of
           (Inl e, w') \<Rightarrow>
             handleCalls iv calls (recordRequirement call (Some e) (count_call st))
               (results @ [tool_error call (err_msg e)]) w'
         | (Inr content, w') \<Rightarrow>
             let st1 = recordRequirement call None (count_call st) in
             handleCalls iv calls (add_evidence (call_name call) st1)
               (results @ [\<lparr>res_callID = call_id call, res_name = call_name call,
                  res_content = wrapEvidence (env_uprint (inv_env iv)) (evidence_id st1) (call_name call) content,
                  res_isError = False\<rparr>]) w'))"

subsection \<open>The loop\<close>

definition user_text :: "string \<Rightarrow> 'p Message" where
  "user_text t =
     \<lparr>msg_role = RoleUser, msg_text = t, msg_toolCalls = [], msg_toolResults = [], msg_providerState = None\<rparr>"

definition nudge :: string where
  "nudge = ''Continue by calling a tool. When the evidence supports a conclusion, call '' @ SubmitTool @ ''.''"

definition results_message :: "loopState \<Rightarrow> ToolResult list \<Rightarrow> 'p Message" where
  "results_message st results =
     (user_text (if nearlyExhausted st
                 then ''The investigation budget is nearly exhausted. Call '' @ SubmitTool @
                      '' now with the best conclusion the evidence supports.''
                 else []))\<lparr>msg_toolResults := results\<rparr>"

lemma fd_turns_account [simp]: "fd_turns (ls_findings (account u st)) = fd_turns (ls_findings st)"
  by (simp add: account_def Let_def)

lemma fd_turns_handleCalls [simp]:
  "fd_turns (ls_findings (fst (fst (handleCalls iv calls st results w)))) = fd_turns (ls_findings st)"
proof (induction iv calls st results w rule: handleCalls.induct)
  case (2 iv call calls st results w)
  then show ?case
    by (auto simp: accept_def conclude_def count_call_def recordRequirement_def add_evidence_def Let_def
        split: sum.splits prod.splits if_splits)
qed simp

text \<open>
  The result is the state, the findings returned and the error returned. Where the source returns
  \<open>st.findings\<close> or the result of \<open>stop\<close>, that value is copied before the deferred function runs.
\<close>

function run_loop ::
    "('w, 'p) Investigator \<Rightarrow> ToolSpec list \<Rightarrow> int \<Rightarrow> loopState \<Rightarrow> 'p Message list \<Rightarrow> 'w \<Rightarrow>
     (loopState \<times> goerror option) \<times> 'w" where
  "run_loop iv tools maxTurns st messages w =
     (if fd_turns (ls_findings st) < maxTurns then
        (case exhausted (inv_env iv) st w of
           (Some reason, w1) \<Rightarrow> ((stop reason True st, None), w1)
         | (None, w1) \<Rightarrow>
             let st1 = upd_findings (\<lambda>f. f\<lparr>fd_turns := fd_turns f + 1\<rparr>) st in
             (case md_generate (inv_model iv)
                     \<lparr>rq_system = systemPrompt, rq_messages = messages, rq_tools = tools\<rparr> w1 of
                (Inl e, w2) \<Rightarrow>
                  if err_kind e = EDeadline
                  then ((stop ''wall clock budget exhausted'' True st1, None), w2)
                  else (case env_ctxErr (inv_env iv) w2 of (cancelled, w3) \<Rightarrow>
                    if cancelled then ((stop ''wall clock budget exhausted'' True st1, None), w3)
                    else ((st1, Some (wrapf (''model '' @ md_name (inv_model iv) @ '': '') e)), w3))
              | (Inr resp, w2) \<Rightarrow>
                  let st2 = account (rs_usage resp) st1;
                      reply = (rs_message resp)\<lparr>msg_role := RoleModel\<rparr>;
                      messages1 = messages @ [reply] in
                  if msg_toolCalls reply = []
                  then run_loop iv tools maxTurns st2 (messages1 @ [user_text nudge]) w2
                  else
                    (let h = handleCalls iv (msg_toolCalls reply) st2 [] w2;
                         st3 = fst (fst h); w3 = snd h in
                     case snd (fst h) of
                       None \<Rightarrow> ((st3, None), w3)
                     | Some results \<Rightarrow>
                         run_loop iv tools maxTurns st3 (messages1 @ [results_message st3 results]) w3)))
      else ((stop ''turn limit reached without a valid conclusion'' True st, None), w))"
  by pat_completeness auto
termination
  by (relation "measure (\<lambda>(iv, tools, maxTurns, st, messages, w). nat (maxTurns - fd_turns (ls_findings st)))")
    auto

declare run_loop.simps [simp del]

definition Findings_zero :: Findings where
  "Findings_zero =
     \<lparr>fd_hypotheses = [], fd_toolCalls = 0, fd_turns = 0, fd_tokens = 0, fd_costMicroUSD = 0,
      fd_costKnown = False, fd_duration = 0, fd_budgetExhausted = False, fd_degraded = False,
      fd_missingRequired = [], fd_stopReason = []\<rparr>"

definition start :: "Input \<Rightarrow> int \<Rightarrow> loopState" where
  "start inp now =
     \<lparr>ls_in = inp, ls_findings = Findings_zero\<lparr>fd_costKnown := known (in_pricing inp)\<rparr>,
      ls_ledger = foldl (\<lambda>m b. m(bi_id b \<mapsto> bi_kind b)) Map.empty (in_baseline inp),
      ls_allowed = in_allowedActions inp, ls_started = now, ls_nextEvidence = 1\<rparr>"

definition Run :: "('w, 'p) Investigator \<Rightarrow> Input \<Rightarrow> 'w \<Rightarrow> (Findings \<times> goerror option) \<times> 'w" where
  "Run iv inp w =
     (let E = inv_env iv;
          w0 = (if 0 < bd_timeout (in_budget inp) then env_withTimeout E (bd_timeout (in_budget inp)) w else w)
      in case env_now E w0 of (now, w1) \<Rightarrow>
         (let tools = bk_tools (inv_broker iv) @ [submitSpec (in_allowedActions inp)];
              messages = [user_text (initialContext (env_uprint E) inp)];
              maxTurns = wrap64 (bd_maxToolCalls (in_budget inp) + extraTurns)
          in case run_loop iv tools maxTurns (start inp now) messages w1 of ((st, err), w2) \<Rightarrow>
             (let result = ls_findings st in
              case env_now E w2 of (later, w3) \<Rightarrow>
              let deferred = upd_findings (\<lambda>f. f\<lparr>fd_duration := sat64 (later - now)\<rparr>) st
              in ((result, err), w3))))"

end
