(* ===== verification/InvestigatorProps.thy ===== *)
theory InvestigatorProps
  imports Investigator
begin

text \<open>
  The investigation as a state machine. Two rules carry every property of the loop: an invariant
  that the small state changes of a turn preserve holds wherever the loop is, and what the loop
  returns follows from the invariant at the point of return. Then: how an investigation can end,
  what a conclusion is worth, and the bounds on turns and tool calls.
\<close>

subsection \<open>Rules for the loops\<close>

definition tick :: "loopState \<Rightarrow> loopState" where
  "tick st = upd_findings (\<lambda>f. f\<lparr>fd_turns := fd_turns f + 1\<rparr>) st"

text \<open>The broker call of a turn as one change of state.\<close>

definition called :: "ToolCall \<Rightarrow> goerror option \<Rightarrow> loopState \<Rightarrow> loopState" where
  "called call err st =
     (let st1 = recordRequirement call err (count_call st) in
      if err = None then add_evidence (call_name call) st1 else st1)"

lemma handleCalls_rule:
  assumes "I st w"
    and step: "\<And>st w call r w'. I st w \<Longrightarrow> fd_toolCalls (ls_findings st) < bd_maxToolCalls (ls_budget st) \<Longrightarrow>
      bk_call (inv_broker iv) (call_name call) (call_arguments call) w = (r, w') \<Longrightarrow>
      I (called call (case r of Inl e \<Rightarrow> Some e | Inr c \<Rightarrow> None) st) w'"
    and fin: "\<And>st w a hs st'. I st w \<Longrightarrow> accept (inv_env iv) a st = Inr (hs, st') \<Longrightarrow> Q (conclude hs st') w"
  shows "case handleCalls iv calls st results w of ((st', r), w') \<Rightarrow> if r = None then Q st' w' else I st' w'"
  using assms(1)
proof (induction calls arbitrary: st results w)
  case (Cons call calls)
  show ?case
  proof (cases "call_name call = SubmitTool")
    case True
    with Cons fin [OF Cons.prems] show ?thesis
      by (cases "accept (inv_env iv) (call_arguments call) st") auto
  next
    case no_submit: False
    show ?thesis
    proof (cases "bd_maxToolCalls (ls_budget st) \<le> fd_toolCalls (ls_findings st)")
      case True
      with no_submit Cons show ?thesis by simp
    next
      case False
      obtain r w' where c: "bk_call (inv_broker iv) (call_name call) (call_arguments call) w = (r, w')"
        by fastforce
      note st = step [OF Cons.prems _ c]
      show ?thesis
      proof (cases r)
        case (Inl e)
        with c no_submit False Cons.IH st show ?thesis by (simp add: called_def)
      next
        case (Inr content)
        with c no_submit False Cons.IH st show ?thesis by (simp add: called_def Let_def)
      qed
    qed
  qed
qed simp

definition stop_reasons :: "string list" where
  "stop_reasons =
     [''wall clock budget exhausted'', ''token budget exhausted'', ''cost budget exhausted'',
      ''turn limit reached without a valid conclusion'']"

lemma exhausted_reason: "exhausted E st w = (Some reason, w') \<Longrightarrow> reason \<in> set stop_reasons"
  by (auto simp: exhausted_def stop_reasons_def Let_def split: prod.splits if_splits)

lemma run_loop_rule:
  assumes "I st w"
    and tick: "\<And>st w. I st w \<Longrightarrow> fd_turns (ls_findings st) < maxTurns \<Longrightarrow> I (tick st) w"
    and account: "\<And>st w u. I st w \<Longrightarrow> I (account u st) w"
    and model: "\<And>st w req. I st w \<Longrightarrow> I st (snd (md_generate (inv_model iv) req w))"
    and ctx: "\<And>st w. I st w \<Longrightarrow> I st (snd (env_ctxErr (inv_env iv) w))"
    and step: "\<And>st w call r w'. I st w \<Longrightarrow> fd_toolCalls (ls_findings st) < bd_maxToolCalls (ls_budget st) \<Longrightarrow>
      bk_call (inv_broker iv) (call_name call) (call_arguments call) w = (r, w') \<Longrightarrow>
      I (called call (case r of Inl e \<Rightarrow> Some e | Inr c \<Rightarrow> None) st) w'"
    and fin: "\<And>st w a hs st'. I st w \<Longrightarrow> accept (inv_env iv) a st = Inr (hs, st') \<Longrightarrow> Q (conclude hs st') None w"
    and stop: "\<And>st w reason. I st w \<Longrightarrow> reason \<in> set stop_reasons \<Longrightarrow> Q (stop reason True st) None w"
    and err: "\<And>st w e. I st w \<Longrightarrow> Q st (Some e) w"
  shows "case run_loop iv tools maxTurns st messages w of ((st', e), w') \<Rightarrow> Q st' e w'"
  using assms(1)
proof (induction "nat (maxTurns - fd_turns (ls_findings st))" arbitrary: st messages w rule: less_induct)
  case less
  note [simp] = run_loop.simps [of iv tools maxTurns st messages w]
  have reasons: "''turn limit reached without a valid conclusion'' \<in> set stop_reasons"
    "''wall clock budget exhausted'' \<in> set stop_reasons"
    by (simp_all add: stop_reasons_def)
  show ?case
  proof (cases "fd_turns (ls_findings st) < maxTurns")
    case False
    with stop [OF less.prems reasons(1)] show ?thesis by simp
  next
    case turn: True
    have ih: "case run_loop iv tools maxTurns st' ms v of ((st'', e), w') \<Rightarrow> Q st'' e w'"
      if "I st' v" "fd_turns (ls_findings st') = fd_turns (ls_findings st) + 1" for st' ms v
      using less.hyps [of st' v ms] that turn by simp
    obtain ex w1 where ex: "exhausted (inv_env iv) st w = (ex, w1)" by fastforce
    obtain r w2 where g: "md_generate (inv_model iv)
        \<lparr>rq_system = systemPrompt, rq_messages = messages, rq_tools = tools\<rparr> w1 = (r, w2)" by fastforce
    obtain c w3 where c: "env_ctxErr (inv_env iv) w2 = (c, w3)" by fastforce
    have 1: "I st w1" using ctx [OF less.prems] ex by (auto simp: exhausted_def Let_def split: prod.splits)
    then have 2: "I (tick st) w2" using tick [OF _ turn] model [of "tick st" w1] g by (metis snd_conv)
    then have 3: "I (tick st) w3" using ctx [of "tick st" w2] c by simp
    show ?thesis
    proof (cases "ex = None \<and> isr r")
      case False
      with turn ex g c stop [OF 1] stop [OF 2 reasons(2)] stop [OF 3 reasons(2)] err [OF 3] show ?thesis
        by (auto simp: tick_def Let_def dest: exhausted_reason split: option.splits sum.splits)
    next
      case True
      then obtain resp where resp: "r = Inr resp" by (auto simp: isr_iff)
      let ?st2 = "account (rs_usage resp) (tick st)"
      have st2: "I ?st2 w2" "fd_turns (ls_findings ?st2) = fd_turns (ls_findings st) + 1"
        using account 2 by (simp_all add: tick_def)
      obtain st3 rs w4 where h: "handleCalls iv (msg_toolCalls (rs_message resp)) ?st2 [] w2 = ((st3, rs), w4)"
        by (metis prod.exhaust)
      have q: "if rs = None then Q st3 None w4 else I st3 w4"
        using handleCalls_rule [where I = I and st = ?st2 and iv = iv and Q = "\<lambda>s. Q s None"
            and calls = "msg_toolCalls (rs_message resp)" and results = "[]" and w = w2] st2(1) step fin h
        by simp
      have t3: "fd_turns (ls_findings st3) = fd_turns (ls_findings st) + 1"
        using fd_turns_handleCalls [of iv "msg_toolCalls (rs_message resp)" ?st2 "[]" w2] h st2(2) by simp
      show ?thesis
        using turn ex g True resp h q ih st2 t3
        by (auto simp: Let_def tick_def [symmetric] split: option.splits)
    qed
  qed
qed


subsection \<open>Frame facts\<close>

lemma frame_in [frame]:
  "in_budget (ls_in (tick st)) = in_budget (ls_in st)"
  "in_budget (ls_in (account u st)) = in_budget (ls_in st)"
  "in_budget (ls_in (called call err st)) = in_budget (ls_in st)"
  "ls_allowed (tick st) = ls_allowed st" "ls_allowed (account u st) = ls_allowed st"
  "ls_allowed (called call err st) = ls_allowed st"
  by (simp_all add: tick_def account_def called_def Let_def recordRequirement_def count_call_def add_evidence_def)

lemma frame_ledger [frame]:
  "ls_ledger (tick st) = ls_ledger st" "ls_ledger (account u st) = ls_ledger st"
  "ls_nextEvidence (tick st) = ls_nextEvidence st" "ls_nextEvidence (account u st) = ls_nextEvidence st"
  by (simp_all add: tick_def account_def Let_def)

text \<open>Whether an outcome has been recorded: only the end of the loop does that.\<close>

definition undecided :: "Findings \<Rightarrow> bool" where
  "undecided f \<longleftrightarrow> fd_hypotheses f = [] \<and> \<not> fd_budgetExhausted f \<and> \<not> fd_degraded f \<and>
     fd_missingRequired f = [] \<and> fd_duration f = 0"

lemma frame_undecided [frame]:
  "undecided (ls_findings (tick st)) = undecided (ls_findings st)"
  "undecided (ls_findings (account u st)) = undecided (ls_findings st)"
  "undecided (ls_findings (called call err st)) = undecided (ls_findings st)"
  by (simp_all add: undecided_def tick_def account_def called_def Let_def recordRequirement_def
      count_call_def add_evidence_def)

lemma frame_counts [frame]:
  "fd_toolCalls (ls_findings (tick st)) = fd_toolCalls (ls_findings st)"
  "fd_toolCalls (ls_findings (account u st)) = fd_toolCalls (ls_findings st)"
  "fd_toolCalls (ls_findings (called call err st)) = wrap64 (fd_toolCalls (ls_findings st) + 1)"
  "fd_turns (ls_findings (tick st)) = fd_turns (ls_findings st) + 1"
  "fd_turns (ls_findings (called call err st)) = fd_turns (ls_findings st)"
  by (simp_all add: tick_def account_def called_def Let_def recordRequirement_def count_call_def add_evidence_def)

lemma called_ledger [frame]:
  "ls_ledger (called call err st) =
     (if err = None then (ls_ledger st)(''E'' @ itoa (ls_nextEvidence st) \<mapsto> call_name call) else ls_ledger st)"
  "ls_nextEvidence (called call err st) =
     (if err = None then wrap64 (ls_nextEvidence st + 1) else ls_nextEvidence st)"
  by (simp_all add: called_def Let_def recordRequirement_def count_call_def add_evidence_def evidence_id_def)

subsection \<open>The invariant\<close>

text \<open>The identifiers a conclusion may cite after \<open>n\<close> successful tool calls.\<close>

definition evidence_ids :: "Input \<Rightarrow> int \<Rightarrow> string list" where
  "evidence_ids inp n = map bi_id (in_baseline inp) @ map (\<lambda>i. ''E'' @ itoa i) [1..n]"

definition loop_inv :: "Input \<Rightarrow> int \<Rightarrow> loopState \<Rightarrow> bool" where
  "loop_inv inp maxTurns st \<longleftrightarrow>
     in_budget (ls_in st) = in_budget inp \<and> ls_allowed st = in_allowedActions inp \<and>
     undecided (ls_findings st) \<and>
     0 \<le> fd_toolCalls (ls_findings st) \<and>
     fd_toolCalls (ls_findings st) \<le> max 0 (bd_maxToolCalls (in_budget inp)) \<and>
     0 \<le> fd_turns (ls_findings st) \<and> fd_turns (ls_findings st) \<le> max 0 maxTurns \<and>
     1 \<le> ls_nextEvidence st \<and> ls_nextEvidence st \<le> fd_toolCalls (ls_findings st) + 1 \<and>
     dom (ls_ledger st) \<subseteq> set (evidence_ids inp (ls_nextEvidence st - 1))"

lemma evidence_ids_mono: "m \<le> n \<Longrightarrow> set (evidence_ids inp m) \<subseteq> set (evidence_ids inp n)"
  by (auto simp: evidence_ids_def)

text \<open>The tool budget, plus the extra turns, is within the range of \<open>int\<close>; a policy can only set one
  of 32 bits.\<close>

definition budget_fits :: "Input \<Rightarrow> bool" where
  "budget_fits inp \<longleftrightarrow>
     is_int64 (bd_maxToolCalls (in_budget inp)) \<and> is_int64 (bd_maxToolCalls (in_budget inp) + 6)"

lemma loop_inv_called:
  assumes "loop_inv inp mt st" "fd_toolCalls (ls_findings st) < bd_maxToolCalls (ls_budget st)"
    and "budget_fits inp"
  shows "loop_inv inp mt (called call err st)"
proof -
  let ?n = "ls_nextEvidence st" and ?t = "fd_toolCalls (ls_findings st)"
  have b: "in_budget (ls_in st) = in_budget inp" using assms(1) by (simp add: loop_inv_def)
  have r: "0 \<le> ?t" "?t < bd_maxToolCalls (in_budget inp)" "1 \<le> ?n" "?n \<le> ?t + 1"
    using assms(1,2) by (auto simp: loop_inv_def b)
  then have w: "wrap64 (?t + 1) = ?t + 1" "wrap64 (?n + 1) = ?n + 1"
    using assms(3) by (auto simp: budget_fits_def is_int64_def intro!: wrap64_id)
  have d: "dom (ls_ledger st) \<subseteq> set (evidence_ids inp (?n - 1))" using assms(1) by (simp add: loop_inv_def)
  have "dom (ls_ledger (called call err st)) \<subseteq> set (evidence_ids inp (ls_nextEvidence (called call err st) - 1))"
  proof (cases "err = None")
    case True
    have "''E'' @ itoa ?n \<in> set (evidence_ids inp ?n)" using r(3) by (simp add: evidence_ids_def)
    then show ?thesis
      using True d evidence_ids_mono [of "?n - 1" ?n inp] by (auto simp: frame w)
  qed (use d in \<open>auto simp: frame\<close>)
  moreover have "undecided (ls_findings st)" "ls_allowed st = in_allowedActions inp"
    "0 \<le> fd_turns (ls_findings st)" "fd_turns (ls_findings st) \<le> max 0 mt"
    using assms(1) by (simp_all add: loop_inv_def)
  ultimately show ?thesis
    using b r by (simp add: loop_inv_def frame w)
qed

lemma loop_inv_tick:
  "loop_inv inp mt st \<Longrightarrow> fd_turns (ls_findings st) < mt \<Longrightarrow> loop_inv inp mt (tick st)"
  by (simp add: loop_inv_def frame)

lemma loop_inv_account: "loop_inv inp mt st \<Longrightarrow> loop_inv inp mt (account u st)"
  by (simp add: loop_inv_def frame)

lemma dom_foldl: "dom (foldl (\<lambda>m b. m(bi_id b \<mapsto> bi_kind b)) m bs) = dom m \<union> bi_id ` set bs"
  by (induction bs arbitrary: m) auto

lemma loop_inv_start: "loop_inv inp mt (start inp now)"
  by (auto simp: loop_inv_def start_def undecided_def Findings_zero_def evidence_ids_def dom_foldl)

subsection \<open>Outcomes\<close>

definition cited_from :: "string list \<Rightarrow> string \<Rightarrow> string option" where
  "cited_from ids c = (if c \<in> set ids then Some [] else None)"

text \<open>What a conclusion is worth after \<open>n\<close> successful tool calls: hypotheses that meet the contract with
  every citation naming baseline evidence or the result of one of these calls, ranked, and capped when
  evidence was missing.\<close>

definition concluded_ok :: "Input \<Rightarrow> int \<Rightarrow> Findings \<Rightarrow> bool" where
  "concluded_ok inp n f \<longleftrightarrow>
     fd_stopReason f = ''concluded'' \<and> \<not> fd_budgetExhausted f \<and>
     1 \<le> length (fd_hypotheses f) \<and> length (fd_hypotheses f) \<le> 5 \<and> ranked (fd_hypotheses f) \<and>
     list_all (hypothesis_ok (cited_from (evidence_ids inp n)) (in_allowedActions inp)) (fd_hypotheses f) \<and>
     (fd_degraded f \<longleftrightarrow> fd_missingRequired f \<noteq> []) \<and>
     (fd_degraded f \<longrightarrow> list_all (\<lambda>h. hy_confidencePercent h \<le> 70) (fd_hypotheses f))"

text \<open>How an investigation can end: with a conclusion, on a budget and then with nothing but the
  account of it, or on a failure of the model with no outcome at all; always within the budget of
  tool calls, and with at most six more turns than that.\<close>

definition exhausted_ok :: "Findings \<Rightarrow> bool" where
  "exhausted_ok f \<longleftrightarrow>
     fd_budgetExhausted f \<and> fd_hypotheses f = [] \<and> fd_stopReason f \<in> set stop_reasons"

definition outcome_bounded :: "Input \<Rightarrow> Findings \<Rightarrow> bool" where
  "outcome_bounded inp f \<longleftrightarrow>
     0 \<le> fd_toolCalls f \<and> fd_toolCalls f \<le> max 0 (bd_maxToolCalls (in_budget inp)) \<and>
     0 \<le> fd_turns f \<and> fd_turns f \<le> max 0 (bd_maxToolCalls (in_budget inp) + 6)"

definition outcome_ok :: "Input \<Rightarrow> int \<Rightarrow> Findings \<Rightarrow> goerror option \<Rightarrow> bool" where
  "outcome_ok inp n f e \<longleftrightarrow>
     (case e of None \<Rightarrow> concluded_ok inp n f \<or> exhausted_ok f | Some err \<Rightarrow> undecided f)"

lemma hypothesis_ok_ledger:
  "hypothesis_ok ledger allowed h \<Longrightarrow> dom ledger \<subseteq> set ids \<Longrightarrow> hypothesis_ok (cited_from ids) allowed h"
  by (auto simp: hypothesis_ok_def cited_from_def list_all_iff)

lemma hypothesis_ok_cap:
  "list_all (hypothesis_ok ledger allowed) hs \<Longrightarrow> 0 \<le> c \<Longrightarrow> c \<le> 100 \<Longrightarrow>
     list_all (hypothesis_ok ledger allowed) (capConfidence hs c)"
  by (auto simp: capConfidence_def list_all_iff hypothesis_ok_def)

lemma length_capConfidence [simp]: "length (capConfidence hs c) = length hs"
  by (simp add: capConfidence_def)

text \<open>The cases in which a submission is accepted.\<close>

lemma accept_cases:
  assumes "accept E a st = Inr (hs, st')"
  obtains (complete) hs0 where
      "validateSubmission (env_uprint E) (env_jerr E) a (ls_ledger st) (ls_allowed st) = Inr hs0"
      "hs = hs0" "st' = st" "list_all ar_collected (in_requirements (ls_in st))"
  | (degraded) hs0 m where
      "validateSubmission (env_uprint E) (env_jerr E) a (ls_ledger st) (ls_allowed st) = Inr hs0"
      "hs = capConfidence hs0 70" "m \<noteq> []"
      "st' = upd_findings (\<lambda>f. f\<lparr>fd_degraded := True, fd_missingRequired := m\<rparr>) st"
      "list_all (\<lambda>r. ar_collected r \<or> \<not> ar_obtainable r) (in_requirements (ls_in st)) \<or>
       bd_maxToolCalls (ls_budget st) \<le> fd_toolCalls (ls_findings st)"
proof -
  let ?rs = "in_requirements (ls_in st)"
  have all: "list_all ar_collected ?rs" if "missing_unobtainable ?rs @ missing_obtainable ?rs = []"
    using that by (auto simp: missing_unobtainable_def missing_obtainable_def filter_empty_conv list_all_iff)
  have obt: "list_all (\<lambda>r. ar_collected r \<or> \<not> ar_obtainable r) ?rs" if "missing_obtainable ?rs = []"
    using that by (auto simp: missing_obtainable_def filter_empty_conv list_all_iff)
  show ?thesis
  proof (cases "validateSubmission (env_uprint E) (env_jerr E) a (ls_ledger st) (ls_allowed st)")
    case (Inr hs0)
    show ?thesis
    proof (cases "missing_unobtainable ?rs @ missing_obtainable ?rs = []")
      case True
      with Inr assms all complete show ?thesis by (simp add: accept_def)
    next
      case False
      with Inr assms have "hs = capConfidence hs0 70"
        "st' = upd_findings (\<lambda>f. f\<lparr>fd_degraded := True,
           fd_missingRequired := missing_unobtainable ?rs @ missing_obtainable ?rs\<rparr>) st"
        "missing_obtainable ?rs = [] \<or> bd_maxToolCalls (ls_budget st) \<le> fd_toolCalls (ls_findings st)"
        by (auto simp: accept_def Let_def degradedConfidenceCap_def split: if_splits)
      with Inr False obt degraded show ?thesis by blast
    qed
  qed (use assms in \<open>simp add: accept_def\<close>)
qed

lemma conclude_ok:
  assumes inv: "loop_inv inp mt st" and acc: "accept E a st = Inr (hs, st')"
  shows "concluded_ok inp (ls_nextEvidence st - 1) (ls_findings (conclude hs st'))"
proof -
  let ?ok = "hypothesis_ok (cited_from (evidence_ids inp (ls_nextEvidence st - 1))) (in_allowedActions inp)"
  have d: "dom (ls_ledger st) \<subseteq> set (evidence_ids inp (ls_nextEvidence st - 1))" using inv by (simp add: loop_inv_def)
  have ok: "1 \<le> length hs0 \<and> length hs0 \<le> 5 \<and> ranked hs0 \<and> list_all ?ok hs0"
    if "validateSubmission (env_uprint E) (env_jerr E) a (ls_ledger st) (ls_allowed st) = Inr hs0" for hs0
    using validateSubmission_sound [OF that] hypothesis_ok_ledger [OF _ d] inv
    by (auto simp: list_all_iff loop_inv_def)
  have u: "undecided (ls_findings st)" using inv by (simp add: loop_inv_def)
  show ?thesis
    using acc
  proof (cases rule: accept_cases)
    case (complete hs0)
    then show ?thesis using ok [OF complete(1)] u
      by (simp add: concluded_ok_def conclude_def StopConcluded_def undecided_def)
  next
    case (degraded hs0 m)
    then show ?thesis
      using ok [OF degraded(1)] u hypothesis_ok_cap capConfidence_bounds [of hs0 70]
      by (simp add: concluded_ok_def conclude_def StopConcluded_def undecided_def)
  qed
qed

subsection \<open>Two states side by side\<close>

definition via_fst :: "('a \<Rightarrow> 'r \<times> 'a) \<Rightarrow> 'a \<times> 'b \<Rightarrow> 'r \<times> ('a \<times> 'b)" where
  "via_fst f s = (case f (fst s) of (r, a) \<Rightarrow> (r, (a, snd s)))"

definition via_snd :: "('b \<Rightarrow> 'r \<times> 'b) \<Rightarrow> 'a \<times> 'b \<Rightarrow> 'r \<times> ('a \<times> 'b)" where
  "via_snd f s = (case f (snd s) of (r, b) \<Rightarrow> (r, (fst s, b)))"

lemma via_sel [simp]:
  "snd (snd (via_fst f s)) = snd s" "fst (snd (via_fst f s)) = snd (f (fst s))"
  "fst (snd (via_snd g s)) = fst s" "snd (snd (via_snd g s)) = snd (g (snd s))"
  by (simp_all add: via_fst_def via_snd_def split: prod.splits)

definition lift_env :: "'a env \<Rightarrow> ('a \<times> 'b) env" where
  "lift_env E =
     \<lparr>env_now = via_fst (env_now E), env_withTimeout = (\<lambda>t s. (env_withTimeout E t (fst s), snd s)),
      env_ctxErr = via_fst (env_ctxErr E), env_uprint = env_uprint E, env_jerr = env_jerr E\<rparr>"

subsection \<open>The trace of the broker calls\<close>

text \<open>An investigator that also notes every call of its broker, with what it returned. It does what the
  original does, so its trace is an account of the original run.\<close>

type_synonym trace = "(string \<times> string \<times> (goerror + string)) list"

definition traced_call :: "'w Broker \<Rightarrow> string \<Rightarrow> string \<Rightarrow> 'w \<times> trace \<Rightarrow> (goerror + string) \<times> ('w \<times> trace)" where
  "traced_call B name a s = (case bk_call B name a (fst s) of (r, w) \<Rightarrow> (r, (w, snd s @ [(name, a, r)])))"

definition traced :: "('w, 'p) Investigator \<Rightarrow> ('w \<times> trace, 'p) Investigator" where
  "traced iv =
     \<lparr>inv_model = \<lparr>md_name = md_name (inv_model iv), md_generate = (\<lambda>req. via_fst (md_generate (inv_model iv) req))\<rparr>,
      inv_broker = \<lparr>bk_tools = bk_tools (inv_broker iv), bk_call = traced_call (inv_broker iv)\<rparr>,
      inv_env = lift_env (inv_env iv)\<rparr>"

lemma traced_sel [simp]:
  "md_name (inv_model (traced iv)) = md_name (inv_model iv)"
  "md_generate (inv_model (traced iv)) req = via_fst (md_generate (inv_model iv) req)"
  "bk_tools (inv_broker (traced iv)) = bk_tools (inv_broker iv)"
  "bk_call (inv_broker (traced iv)) = traced_call (inv_broker iv)"
  "env_now (inv_env (traced iv)) = via_fst (env_now (inv_env iv))"
  "env_ctxErr (inv_env (traced iv)) = via_fst (env_ctxErr (inv_env iv))"
  "env_withTimeout (inv_env (traced iv)) t s = (env_withTimeout (inv_env iv) t (fst s), snd s)"
  "env_uprint (inv_env (traced iv)) = env_uprint (inv_env iv)"
  "env_jerr (inv_env (traced iv)) = env_jerr (inv_env iv)"
  by (simp_all add: traced_def lift_env_def)

lemma accept_traced [simp]: "accept (inv_env (traced iv)) a st = accept (inv_env iv) a st"
  by (simp add: accept_def)

lemma exhausted_traced: "exhausted (inv_env (traced iv)) st s = via_fst (exhausted (inv_env iv) st) s"
  by (simp add: exhausted_def via_fst_def Let_def split: prod.splits)

definition forget :: "'r \<times> ('w \<times> 'x) \<Rightarrow> 'r \<times> 'w" where
  "forget p = (fst p, fst (snd p))"

lemma forget_simp [simp]: "forget (r, s) = (r, fst s)"
  by (simp add: forget_def)

lemma forget_via [simp]: "forget (via_fst f s) = f (fst s)"
  by (simp add: forget_def via_fst_def split: prod.splits)

lemma handleCalls_traced:
  "forget (handleCalls (traced iv) calls st results s) = handleCalls iv calls st results (fst s)"
proof (induction calls arbitrary: st results s)
  case (Cons call calls)
  obtain r w where c: "bk_call (inv_broker iv) (call_name call) (call_arguments call) (fst s) = (r, w)" by fastforce
  show ?case
    using Cons.IH by (cases r) (auto simp: c traced_call_def forget_def Let_def split: sum.splits)
qed (simp add: forget_def)

lemma run_loop_traced:
  "forget (run_loop (traced iv) tools mt st messages s) = run_loop iv tools mt st messages (fst s)"
proof (induction "nat (mt - fd_turns (ls_findings st))" arbitrary: st messages s rule: less_induct)
  case less
  note [simp] = run_loop.simps [of "traced iv" tools mt st messages s] run_loop.simps [of iv tools mt st messages "fst s"]
  obtain ex w1 where ex: "exhausted (inv_env iv) st (fst s) = (ex, w1)" by fastforce
  obtain g w2 where g: "md_generate (inv_model iv)
      \<lparr>rq_system = systemPrompt, rq_messages = messages, rq_tools = tools\<rparr> w1 = (g, w2)" by fastforce
  obtain c w3 where c: "env_ctxErr (inv_env iv) w2 = (c, w3)" by fastforce
  show ?case
  proof (cases "fd_turns (ls_findings st) < mt \<and> ex = None \<and> isr g")
    case False
    then show ?thesis
      using ex g c by (auto simp: exhausted_traced via_fst_def forget_def Let_def split: option.splits sum.splits)
  next
    case True
    then obtain resp where resp: "g = Inr resp" by (auto simp: isr_iff)
    let ?st2 = "account (rs_usage resp) (upd_findings (\<lambda>f. f\<lparr>fd_turns := fd_turns f + 1\<rparr>) st)"
    let ?h = "handleCalls (traced iv) (msg_toolCalls (rs_message resp)) ?st2 [] (w2, snd s)"
    have ih: "forget (run_loop (traced iv) tools mt st' ms v) = run_loop iv tools mt st' ms (fst v)"
      if "fd_turns (ls_findings st') = fd_turns (ls_findings st) + 1" for st' ms v
      using less.hyps [of st' ms v] that True by simp
    have h: "handleCalls iv (msg_toolCalls (rs_message resp)) ?st2 [] w2 = (fst ?h, fst (snd ?h))"
      using handleCalls_traced [of iv "msg_toolCalls (rs_message resp)" ?st2 "[]" "(w2, snd s)"]
      by (simp add: forget_def)
    show ?thesis
      using True ex g resp ih
      by (auto simp: exhausted_traced via_fst_def Let_def h split: option.splits)
  qed
qed

lemma Run_traced: "forget (Run (traced iv) inp s) = Run iv inp (fst s)"
proof -
  define w0 where "w0 = (if 0 < bd_timeout (in_budget inp)
    then env_withTimeout (inv_env iv) (bd_timeout (in_budget inp)) (fst s) else fst s)"
  have s0: "(if 0 < bd_timeout (in_budget inp)
      then env_withTimeout (inv_env (traced iv)) (bd_timeout (in_budget inp)) s else s) = (w0, snd s)"
    by (simp add: w0_def)
  obtain t w1 where n: "env_now (inv_env iv) w0 = (t, w1)" by fastforce
  obtain st r w2 log where l: "run_loop (traced iv) (bk_tools (inv_broker iv) @ [submitSpec (in_allowedActions inp)])
      (wrap64 (bd_maxToolCalls (in_budget inp) + extraTurns)) (start inp t)
      [user_text (initialContext (env_uprint (inv_env iv)) inp)] (w1, snd s) = ((st, r), (w2, log))" by (metis prod.exhaust)
  obtain t' w3 where n': "env_now (inv_env iv) w2 = (t', w3)" by fastforce
  have l': "run_loop iv (bk_tools (inv_broker iv) @ [submitSpec (in_allowedActions inp)])
      (wrap64 (bd_maxToolCalls (in_budget inp) + extraTurns)) (start inp t)
      [user_text (initialContext (env_uprint (inv_env iv)) inp)] w1 = ((st, r), w2)"
    using run_loop_traced [of iv _ _ _ _ "(w1, snd s)", unfolded fst_conv] l by (metis forget_simp fst_conv)
  show ?thesis
    using n n' l l' by (simp add: Run_def s0 w0_def [symmetric] via_fst_def Let_def)
qed

definition successes :: "trace \<Rightarrow> int" where
  "successes log = int (length (filter (\<lambda>c. isr (snd (snd c))) log))"

lemma successes_snoc: "successes (log @ [(n, a, r)]) = successes log + (if isr r then 1 else 0)"
  by (simp add: successes_def)

lemma successes_nonneg [simp]: "0 \<le> successes log"
  by (simp add: successes_def)

text \<open>The counters of the state are those of the trace.\<close>

definition trace_inv :: "Input \<Rightarrow> int \<Rightarrow> loopState \<Rightarrow> 'w \<times> trace \<Rightarrow> bool" where
  "trace_inv inp mt st s \<longleftrightarrow>
     loop_inv inp mt st \<and> fd_toolCalls (ls_findings st) = int (length (snd s)) \<and>
     ls_nextEvidence st = successes (snd s) + 1"

lemma trace_inv_called:
  assumes "trace_inv inp mt st s" "fd_toolCalls (ls_findings st) < bd_maxToolCalls (ls_budget st)"
    and "budget_fits inp" "traced_call B (call_name call) (call_arguments call) s = (r, s')"
  shows "trace_inv inp mt (called call (case r of Inl e \<Rightarrow> Some e | Inr c \<Rightarrow> None) st) s'"
proof -
  let ?n = "ls_nextEvidence st" and ?t = "fd_toolCalls (ls_findings st)"
  have i: "loop_inv inp mt st" using assms(1) by (simp add: trace_inv_def)
  have "0 \<le> ?t" "?t < bd_maxToolCalls (in_budget inp)" "1 \<le> ?n" "?n \<le> ?t + 1"
    using i assms(2) by (auto simp: loop_inv_def)
  then have w: "wrap64 (?t + 1) = ?t + 1" "wrap64 (?n + 1) = ?n + 1"
    using assms(3) by (auto simp: budget_fits_def is_int64_def intro!: wrap64_id)
  have "snd s' = snd s @ [(call_name call, call_arguments call, r)]"
    using assms(4) by (auto simp: traced_call_def split: prod.splits)
  then show ?thesis
    using loop_inv_called [OF i assms(2,3)] assms(1) w
    by (cases r) (simp_all add: trace_inv_def frame successes_snoc)
qed

subsection \<open>Properties\<close>

lemma Run_rule:
  assumes "\<And>now tools messages w. case run_loop iv tools (wrap64 (bd_maxToolCalls (in_budget inp) + extraTurns))
      (start inp now) messages w of ((st, e), w') \<Rightarrow> Q (ls_findings st) e"
  shows "case Run iv inp w of ((f, e), w') \<Rightarrow> Q f e"
proof -
  obtain now w1 where n: "env_now (inv_env iv) (if 0 < bd_timeout (in_budget inp)
      then env_withTimeout (inv_env iv) (bd_timeout (in_budget inp)) w else w) = (now, w1)" by fastforce
  obtain st e w2 where l: "run_loop iv (bk_tools (inv_broker iv) @ [submitSpec (in_allowedActions inp)])
      (wrap64 (bd_maxToolCalls (in_budget inp) + extraTurns)) (start inp now)
      [user_text (initialContext (env_uprint (inv_env iv)) inp)] w1 = ((st, e), w2)"
    by (metis prod.exhaust)
  have "Q (ls_findings st) e" using assms [of "_" now _ w1] l by (metis (mono_tags, lifting) old.prod.case)
  then show ?thesis by (simp add: Run_def Let_def n l split: prod.splits)
qed

lemma run_loop_outcome:
  assumes "budget_fits inp" "mt = bd_maxToolCalls (in_budget inp) + 6"
  shows "case run_loop (traced iv) tools mt (start inp now) messages (w, []) of ((st, e), (w', log)) \<Rightarrow>
    outcome_bounded inp (ls_findings st) \<and> fd_toolCalls (ls_findings st) = int (length log) \<and>
    outcome_ok inp (successes log) (ls_findings st) e"
proof -
  let ?Q = "\<lambda>st e (s :: 'a \<times> trace). outcome_bounded inp (ls_findings st) \<and>
    fd_toolCalls (ls_findings st) = int (length (snd s)) \<and> outcome_ok inp (successes (snd s)) (ls_findings st) e"
  have "case run_loop (traced iv) tools mt (start inp now) messages (w, []) of ((st, e), s) \<Rightarrow> ?Q st e s"
  proof (rule run_loop_rule [where I = "trace_inv inp mt"])
    show "trace_inv inp mt (start inp now) (w, [])"
      using loop_inv_start [of inp mt now] by (simp add: trace_inv_def successes_def start_def Findings_zero_def)
    fix st and s :: "'a \<times> trace" assume t: "trace_inv inp mt st s"
    then have i: "loop_inv inp mt st" by (simp add: trace_inv_def)
    then have bounded: "outcome_bounded inp (ls_findings st)" and und: "undecided (ls_findings st)"
      using assms(2) by (simp_all add: loop_inv_def outcome_bounded_def)
    show "fd_turns (ls_findings st) < mt \<Longrightarrow> trace_inv inp mt (tick st) s"
      using t loop_inv_tick [of inp mt st] by (simp add: trace_inv_def frame)
    show "trace_inv inp mt (account u st) s" for u
      using t loop_inv_account [of inp mt st] by (simp add: trace_inv_def frame)
    show "trace_inv inp mt st (snd (md_generate (inv_model (traced iv)) req s))" for req
      using t by (simp add: trace_inv_def)
    show "trace_inv inp mt st (snd (env_ctxErr (inv_env (traced iv)) s))"
      using t by (simp add: trace_inv_def)
    show "trace_inv inp mt (called call (case r of Inl e \<Rightarrow> Some e | Inr c \<Rightarrow> None) st) s'"
      if "fd_toolCalls (ls_findings st) < bd_maxToolCalls (ls_budget st)"
        "bk_call (inv_broker (traced iv)) (call_name call) (call_arguments call) s = (r, s')" for call r s'
      using trace_inv_called [OF t that(1) assms(1)] that(2) by simp
    show "?Q (stop reason True st) None s" if "reason \<in> set stop_reasons" for reason
      using bounded t that by (simp add: stop_def outcome_bounded_def outcome_ok_def exhausted_ok_def trace_inv_def)
    show "?Q st (Some e) s" for e
      using bounded und t by (simp add: outcome_ok_def trace_inv_def)
    fix a hs st' assume a: "accept (inv_env (traced iv)) a st = Inr (hs, st')"
    then have "outcome_bounded inp (ls_findings (conclude hs st'))"
      "fd_toolCalls (ls_findings (conclude hs st')) = fd_toolCalls (ls_findings st)"
      using bounded by (cases rule: accept_cases; simp add: conclude_def outcome_bounded_def)+
    with conclude_ok [OF i a] t show "?Q (conclude hs st') None s"
      by (simp add: outcome_ok_def trace_inv_def)
  qed
  then show ?thesis by (simp add: case_prod_unfold)
qed

lemma Run_maxTurns:
  "budget_fits inp \<Longrightarrow> wrap64 (bd_maxToolCalls (in_budget inp) + extraTurns) = bd_maxToolCalls (in_budget inp) + 6"
  by (simp add: budget_fits_def extraTurns_def)

lemma Run_traced_ok:
  assumes "budget_fits inp"
  shows "case Run (traced iv) inp (w, []) of ((f, e), (w', log)) \<Rightarrow>
    outcome_bounded inp f \<and> fd_toolCalls f = int (length log) \<and> outcome_ok inp (successes log) f e"
proof -
  obtain now w1 where n: "env_now (inv_env iv) (if 0 < bd_timeout (in_budget inp)
      then env_withTimeout (inv_env iv) (bd_timeout (in_budget inp)) w else w) = (now, w1)" by fastforce
  obtain st e w2 log where l: "run_loop (traced iv) (bk_tools (inv_broker iv) @ [submitSpec (in_allowedActions inp)])
      (wrap64 (bd_maxToolCalls (in_budget inp) + extraTurns)) (start inp now)
      [user_text (initialContext (env_uprint (inv_env iv)) inp)] (w1, []) = ((st, e), (w2, log))"
    by (metis prod.exhaust)
  have "outcome_bounded inp (ls_findings st) \<and> fd_toolCalls (ls_findings st) = int (length log) \<and>
      outcome_ok inp (successes log) (ls_findings st) e"
    using run_loop_outcome [OF assms refl, of iv _ now _ w1] l Run_maxTurns [OF assms]
    by (metis (mono_tags, lifting) old.prod.case)
  then show ?thesis
    using n l by (auto simp: Run_def Let_def via_fst_def split: prod.splits if_splits)
qed

lemma Run_ok:
  assumes "budget_fits inp" "Run iv inp w = ((f, e), w')"
  shows "outcome_bounded inp f" "\<exists>n. outcome_ok inp n f e"
  using Run_traced_ok [OF assms(1), of iv w] Run_traced [of iv inp "(w, [])"] assms(2)
  by (auto simp: forget_def split: prod.splits)

text \<open>C5. Every investigation ends within its budget, whatever the model and the broker do: it makes at
  most \<open>MaxToolCalls\<close> tool calls and at most six more model calls than that, counts exactly the calls the
  broker got, and ends in one of three ways: a conclusion that meets the contract (one to five ranked
  hypotheses, every citation naming baseline evidence or E1 to En, where n is the number of calls that
  succeeded, only allowed actions, no confidence above 70 when required evidence was missing), an exhausted
  budget with no hypotheses and the reason, or a model error with no outcome. The calls are those of the
  run that notes them, which is the same run.\<close>

theorem Run_outcome:
  assumes "budget_fits inp"
  shows "case Run (traced iv) inp (w, []) of ((f, e), (w', log)) \<Rightarrow>
    Run iv inp w = ((f, e), w') \<and>
    outcome_bounded inp f \<and> fd_toolCalls f = int (length log) \<and> outcome_ok inp (successes log) f e"
  using Run_traced_ok [OF assms, of iv w] Run_traced [of iv inp "(w, [])"]
  by (auto simp: forget_def split: prod.splits)

text \<open>C18. The sufficiency gate: a submission is accepted as it stands only when every required item
  has been collected. Otherwise it is accepted only when each missing item is unobtainable or
  the tool budget is spent, and then it is marked degraded and every confidence is at most 70.\<close>

theorem accept_sufficiency_gate:
  assumes "accept E arguments st = Inr (hypotheses, st')"
  shows "list_all ar_collected (in_requirements (ls_in st)) \<and> st' = st \<or>
    fd_degraded (ls_findings st') \<and> fd_missingRequired (ls_findings st') \<noteq> [] \<and>
    list_all (\<lambda>h. hy_confidencePercent h \<le> 70) hypotheses \<and>
    (list_all (\<lambda>r. ar_collected r \<or> \<not> ar_obtainable r) (in_requirements (ls_in st)) \<or>
     bd_maxToolCalls (ls_budget st) \<le> fd_toolCalls (ls_findings st))"
  using assms
proof (cases rule: accept_cases)
  case (degraded hs0 m)
  then show ?thesis using validateSubmission_sound [OF degraded(1)] capConfidence_bounds [of hs0 70] by simp
qed simp

text \<open>A denied call never changes what is required: only a successful call marks a requirement
  collected, only a failed read marks it unobtainable, and a collected item stays collected.\<close>

lemma recordRequirement_denied_keeps:
  "recordRequirement call (Some (denied m)) st = st \<and>
   map ar_obtainable (in_requirements (ls_in (recordRequirement call None st))) =
     map ar_obtainable (in_requirements (ls_in st)) \<and>
   map ar_collected (in_requirements (ls_in (recordRequirement call (Some e) st))) =
     map ar_collected (in_requirements (ls_in st)) \<and>
   map ar_collected (in_requirements (ls_in (recordRequirement call None st))) =
     map (\<lambda>r. ar_collected r \<or> req_matches call r) (in_requirements (ls_in st))"
proof -
  have "map (record_one call (Some (denied m))) rs = rs" for rs
    by (induction rs) (auto simp: record_one_def)
  then show ?thesis by (auto simp: recordRequirement_def record_one_def split: if_splits)
qed

lemma run_loop_duration:
  "fd_duration (ls_findings st) = 0 \<Longrightarrow>
   case run_loop iv tools mt st messages w of ((st', e), w') \<Rightarrow> fd_duration (ls_findings st') = 0"
  by (rule run_loop_rule [where I = "\<lambda>st w. fd_duration (ls_findings st) = 0"])
    (auto simp: tick_def account_def called_def Let_def recordRequirement_def count_call_def add_evidence_def
      stop_def conclude_def elim!: accept_cases)

text \<open>The duration that \<open>Run\<close> returns is always zero: the deferred assignment happens after the
  findings were copied into the result, so the time an investigation took is never reported.\<close>

lemma Run_duration_zero:
  "case Run iv inp w of ((f, e), w') \<Rightarrow> fd_duration f = 0"
  by (rule Run_rule, rule run_loop_duration) (simp add: start_def Findings_zero_def)

subsection \<open>An example\<close>

definition example_input :: Input where
  "example_input =
     \<lparr>in_failureType = ''OOMKilled'', in_namespace = ''prod'', in_workload = ''Deployment/web'',
      in_container = ''app'', in_facts = [],
      in_baseline = [\<lparr>bi_id = ''B:Events'', bi_kind = ''Events'', bi_excerpt = ''killed''\<rparr>],
      in_requirements = [], in_allowedActions = [''None''],
      in_budget = \<lparr>bd_maxToolCalls = 2, bd_maxTokens = 0, bd_maxCostMicroUSD = 0, bd_timeout = 0\<rparr>,
      in_pricing = \<lparr>pg_inputMicroUSDPerMillion = 0, pg_outputMicroUSDPerMillion = 0\<rparr>\<rparr>"

text \<open>A model that answers every request with the same tool calls, and a broker that answers every
  call with the same text, in a world where time stands still.\<close>

definition steady :: "ToolCall list \<Rightarrow> (unit, unit) Investigator" where
  "steady calls =
     \<lparr>inv_model = \<lparr>md_name = ''steady'', md_generate = \<lambda>r w.
        (Inr \<lparr>rs_message = \<lparr>msg_role = RoleModel, msg_text = [], msg_toolCalls = calls,
                             msg_toolResults = [], msg_providerState = None\<rparr>,
              rs_usage = \<lparr>us_inputTokens = 10, us_outputTokens = 5\<rparr>\<rparr>, w)\<rparr>,
      inv_broker = \<lparr>bk_tools = [], bk_call = \<lambda>n a w. (Inr ''out'', w)\<rparr>,
      inv_env = \<lparr>env_now = \<lambda>w. (0, w), env_withTimeout = \<lambda>t w. w, env_ctxErr = \<lambda>w. (False, w),
                 env_uprint = \<lambda>_. True, env_jerr = \<lambda>_. []\<rparr>\<rparr>"

definition read_call :: ToolCall where
  "read_call = \<lparr>call_id = [], call_name = ''get_pod_logs'', call_arguments = []\<rparr>"

definition submit_call :: ToolCall where
  "submit_call = \<lparr>call_id = [], call_name = ''submit_findings'',
     call_arguments = dq ''{`hypotheses`:[{`rootCause`:`x`,`confidencePercent`:90,`evidenceCitations`:[`E1`]}]}''\<rparr>"

lemma example_fits: "budget_fits example_input"
  by (simp add: budget_fits_def example_input_def is_int64_def)

lemma Run_outcome_witness:
  "case Run (traced (steady [read_call, submit_call])) example_input ((), []) of ((f, e), (w', log)) \<Rightarrow>
     Run (steady [read_call, submit_call]) example_input () = ((f, e), w') \<and>
     concluded_ok example_input 1 f \<and> length log = 1"
proof -
  let ?iv = "steady [read_call, submit_call]"
  obtain f e w' log where r: "Run (traced ?iv) example_input ((), []) = ((f, e), (w', log))" by (metis prod.exhaust)
  have "(case Run (traced ?iv) example_input ((), []) of ((f, e), (w', log)) \<Rightarrow>
      (e = None, fd_budgetExhausted f, length log, successes log)) = (True, False, 1, 1)"
    by code_simp
  then show ?thesis
    using Run_outcome [OF example_fits, of ?iv "()"] by (auto simp: r outcome_ok_def exhausted_ok_def)
qed

lemma accept_sufficiency_gate_witness:
  "\<exists>hs. accept (inv_env (steady [])) (call_arguments submit_call)
     (start (example_input\<lparr>in_baseline := [\<lparr>bi_id = ''E1'', bi_kind = [], bi_excerpt = []\<rparr>]\<rparr>) 0) =
       Inr (hs, start (example_input\<lparr>in_baseline := [\<lparr>bi_id = ''E1'', bi_kind = [], bi_excerpt = []\<rparr>]\<rparr>) 0)"
proof -
  let ?st = "start (example_input\<lparr>in_baseline := [\<lparr>bi_id = ''E1'', bi_kind = [], bi_excerpt = []\<rparr>]\<rparr>) 0"
  have "isr (accept (inv_env (steady [])) (call_arguments submit_call) ?st)" by code_simp
  then obtain hs st' where a: "accept (inv_env (steady [])) (call_arguments submit_call) ?st = Inr (hs, st')"
    by (auto simp: isr_iff)
  from a have "\<not> fd_degraded (ls_findings st')"
    by (auto simp: accept_def start_def example_input_def Findings_zero_def Let_def
        missing_obtainable_def missing_unobtainable_def split: sum.splits)
  with accept_sufficiency_gate [OF a] a show ?thesis by auto
qed

end
