(* ===== verification/Agentic.thy ===== *)
theory Agentic
  imports InvestigatorProps ToolsProps
begin

text \<open>
  The investigation over the real broker. \<open>NewInvestigator\<close> (\<open>src/internal/agent/investigator.go\<close>)
  joins a model and a broker, each with a state of its own; \<open>src/internal/agent/scripted.go\<close> is the
  model that replays a script. The locale \<open>session\<close> is what the loop needs to know of its
  surroundings to account for them: how the world moves in a broker call and in everything else.
  It is interpreted on the broker of \<open>src/internal/tools\<close> with any model.
\<close>

subsection \<open>The model and the broker side by side\<close>

definition NewInvestigator :: "'b env \<Rightarrow> ('m, 'p) Model \<Rightarrow> 'b Broker \<Rightarrow> ('b \<times> 'm, 'p) Investigator" where
  "NewInvestigator E m b =
     \<lparr>inv_model = \<lparr>md_name = md_name m, md_generate = (\<lambda>req. via_snd (md_generate m req))\<rparr>,
      inv_broker = \<lparr>bk_tools = bk_tools b, bk_call = (\<lambda>name a. via_fst (bk_call b name a))\<rparr>,
      inv_env = lift_env E\<rparr>"

subsection \<open>The scripted model\<close>

type_synonym 'p Turn = "'p Request \<Rightarrow> goerror + 'p Response"

text \<open>Its state is the list of requests it was sent.\<close>

definition ScriptedModel_Generate ::
    "'p Turn list \<Rightarrow> 'p Request \<Rightarrow> 'p Request list \<Rightarrow> (goerror + 'p Response) \<times> 'p Request list" where
  "ScriptedModel_Generate turns req requests =
     (let i = length requests in
      (if length turns \<le> i
       then Inl (errorf (''script exhausted after '' @ itoa (int (length turns)) @ '' turns''))
       else (turns ! i) req, requests @ [req]))"

definition ScriptedModel :: "'p Turn list \<Rightarrow> ('p Request list, 'p) Model" where
  "ScriptedModel turns = \<lparr>md_name = ''scripted'', md_generate = ScriptedModel_Generate turns\<rparr>"

definition Calls :: "Usage \<Rightarrow> ToolCall list \<Rightarrow> 'p Turn" where
  "Calls usage calls req =
     Inr \<lparr>rs_message = \<lparr>msg_role = RoleModel, msg_text = [], msg_toolCalls = calls, msg_toolResults = [],
                        msg_providerState = None\<rparr>, rs_usage = usage\<rparr>"

subsection \<open>The interface of the loop\<close>

text \<open>\<open>S w n w'\<close>: the world can move from \<open>w\<close> to \<open>w'\<close> in \<open>n\<close> broker calls.\<close>

locale session =
  fixes iv :: "('w, 'p) Investigator"
    and S :: "'w \<Rightarrow> int \<Rightarrow> 'w \<Rightarrow> bool"
  assumes refl: "S w 0 w"
    and trans: "S u m v \<Longrightarrow> S v n w \<Longrightarrow> S u (m + n) w"
    and call: "S w 1 (snd (bk_call (inv_broker iv) name a w))"
    and generate: "S w 0 (snd (md_generate (inv_model iv) req w))"
    and now: "S w 0 (snd (env_now (inv_env iv) w))"
    and timeout: "S w 0 (env_withTimeout (inv_env iv) t w)"
    and ctxErr: "S w 0 (snd (env_ctxErr (inv_env iv) w))"
begin

lemma trans0: "S u 0 v \<Longrightarrow> S v n w \<Longrightarrow> S u n w" "S u n v \<Longrightarrow> S v 0 w \<Longrightarrow> S u n w"
  using trans [of u 0 v n w] trans [of u n v 0 w] by simp_all

lemma run_loop_S:
  assumes "0 \<le> fd_toolCalls (ls_findings st)" "is_int64 (bd_maxToolCalls (ls_budget st))"
    and "run_loop iv tools maxTurns st messages w = ((st', e), w')"
  shows "S w (fd_toolCalls (ls_findings st') - fd_toolCalls (ls_findings st)) w'"
proof -
  let ?n = "\<lambda>s. fd_toolCalls (ls_findings s)"
  let ?I = "\<lambda>s v. 0 \<le> ?n s \<and> ls_budget s = ls_budget st \<and> S w (?n s - ?n st) v"
  have "case run_loop iv tools maxTurns st messages w of ((s, e), v) \<Rightarrow> S w (?n s - ?n st) v"
  proof (rule run_loop_rule [where I = ?I])
    show "?I st w" using assms(1) by (simp add: refl)
    fix s v assume i: "?I s v"
    show "?I (tick s) v" "?I (account u s) v" for u using i by (simp_all add: frame)
    show "?I s (snd (md_generate (inv_model iv) req v))" for req using i trans0(2) generate by blast
    show "?I s (snd (env_ctxErr (inv_env iv) v))" using i trans0(2) ctxErr by blast
    show "S w (?n (stop reason True s) - ?n st) v" for reason using i by (simp add: stop_def)
    show "S w (?n s - ?n st) v" using i by simp
    show "S w (?n (conclude hs s') - ?n st) v" if "accept (inv_env iv) a s = Inr (hs, s')" for a hs s'
      using that i by (cases rule: accept_cases) (simp_all add: conclude_def)
    fix call :: ToolCall and r v' assume c: "?n s < bd_maxToolCalls (ls_budget s)"
      "bk_call (inv_broker iv) (call_name call) (call_arguments call) v = (r, v')"
    let ?s = "called call (case r of Inl e \<Rightarrow> Some e | Inr c \<Rightarrow> None) s"
    have "wrap64 (?n s + 1) = ?n s + 1"
      using i c(1) assms(2) by (intro wrap64_id) (auto simp: is_int64_def)
    then have "?n ?s = ?n s + 1" "ls_budget ?s = ls_budget st" using i by (simp_all add: frame)
    moreover have "S v 1 v'" using session.call [OF session_axioms, of v] c(2) by (metis snd_conv)
    ultimately show "?I ?s v'" using i trans [of w "?n s - ?n st" v 1 v'] by (simp add: algebra_simps)
  qed
  then show ?thesis by (simp add: assms(3))
qed

lemma Run_S:
  assumes "budget_fits inp" "Run iv inp w = ((f, e), w')"
  shows "S w (fd_toolCalls f) w'"
proof -
  define w0 where "w0 = (if 0 < bd_timeout (in_budget inp)
    then env_withTimeout (inv_env iv) (bd_timeout (in_budget inp)) w else w)"
  obtain t w1 where n: "env_now (inv_env iv) w0 = (t, w1)" by fastforce
  obtain st r w2 where l: "run_loop iv (bk_tools (inv_broker iv) @ [submitSpec (in_allowedActions inp)])
      (wrap64 (bd_maxToolCalls (in_budget inp) + extraTurns)) (start inp t)
      [user_text (initialContext (env_uprint (inv_env iv)) inp)] w1 = ((st, r), w2)" by (metis prod.exhaust)
  obtain t' w3 where n': "env_now (inv_env iv) w2 = (t', w3)" by fastforce
  have "S w 0 w0" using timeout refl by (simp add: w0_def)
  then have 1: "S w 0 w1" using now [of w0] n trans0(1) by (metis snd_conv)
  have 2: "S w1 (fd_toolCalls (ls_findings st)) w2"
    using run_loop_S [OF _ _ l] assms(1) by (simp add: start_def Findings_zero_def budget_fits_def)
  have 3: "S w2 0 w3" using now [of w2] n' by simp
  have "f = ls_findings st" "w' = w3"
    using assms(2) n l n' by (simp_all add: Run_def Let_def w0_def [symmetric])
  then show ?thesis using trans0(2) [OF trans0(1) [OF 1 2] 3] by simp
qed

end

subsection \<open>The broker of the operator\<close>

text \<open>What \<open>n\<close> calls of the broker do to the world: they add \<open>n\<close> audit records, each within the
  schema.\<close>

definition recorded :: "('w \<times> ApiToolCall list) \<times> 'm \<Rightarrow> int \<Rightarrow> ('w \<times> ApiToolCall list) \<times> 'm \<Rightarrow> bool" where
  "recorded s n s' \<longleftrightarrow>
     (\<exists>l. snd (fst s') = snd (fst s) @ l \<and> int (length l) = n \<and> list_all ToolCall_schema l)"

lemma recorded_trans: "recorded u m v \<Longrightarrow> recorded v n w \<Longrightarrow> recorded u (m + n) w"
  unfolding recorded_def by auto

lemma recorded_call: "recorded s 1 (snd (via_fst (Call T k sc name a) s))"
  using Call_appends [of T k sc name a "fst s"] by (auto simp: recorded_def)

interpretation recorded: session "NewInvestigator (lift_env E) M (broker T k sc)" recorded
  for E :: "'w env" and M :: "('m, 'p) Model" and T :: tenv and k :: "'w kube" and sc :: Scope
proof
  show "recorded u (m + n) w" if "recorded u m v" "recorded v n w"
    for u v w :: "('w \<times> ApiToolCall list) \<times> 'm" and m n
    using that by (rule recorded_trans)
  show "recorded w 1 (snd (bk_call (inv_broker (NewInvestigator (lift_env E) M (broker T k sc))) name a w))"
    for w :: "('w \<times> ApiToolCall list) \<times> 'm" and name a
    using recorded_call [of w T k sc name a] by (simp add: NewInvestigator_def broker_def)
qed (simp_all add: recorded_def NewInvestigator_def lift_env_def)

text \<open>And over a logged client every request is one the scope allows, if the API server keeps to
  namespaces.\<close>

definition confined ::
    "'w kube \<Rightarrow> string \<Rightarrow> (('w \<times> request list) \<times> ApiToolCall list) \<times> 'm \<Rightarrow> int \<Rightarrow>
     (('w \<times> request list) \<times> ApiToolCall list) \<times> 'm \<Rightarrow> bool" where
  "confined k ns s n s' \<longleftrightarrow> (namespaced k ns \<longrightarrow> logs_only (in_ns ns) (fst (fst s)) (fst (fst s')))"

lemma confined_trans: "confined k ns u m v \<Longrightarrow> confined k ns v n w \<Longrightarrow> confined k ns u (m + n) w"
  unfolding confined_def by (auto intro: logs_only_trans)

lemma confined_call: "confined k (sc_namespace sc) s 1 (snd (via_fst (Call T (logged k) sc name a) s))"
  using Call_confined [of k sc "fst s" T name a] by (simp add: confined_def)

interpretation confined: session
  "NewInvestigator (lift_env (lift_env E)) M (broker T (logged k) sc)" "confined k (sc_namespace sc)"
  for E :: "'w env" and M :: "('m, 'p) Model" and T :: tenv and k :: "'w kube" and sc :: Scope
proof
  show "confined k (sc_namespace sc) u (m + n) w"
    if "confined k (sc_namespace sc) u m v" "confined k (sc_namespace sc) v n w"
    for u v w :: "(('w \<times> request list) \<times> ApiToolCall list) \<times> 'm" and m n
    using that by (rule confined_trans)
  show "confined k (sc_namespace sc) w 1
      (snd (bk_call (inv_broker (NewInvestigator (lift_env (lift_env E)) M (broker T (logged k) sc))) name a w))"
    for w :: "(('w \<times> request list) \<times> ApiToolCall list) \<times> 'm" and name a
    using confined_call [of k sc w T name a] by (simp add: NewInvestigator_def broker_def)
qed (simp_all add: confined_def NewInvestigator_def lift_env_def logs_only_def)

text \<open>C7. Every read of an investigation is accounted for: over the operator's broker, whatever the
  model does, the audit holds exactly one record for each tool call that the findings count, each
  within the schema of the Diagnosis, and no more records than the budget of tool calls.\<close>

theorem investigation_audited:
  assumes "budget_fits inp"
  shows "case Run (NewInvestigator (lift_env E) M (broker T k sc)) inp ((w, []), m) of
    ((f, e), ((w', calls), m')) \<Rightarrow>
      int (length calls) = fd_toolCalls f \<and> int (length calls) \<le> max 0 (bd_maxToolCalls (in_budget inp)) \<and>
      list_all ToolCall_schema calls"
proof -
  let ?iv = "NewInvestigator (lift_env E) M (broker T k sc)"
  obtain f e w' calls m' where r: "Run ?iv inp ((w, []), m) = ((f, e), ((w', calls), m'))"
    by (metis prod.exhaust)
  have "recorded ((w, []), m) (fd_toolCalls f) ((w', calls), m')"
    using recorded.Run_S [OF assms r] .
  moreover have "fd_toolCalls f \<le> max 0 (bd_maxToolCalls (in_budget inp))"
    using Run_ok(1) [OF assms r] by (simp add: outcome_bounded_def)
  ultimately show ?thesis by (auto simp: r recorded_def)
qed

text \<open>C6. An investigation never leaves its namespace: of all the requests it makes to the cluster,
  whatever the model does, each is a read in the namespace of the diagnosis or of a node, provided
  that the API server answers a request for a namespace with objects of that namespace.\<close>

theorem investigation_confined:
  assumes "budget_fits inp" "namespaced k (sc_namespace sc)"
  shows "case Run (NewInvestigator (lift_env (lift_env E)) M (broker T (logged k) sc)) inp (((w, []), calls), m) of
    ((f, e), (((w', log), calls'), m')) \<Rightarrow> list_all (in_ns (sc_namespace sc)) log"
proof -
  let ?iv = "NewInvestigator (lift_env (lift_env E)) M (broker T (logged k) sc)"
  obtain f e w' log calls' m' where r: "Run ?iv inp (((w, []), calls), m) = ((f, e), (((w', log), calls'), m'))"
    by (metis prod.exhaust)
  have "confined k (sc_namespace sc) (((w, []), calls), m) (fd_toolCalls f) (((w', log), calls'), m')"
    using confined.Run_S [OF assms(1) r] .
  then show ?thesis using assms(2) by (auto simp: r confined_def logs_only_def)
qed

text \<open>A script of one read and one submission, for the examples.\<close>

definition similar_call :: ToolCall where
  "similar_call = \<lparr>call_id = [], call_name = ''search_similar_diagnoses'', call_arguments = []\<rparr>"

definition example_script :: "unit Turn list" where
  "example_script = [Calls \<lparr>us_inputTokens = 10, us_outputTokens = 5\<rparr> [similar_call],
                     Calls \<lparr>us_inputTokens = 10, us_outputTokens = 5\<rparr> [submit_call]]"

theorem investigation_audited_witness:
  "case Run (NewInvestigator (lift_env (inv_env (steady []))) (ScriptedModel example_script)
       (broker example_tenv one_pod example_scope)) example_input (((), []), []) of
    ((f, e), ((w', calls), m')) \<Rightarrow>
      int (length calls) = fd_toolCalls f \<and> int (length calls) \<le> max 0 (bd_maxToolCalls (in_budget example_input)) \<and>
      list_all ToolCall_schema calls"
  by (rule investigation_audited) (rule example_fits)

theorem investigation_confined_witness:
  "case Run (NewInvestigator (lift_env (lift_env (inv_env (steady [])))) (ScriptedModel example_script)
       (broker example_tenv (logged one_pod) example_scope)) example_input ((((), []), []), []) of
    ((f, e), (((w', log), calls'), m')) \<Rightarrow> list_all (in_ns (sc_namespace example_scope)) log"
  by (rule investigation_confined) (rule example_fits, rule namespaced_one_pod)

end
