(* ===== verification/InvestigatorController.thy ===== *)
theory InvestigatorController
  imports EvidenceController Agentic
begin

text \<open>
  \<open>src/internal/controller/investigator_controller.go\<close>: an enriched diagnosis is investigated and
  the findings are written onto it. \<open>retry.RetryOnConflict\<close> is a parameter; the model, its pricing
  and the environment of the loop are the record \<open>InvestigatorReconciler\<close>. Its world is that of the
  cluster beside the state of the model.
\<close>

definition baselineExcerptLimit :: nat where "baselineExcerptLimit = 1500"
definition brokerHeadroom :: int where "brokerHeadroom = 2"
definition maxRecordedToolCalls :: nat where "maxRecordedToolCalls = 30"

fun toolForEvidence :: "EvidenceKind \<Rightarrow> string" where
  "toolForEvidence EvidencePreviousLogs = ''get_pod_logs''"
| "toolForEvidence EvidenceCurrentLogs = ''get_pod_logs''"
| "toolForEvidence EvidenceEvents = ''get_pod_events''"
| "toolForEvidence EvidenceWorkloadSpec = ''get_workload_spec''"
| "toolForEvidence EvidenceRolloutHistory = ''get_recent_changes''"
| "toolForEvidence EvidenceConfigReferences = ''get_config_references''"
| "toolForEvidence EvidenceServiceEndpoints = ''get_service_endpoints''"
| "toolForEvidence EvidenceNodeStatus = ''get_node_status''"
| "toolForEvidence EvidenceSiblingPods = ''get_related_pods''"
| "toolForEvidence EvidenceResourceUsage = ''get_resource_usage''"
| "toolForEvidence (EvidenceOther s) = []"

definition proposableActions :: "string list" where
  "proposableActions = map ActionType_str
     [ActionSetMemoryLimit, ActionSetCPULimit, ActionSetImage, ActionSetProbeDelay, ActionSetProbePort,
      ActionAddResourceRequests, ActionRollbackToRevision, ActionRestartWorkload, ActionNone]"

subsection \<open>The input of an investigation\<close>

definition excerpt :: "string \<Rightarrow> nat \<Rightarrow> string" where
  "excerpt content limit =
     (if length content \<le> limit then content else take limit content @ [newline] @ ''[excerpt truncated]'')"

text \<open>What \<open>json.Unmarshal\<close> leaves in the field \<open>previous\<close>, its error ignored: a value of another type
  is skipped, and text that is not one JSON value is not decoded at all.\<close>

fun previous_member :: "bool \<Rightarrow> string \<times> json \<Rightarrow> bool" where
  "previous_member b (key, JBool v) = (if key_is ''previous'' key then v else b)"
| "previous_member b (key, j) = b"

definition args_previous :: "string \<Rightarrow> bool" where
  "args_previous arguments =
     (case unmarshal arguments of Some (JObj ms) \<Rightarrow> foldl previous_member False ms | _ \<Rightarrow> False)"

definition satisfierFor :: "EvidenceKind \<Rightarrow> string \<Rightarrow> string \<Rightarrow> bool" where
  "satisfierFor kind name arguments \<longleftrightarrow>
     (let tool = toolForEvidence kind in
      if kind = EvidencePreviousLogs \<or> kind = EvidenceCurrentLogs
      then name = tool \<and> args_previous arguments = (kind = EvidencePreviousLogs)
      else name = tool)"

definition baseline_item :: "EvidenceItem \<Rightarrow> BaselineItem" where
  "baseline_item item =
     \<lparr>bi_id = ''B:'' @ EvidenceKind_str (ei_kind item), bi_kind = EvidenceKind_str (ei_kind item),
      bi_excerpt = excerpt (ei_content item) baselineExcerptLimit\<rparr>"

definition requirement :: "EvidenceItem \<Rightarrow> AgentRequirement" where
  "requirement item =
     \<lparr>ar_kind = EvidenceKind_str (ei_kind item), ar_tool = toolForEvidence (ei_kind item),
      ar_collected = (ei_status item = CollectionCollected),
      ar_obtainable = (ei_status item \<noteq> CollectionUnavailable),
      ar_satisfiedBy = Some (satisfierFor (ei_kind item))\<rparr>"

definition evidence_facts :: "Evidence \<Rightarrow> string list" where
  "evidence_facts ev =
     (case ev_exitCode ev of None \<Rightarrow> [] | Some c \<Rightarrow> [''Previous exit code: '' @ itoa c]) @
     (if ev_terminationReason ev \<noteq> []
      then [''Previous termination reason: '' @ ev_terminationReason ev] else []) @
     (if ev_waitingReason ev \<noteq> [] then [''Currently displayed as: '' @ ev_waitingReason ev] else []) @
     [''Restart count: '' @ itoa (ev_restartCount ev)]"

definition buildInput :: "Diagnosis \<Rightarrow> AgentConfig \<Rightarrow> Pricing \<Rightarrow> Input" where
  "buildInput d cfg pricing =
     (let spec = dg_spec d;
          inp = \<lparr>in_failureType = FailureType_str (ds_failureType spec), in_namespace = dg_namespace d,
                 in_workload = (case tr_owner (ds_target spec) of
                    None \<Rightarrow> ''Pod/'' @ tr_name (ds_target spec)
                  | Some owner \<Rightarrow> or_kind owner @ ''/'' @ or_name owner),
                 in_container = ds_container spec, in_facts = [], in_baseline = [], in_requirements = [],
                 in_allowedActions = proposableActions,
                 in_budget = \<lparr>bd_maxToolCalls = ag_maxToolCalls cfg, bd_maxTokens = ag_maxTokens cfg,
                              bd_maxCostMicroUSD = ag_maxCostMicroUSD cfg,
                              bd_timeout = wrap64 (ag_timeoutSeconds cfg * second)\<rparr>,
                 in_pricing = pricing\<rparr>
      in case st_evidence (dg_status d) of
           None \<Rightarrow> inp
         | Some ev \<Rightarrow>
             inp\<lparr>in_facts := evidence_facts ev,
                 in_baseline := map baseline_item (filter (\<lambda>i. ei_status i = CollectionCollected) (ev_items ev)),
                 in_requirements := map requirement (filter ei_required (ev_items ev))\<rparr>)"

subsection \<open>Recording the findings\<close>

definition toAPIAction :: "Action \<Rightarrow> ApiAction" where
  "toAPIAction a = \<lparr>aa_type = ActionType_of (ac_type a), aa_container = ac_container a, aa_value = ac_value a\<rparr>"

definition toAPIHypotheses :: "Hypothesis list \<Rightarrow> ApiHypothesis list" where
  "toAPIHypotheses hs = map (\<lambda>h.
     \<lparr>ah_id = hy_id h, ah_rank = wrap32 (hy_rank h), ah_rootCause = hy_rootCause h,
      ah_confidencePercent = wrap32 (hy_confidencePercent h), ah_evidenceCitations = hy_evidenceCitations h,
      ah_proposedActions = map toAPIAction (hy_proposedActions h)\<rparr>) hs"

definition investigation_of :: "string \<Rightarrow> Findings \<Rightarrow> ApiToolCall list \<Rightarrow> Investigation" where
  "investigation_of provider f calls =
     \<lparr>iv_provider = provider, iv_agentic = True, iv_toolCalls = calls, iv_tokensUsed = wrap32 (fd_tokens f),
      iv_costMicroUSD = fd_costMicroUSD f, iv_durationMillis = millis (fd_duration f),
      iv_budgetExhausted = fd_budgetExhausted f, iv_stopReason = fd_stopReason f,
      iv_degraded = fd_degraded f, iv_turns = wrap32 (fd_turns f)\<rparr>"

definition hypothesized :: "string \<Rightarrow> Findings \<Rightarrow> ApiToolCall list \<Rightarrow> gotime \<Rightarrow> Diagnosis \<Rightarrow> Diagnosis" where
  "hypothesized provider f calls now d =
     d\<lparr>dg_status := (dg_status d)
         \<lparr>st_investigation := Some (investigation_of provider f calls),
          st_hypotheses := toAPIHypotheses (fd_hypotheses f), st_phase := PhaseHypothesized,
          st_timings := (st_timings (dg_status d))\<lparr>tm_hypothesizedAt := Some now\<rparr>\<rparr>\<rparr>"

text \<open>One attempt to record, as \<open>RetryOnConflict\<close> runs it.\<close>

definition record_attempt ::
    "string \<Rightarrow> 'w kube \<Rightarrow> string \<Rightarrow> string \<Rightarrow> Findings \<Rightarrow> ApiToolCall list \<Rightarrow> 'w \<Rightarrow> goerror option \<times> 'w" where
  "record_attempt provider k ns n f calls w =
     (case kGetDiagnosis k ns n w of
        (Inl e, w1) \<Rightarrow> (Some e, w1)
      | (Inr latest, w1) \<Rightarrow>
          if st_phase (dg_status latest) \<noteq> PhaseEnriched then (None, w1)
          else (case kNow k w1 of (now, w2) \<Rightarrow>
               (case kUpdateStatus k (hypothesized provider f calls now latest) w2 of
                  (Inl e, w3) \<Rightarrow> (Some e, w3)
                | (Inr d, w3) \<Rightarrow> (None, w3))))"

type_synonym 'w retry = "('w \<Rightarrow> goerror option \<times> 'w) \<Rightarrow> 'w \<Rightarrow> goerror option \<times> 'w"

text \<open>What \<open>RetryOnConflict\<close> documents: the function runs at least once, and again only as long as it
  returns a conflict; the last outcome is returned.\<close>

fun attempts :: "nat \<Rightarrow> 'w retry" where
  "attempts 0 f w = f w"
| "attempts (Suc n) f w =
     (case f w of
        (Some e, w') \<Rightarrow> if err_kind e = EConflict then attempts n f w' else (Some e, w')
      | (None, w') \<Rightarrow> (None, w'))"

definition retries :: "'w retry \<Rightarrow> bool" where
  "retries retry \<longleftrightarrow> (\<forall>f w. \<exists>n. retry f w = attempts n f w)"

definition record_findings ::
    "'w retry \<Rightarrow> string \<Rightarrow> 'w kube \<Rightarrow> string \<Rightarrow> string \<Rightarrow> Findings \<Rightarrow> ApiToolCall list \<Rightarrow> 'w \<Rightarrow> goerror option \<times> 'w" where
  "record_findings retry provider k ns n f calls =
     retry (record_attempt provider k ns n f (take maxRecordedToolCalls calls))"

subsection \<open>The reconcile\<close>

record ('w, 'm, 'p) InvestigatorReconciler =
  ir_model :: "('m, 'p) Model option"
  ir_pricing :: Pricing
  ir_env :: "'w env"
  ir_tenv :: tenv
  ir_retry :: "'w retry"

text \<open>The investigation itself, over a broker bound to the diagnosis, and the writing of its
  findings.\<close>

definition investigate ::
    "('w, 'm, 'p) InvestigatorReconciler \<Rightarrow> ('m, 'p) Model \<Rightarrow> 'w kube \<Rightarrow> string \<Rightarrow> string \<Rightarrow> Diagnosis \<Rightarrow>
     HealingPolicy \<Rightarrow> 'w \<times> 'm \<Rightarrow> ('w \<times> 'm) reconciled" where
  "investigate r M k ns n d policy s =
     (let inp = buildInput d (ps_agent (hp_spec policy)) (ir_pricing r);
          scope = BindTo (ScopeForDiagnosis d (wrap64 (bd_maxToolCalls (in_budget inp) + brokerHeadroom)))
      in case Run (NewInvestigator (lift_env (ir_env r)) M (broker (ir_tenv r) k scope)) inp ((fst s, []), snd s) of
           ((f, err), ((w1, calls), m)) \<Rightarrow>
             (case err of
                Some e \<Rightarrow> finished (Some (wrapf (''investigating '' @ dg_name d @ '': '') e)) (w1, m)
              | None \<Rightarrow>
                  (case record_findings (ir_retry r) (md_name M) k ns n f calls w1 of
                     (e, w2) \<Rightarrow> finished e (w2, m))))"

definition InvestigatorReconciler_Reconcile ::
    "('w, 'm, 'p) InvestigatorReconciler \<Rightarrow> 'w kube \<Rightarrow> string \<Rightarrow> string \<Rightarrow> 'w \<times> 'm \<Rightarrow> ('w \<times> 'm) reconciled" where
  "InvestigatorReconciler_Reconcile r k ns n s =
     (case kGetDiagnosis k ns n (fst s) of
        (Inl e, w1) \<Rightarrow> finished (IgnoreNotFound e) (w1, snd s)
      | (Inr d, w1) \<Rightarrow>
          if st_phase (dg_status d) \<noteq> PhaseEnriched then finished None (w1, snd s)
          else (case kGetPolicy k (dg_namespace d) (ds_policyRef (dg_spec d)) w1 of
                  (Inl e, w2) \<Rightarrow> finished (IgnoreNotFound e) (w2, snd s)
                | (Inr policy, w2) \<Rightarrow>
                    if \<not> ag_enabled (ps_agent (hp_spec policy)) then finished None (w2, snd s)
                    else (case ir_model r of
                            None \<Rightarrow> finished None (w2, snd s)
                          | Some M \<Rightarrow> investigate r M k ns n d policy (w2, snd s))))"

end
