(* ===== verification/CollectorProps.thy ===== *)
theory CollectorProps
  imports Reads Schema
begin

text \<open>
  What \<open>Collect\<close> promises: one outcome per kind, a truthful account of what is missing, scrubbed
  and bounded content, reads only, and items that the schema of the Diagnosis accepts as long as
  the errors it records are short.
\<close>

subsection \<open>One item\<close>

definition missing_item :: "EvidenceItem \<Rightarrow> bool" where
  "missing_item i \<longleftrightarrow> ei_required i \<and> ei_status i \<noteq> CollectionCollected"

text \<open>How an item relates to the matrix, whatever was read.\<close>

definition item_fits :: "FailureType \<Rightarrow> EvidenceItem \<Rightarrow> bool" where
  "item_fits ft i \<longleftrightarrow>
     (ei_required i \<longleftrightarrow> RequirementFor ft (ei_kind i) = Required) \<and>
     (ei_status i = CollectionNotApplicable \<longleftrightarrow> RequirementFor ft (ei_kind i) = NotApplicable) \<and>
     ei_status i \<in> set [CollectionCollected, CollectionNotApplicable, CollectionUnavailable] \<and>
     (ei_status i = CollectionCollected \<longrightarrow> ei_reason i = []) \<and>
     (ei_status i \<noteq> CollectionCollected \<longrightarrow> ei_content i = [])"

lemma item_fits_not_applicable:
  "RequirementFor ft k = NotApplicable \<Longrightarrow> item_fits ft (not_applicable_item ft k)"
  by (simp add: item_fits_def not_applicable_item_def)

lemma collect_item_kind [simp]: "ei_kind (fst (collect_item k b r)) = k"
  by (auto simp: collect_item_def split: sum.splits prod.splits)

lemma collect_item_required [simp]: "ei_required (fst (collect_item k b r)) = b"
  by (auto simp: collect_item_def split: sum.splits prod.splits)

lemma item_fits_collected:
  assumes "RequirementFor ft k \<noteq> NotApplicable"
  shows "item_fits ft (fst (collect_item k (RequirementFor ft k = Required) r))"
  using assms
  by (auto simp: collect_item_def item_fits_def split: sum.splits prod.splits)

lemma collect_item_scrubbed:
  "ei_content (fst (collect_item k b r)) = [] \<or> scrubbed contentLimit (ei_content (fst (collect_item k b r)))"
  by (auto simp: collect_item_def scrubbed_def split: sum.splits prod.splits) (metis fst_conv)

subsection \<open>The loop\<close>

text \<open>The loop as the list of items it appends.\<close>

fun loop_items :: "'w kube \<Rightarrow> Target \<Rightarrow> EvidenceKind list \<Rightarrow> 'w \<Rightarrow> EvidenceItem list" where
  "loop_items k t [] w = []"
| "loop_items k t (kind # kinds) w =
     (let req = RequirementFor (tg_failureType t) kind in
      if req = NotApplicable then not_applicable_item (tg_failureType t) kind # loop_items k t kinds w
      else fst (collect_item kind (req = Required) (fst (gather k t kind w))) #
           loop_items k t kinds (snd (gather k t kind w)))"

lemma collect_loop_items:
  "ev_items (fst (fst (collect_loop k t kinds ev n w))) = ev_items ev @ loop_items k t kinds w"
  by (induction kinds arbitrary: ev n w) (auto simp: Let_def split: prod.splits)

lemma collect_loop_missing:
  "ev_missingRequired (fst (fst (collect_loop k t kinds ev n w))) =
     ev_missingRequired ev @ map ei_kind (filter missing_item (loop_items k t kinds w))"
proof (induction kinds arbitrary: ev n w)
  case (Cons kind kinds)
  have na: "\<not> missing_item (not_applicable_item ft kind)" for ft
    by (simp add: missing_item_def not_applicable_item_def)
  obtain r w' where g: "gather k t kind w = (r, w')" by fastforce
  obtain item c where i: "collect_item kind (RequirementFor (tg_failureType t) kind = Required) r = (item, c)"
    by fastforce
  have "ei_kind item = kind" using i collect_item_kind by (metis fst_conv)
  with Cons g i na show ?case by (auto simp: Let_def missing_item_def)
qed simp

lemma Collect_items: "ev_items (fst (Collect k t w)) = loop_items k t allKinds w"
proof -
  have "ev_items (populateContainerFacts Evidence_zero t) = []"
    by (auto simp: populateContainerFacts_def container_facts_def Evidence_zero_def Let_def
        split: option.splits)
  then show ?thesis
    using collect_loop_items [of k t allKinds "populateContainerFacts Evidence_zero t" 0 w]
    by (auto simp: Collect_def split: prod.splits)
qed

lemma Collect_missing:
  "ev_missingRequired (fst (Collect k t w)) = map ei_kind (filter missing_item (loop_items k t allKinds w))"
proof -
  have "ev_missingRequired (populateContainerFacts Evidence_zero t) = []"
    by (auto simp: populateContainerFacts_def container_facts_def Evidence_zero_def Let_def
        split: option.splits)
  then show ?thesis
    using collect_loop_missing [of k t allKinds "populateContainerFacts Evidence_zero t" 0 w]
    by (auto simp: Collect_def split: prod.splits)
qed

lemma loop_items_kinds: "map ei_kind (loop_items k t kinds w) = kinds"
  by (induction kinds arbitrary: w) (auto simp: Let_def not_applicable_item_def)

lemma loop_items_all:
  assumes "\<And>kind. RequirementFor (tg_failureType t) kind = NotApplicable \<Longrightarrow> kind \<in> set kinds \<Longrightarrow>
      P (not_applicable_item (tg_failureType t) kind)"
    and "\<And>kind w. RequirementFor (tg_failureType t) kind \<noteq> NotApplicable \<Longrightarrow> kind \<in> set kinds \<Longrightarrow>
      P (fst (collect_item kind (RequirementFor (tg_failureType t) kind = Required) (fst (gather k t kind w))))"
  shows "list_all P (loop_items k t kinds w)"
  using assms by (induction kinds arbitrary: w) (auto simp: Let_def)

lemma Collect_complete:
  "ev_complete (fst (Collect k t w)) \<longleftrightarrow> ev_missingRequired (fst (Collect k t w)) = []"
  by (auto simp: Collect_def split: prod.splits)

lemma Collect_item_fits: "list_all (item_fits (tg_failureType t)) (ev_items (fst (Collect k t w)))"
  unfolding Collect_items
  by (rule loop_items_all) (simp_all add: item_fits_not_applicable item_fits_collected)

text \<open>What the reads of a collection answer, in their order; \<open>None\<close> for a kind the matrix rules out, which is
  not read. And what an item must then say.\<close>

fun kind_reads :: "'w kube \<Rightarrow> Target \<Rightarrow> EvidenceKind list \<Rightarrow> 'w \<Rightarrow> (goerror + string) option list" where
  "kind_reads k t [] w = []"
| "kind_reads k t (kind # kinds) w =
     (if RequirementFor (tg_failureType t) kind = NotApplicable then None # kind_reads k t kinds w
      else (case gather k t kind w of (r, w') \<Rightarrow> Some r # kind_reads k t kinds w'))"

definition item_tells :: "FailureType \<Rightarrow> (goerror + string) option \<Rightarrow> EvidenceItem \<Rightarrow> bool" where
  "item_tells ft r i \<longleftrightarrow>
     (ei_required i \<longleftrightarrow> RequirementFor ft (ei_kind i) = Required) \<and>
     (RequirementFor ft (ei_kind i) = NotApplicable \<longleftrightarrow> r = None) \<and>
     (case r of
        None \<Rightarrow> ei_status i = CollectionNotApplicable \<and> ei_content i = []
      | Some (Inl e) \<Rightarrow> ei_status i = CollectionUnavailable \<and> ei_reason i = err_msg e \<and> ei_content i = []
      | Some (Inr content) \<Rightarrow>
          (if trim_space content = []
           then ei_status i = CollectionUnavailable \<and> ei_reason i \<noteq> [] \<and> ei_content i = []
           else ei_status i = CollectionCollected \<and> ei_reason i = [] \<and>
                ei_content i = Truncate (fst (Redact content)) 8192))"

lemma loop_items_tell:
  "list_all2 (item_tells (tg_failureType t)) (kind_reads k t kinds w) (loop_items k t kinds w)"
proof (induction kinds arbitrary: w)
  case (Cons kind kinds)
  obtain r w' where g: "gather k t kind w = (r, w')" by fastforce
  have "item_tells (tg_failureType t) (Some r)
      (fst (collect_item kind (RequirementFor (tg_failureType t) kind = Required) r))"
    if "RequirementFor (tg_failureType t) kind \<noteq> NotApplicable"
    using that
    by (cases r) (auto simp: item_tells_def collect_item_def contentLimit_def split: prod.splits)
  then show ?case
    using Cons.IH by (auto simp: Let_def g item_tells_def not_applicable_item_def)
qed simp

subsection \<open>Properties\<close>

text \<open>C25. \<open>Collect\<close> reports every kind once, in the order of the catalogue, and truthfully, whatever the
  cluster answers: an item is required or not applicable as the matrix says; of the others, it is collected,
  with the redacted and truncated content, precisely when its read returned more than white space, and
  otherwise unavailable with the read's error, or a reason, and no content. The missing list is exactly
  the required items that were not collected, and the evidence is complete precisely when there are none.\<close>

theorem Collect_reports_every_kind:
  "let ev = fst (Collect k target w) in
     map ei_kind (ev_items ev) = allKinds \<and>
     list_all2 (item_tells (tg_failureType target)) (kind_reads k target allKinds w) (ev_items ev) \<and>
     ev_missingRequired ev = map ei_kind (filter missing_item (ev_items ev)) \<and>
     (ev_complete ev \<longleftrightarrow> filter missing_item (ev_items ev) = [])"
  using loop_items_tell [of target k allKinds w]
  by (simp add: Let_def Collect_complete Collect_items Collect_missing loop_items_kinds)

text \<open>C26. No content is stored unscrubbed or oversized: the content of every item is the truncation,
  to at most 8192 bytes, of a redacted text.\<close>

theorem Collect_scrubs_and_bounds:
  "list_all (\<lambda>i. (ei_content i = [] \<or> scrubbed 8192 (ei_content i)) \<and> length (ei_content i) \<le> 8192)
     (ev_items (fst (Collect k target w)))"
proof -
  have "list_all (\<lambda>i. ei_content i = [] \<or> scrubbed 8192 (ei_content i)) (loop_items k target allKinds w)"
    by (rule loop_items_all)
      (use collect_item_scrubbed in \<open>simp_all add: not_applicable_item_def contentLimit_def\<close>)
  then show ?thesis by (auto simp: Collect_items list_all_iff dest: scrubbed_length)
qed

text \<open>Collection only reads: no request that \<open>Collect\<close> makes creates or updates anything, for
  any client, target and state of the cluster.\<close>

lemma Collect_only_reads:
  "list_all (\<lambda>r. \<not> is_write r) (snd (snd (Collect (logged k) target (w, []))))"
  using logged.Collect_R [where t = target and w = "(w, [])" and k = k] reads_in_not_write
  by (auto simp: logs_only_def list_all_iff)

text \<open>The messages of the errors a read can end in are short enough to be recorded as a reason.\<close>

definition short_errors :: "'w kube \<Rightarrow> Target \<Rightarrow> bool" where
  "short_errors k t \<longleftrightarrow>
     (\<forall>kind w e. kind \<in> set allKinds \<longrightarrow> fst (gather k t kind w) = Inl e \<longrightarrow>
        max_length 512 (err_msg e))"

lemma Evidence_schema_loop:
  assumes "short_errors k t"
  shows "list_all EvidenceItem_schema (loop_items k t allKinds w)"
proof (rule loop_items_all)
  fix kind assume "kind \<in> set allKinds"
  then have "EvidenceKind_schema kind" by (auto simp: allKinds_def)
  moreover have "length (NotApplicableReason (tg_failureType t) kind) \<le> 512"
    by (simp add: NotApplicableReason_def)
  ultimately show "EvidenceItem_schema (not_applicable_item (tg_failureType t) kind)"
    by (simp add: EvidenceItem_schema_def not_applicable_item_def max_length_bytes)
next
  fix kind w assume kind: "kind \<in> set allKinds"
  then have "EvidenceKind_schema kind" by (auto simp: allKinds_def)
  then show "EvidenceItem_schema (fst (collect_item kind
      (RequirementFor (tg_failureType t) kind = Required) (fst (gather k t kind w))))"
    using assms kind
    by (auto simp: short_errors_def EvidenceItem_schema_def collect_item_def contentLimit_def
        split: sum.splits prod.splits intro: max_length_bytes)
qed

text \<open>C27. The evidence that \<open>Collect\<close> builds satisfies the schema of the Diagnosis status, so the
  API server accepts it, provided the messages of the read errors fit the 512 characters of a
  reason, which nothing in the code enforces.\<close>

theorem Collect_meets_schema:
  assumes "short_errors k target"
  shows "Evidence_schema (fst (Collect k target w))"
proof -
  have "list_all EvidenceKind_schema allKinds" by (simp add: allKinds_def)
  then have "list_all EvidenceKind_schema (map ei_kind (loop_items k target allKinds w))"
    by (simp add: loop_items_kinds)
  then show ?thesis
    using Evidence_schema_loop [OF assms, of w]
    by (auto simp: Evidence_schema_def Collect_items Collect_missing loop_items_kinds list_all_iff
        EvidenceItem_schema_def)
qed

definition probe_target :: Target where
  "probe_target =
     \<lparr>tg_pod = Pod_named ''prod'' ''web-1'', tg_container = [], tg_failureType = FailureProbeFailure,
      tg_ownerKind = ''Deployment'', tg_ownerName = ''web''\<rparr>"

lemma probe_target_simps [simp]:
  "tg_ownerKind probe_target = ''Deployment''" "tg_failureType probe_target = FailureProbeFailure"
  "pod_references (pod_spec (tg_pod probe_target)) = []"
  "sp_nodeName (pod_spec (tg_pod probe_target)) = []"
  by (simp_all add: probe_target_def Pod_named_def PodSpec_zero_def pod_references_def)

lemma failing_short_errors: "short_errors (failing (errorf ''no route to host'')) probe_target"
proof -
  have s: "summarise (errorf ''no route to host'') = errorf ''no route to host''" by code_simp
  have short: "length (err_msg e) \<le> 512"
    if "kind \<in> set allKinds" "fst (gather (failing (errorf ''no route to host'')) probe_target kind w) = Inl e"
    for kind w e
    using that unfolding allKinds_def
    by (auto simp: failing_def logs_def events_def workloadSpec_def podTemplate_def rolloutHistory_def
        configReferences_def serviceEndpoints_def nodeStatus_def siblingPods_def resourceUsage_def
        read_then_def s)
  show ?thesis unfolding short_errors_def by (intro allI impI max_length_bytes) (rule short)
qed

lemma Collect_meets_schema_witness:
  "Evidence_schema (fst (Collect (failing (errorf ''no route to host'')) probe_target ()))"
  by (rule Collect_meets_schema) (rule failing_short_errors)

lemma str_index_replicate: "c \<noteq> d \<Longrightarrow> str_index [d] (replicate n c) = None"
  by (induction n) auto

lemma summarise_long: "summarise (errorf (replicate 600 CHR ''x'')) = errorf (replicate 600 CHR ''x'')"
  by (simp add: summarise_def Let_def str_index_replicate)

lemma max_length_ascii: "ascii s \<Longrightarrow> max_length n s \<longleftrightarrow> length s \<le> n"
  by (simp add: max_length_def runes_ascii)

text \<open>A long error breaks the schema: when the API server answers with a message of 600
  characters that has no colon, the reason recorded is the whole message, and the evidence is
  one the API server refuses.\<close>

lemma Collect_breaks_schema:
  "\<not> Evidence_schema (fst (Collect (failing (errorf (replicate 600 CHR ''x''))) probe_target ()))"
proof -
  let ?m = "''reading logs: '' @ replicate 600 CHR ''x''"
  let ?i = "\<lparr>ei_kind = EvidencePreviousLogs, ei_status = CollectionUnavailable, ei_required = False,
    ei_reason = ?m, ei_content = []\<rparr>"
  have "fst (gather (failing (errorf (replicate 600 CHR ''x''))) probe_target EvidencePreviousLogs ()) =
      Inl (wrapf ''reading logs: '' (errorf (replicate 600 CHR ''x'')))"
    by (simp add: failing_def logs_def summarise_long)
  moreover have "RequirementFor FailureProbeFailure EvidencePreviousLogs = Opportunistic" by code_simp
  moreover obtain kinds where kinds: "allKinds = EvidencePreviousLogs # kinds" by (simp add: allKinds_def)
  ultimately have "?i \<in> set (loop_items (failing (errorf (replicate 600 CHR ''x''))) probe_target allKinds ())"
    unfolding kinds by (simp add: collect_item_def)
  moreover have "ascii ?m" by (auto simp: ascii_def list_all_iff)
  then have "\<not> EvidenceItem_schema ?i"
    by (simp add: EvidenceItem_schema_def max_length_ascii del: ascii_simps)
  ultimately show ?thesis unfolding Evidence_schema_def Collect_items list_all_iff by blast
qed

lemma sorted_rev_take:
  assumes "sorted (rev (map f xs))" "x \<in> set (take n xs)" "y \<in> set (drop n xs)"
  shows "f y \<le> f x"
proof -
  have "sorted (rev (map f (drop n xs)) @ rev (map f (take n xs)))"
    using assms(1) by (metis append_take_drop_id map_append rev_append)
  with assms(2,3) show ?thesis by (auto simp: sorted_append)
qed

text \<open>Rollout history is the newest of the deployment's own revisions: at most three, newest
  first, none of another owner, and no revision of the deployment that is left out is newer than
  one that is reported.\<close>

lemma recent_revisions_newest:
  assumes "sorts order"
  shows "let revs = recent_revisions order d items; own = filter (owned_by (dp_uid d)) items in
    length revs = min 3 (length own) \<and> set revs \<subseteq> set own \<and>
    sorted (rev (map revisionOf revs)) \<and>
    (\<forall>old \<in> set own - set revs. \<forall>new \<in> set revs. revisionOf old \<le> revisionOf new)"
proof -
  let ?own = "filter (owned_by (dp_uid d)) items"
  let ?s = "sort_slice order revisionOf ?own"
  have srt: "sorted (rev (map revisionOf ?s))" and st: "set ?s = set ?own" and len: "length ?s = length ?own"
    using assms by (simp_all only: sort_slice_sorted sort_slice_set sort_slice_length)
  have split: "set ?s = set (take 3 ?s) \<union> set (drop 3 ?s)" by (metis append_take_drop_id set_append)
  have "sorted (rev (map revisionOf (take 3 ?s)))"
    using srt by (metis append_take_drop_id map_append rev_append sorted_append)
  moreover have "\<forall>old \<in> set ?own - set (take 3 ?s). \<forall>new \<in> set (take 3 ?s). revisionOf old \<le> revisionOf new"
    using sorted_rev_take [OF srt] st split by blast
  moreover have "set (take 3 ?s) \<subseteq> set ?own" using st by (metis set_take_subset)
  ultimately show ?thesis
    unfolding recent_revisions_def revisionsReported_def Let_def by (simp add: len min.commute)
qed

definition rs_at :: "string \<Rightarrow> ReplicaSet" where
  "rs_at n =
     \<lparr>rs_name = ''web-'' @ n, rs_uid = n,
      rs_ownerReferences = [\<lparr>ow_kind = ''Deployment'', ow_name = ''web'', ow_uid = ''d1'', ow_controller = Some True\<rparr>],
      rs_annotations = [(revisionAnnotation, n)], rs_creationTimestamp = 0, rs_statusReplicas = 0,
      rs_containers = []\<rparr>"

lemma recent_revisions_newest_witness:
  "let revs = recent_revisions stable_order
        \<lparr>dp_uid = ''d1'', dp_annotations = [], dp_selector = JNull, dp_template = PodSpec_zero\<rparr>
        (map rs_at [''2'', ''10'', ''7'', ''3'']) in
     map revisionOf revs = [10, 7, 3] \<and> length revs = 3"
proof -
  let ?d = "\<lparr>dp_uid = ''d1'', dp_annotations = [], dp_selector = JNull, dp_template = PodSpec_zero\<rparr>"
  let ?items = "map rs_at [''2'', ''10'', ''7'', ''3'']"
  have "map revisionOf (recent_revisions stable_order ?d ?items) = [10, 7, 3]" by code_simp
  moreover have "length (filter (owned_by (dp_uid ?d)) ?items) = 4" by code_simp
  ultimately show ?thesis
    using recent_revisions_newest [OF sorts_stable_order, of ?d ?items] by (simp add: Let_def)
qed

text \<open>What \<open>record\<close> is called with: kinds without a slash, so that the identifiers are distinct.\<close>

lemma pod_references_kinds: "kn \<in> set (pod_references spec) \<Longrightarrow> fst kn \<in> {''ConfigMap'', ''Secret''}"
  by (auto simp: pod_references_def container_references_def opt_ref_def split: option.splits)

lemma ref_id_inj:
  "k \<in> {''ConfigMap'', ''Secret''} \<Longrightarrow> k' \<in> {''ConfigMap'', ''Secret''} \<Longrightarrow>
     k @ ''/'' @ n = k' @ ''/'' @ n' \<longleftrightarrow> k = k' \<and> n = n'"
  by auto

definition ref_key :: "reference \<Rightarrow> string \<times> string" where
  "ref_key r = (rf_kind r, rf_name r)"

lemma read_reference_key: "ref_key (fst (read_reference k ns kn w)) = kn"
  by (auto simp: read_reference_def ref_key_def split: prod.splits sum.splits)

lemma record_refs_once:
  assumes "\<And>kn. kn \<in> set kns \<union> set (map ref_key refs) \<Longrightarrow> fst kn \<in> {''ConfigMap'', ''Secret''}"
    and "distinct (map ref_key refs)" "set seen = (\<lambda>(k, n). k @ ''/'' @ n) ` set (map ref_key refs)"
  shows "distinct (map ref_key (fst (record_refs k ns kns seen refs w))) \<and>
    set (map ref_key (fst (record_refs k ns kns seen refs w))) =
      set (map ref_key refs) \<union> {kn \<in> set kns. snd kn \<noteq> []}"
  using assms
proof (induction kns arbitrary: seen refs w)
  case (Cons kn kns)
  obtain kind name where kn: "kn = (kind, name)" by fastforce
  show ?case
  proof (cases "name = [] \<or> kind @ ''/'' @ name \<in> set seen")
    case True
    have "name = [] \<or> kn \<in> set (map ref_key refs)"
    proof (rule disjE [OF True])
      assume "kind @ ''/'' @ name \<in> set seen"
      then obtain k' n' where "(k', n') \<in> set (map ref_key refs)" "kind @ ''/'' @ name = k' @ ''/'' @ n'"
        using Cons.prems(3) by auto
      moreover from this have "k' \<in> {''ConfigMap'', ''Secret''}" "kind \<in> {''ConfigMap'', ''Secret''}"
        using Cons.prems(1) [of "(k', n')"] Cons.prems(1) [of kn] kn by auto
      ultimately show ?thesis using ref_id_inj [of kind k' name n'] kn by auto
    qed simp
    with True kn Cons.IH [of refs seen w] Cons.prems show ?thesis by (auto simp: Let_def)
  next
    case False
    obtain ref w' where r: "read_reference k ns (kind, name) w = (ref, w')" by fastforce
    then have key: "ref_key ref = kn" using read_reference_key [of k ns "(kind, name)" w] kn by simp
    have new: "kn \<notin> set (map ref_key refs)"
    proof
      assume "kn \<in> set (map ref_key refs)"
      then have "(\<lambda>(k, n). k @ ''/'' @ n) kn \<in> set seen" unfolding Cons.prems(3) by (rule imageI)
      with False kn show False by simp
    qed
    have "distinct (map ref_key (fst (record_refs k ns kns ((kind @ ''/'' @ name) # seen) (refs @ [ref]) w'))) \<and>
        set (map ref_key (fst (record_refs k ns kns ((kind @ ''/'' @ name) # seen) (refs @ [ref]) w'))) =
        set (map ref_key (refs @ [ref])) \<union> {kn \<in> set kns. snd kn \<noteq> []}"
    proof (rule Cons.IH)
      show "fst x \<in> {''ConfigMap'', ''Secret''}"
        if "x \<in> set kns \<union> set (map ref_key (refs @ [ref]))" for x
        using that Cons.prems(1) [of x] key by auto
      show "distinct (map ref_key (refs @ [ref]))" using Cons.prems(2) new key by simp
      show "set ((kind @ ''/'' @ name) # seen) = (\<lambda>(k, n). k @ ''/'' @ n) ` set (map ref_key (refs @ [ref]))"
        using Cons.prems(3) key kn by simp
    qed
    with False r kn key show ?thesis by (auto simp: Let_def)
  qed
qed simp

text \<open>Every ConfigMap and Secret the pod refers to by name is reported, each once, and nothing
  else is, whether the reference comes from \<open>envFrom\<close>, from a variable or from a volume.\<close>

lemma configReferences_each_once:
  "let refs = fst (record_refs k ns (pod_references spec) [] [] w) in
     distinct (map ref_key refs) \<and> set (map ref_key refs) = {kn \<in> set (pod_references spec). snd kn \<noteq> []}"
  using record_refs_once [of "pod_references spec" "[]" "[]" k ns w] pod_references_kinds
  by (auto simp: Let_def)

end
