(* ===== verification/ControllerProps.thy ===== *)
theory ControllerProps
  imports InvestigatorController CollectorProps
begin

text \<open>
  What single reconciles promise and where they fall short: the sufficiency gate on evidence that
  the collector gathered, findings within the schema, and labels the API server refuses.
\<close>

subsection \<open>The sufficiency gate\<close>

lemma buildInput_requirements:
  "st_evidence (dg_status d) = Some ev \<Longrightarrow>
     in_requirements (buildInput d cfg pricing) = map requirement (filter ei_required (ev_items ev))"
  by (simp add: buildInput_def Let_def)

text \<open>C37. The sufficiency gate never holds a submission back: on evidence gathered by \<open>Collect\<close>, and on
  that recorded for a pod that is gone, every requirement of the input is collected or already
  marked as not obtainable, because a required item that was not collected is unavailable; so no
  required evidence is ever demanded from the model.\<close>

theorem gate_never_demands:
  assumes "st_evidence (dg_status d) \<in> {Some (fst (Collect k target w)), Some evidence_without_pod}"
  shows "missing_obtainable (in_requirements (buildInput d cfg pricing)) = []"
proof -
  obtain ev where ev: "st_evidence (dg_status d) = Some ev" "ev = fst (Collect k target w) \<or> ev = evidence_without_pod"
    using assms by auto
  have fits: "ei_status i \<in> set [CollectionCollected, CollectionUnavailable]"
    if "item_fits ft i" "ei_required i" for ft i
    using that by (auto simp: item_fits_def)
  have "list_all (\<lambda>i. ei_required i \<longrightarrow> ei_status i \<in> set [CollectionCollected, CollectionUnavailable]) (ev_items ev)"
  proof (cases "ev = evidence_without_pod")
    case False
    with ev(2) have "list_all (item_fits (tg_failureType target)) (ev_items ev)"
      by (simp add: Collect_item_fits)
    then show ?thesis using fits by (auto simp: list_all_iff)
  qed (simp add: evidence_without_pod_def)
  then have "list_all (\<lambda>r. ar_collected r \<or> \<not> ar_obtainable r) (in_requirements (buildInput d cfg pricing))"
    unfolding buildInput_requirements [OF ev(1)]
    by (auto simp: list_all_iff requirement_def)
  then show ?thesis by (auto simp: missing_obtainable_def filter_empty_conv list_all_iff)
qed

definition example_diagnosis :: Diagnosis where
  "example_diagnosis =
     \<lparr>dg_name = ''d'', dg_namespace = ''shop'', dg_resourceVersion = ''1'', dg_labels = [],
      dg_creationTimestamp = 0,
      dg_spec = \<lparr>ds_target = \<lparr>tr_name = ''web-1'', tr_uid = [], tr_owner = None\<rparr>,
                 ds_failureType = FailureImagePullBackOff, ds_container = ''app'', ds_signature = ''00000000'',
                 ds_observedAt = 0, ds_policyRef = ''default''\<rparr>,
      dg_status = DiagnosisStatus_zero\<lparr>st_phase := PhaseEnriched, st_evidence := Some evidence_without_pod\<rparr>\<rparr>"

definition example_config :: AgentConfig where
  "example_config =
     \<lparr>ag_enabled = True, ag_maxToolCalls = 2, ag_maxTokens = 0, ag_maxCostMicroUSD = 0,
      ag_timeoutSeconds = 60, ag_judgeEnabled = False\<rparr>"

definition example_policy :: HealingPolicy where
  "example_policy =
     \<lparr>hp_name = ''default'', hp_namespace = ''shop'',
      hp_spec =
        \<lparr>ps_failureTypes = [],
         ps_analyzer = \<lparr>ac_provider = ''rules'', ac_escalateToProvider = [], ac_minRuleConfidence = 60\<rparr>,
         ps_agent = example_config,
         ps_remediation = \<lparr>rc_mode = RemediationDryRun, rc_minConfidence = 80, rc_allowedActions = [],
            rc_maxBlastRadius = BlastRadiusWorkload, rc_requireReversible = True, rc_verificationWindow = 0\<rparr>,
         ps_maxDiagnosesPerHour = 10, ps_resolvedRetention = 0\<rparr>,
      hp_status = \<lparr>hs_activeDiagnoses = 0, hs_diagnosesThisHour = 0, hs_conditions = []\<rparr>\<rparr>"

definition free :: Pricing where
  "free = \<lparr>pg_inputMicroUSDPerMillion = 0, pg_outputMicroUSDPerMillion = 0\<rparr>"

theorem gate_never_demands_witness:
  "missing_obtainable (in_requirements (buildInput example_diagnosis example_config free)) = []"
  by (rule gate_never_demands) (simp add: example_diagnosis_def)

subsection \<open>Findings within the schema\<close>

lemma stop_reasons_short: "list_all (\<lambda>s. length s \<le> 256) (''concluded'' # stop_reasons)"
  by (simp add: stop_reasons_def)

lemma proposable_schema: "list_all (\<lambda>s. ActionType_schema (ActionType_of s)) proposableActions"
  by code_simp

lemma action_schema:
  "action_ok proposableActions a \<Longrightarrow> Action_schema (toAPIAction a)"
  using proposable_schema
  by (auto simp: action_ok_def Action_schema_def toAPIAction_def list_all_iff intro: max_length_bytes)

lemma hypothesis_schema:
  assumes "hypothesis_ok ledger proposableActions h" "1 \<le> hy_rank h" "hy_rank h \<le> 5"
  shows "list_all Hypothesis_schema (toAPIHypotheses [h])"
proof -
  have "wrap32 (hy_rank h) = hy_rank h" "wrap32 (hy_confidencePercent h) = hy_confidencePercent h"
    using assms by (auto simp: hypothesis_ok_def is_int32_def intro!: wrap32_id)
  then show ?thesis
    using assms action_schema
    by (auto simp: toAPIHypotheses_def Hypothesis_schema_def hypothesis_ok_def list_all_iff intro: max_length_bytes)
qed

lemma ranked_range: "ranked hs \<Longrightarrow> length hs \<le> 5 \<Longrightarrow> h \<in> set hs \<Longrightarrow> 1 \<le> hy_rank h \<and> hy_rank h \<le> 5"
proof -
  assume r: "ranked hs" "length hs \<le> 5" and h: "h \<in> set hs"
  have "hy_rank h \<in> set (map (\<lambda>i. int i + 1) [0..<length hs])"
    using r(1) h unfolding ranked_def by (metis image_eqI list.set_map)
  then show ?thesis using r(2) by auto
qed

text \<open>What an investigation without an error hands to the API.\<close>

lemma outcome_schema:
  assumes "outcome_ok inp n f None" "in_allowedActions inp = proposableActions"
  shows "list_all Hypothesis_schema (toAPIHypotheses (fd_hypotheses f))" "length (fd_stopReason f) \<le> 256"
    "fd_hypotheses f \<noteq> [] \<or> fd_budgetExhausted f"
proof -
  have c: "concluded_ok inp n f \<or> exhausted_ok f" using assms(1) by (simp add: outcome_ok_def)
  then show "length (fd_stopReason f) \<le> 256"
    using stop_reasons_short by (auto simp: concluded_ok_def exhausted_ok_def list_all_iff)
  show "fd_hypotheses f \<noteq> [] \<or> fd_budgetExhausted f"
    using c by (auto simp: concluded_ok_def exhausted_ok_def)
  show "list_all Hypothesis_schema (toAPIHypotheses (fd_hypotheses f))"
    using c
  proof
    assume ok: "concluded_ok inp n f"
    have "list_all Hypothesis_schema (toAPIHypotheses [h])" if "h \<in> set (fd_hypotheses f)" for h
      using ok ranked_range [of "fd_hypotheses f" h] that assms(2)
      by (intro hypothesis_schema [where ledger = "cited_from (evidence_ids inp n)"])
        (auto simp: concluded_ok_def list_all_iff)
    then show ?thesis by (auto simp: toAPIHypotheses_def list_all_iff)
  qed (simp add: exhausted_ok_def toAPIHypotheses_def)
qed

lemma buildInput_frame [simp]:
  "in_allowedActions (buildInput d cfg pricing) = proposableActions"
  "bd_maxToolCalls (in_budget (buildInput d cfg pricing)) = ag_maxToolCalls cfg"
  by (simp_all add: buildInput_def Let_def split: option.splits)

lemma budget_fits_buildInput: "is_int32 (ag_maxToolCalls cfg) \<Longrightarrow> budget_fits (buildInput d cfg pricing)"
  by (simp add: budget_fits_def is_int32_def is_int64_def)

subsection \<open>Labels\<close>

text \<open>The value of a label has at most 63 characters.\<close>

definition label_value_fits :: "string \<Rightarrow> bool" where
  "label_value_fits v \<longleftrightarrow> length v \<le> 63"

text \<open>C38. The labels of a diagnosis fit precisely when the name of the workload has at most 63
  characters: the object name is bounded, but the label takes the workload's name whole, so the
  API server refuses every diagnosis of a workload with a longer name.\<close>

theorem buildDiagnosis_label_limit:
  assumes "sg_failureType signal \<in> set FailureTypes" "length signature = 8"
  shows "list_all (\<lambda>l. label_value_fits (snd l))
      (dg_labels (buildDiagnosis pod workload signal policy name signature now)) \<longleftrightarrow>
    length (wr_name workload) \<le> 63"
proof -
  have "list_all (\<lambda>ft. length (FailureType_str ft) \<le> 63) FailureTypes" by code_simp
  then show ?thesis using assms by (auto simp: buildDiagnosis_def label_value_fits_def list_all_iff)
qed

theorem buildDiagnosis_label_limit_witness:
  "\<not> list_all (\<lambda>l. label_value_fits (snd l))
      (dg_labels (buildDiagnosis (Pod_named ''shop'' ''web-1'')
         \<lparr>wr_kind = ''Deployment'', wr_name = replicate 64 CHR ''w'', wr_uid = []\<rparr>
         \<lparr>sg_failureType = FailureOOMKilled, sg_container = [], sg_reason = [], sg_observedReason = [],
          sg_message = [], sg_exitCode = None, sg_restartCount = 0\<rparr>
         example_policy ''n'' ''00000000'' 0))"
  by (subst buildDiagnosis_label_limit) (simp_all add: FailureTypes_def)

end
