(* ===== verification/Frames.thy ===== *)
theory Frames
  imports ControllerProps
begin

text \<open>
  What the controllers leave alone. \<open>H\<close> is any view of the world, such as the stored diagnoses; the locale
  \<open>undisturbed\<close> says that the read requests and the clock do not change it, and concludes the same of every
  part of a reconcile that only reads: resolving the workload, the policy and the rate limit, the target
  of a collection, and a whole investigation.
\<close>

text \<open>The clock and the context of an investigation leave the store alone.\<close>

definition quiet :: "('w \<Rightarrow> 'h) \<Rightarrow> 'w env \<Rightarrow> bool" where
  "quiet H E \<longleftrightarrow>
     (\<forall>w. H (snd (env_now E w)) = H w) \<and> (\<forall>w. H (snd (env_ctxErr E w)) = H w) \<and>
     (\<forall>t w. H (env_withTimeout E t w) = H w)"

definition unchanged :: "('w \<Rightarrow> 'h) \<Rightarrow> 'w \<Rightarrow> 'w \<Rightarrow> bool" where
  "unchanged H w w' \<longleftrightarrow> H w' = H w"

locale undisturbed = reader k "unchanged H" "\<lambda>_. True" for k :: "'w kube" and H :: "'w \<Rightarrow> 'h" +
  assumes clock: "H (snd (kNow k w)) = H w"
    and get_diagnosis: "H (snd (kGetDiagnosis k ns n w)) = H w"
    and get_policy: "H (snd (kGetPolicy k ns n w)) = H w"
    and policy_range: "kGetPolicy k ns n w = (Inr p, w') \<Longrightarrow> is_int32 (ag_maxToolCalls (ps_agent (hp_spec p)))"
    and list_policies: "H (snd (kListPolicies k ns w)) = H w"
begin

lemma resolveWorkload_H: "H (snd (resolveWorkload k pod w)) = H w"
proof (cases "DirectOwner pod")
  case (Some o')
  obtain kind name where o': "o' = (kind, name)" by fastforce
  obtain r w1 where g: "kGetReplicaSet k (pod_namespace pod) name w = (r, w1)" by fastforce
  then have "H w1 = H w" using get_replica_set [of w "pod_namespace pod" name] by (simp add: unchanged_def)
  then show ?thesis
    using Some o' g by (cases r) (simp_all add: resolveWorkload_def split: option.splits)
qed (simp add: resolveWorkload_def)

lemma policyFor_H: "H (snd (policyFor k ns w)) = H w"
proof -
  obtain r w1 where l: "kListPolicies k ns w = (r, w1)" by fastforce
  then have "H w1 = H w" using list_policies [of ns w] by simp
  then show ?thesis
    using l by (cases r) (simp_all add: policyFor_def split: list.splits option.splits)
qed

lemma withinRateLimit_H: "H (snd (withinRateLimit k ns p w)) = H w"
proof -
  obtain r w1 where l: "kListDiagnoses k ns w = (r, w1)" by fastforce
  then have 1: "H w1 = H w" using list_diagnoses [of w ns] by (simp add: unchanged_def)
  obtain t w2 where n: "kNow k w1 = (t, w2)" by fastforce
  then have "H w2 = H w" using clock [of w1] 1 by simp
  with l n 1 show ?thesis by (cases r) (simp_all add: withinRateLimit_def Let_def)
qed

lemma targetFor_H: "H (snd (targetFor k d w)) = H w"
proof -
  obtain r w1 where 1: "kGetPod k (dg_namespace d) (tr_name (ds_target (dg_spec d))) w = (r, w1)" by fastforce
  have "H w1 = H w"
    using get_pod [of w "dg_namespace d" "tr_name (ds_target (dg_spec d))"] 1 by (simp add: unchanged_def)
  then show ?thesis by (cases r) (simp_all add: targetFor_def 1 Let_def)
qed

lemma Call_H: "H (fst (snd (Call T k sc name a s))) = H (fst s)"
proof -
  obtain w calls where s: "s = (w, calls)" by fastforce
  obtain t1 w1 where 1: "kNow k w = (t1, w1)" by fastforce
  obtain r w2 where 2: "call_inner T k sc (length calls) name a w1 = (r, w2)" by fastforce
  obtain t3 w3 where 3: "kNow k w2 = (t3, w3)" by fastforce
  have "H w1 = H w" "H w2 = H w1" "H w3 = H w2"
    using clock [of w] clock [of w2] call_inner_R [of w1 T sc "length calls" name a] 1 2 3
    by (simp_all add: unchanged_def)
  then show ?thesis by (simp add: s Call_def 1 2 3 Let_def)
qed

lemma session_H:
  assumes "quiet H E"
  shows "session (NewInvestigator (lift_env E) M (broker T k sc)) (\<lambda>s n s'. H (fst (fst s')) = H (fst (fst s)))"
  by standard
    (use assms in \<open>simp_all add: quiet_def NewInvestigator_def lift_env_def broker_def Call_H\<close>)

end

end
