(* ===== verification/Pipeline.thy ===== *)
theory Pipeline
  imports Frames
begin

text \<open>
  The three controllers together. The abstract pipeline is a state machine on the set of all versions
  of all Diagnosis objects that were ever stored; the API server is the locale \<open>store\<close>, which allows
  stale reads and refuses a status update unless it carries the resource version of a stored object.
  Every reconcile refines the abstract pipeline, and its invariants are proved by rule induction.
\<close>

subsection \<open>The abstract pipeline\<close>

text \<open>A diagnosis as the detector opens it: named after its signature, with nothing in its status.\<close>

definition attributed :: "denv \<Rightarrow> Diagnosis \<Rightarrow> bool" where
  "attributed D d \<longleftrightarrow>
     (\<exists>kind workload.
        ds_signature (dg_spec d) =
          Signature (de_sha D) (dg_namespace d) kind workload (ds_container (dg_spec d)) (ds_failureType (dg_spec d)) \<and>
        dg_name d = DiagnosisName (de_ulower D) workload (ds_failureType (dg_spec d)) (ds_signature (dg_spec d)))"

text \<open>The evidence and the findings a stage may attach.\<close>

definition evidence_ok :: "Evidence \<Rightarrow> bool" where
  "evidence_ok ev \<longleftrightarrow>
     ev_items ev \<noteq> [] \<and> (ev_complete ev \<longleftrightarrow> ev_missingRequired ev = []) \<and>
     ev_missingRequired ev = map ei_kind (filter missing_item (ev_items ev))"

definition findings_ok :: "Findings \<Rightarrow> bool" where
  "findings_ok f \<longleftrightarrow>
     list_all Hypothesis_schema (toAPIHypotheses (fd_hypotheses f)) \<and>
     (fd_hypotheses f \<noteq> [] \<or> fd_budgetExhausted f)"

text \<open>One stage: the new version differs from the old one in what the stage writes and in the
  resource version.\<close>

inductive stage :: "Diagnosis \<Rightarrow> Diagnosis \<Rightarrow> bool" where
  Detect: "st_phase (dg_status d) = PhaseOther [] \<Longrightarrow>
    stage d ((detected now d)\<lparr>dg_resourceVersion := v\<rparr>)"
| Enrich: "st_phase (dg_status d) = PhaseDetected \<Longrightarrow> evidence_ok ev \<Longrightarrow>
    stage d ((enriched now ev d)\<lparr>dg_resourceVersion := v\<rparr>)"
| Conclude: "st_phase (dg_status d) = PhaseEnriched \<Longrightarrow> findings_ok f \<Longrightarrow>
    stage d ((hypothesized provider f calls now d)\<lparr>dg_resourceVersion := v\<rparr>)"

inductive act :: "denv \<Rightarrow> Diagnosis set \<Rightarrow> Diagnosis set \<Rightarrow> bool" for D where
  Open: "attributed D d \<Longrightarrow> dg_status d = DiagnosisStatus_zero \<Longrightarrow> act D V (insert d V)"
| Advance: "d \<in> V \<Longrightarrow> stage d d' \<Longrightarrow> act D V (insert d' V)"

abbreviation acts :: "denv \<Rightarrow> Diagnosis set \<Rightarrow> Diagnosis set \<Rightarrow> bool" where
  "acts D \<equiv> (act D)\<^sup>*\<^sup>*"

inductive_cases stageE: "stage d d'"
inductive_cases actE: "act D V V'"

text \<open>What holds of every version: the phase tells what has been recorded, and the facts of the
  failure are those it was opened with.\<close>

definition version_ok :: "denv \<Rightarrow> Diagnosis \<Rightarrow> bool" where
  "version_ok D d \<longleftrightarrow>
     attributed D d \<and>
     (let st = dg_status d in
      (case st_phase st of
         PhaseOther p \<Rightarrow> p = [] \<and> st = DiagnosisStatus_zero
       | PhaseDetected \<Rightarrow> st_evidence st = None \<and> st_investigation st = None \<and> st_hypotheses st = []
       | PhaseEnriched \<Rightarrow>
           st_evidence st \<noteq> None \<and> evidence_ok (the (st_evidence st)) \<and>
           st_investigation st = None \<and> st_hypotheses st = []
       | PhaseHypothesized \<Rightarrow>
           st_evidence st \<noteq> None \<and> evidence_ok (the (st_evidence st)) \<and> st_investigation st \<noteq> None \<and>
           list_all Hypothesis_schema (st_hypotheses st) \<and>
           (st_hypotheses st \<noteq> [] \<or> iv_budgetExhausted (the (st_investigation st)))
       | _ \<Rightarrow> False))"

lemma stage_frame:
  "stage d d' \<Longrightarrow> dg_name d' = dg_name d \<and> dg_namespace d' = dg_namespace d \<and> dg_spec d' = dg_spec d"
  by (auto elim!: stageE simp: detected_def enriched_def hypothesized_def)

lemma attributed_stage: "stage d d' \<Longrightarrow> attributed D d' = attributed D d"
  by (simp add: attributed_def stage_frame)

lemma version_ok_stage: "stage d d' \<Longrightarrow> version_ok D d \<Longrightarrow> version_ok D d'"
proof -
  assume s: "stage d d'" and ok: "version_ok D d"
  have a: "attributed D d'" using attributed_stage [OF s, of D] ok by (simp add: version_ok_def)
  from s show ?thesis
    by (cases rule: stage.cases)
      (use ok a in \<open>auto simp: version_ok_def detected_def enriched_def hypothesized_def Let_def
         DiagnosisStatus_zero_def findings_ok_def investigation_of_def toAPIHypotheses_def\<close>)
qed

lemma version_ok_open: "attributed D d \<Longrightarrow> dg_status d = DiagnosisStatus_zero \<Longrightarrow> version_ok D d"
  by (simp add: version_ok_def DiagnosisStatus_zero_def)

lemma version_ok_act: "act D V V' \<Longrightarrow> \<forall>d\<in>V. version_ok D d \<Longrightarrow> \<forall>d\<in>V'. version_ok D d"
  by (auto elim!: actE intro: version_ok_stage version_ok_open)

lemma version_ok_acts: "acts D V V' \<Longrightarrow> \<forall>d\<in>V. version_ok D d \<Longrightarrow> \<forall>d\<in>V'. version_ok D d"
  by (induction rule: rtranclp_induct) (blast dest: version_ok_act)+

subsection \<open>The API server\<close>

definition same_version :: "Diagnosis \<Rightarrow> Diagnosis \<Rightarrow> bool" where
  "same_version d d' \<longleftrightarrow>
     dg_namespace d = dg_namespace d' \<and> dg_name d = dg_name d' \<and> dg_resourceVersion d = dg_resourceVersion d'"

text \<open>\<open>H w\<close> holds every version of every diagnosis stored so far. A read returns some version, not
  always the latest; a creation stores the object without a status; a status update succeeds only
  with the resource version of a stored object, and changes only its status.\<close>

locale store = undisturbed k H for k :: "'w kube" and H :: "'w \<Rightarrow> Diagnosis set" +
  assumes got: "kGetDiagnosis k ns n w = (Inr d, w') \<Longrightarrow> d \<in> H w \<and> dg_namespace d = ns \<and> dg_name d = n"
    and create_failed: "kCreate k d w = (Inl e, w') \<Longrightarrow> H w' = H w"
    and created: "kCreate k d w = (Inr d', w') \<Longrightarrow>
      H w' = insert d' (H w) \<and> dg_name d' = dg_name d \<and> dg_namespace d' = dg_namespace d \<and>
      dg_spec d' = dg_spec d \<and> dg_status d' = DiagnosisStatus_zero"
    and update_failed: "kUpdateStatus k d w = (Inl e, w') \<Longrightarrow> H w' = H w"
    and updated: "kUpdateStatus k d w = (Inr d', w') \<Longrightarrow>
      H w' = insert d' (H w) \<and>
      (\<exists>d0\<in>H w. \<exists>v. same_version d0 d \<and> d' = d0\<lparr>dg_status := dg_status d, dg_resourceVersion := v\<rparr>)"
    and one_version: "d \<in> H w \<Longrightarrow> d' \<in> H w \<Longrightarrow> same_version d d' \<Longrightarrow> d = d'"
begin

lemma update_acts:
  assumes "d \<in> H w" "same_version d d1" "d1 = d\<lparr>dg_status := dg_status d1\<rparr>"
    and "\<And>v. stage d (d1\<lparr>dg_resourceVersion := v\<rparr>)"
  shows "acts D (H w) (H (snd (kUpdateStatus k d1 w)))"
proof -
  obtain r w' where u: "kUpdateStatus k d1 w = (r, w')" by fastforce
  show ?thesis
  proof (cases r)
    case (Inr d')
    with u obtain d0 v where 0: "d0 \<in> H w" "same_version d0 d1"
      "d' = d0\<lparr>dg_status := dg_status d1, dg_resourceVersion := v\<rparr>" "H w' = insert d' (H w)"
      using updated [of d1 w d' w'] by blast
    have "d0 = d" using one_version [OF 0(1) assms(1)] 0(2) assms(2) by (simp add: same_version_def)
    then have "d' = d1\<lparr>dg_resourceVersion := v\<rparr>" using 0(3) assms(3) by simp
    then have "act D (H w) (H w')" using Advance [OF assms(1)] assms(4) 0(4) by metis
    then show ?thesis using u by simp
  next
    case (Inl e)
    then show ?thesis using update_failed [of d1 w e w'] u by simp
  qed
qed

lemma open_diagnosis_acts:
  assumes "attributed D (buildDiagnosis pod wl sg p name sig 0)"
  shows "acts D (H w) (H (snd (open_diagnosis k pod wl sg p name sig w)))"
proof -
  obtain t w1 where 1: "kNow k w = (t, w1)" by fastforce
  obtain r w2 where 2: "kCreate k (buildDiagnosis pod wl sg p name sig t) w1 = (r, w2)" by fastforce
  have h1: "H w1 = H w" using clock [of w] 1 by simp
  show ?thesis
  proof (cases r)
    case (Inl e)
    then show ?thesis using create_failed [of _ w1 e w2] 2 h1 by (simp add: open_diagnosis_def 1)
  next
    case (Inr d)
    obtain t' w3 where 3: "kNow k w2 = (t', w3)" by fastforce
    have h3: "H w3 = H w2" using clock [of w2] 3 by simp
    have c: "H w2 = insert d (H w)" "dg_status d = DiagnosisStatus_zero" "attributed D d"
      using created [of _ w1 d w2] 2 Inr h1 assms by (auto simp: attributed_def buildDiagnosis_def)
    then have "act D (H w) (H w3)" using Open h3 by metis
    moreover have "acts D (H w3) (H (snd (kUpdateStatus k (detected t' d) w3)))"
    proof (rule update_acts)
      show "d \<in> H w3" using c(1) h3 by simp
      show "stage d ((detected t' d)\<lparr>dg_resourceVersion := v\<rparr>)" for v
        using c(2) by (intro Detect) (simp add: DiagnosisStatus_zero_def)
    qed (simp_all add: detected_def same_version_def)
    ultimately have "acts D (H w) (H (snd (kUpdateStatus k (detected t' d) w3)))" by (metis converse_rtranclp_into_rtranclp)
    then show ?thesis
      using Inr by (cases "kUpdateStatus k (detected t' d) w3") (simp add: open_diagnosis_def 1 2 3 split: sum.splits)
  qed
qed

lemma attributed_build:
  "name = DiagnosisName (de_ulower D) (wr_name wl) (sg_failureType sg) sig \<Longrightarrow>
   sig = Signature (de_sha D) (pod_namespace pod) (wr_kind wl) (wr_name wl) (sg_container sg) (sg_failureType sg) \<Longrightarrow>
   attributed D (buildDiagnosis pod wl sg p name sig now)"
  by (auto simp: attributed_def buildDiagnosis_def)

lemma attribute_failure_acts: "acts D (H w) (H (snd (attribute_failure D k pod sg p w)))"
proof -
  obtain r w1 where 1: "resolveWorkload k pod w = (r, w1)" by fastforce
  have h1: "H w1 = H w" using resolveWorkload_H [of pod w] 1 by simp
  show ?thesis
  proof (cases r)
    case (Inr wl)
    define sig where "sig = Signature (de_sha D) (pod_namespace pod) (wr_kind wl) (wr_name wl)
      (sg_container sg) (sg_failureType sg)"
    define name where "name = DiagnosisName (de_ulower D) (wr_name wl) (sg_failureType sg) sig"
    obtain g w2 where 2: "kGetDiagnosis k (pod_namespace pod) name w1 = (g, w2)" by fastforce
    obtain b w3 where 3: "withinRateLimit k (pod_namespace pod) p w2 = (b, w3)" by fastforce
    have h: "H w2 = H w" "H w3 = H w"
      using get_diagnosis [of "pod_namespace pod" name w1] withinRateLimit_H [of "pod_namespace pod" p w2] 2 3 h1
      by simp_all
    have "acts D (H w3) (H (snd (open_diagnosis k pod wl sg p name sig w3)))"
      by (rule open_diagnosis_acts) (rule attributed_build [OF name_def sig_def])
    then show ?thesis
      using h by (simp add: attribute_failure_def 1 2 3 Inr sig_def [symmetric] name_def [symmetric] Let_def
          split: sum.splits)
  qed (simp add: attribute_failure_def 1 h1)
qed

lemma PodReconciler_acts: "acts D (H w) (H (snd (PodReconciler_Reconcile D k ns n w)))"
proof -
  obtain r w1 where 1: "kGetPod k ns n w = (r, w1)" by fastforce
  obtain t w2 where 2: "kNow k w1 = (t, w2)" by fastforce
  have h1: "H w1 = H w" using get_pod [of w ns n] 1 by (simp add: unchanged_def)
  have h2: "H w2 = H w" using clock [of w1] 2 h1 by simp
  have p: "acts D (H w) (H (snd (case policyFor k (pod_namespace pod) w2 of
      (Inl e, w3) \<Rightarrow> finished (Some e) w3 | (Inr None, w3) \<Rightarrow> finished None w3
      | (Inr (Some policy), w3) \<Rightarrow> if \<not> policyCovers policy (sg_failureType sg) then finished None w3
          else attribute_failure D k pod sg policy w3)))" for pod sg
  proof -
    obtain q w3 where 3: "policyFor k (pod_namespace pod) w2 = (q, w3)" by fastforce
    have "H w3 = H w" using policyFor_H [of "pod_namespace pod" w2] 3 h2 by simp
    then show ?thesis
      using attribute_failure_acts [of D w3 pod sg] by (simp add: 3 split: sum.splits option.splits)
  qed
  show ?thesis
    using h1 h2 p by (simp add: PodReconciler_Reconcile_def 1 2 split: sum.splits option.splits)
qed

subsection \<open>The evidence controller\<close>

lemma enrich_acts:
  assumes "d \<in> H w" "st_phase (dg_status d) = PhaseDetected" "evidence_ok ev"
  shows "acts D (H w) (H (snd (update_error (kUpdateStatus k (enriched now ev d) w))))"
proof -
  have "acts D (H w) (H (snd (kUpdateStatus k (enriched now ev d) w)))"
  proof (rule update_acts [OF assms(1)])
    show "stage d ((enriched now ev d)\<lparr>dg_resourceVersion := v\<rparr>)" for v using assms(2,3) by (rule Enrich)
  qed (simp_all add: enriched_def same_version_def)
  then show ?thesis by (simp add: update_error_def)
qed

lemma evidence_ok_Collect: "evidence_ok (fst (Collect k' t w))"
proof -
  have "ev_items (fst (Collect k' t w)) \<noteq> []"
    using loop_items_kinds [of k' t allKinds w] by (auto simp: Collect_items allKinds_def)
  then show ?thesis by (simp add: evidence_ok_def Collect_complete Collect_missing Collect_items)
qed

lemma evidence_ok_without_pod: "evidence_ok evidence_without_pod"
  by (simp add: evidence_ok_def evidence_without_pod_def missing_item_def)

lemma EvidenceReconciler_acts: "acts D (H w) (H (snd (EvidenceReconciler_Reconcile k ns n w)))"
proof -
  obtain r w1 where 1: "kGetDiagnosis k ns n w = (r, w1)" by fastforce
  have h1: "H w1 = H w" using get_diagnosis [of ns n w] 1 by simp
  show ?thesis
  proof (cases "\<exists>d. r = Inr d \<and> st_phase (dg_status d) = PhaseDetected")
    case True
    then obtain d where d: "r = Inr d" "st_phase (dg_status d) = PhaseDetected" by blast
    have mem: "d \<in> H w" using got [of ns n w d w1] 1 d by simp
    obtain x w2 where 2: "targetFor k d w1 = (x, w2)" by fastforce
    have h2: "H w2 = H w" using targetFor_H [of d w1] 2 h1 by simp
    obtain t w3 where 3: "kNow k w2 = (t, w3)" by fastforce
    have h3: "H w3 = H w" using clock [of w2] 3 h2 by simp
    have gone: "acts D (H w) (H (snd (advanceWithoutPod k d w2)))"
      using enrich_acts [of d w3 evidence_without_pod D t] mem d(2) h3 evidence_ok_without_pod
      by (simp add: advanceWithoutPod_def 3)
    have full: "acts D (H w) (H (snd (case Collect k target w2 of (collected, w3) \<Rightarrow>
        case kNow k w3 of (now, w4) \<Rightarrow> update_error (kUpdateStatus k (enriched now collected d) w4))))" for target
    proof -
      obtain ev w4 where 4: "Collect k target w2 = (ev, w4)" by fastforce
      obtain t' w5 where 5: "kNow k w4 = (t', w5)" by fastforce
      have "H w5 = H w"
        using Collect_R [of w2 target] clock [of w4] 4 5 h2 by (simp add: unchanged_def)
      then show ?thesis
        using enrich_acts [of d w5 ev D t'] mem d(2) evidence_ok_Collect [of k target w2] by (simp add: 4 5)
    qed
    show ?thesis
      using gone full h2 by (cases x) (simp_all add: EvidenceReconciler_Reconcile_def 1 2 d)
  qed (use h1 in \<open>auto simp: EvidenceReconciler_Reconcile_def 1 split: sum.splits\<close>)
qed

subsection \<open>The investigator\<close>

lemma record_attempt_acts:
  assumes "findings_ok f"
  shows "acts D (H w) (H (snd (record_attempt provider k ns n f calls w)))"
proof -
  obtain r w1 where 1: "kGetDiagnosis k ns n w = (r, w1)" by fastforce
  have h1: "H w1 = H w" using get_diagnosis [of ns n w] 1 by simp
  show ?thesis
  proof (cases "\<exists>d. r = Inr d \<and> st_phase (dg_status d) = PhaseEnriched")
    case True
    then obtain d where d: "r = Inr d" "st_phase (dg_status d) = PhaseEnriched" by blast
    obtain t w2 where 2: "kNow k w1 = (t, w2)" by fastforce
    have h2: "H w2 = H w" using clock [of w1] 2 h1 by simp
    have mem: "d \<in> H w2" using got [of ns n w d w1] 1 d h2 by simp
    have "acts D (H w2) (H (snd (kUpdateStatus k (hypothesized provider f calls t d) w2)))"
    proof (rule update_acts [OF mem])
      show "stage d ((hypothesized provider f calls t d)\<lparr>dg_resourceVersion := v\<rparr>)" for v
        using d(2) assms by (rule Conclude)
    qed (simp_all add: hypothesized_def same_version_def)
    then show ?thesis
      using h2 by (cases "kUpdateStatus k (hypothesized provider f calls t d) w2")
        (simp add: record_attempt_def 1 2 d split: sum.splits)
  qed (use h1 in \<open>auto simp: record_attempt_def 1 split: sum.splits\<close>)
qed

lemma attempts_acts:
  assumes "\<And>w. acts D (H w) (H (snd (g w)))"
  shows "acts D (H w) (H (snd (attempts i g w)))"
proof (induction i arbitrary: w)
  case (Suc i)
  obtain e w1 where g: "g w = (e, w1)" by fastforce
  have "acts D (H w) (H w1)" using assms [of w] g by simp
  then show ?case using Suc [of w1] g by (auto split: option.splits intro: rtranclp_trans)
qed (use assms in simp)

lemma investigate_acts:
  assumes "quiet H (ir_env r)" "retries (ir_retry r)" "is_int32 (ag_maxToolCalls (ps_agent (hp_spec p)))"
  shows "acts D (H (fst s)) (H (fst (snd (investigate r M k ns n d p s))))"
proof -
  define inp where "inp = buildInput d (ps_agent (hp_spec p)) (ir_pricing r)"
  define sc where "sc = BindTo (ScopeForDiagnosis d (wrap64 (bd_maxToolCalls (in_budget inp) + brokerHeadroom)))"
  have fits: "budget_fits inp" unfolding inp_def using assms(3) by (rule budget_fits_buildInput)
  let ?iv = "NewInvestigator (lift_env (ir_env r)) M (broker (ir_tenv r) k sc)"
  obtain f e w1 calls m where run: "Run ?iv inp ((fst s, []), snd s) = ((f, e), ((w1, calls), m))"
    by (metis prod.exhaust)
  have h: "H w1 = H (fst s)"
    using session.Run_S [OF session_H [OF assms(1)] fits run] by simp
  have "acts D (H (fst s)) (H (snd (record_findings (ir_retry r) (md_name M) k ns n f calls w1)))" if "e = None"
  proof -
    have "\<exists>n. outcome_ok inp n f None" using Run_ok(2) [OF fits run] that by auto
    then obtain n_ok where "outcome_ok inp n_ok f None" by blast
    from outcome_schema [OF this] have ok: "findings_ok f" by (simp add: inp_def findings_ok_def)
    obtain i where "record_findings (ir_retry r) (md_name M) k ns n f calls w1 =
        attempts i (record_attempt (md_name M) k ns n f (take maxRecordedToolCalls calls)) w1"
      using assms(2) unfolding retries_def record_findings_def by blast
    moreover have "acts D (H w1) (H (snd (attempts i
        (record_attempt (md_name M) k ns n f (take maxRecordedToolCalls calls)) w1)))"
      by (rule attempts_acts) (rule record_attempt_acts [OF ok])
    ultimately show ?thesis using h by simp
  qed
  then show ?thesis
    by (cases "record_findings (ir_retry r) (md_name M) k ns n f calls w1")
      (simp add: investigate_def inp_def [symmetric] sc_def [symmetric] Let_def run h split: option.splits)
qed

lemma InvestigatorReconciler_acts:
  assumes "quiet H (ir_env r)" "retries (ir_retry r)"
  shows "acts D (H (fst s)) (H (fst (snd (InvestigatorReconciler_Reconcile r k ns n s))))"
proof -
  obtain x w1 where 1: "kGetDiagnosis k ns n (fst s) = (x, w1)" by fastforce
  have h1: "H w1 = H (fst s)" using get_diagnosis [of ns n "fst s"] 1 by simp
  show ?thesis
  proof (cases x)
    case (Inr d)
    obtain y w2 where 2: "kGetPolicy k (dg_namespace d) (ds_policyRef (dg_spec d)) w1 = (y, w2)" by fastforce
    have h2: "H w2 = H (fst s)"
      using get_policy [of "dg_namespace d" "ds_policyRef (dg_spec d)" w1] 2 h1 by simp
    show ?thesis
    proof (cases y)
      case y: (Inr p)
      have "acts D (H (fst (w2, snd s))) (H (fst (snd (investigate r M k ns n d p (w2, snd s)))))" for M
        by (rule investigate_acts [OF assms]) (rule policy_range [of "dg_namespace d"], use 2 y in simp)
      then show ?thesis
        using h1 h2 by (simp add: InvestigatorReconciler_Reconcile_def 1 2 Inr y split: option.splits)
    qed (use h1 h2 in \<open>simp add: InvestigatorReconciler_Reconcile_def 1 2 Inr\<close>)
  qed (use h1 in \<open>simp add: InvestigatorReconciler_Reconcile_def 1\<close>)
qed

end

subsection \<open>A cluster\<close>

text \<open>An API server as a list of versions, each with its position as resource version, that answers
  with the latest; the rest of the cluster is a list of pods and of policies.\<close>

record cluster =
  cl_pods :: "Pod list"
  cl_policies :: "HealingPolicy list"
  cl_versions :: "Diagnosis list"
  cl_clock :: int

definition stored :: "cluster \<Rightarrow> Diagnosis list" where
  "stored w = map (\<lambda>(i, d). d\<lparr>dg_resourceVersion := itoa (int i)\<rparr>) (enumerate 0 (cl_versions w))"

definition latest :: "cluster \<Rightarrow> string \<Rightarrow> string \<Rightarrow> Diagnosis option" where
  "latest w ns n = List.find (\<lambda>d. dg_namespace d = ns \<and> dg_name d = n) (rev (stored w))"

definition append_version :: "Diagnosis \<Rightarrow> cluster \<Rightarrow> Diagnosis \<times> cluster" where
  "append_version d w =
     (let d' = d\<lparr>dg_resourceVersion := itoa (int (length (cl_versions w)))\<rparr>
      in (d', w\<lparr>cl_versions := cl_versions w @ [d']\<rparr>))"

definition api_error :: "errkind \<Rightarrow> goerror" where
  "api_error kind = \<lparr>err_kind = kind, err_msg = ''refused''\<rparr>"

definition found :: "errkind \<Rightarrow> 'a option \<Rightarrow> 'w \<Rightarrow> (goerror + 'a) \<times> 'w" where
  "found kind x w = (case x of None \<Rightarrow> (Inl (api_error kind), w) | Some y \<Rightarrow> (Inr y, w))"

definition cluster_kube :: "cluster kube" where
  "cluster_kube =
     (failing (api_error ENotFound))
       \<lparr>kGetPod := \<lambda>ns n w. found ENotFound
          (List.find (\<lambda>p. pod_namespace p = ns \<and> pod_name p = n) (cl_pods w)) w,
        kListPolicies := \<lambda>ns w. (Inr (filter (\<lambda>p. hp_namespace p = ns) (cl_policies w)), w),
        kGetPolicy := \<lambda>ns n w. found ENotFound
          (List.find (\<lambda>p. hp_namespace p = ns \<and> hp_name p = n \<and>
             is_int32 (ag_maxToolCalls (ps_agent (hp_spec p)))) (cl_policies w)) w,
        kListDiagnoses := \<lambda>ns w. (Inr (filter (\<lambda>d. dg_namespace d = ns) (stored w)), w),
        kGetDiagnosis := \<lambda>ns n w. found ENotFound (latest w ns n) w,
        kCreate := \<lambda>d w.
          (if latest w (dg_namespace d) (dg_name d) \<noteq> None then (Inl (api_error EAlreadyExists), w)
           else apfst Inr (append_version (d\<lparr>dg_status := DiagnosisStatus_zero,
                  dg_creationTimestamp := cl_clock w\<rparr>) w)),
        kUpdateStatus := \<lambda>d w.
          (case latest w (dg_namespace d) (dg_name d) of
             None \<Rightarrow> (Inl (api_error ENotFound), w)
           | Some d0 \<Rightarrow>
               if dg_resourceVersion d0 \<noteq> dg_resourceVersion d then (Inl (api_error EConflict), w)
               else apfst Inr (append_version (d0\<lparr>dg_status := dg_status d\<rparr>) w)),
        kNow := \<lambda>w. (cl_clock w, w\<lparr>cl_clock := cl_clock w + 1\<rparr>)\<rparr>"

lemma stored_append:
  "append_version d w = (d', w') \<Longrightarrow>
     stored w' = stored w @ [d'] \<and> d' = d\<lparr>dg_resourceVersion := itoa (int (length (cl_versions w)))\<rparr>"
  by (auto simp: append_version_def stored_def Let_def enumerate_append_eq)

lemma stored_clock: "stored (w\<lparr>cl_clock := t\<rparr>) = stored w"
  by (simp add: stored_def)

lemma found_simps [simp]: "snd (found kind x w) = w" "found kind x w = (Inr y, w') \<longleftrightarrow> x = Some y \<and> w' = w"
  by (auto simp: found_def split: option.splits)

lemma find_in: "List.find P xs = Some x \<Longrightarrow> P x \<and> x \<in> set xs"
  by (induction xs) (auto split: if_splits)

lemma latest_stored: "latest w ns n = Some d \<Longrightarrow> d \<in> set (stored w) \<and> dg_namespace d = ns \<and> dg_name d = n"
  unfolding latest_def by (drule find_in) simp

lemma stored_one_version:
  assumes "d \<in> set (stored w)" "d' \<in> set (stored w)" "dg_resourceVersion d = dg_resourceVersion d'"
  shows "d = d'"
proof -
  have "\<exists>i < length (cl_versions w). d = (cl_versions w ! i)\<lparr>dg_resourceVersion := itoa (int i)\<rparr>"
    if "d \<in> set (stored w)" for d
    using that by (force simp: stored_def in_set_enumerate_eq)
  from this [OF assms(1)] this [OF assms(2)] show ?thesis
    using assms(3) by (auto simp: itoa_def)
qed

interpretation cluster: store cluster_kube "\<lambda>w. set (stored w)"
proof
  fix d d' w w' e
  show "kCreate cluster_kube d w = (Inl e, w') \<Longrightarrow> set (stored w') = set (stored w)"
    by (auto simp: cluster_kube_def apfst_def map_prod_def split: if_splits prod.splits)
  show "kCreate cluster_kube d w = (Inr d', w') \<Longrightarrow>
      set (stored w') = insert d' (set (stored w)) \<and> dg_name d' = dg_name d \<and> dg_namespace d' = dg_namespace d \<and>
      dg_spec d' = dg_spec d \<and> dg_status d' = DiagnosisStatus_zero"
    by (auto simp: cluster_kube_def apfst_def map_prod_def dest!: stored_append split: if_splits prod.splits)
  show "kUpdateStatus cluster_kube d w = (Inl e, w') \<Longrightarrow> set (stored w') = set (stored w)"
    by (auto simp: cluster_kube_def apfst_def map_prod_def split: if_splits prod.splits option.splits)
  show "kUpdateStatus cluster_kube d w = (Inr d', w') \<Longrightarrow>
      set (stored w') = insert d' (set (stored w)) \<and>
      (\<exists>d0\<in>set (stored w). \<exists>v. same_version d0 d \<and> d' = d0\<lparr>dg_status := dg_status d, dg_resourceVersion := v\<rparr>)"
    by (auto simp: cluster_kube_def apfst_def map_prod_def same_version_def dest!: stored_append latest_stored
        split: if_splits prod.splits option.splits)
  show "d = d'" if "d \<in> set (stored w)" "d' \<in> set (stored w)" "same_version d d'"
    using that stored_one_version by (simp add: same_version_def)
qed (auto simp: cluster_kube_def failing_def unchanged_def stored_clock find_Some_iff dest: latest_stored)

subsection \<open>The operator\<close>

text \<open>One reconcile of one of the three controllers, and a sequence of them in any order.\<close>

datatype reconcile_event =
  DetectEvent string string | EnrichEvent string string | InvestigateEvent string string

fun reconcile ::
    "denv \<Rightarrow> ('w, 'm, 'p) InvestigatorReconciler \<Rightarrow> 'w kube \<Rightarrow> 'w \<times> 'm \<Rightarrow> reconcile_event \<Rightarrow> 'w \<times> 'm" where
  "reconcile D r k s (DetectEvent ns n) = (snd (PodReconciler_Reconcile D k ns n (fst s)), snd s)"
| "reconcile D r k s (EnrichEvent ns n) = (snd (EvidenceReconciler_Reconcile k ns n (fst s)), snd s)"
| "reconcile D r k s (InvestigateEvent ns n) = snd (InvestigatorReconciler_Reconcile r k ns n s)"

lemma reconcile_acts:
  assumes "store k H" "quiet H (ir_env r)" "retries (ir_retry r)"
  shows "acts D (H (fst s)) (H (fst (reconcile D r k s ev)))"
  using store.PodReconciler_acts [OF assms(1)] store.EvidenceReconciler_acts [OF assms(1)]
    store.InvestigatorReconciler_acts [OF assms]
  by (cases ev) simp_all

lemma run_acts:
  assumes "store k H" "quiet H (ir_env r)" "retries (ir_retry r)"
  shows "acts D (H (fst s)) (H (fst (foldl (reconcile D r k) s evs)))"
proof (induction evs arbitrary: s)
  case (Cons ev evs)
  show ?case using reconcile_acts [OF assms, of D s ev] Cons [of "reconcile D r k s ev"] by simp
qed simp

text \<open>C2. The controllers implement the abstract pipeline: over an API server that may answer a read
  with a stale version and accepts a status update only with a stored resource version, whatever
  one reconcile of any controller does to the stored diagnoses is a sequence of abstract steps, in
  which a diagnosis is opened with a name derived from its signature and an existing version only
  ever advances by one stage, keeping its spec.\<close>

theorem reconcile_refines_pipeline:
  assumes "store k H" "quiet H (ir_env r)" "retries (ir_retry r)"
  shows "acts D (H (fst s)) (H (fst (reconcile D r k s ev)))"
  by (rule reconcile_acts [OF assms])

text \<open>C1. The phase of a diagnosis never lies: after any sequence of reconciles, in any order and on any
  objects, every version of every stored diagnosis is named after its signature, has evidence with
  a truthful account of what is missing once it is enriched, and once it is hypothesized carries
  hypotheses within the schema or the mark of an exhausted budget.\<close>

theorem pipeline_versions_ok:
  assumes "store k H" "quiet H (ir_env r)" "retries (ir_retry r)" "H (fst s) = {}"
    and "d \<in> H (fst (foldl (reconcile D r k) s evs))"
  shows "version_ok D d"
  using version_ok_acts [OF run_acts [OF assms(1-3), of D s evs]] assms(4,5) by simp

definition example_reconciler :: "(cluster, unit Request list, unit) InvestigatorReconciler" where
  "example_reconciler =
     \<lparr>ir_model = Some (ScriptedModel example_script), ir_pricing = free,
      ir_env = \<lparr>env_now = kNow cluster_kube, env_withTimeout = \<lambda>t w. w, env_ctxErr = \<lambda>w. (False, w),
                env_uprint = \<lambda>_. True, env_jerr = \<lambda>_. []\<rparr>,
      ir_tenv = example_tenv, ir_retry = attempts 4\<rparr>"

definition example_cluster :: cluster where
  "example_cluster =
     \<lparr>cl_pods = [(pod_probed 0 10 3 [cs_crashing])\<lparr>pod_namespace := ''shop''\<rparr>], cl_policies = [example_policy],
      cl_versions = [], cl_clock = 0\<rparr>"

definition example_denv :: denv where
  "example_denv = \<lparr>de_sha = \<lambda>t. replicate 32 CHR 0x00, de_ulower = id\<rparr>"

lemma example_operator:
  "store cluster_kube (\<lambda>w. set (stored w))" "quiet (\<lambda>w. set (stored w)) (ir_env example_reconciler)"
  "retries (ir_retry example_reconciler)" "set (stored example_cluster) = {}"
proof -
  show "store cluster_kube (\<lambda>w. set (stored w))" by (rule cluster.store_axioms)
  show "quiet (\<lambda>w. set (stored w)) (ir_env example_reconciler)"
    by (simp add: quiet_def example_reconciler_def cluster.clock)
  show "retries (ir_retry example_reconciler)" by (auto simp: retries_def example_reconciler_def)
  show "set (stored example_cluster) = {}" by (simp add: stored_def example_cluster_def)
qed

theorem reconcile_refines_pipeline_witness:
  "acts example_denv (set (stored example_cluster))
     (set (stored (fst (reconcile example_denv example_reconciler cluster_kube (example_cluster, [])
        (DetectEvent ''shop'' ''web-1'')))))"
  using reconcile_refines_pipeline [OF example_operator(1-3), of example_denv "(example_cluster, [])"]
  by (simp del: reconcile.simps)

theorem pipeline_versions_ok_witness:
  "\<exists>d. d \<in> set (stored (fst (foldl (reconcile example_denv example_reconciler cluster_kube) (example_cluster, [])
       [DetectEvent ''shop'' ''web-1'']))) \<and> version_ok example_denv d"
proof -
  let ?w = "foldl (reconcile example_denv example_reconciler cluster_kube) (example_cluster, [])
    [DetectEvent ''shop'' ''web-1'']"
  have "stored (fst ?w) \<noteq> []" by code_simp
  then have d: "hd (stored (fst ?w)) \<in> set (stored (fst ?w))" by simp
  have "set (stored (fst (example_cluster, []))) = {}" using example_operator(4) by simp
  from pipeline_versions_ok [OF example_operator(1-3) this d] d show ?thesis by blast
qed

definition example_signal :: Signal where
  "example_signal =
     \<lparr>sg_failureType = FailureOOMKilled, sg_container = [], sg_reason = [], sg_observedReason = [],
      sg_message = [], sg_exitCode = None, sg_restartCount = 0\<rparr>"

end
