(* ===== verification/Manager.thy ===== *)
theory Manager
  imports Pipeline
begin

text \<open>
  The controllers as the manager of \<open>controller-runtime\<close> runs them: their \<open>SetupWithManager\<close>, and a step
  relation on the cluster and the work queues of the two controllers that watch diagnoses. A change of an
  object is an event for every controller whose filter lets it pass, and puts the object's key into that
  controller's queue; a worker takes a key out, reconciles it and puts it back when the reconcile fails or
  asks for it. The locale \<open>cache\<close> is what that needs of the client: \<open>L w\<close> is the latest version of every
  diagnosis, which reads return and events follow.

  The invariant is that no wakeup is lost: a diagnosis that a controller should act on is in its queue.
\<close>

subsection \<open>Registration\<close>

datatype 'o watch_event = Created 'o | Updated 'o 'o | Deleted 'o | Generic 'o

text \<open>\<open>predicate.NewPredicateFuncs\<close>: updates are judged by the new object.\<close>

fun NewPredicateFuncs :: "('o \<Rightarrow> bool) \<Rightarrow> 'o watch_event \<Rightarrow> bool" where
  "NewPredicateFuncs f (Created x) = f x"
| "NewPredicateFuncs f (Updated x y) = f y"
| "NewPredicateFuncs f (Deleted x) = f x"
| "NewPredicateFuncs f (Generic x) = f x"

record 'e Controller =
  ct_name :: string
  ct_filter :: "'e \<Rightarrow> bool"
  ct_maxConcurrentReconciles :: nat

definition PodReconciler_SetupWithManager :: "(PodStatus \<Rightarrow> PodStatus \<Rightarrow> bool) \<Rightarrow> pod_event Controller" where
  "PodReconciler_SetupWithManager deepEqual =
     \<lparr>ct_name = ''detector'', ct_filter = podStatusChanged deepEqual, ct_maxConcurrentReconciles = 1\<rparr>"

definition EvidenceReconciler_SetupWithManager :: "Diagnosis watch_event Controller" where
  "EvidenceReconciler_SetupWithManager =
     \<lparr>ct_name = ''evidence'', ct_filter = NewPredicateFuncs (phaseIs PhaseDetected),
      ct_maxConcurrentReconciles = 1\<rparr>"

definition investigatorConcurrency :: nat where "investigatorConcurrency = 2"

definition InvestigatorReconciler_SetupWithManager :: "Diagnosis watch_event Controller" where
  "InvestigatorReconciler_SetupWithManager =
     \<lparr>ct_name = ''investigator'', ct_filter = NewPredicateFuncs (phaseIs PhaseEnriched),
      ct_maxConcurrentReconciles = investigatorConcurrency\<rparr>"

subsection \<open>Events and queues\<close>

type_synonym key = "string \<times> string"
type_synonym view = "key \<Rightarrow> Diagnosis option"

fun change :: "Diagnosis option \<Rightarrow> Diagnosis option \<Rightarrow> Diagnosis watch_event option" where
  "change None None = None"
| "change None (Some d) = Some (Created d)"
| "change (Some d) None = Some (Deleted d)"
| "change (Some d) (Some d') = (if d = d' then None else Some (Updated d d'))"

definition deliver :: "Diagnosis watch_event Controller \<Rightarrow> view \<Rightarrow> view \<Rightarrow> key set" where
  "deliver c V V' =
     {x. case change (V x) (V' x) of None \<Rightarrow> False | Some ev \<Rightarrow> ct_filter c ev}"

text \<open>A key goes back into the queue after an error, or when the result asks for it.\<close>

definition again :: "Result \<times> goerror option \<Rightarrow> bool" where
  "again out \<longleftrightarrow> snd out \<noteq> None \<or> 0 < requeueAfter (fst out)"

record 'w managed =
  mg_world :: 'w
  mg_evidence :: "key set"
  mg_investigator :: "key set"

definition worked :: "key set \<Rightarrow> key \<Rightarrow> Result \<times> goerror option \<Rightarrow> key set" where
  "worked q x out = (q - {x}) \<union> (if again out then {x} else {})"

definition notified :: "('w \<Rightarrow> view) \<Rightarrow> 'w \<Rightarrow> 'w managed \<Rightarrow> 'w managed" where
  "notified L w' s =
     s\<lparr>mg_world := w',
       mg_evidence := mg_evidence s \<union> deliver EvidenceReconciler_SetupWithManager (L (mg_world s)) (L w'),
       mg_investigator := mg_investigator s \<union>
         deliver InvestigatorReconciler_SetupWithManager (L (mg_world s)) (L w')\<rparr>"

text \<open>When it starts, the manager is told of every object there is.\<close>

definition started :: "('w \<Rightarrow> view) \<Rightarrow> 'w \<Rightarrow> 'w managed" where
  "started L w =
     \<lparr>mg_world = w,
      mg_evidence = deliver EvidenceReconciler_SetupWithManager Map.empty (L w),
      mg_investigator = deliver InvestigatorReconciler_SetupWithManager Map.empty (L w)\<rparr>"

text \<open>A worker of one of the two controllers handles a key; the flag tells whether it is done with it.\<close>

inductive worker_step ::
    "('w, 'm, 'p) InvestigatorReconciler \<Rightarrow> 'w kube \<Rightarrow> ('w \<Rightarrow> view) \<Rightarrow> 'w managed \<times> 'm \<Rightarrow> bool \<Rightarrow> 'w managed \<times> 'm \<Rightarrow> bool"
  for r k L where
  Evidence: "(ns, n) \<in> mg_evidence s \<Longrightarrow>
     EvidenceReconciler_Reconcile k ns n (mg_world s) = (out, w') \<Longrightarrow>
     worker_step r k L (s, m) (\<not> again out)
       (notified L w' (s\<lparr>mg_evidence := worked (mg_evidence s) (ns, n) out\<rparr>), m)"
| Investigator: "(ns, n) \<in> mg_investigator s \<Longrightarrow>
     InvestigatorReconciler_Reconcile r k ns n (mg_world s, m) = (out, (w', m')) \<Longrightarrow>
     worker_step r k L (s, m) (\<not> again out)
       (notified L w' (s\<lparr>mg_investigator := worked (mg_investigator s) (ns, n) out\<rparr>), m')"

text \<open>Everything else that happens in the cluster, the detector included, may change it in any way.\<close>

inductive manager_step ::
    "('w, 'm, 'p) InvestigatorReconciler \<Rightarrow> 'w kube \<Rightarrow> ('w \<Rightarrow> view) \<Rightarrow> 'w managed \<times> 'm \<Rightarrow> 'w managed \<times> 'm \<Rightarrow> bool"
  for r k L where
  Worker: "worker_step r k L s ok s' \<Longrightarrow> manager_step r k L s s'"
| Elsewhere: "manager_step r k L (s, m) (notified L w' s, m')"

inductive_cases worker_stepE: "worker_step r k L s ok s'"
inductive_cases manager_stepE: "manager_step r k L s s'"

abbreviation manager_steps where
  "manager_steps r k L \<equiv> (manager_step r k L)\<^sup>*\<^sup>*"

text \<open>The investigator declines a diagnosis, and is not told when that changes, without a model, without
  its policy, or with the agent disabled. \<open>willing\<close> says that none of this happens.\<close>

definition willing :: "('w, 'm, 'p) InvestigatorReconciler \<Rightarrow> 'w kube \<Rightarrow> bool" where
  "willing r k \<longleftrightarrow>
     ir_model r \<noteq> None \<and>
     (\<forall>ns n w. case fst (kGetPolicy k ns n w) of
        Inl e \<Rightarrow> err_kind e \<noteq> ENotFound
      | Inr p \<Rightarrow> ag_enabled (ps_agent (hp_spec p)))"

subsection \<open>The client\<close>

locale cache =
  fixes k :: "'w kube" and L :: "'w \<Rightarrow> view"
  assumes keyed: "L w x = Some d \<Longrightarrow> x = (dg_namespace d, dg_name d)"
    and get_same: "L (snd (kGetDiagnosis k ns n w)) = L w"
    and fresh: "kGetDiagnosis k ns n w = (Inr d, w') \<Longrightarrow> L w (ns, n) = Some d"
    and absent: "kGetDiagnosis k ns n w = (Inl e, w') \<Longrightarrow> err_kind e = ENotFound \<Longrightarrow> L w (ns, n) = None"
    and update: "kUpdateStatus k d w = (Inr d', w') \<Longrightarrow>
      dg_status d' = dg_status d \<and> L w' = (L w)((dg_namespace d, dg_name d) \<mapsto> d')"
begin

text \<open>No reconcile that succeeds leaves its object where it found it.\<close>

lemma Evidence_done:
  assumes "EvidenceReconciler_Reconcile k ns n w = (out, w')" "\<not> again out" "L w' (ns, n) = Some d"
  shows "st_phase (dg_status d) \<noteq> PhaseDetected"
proof -
  obtain x w1 where 1: "kGetDiagnosis k ns n w = (x, w1)" by fastforce
  have same: "L w1 = L w" using get_same [of ns n w] 1 by simp
  have upd: "st_phase (dg_status d) = PhaseEnriched"
    if "update_error (kUpdateStatus k (enriched now ev d0) w2) = (out, w')" "L w (ns, n) = Some d0" for now ev d0 w2
  proof -
    obtain y w3 where u: "kUpdateStatus k (enriched now ev d0) w2 = (y, w3)" by fastforce
    with that(1) assms(2) obtain d' where y: "y = Inr d'" "w3 = w'"
      by (cases y) (auto simp: update_error_def again_def)
    have "(ns, n) = (dg_namespace d0, dg_name d0)" using keyed [OF that(2)] .
    then show ?thesis
      using update [OF u [unfolded y]] assms(3) by (simp add: enriched_def)
  qed
  show ?thesis
  proof (cases x)
    case (Inl e)
    with assms 1 have "err_kind e = ENotFound" "w' = w1"
      by (auto simp: EvidenceReconciler_Reconcile_def IgnoreNotFound_def again_def split: if_splits)
    then show ?thesis using absent [of ns n w e w1] 1 Inl assms(3) same by simp
  next
    case (Inr d0)
    have f: "L w (ns, n) = Some d0" using fresh [of ns n w d0 w1] 1 Inr by simp
    obtain y w2 where 2: "targetFor k d0 w1 = (y, w2)" by fastforce
    show ?thesis
    proof (cases "st_phase (dg_status d0) = PhaseDetected")
      case True
      then obtain now ev w3 where "update_error (kUpdateStatus k (enriched now ev d0) w3) = (out, w')"
        using assms(1,2) 1 Inr 2
        by (auto simp: EvidenceReconciler_Reconcile_def advanceWithoutPod_def again_def
            split: sum.splits prod.splits if_splits)
      from upd [OF this f] show ?thesis by simp
    next
      case False
      then show ?thesis
        using assms(1,3) 1 Inr f same by (simp add: EvidenceReconciler_Reconcile_def)
    qed
  qed
qed

lemma record_attempt_done:
  assumes "record_attempt provider k ns n f calls w = (None, w')" "L w' (ns, n) = Some d"
  shows "st_phase (dg_status d) \<noteq> PhaseEnriched"
proof -
  obtain d0 w1 where 1: "kGetDiagnosis k ns n w = (Inr d0, w1)"
    using assms(1) by (auto simp: record_attempt_def split: prod.splits sum.splits)
  have f: "L w (ns, n) = Some d0" "L w1 = L w" using fresh [OF 1] get_same [of ns n w] 1 by simp_all
  show ?thesis
  proof (cases "st_phase (dg_status d0) = PhaseEnriched")
    case True
    then obtain now w2 d' where u: "kUpdateStatus k (hypothesized provider f calls now d0) w2 = (Inr d', w')"
      using assms(1) 1 by (auto simp: record_attempt_def split: prod.splits sum.splits)
    show ?thesis
      using update [OF u] keyed [OF f(1)] assms(2) by (auto simp: hypothesized_def)
  next
    case False
    then show ?thesis using assms 1 f by (simp add: record_attempt_def)
  qed
qed

lemma attempts_last: "attempts i g w = (None, w') \<Longrightarrow> \<exists>w0. g w0 = (None, w')"
  by (induction i arbitrary: w) (auto split: prod.splits option.splits if_splits)

lemma Investigator_done:
  assumes "InvestigatorReconciler_Reconcile r k ns n (w, m) = (out, (w', m'))" "\<not> again out"
    and "L w' (ns, n) = Some d" "willing r k" "retries (ir_retry r)"
  shows "st_phase (dg_status d) \<noteq> PhaseEnriched"
proof -
  obtain x w1 where 1: "kGetDiagnosis k ns n w = (x, w1)" by fastforce
  have same: "L w1 = L w" using get_same [of ns n w] 1 by simp
  show ?thesis
  proof (cases x)
    case (Inl e)
    with assms 1 have "err_kind e = ENotFound" "w' = w1"
      by (auto simp: InvestigatorReconciler_Reconcile_def IgnoreNotFound_def again_def split: if_splits)
    then show ?thesis using absent [of ns n w e w1] 1 Inl assms(3) same by simp
  next
    case (Inr d0)
    have f: "L w (ns, n) = Some d0" using fresh [of ns n w d0 w1] 1 Inr by simp
    show ?thesis
    proof (cases "st_phase (dg_status d0) = PhaseEnriched")
      case True
      obtain y w2 where 2: "kGetPolicy k (dg_namespace d0) (ds_policyRef (dg_spec d0)) w1 = (y, w2)" by fastforce
      obtain M where M: "ir_model r = Some M" using assms(4) by (auto simp: willing_def)
      have "case y of Inl e \<Rightarrow> err_kind e \<noteq> ENotFound | Inr p \<Rightarrow> ag_enabled (ps_agent (hp_spec p))"
        using assms(4) 2 unfolding willing_def by (metis fst_conv)
      then obtain p where p: "investigate r M k ns n d0 p (w2, m) = (out, (w', m'))"
        using assms(1,2) 1 2 Inr True M
        by (cases y) (auto simp: InvestigatorReconciler_Reconcile_def IgnoreNotFound_def again_def)
      then obtain g calls w3 where "record_findings (ir_retry r) (md_name M) k ns n g calls w3 = (None, w')"
        using assms(2) by (auto simp: investigate_def Let_def again_def split: prod.splits option.splits)
      then obtain i where "attempts i (record_attempt (md_name M) k ns n g (take maxRecordedToolCalls calls)) w3 = (None, w')"
        using assms(5) unfolding retries_def record_findings_def by metis
      from attempts_last [OF this] obtain w0 where
        "record_attempt (md_name M) k ns n g (take maxRecordedToolCalls calls) w0 = (None, w')" by blast
      then show ?thesis using assms(3) by (rule record_attempt_done)
    next
      case False
      then show ?thesis
        using assms(1,3) 1 Inr f same by (simp add: InvestigatorReconciler_Reconcile_def)
    qed
  qed
qed

end

subsection \<open>No lost wakeup\<close>

text \<open>What waits for a controller is in its queue.\<close>

definition no_lost_wakeup :: "('w \<Rightarrow> view) \<Rightarrow> 'w managed \<Rightarrow> bool" where
  "no_lost_wakeup L s \<longleftrightarrow>
     (\<forall>x d. L (mg_world s) x = Some d \<longrightarrow>
        (st_phase (dg_status d) = PhaseDetected \<longrightarrow> x \<in> mg_evidence s) \<and>
        (st_phase (dg_status d) = PhaseEnriched \<longrightarrow> x \<in> mg_investigator s))"

lemma delivered:
  assumes "V' x = Some d" "V x \<noteq> Some d"
  shows "st_phase (dg_status d) = PhaseDetected \<Longrightarrow> x \<in> deliver EvidenceReconciler_SetupWithManager V V'"
    and "st_phase (dg_status d) = PhaseEnriched \<Longrightarrow> x \<in> deliver InvestigatorReconciler_SetupWithManager V V'"
  using assms
  by (cases "V x"; auto simp: deliver_def EvidenceReconciler_SetupWithManager_def
      InvestigatorReconciler_SetupWithManager_def phaseIs_def)+

lemma no_lost_started: "no_lost_wakeup L (started L w)"
  by (simp add: no_lost_wakeup_def started_def delivered)

text \<open>Notification keeps the invariant, provided that what is missing from a queue does not wait in the new
  world.\<close>

lemma no_lost_notified:
  assumes "\<And>x d. L (mg_world s) x = Some d \<Longrightarrow> L w' x = Some d \<Longrightarrow>
      (st_phase (dg_status d) = PhaseDetected \<longrightarrow> x \<in> mg_evidence s) \<and>
      (st_phase (dg_status d) = PhaseEnriched \<longrightarrow> x \<in> mg_investigator s)"
  shows "no_lost_wakeup L (notified L w' s)"
  unfolding no_lost_wakeup_def notified_def
  using assms delivered [of "L w'"] by fastforce

lemma no_lost_worker:
  assumes "cache k L" "willing r k" "retries (ir_retry r)"
    and "worker_step r k L s ok s'" "no_lost_wakeup L (fst s)"
  shows "no_lost_wakeup L (fst s')"
  using assms(4)
proof (cases rule: worker_step.cases)
  case (Evidence ns n s out w' m)
  have "no_lost_wakeup L (notified L w' (s\<lparr>mg_evidence := worked (mg_evidence s) (ns, n) out\<rparr>))"
  proof (rule no_lost_notified, simp, intro conjI impI)
    fix x d
    assume x: "L (mg_world s) x = Some d" "L w' x = Some d"
    note inv = assms(5) [unfolded no_lost_wakeup_def Evidence(1) fst_conv, rule_format, OF x(1)]
    show "x \<in> mg_investigator s" if "st_phase (dg_status d) = PhaseEnriched" using inv that by blast
    show "x \<in> worked (mg_evidence s) (ns, n) out" if "st_phase (dg_status d) = PhaseDetected"
      using inv that cache.Evidence_done [OF assms(1) Evidence(5), of d] x(2) by (auto simp: worked_def)
  qed
  then show ?thesis using Evidence(3) by simp
next
  case (Investigator ns n s m out w' m')
  have "no_lost_wakeup L (notified L w' (s\<lparr>mg_investigator := worked (mg_investigator s) (ns, n) out\<rparr>))"
  proof (rule no_lost_notified, simp, intro conjI impI)
    fix x d
    assume x: "L (mg_world s) x = Some d" "L w' x = Some d"
    note inv = assms(5) [unfolded no_lost_wakeup_def Investigator(1) fst_conv, rule_format, OF x(1)]
    show "x \<in> mg_evidence s" if "st_phase (dg_status d) = PhaseDetected" using inv that by blast
    show "x \<in> worked (mg_investigator s) (ns, n) out" if "st_phase (dg_status d) = PhaseEnriched"
      using inv that cache.Investigator_done [OF assms(1) Investigator(5) _ _ assms(2,3), of d] x(2)
      by (auto simp: worked_def)
  qed
  then show ?thesis using Investigator(3) by simp
qed

lemma no_lost_step:
  assumes "cache k L" "willing r k" "retries (ir_retry r)"
    and "manager_step r k L s s'" "no_lost_wakeup L (fst s)"
  shows "no_lost_wakeup L (fst s')"
  using assms(4)
proof (cases rule: manager_step.cases)
  case (Worker ok)
  then show ?thesis using no_lost_worker [OF assms(1-3) _ assms(5)] by blast
next
  case (Elsewhere s m w' m')
  have "no_lost_wakeup L (notified L w' s)"
    using assms(5) by (intro no_lost_notified) (auto simp: no_lost_wakeup_def Elsewhere(1))
  then show ?thesis using Elsewhere(2) by simp
qed

lemma no_lost_steps:
  assumes "cache k L" "willing r k" "retries (ir_retry r)"
  shows "manager_steps r k L s s' \<Longrightarrow> no_lost_wakeup L (fst s) \<Longrightarrow> no_lost_wakeup L (fst s')"
  by (induction rule: rtranclp_induct) (use no_lost_step [OF assms] in blast)+

subsection \<open>The cluster of Pipeline\<close>

definition current :: "cluster \<Rightarrow> view" where
  "current w x = latest w (fst x) (snd x)"

lemma latest_append:
  "append_version d w = (d', w') \<Longrightarrow>
     current w' = (current w)((dg_namespace d, dg_name d) \<mapsto> d') \<and> dg_status d' = dg_status d"
  using stored_append [of d w d' w'] by (auto simp: current_def latest_def fun_eq_iff)

interpretation cluster_cache: cache cluster_kube current
proof
  fix w :: cluster and x d d' w' e
  show "x = (dg_namespace d, dg_name d)" if "current w x = Some d"
    using latest_stored [of w "fst x" "snd x" d] that by (cases x) (simp add: current_def)
  show "current (snd (kGetDiagnosis cluster_kube ns n w)) = current w" for ns n
    by (simp add: cluster_kube_def)
  show "current w (ns, n) = Some d" if "kGetDiagnosis cluster_kube ns n w = (Inr d, w')" for ns n
    using that by (simp add: cluster_kube_def current_def)
  show "current w (ns, n) = None" if "kGetDiagnosis cluster_kube ns n w = (Inl e, w')" for ns n
    using that by (auto simp: cluster_kube_def current_def found_def split: option.splits)
  show "dg_status d' = dg_status d \<and> current w' = (current w)((dg_namespace d, dg_name d) \<mapsto> d')"
    if "kUpdateStatus cluster_kube d w = (Inr d', w')"
    using that latest_append [of _ w d' w']
    by (auto simp: cluster_kube_def apfst_def map_prod_def dest!: latest_stored split: option.splits if_splits prod.splits)
qed

lemma cache_policy: "cache k L \<Longrightarrow> cache (k\<lparr>kGetPolicy := f\<rparr>) L"
  by (simp add: cache_def)

subsection \<open>Properties\<close>

text \<open>C4. No diagnosis is forgotten: from the start of the operator on any cluster, whatever else happens to
  the cluster and however the API server fails, a diagnosis whose latest version is at Detected is in
  the queue of the evidence controller and one at Enriched in that of the investigator, provided a model
  is configured and the policies enable the agent. So once both queues are empty, every diagnosis has left
  these phases.\<close>

theorem no_diagnosis_forgotten:
  assumes "cache k L" "willing r k" "retries (ir_retry r)" "manager_steps r k L (started L w, m) s"
  shows "no_lost_wakeup L (fst s) \<and>
    (mg_evidence (fst s) = {} \<and> mg_investigator (fst s) = {} \<longrightarrow>
       (\<forall>x d. L (mg_world (fst s)) x = Some d \<longrightarrow> st_phase (dg_status d) \<notin> {PhaseDetected, PhaseEnriched}))"
proof -
  have "no_lost_wakeup L (fst s)"
    by (rule no_lost_steps [OF assms(1-4)]) (simp add: no_lost_started)
  then show ?thesis unfolding no_lost_wakeup_def by blast
qed

definition enabled_kube :: "cluster kube" where
  "enabled_kube = cluster_kube\<lparr>kGetPolicy := \<lambda>ns n w. (Inr example_policy, w)\<rparr>"

definition detected_cluster :: cluster where
  "detected_cluster =
     fst (reconcile example_denv example_reconciler cluster_kube (example_cluster, []) (DetectEvent ''shop'' ''web-1''))"

lemma detected_cluster_latest:
  "\<exists>d. current detected_cluster (dg_namespace d, dg_name d) = Some d \<and> st_phase (dg_status d) = PhaseDetected"
proof -
  let ?ds = "rev (stored detected_cluster)"
  have "case ?ds of [] \<Rightarrow> False | d # ds \<Rightarrow> current detected_cluster (dg_namespace d, dg_name d) = Some d \<and>
      st_phase (dg_status d) = PhaseDetected"
    by code_simp
  then show ?thesis by (cases ?ds) auto
qed

theorem no_diagnosis_forgotten_witness:
  "\<exists>x s. manager_steps example_reconciler enabled_kube current (started current example_cluster, []) s \<and>
     x \<in> mg_evidence (fst s)"
proof -
  obtain d where d: "current detected_cluster (dg_namespace d, dg_name d) = Some d"
      "st_phase (dg_status d) = PhaseDetected"
    using detected_cluster_latest by blast
  let ?s = "(notified current detected_cluster (started current example_cluster), [])"
  have steps: "manager_steps example_reconciler enabled_kube current (started current example_cluster, []) ?s"
    by (rule r_into_rtranclp) (rule Elsewhere)
  have "cache enabled_kube current"
    unfolding enabled_kube_def by (rule cache_policy) (rule cluster_cache.cache_axioms)
  moreover have "willing example_reconciler enabled_kube"
    by (simp add: willing_def enabled_kube_def example_reconciler_def example_policy_def example_config_def)
  moreover have "mg_world (fst ?s) = detected_cluster" by (simp add: notified_def)
  ultimately have "(dg_namespace d, dg_name d) \<in> mg_evidence (fst ?s)"
    using conjunct1 [OF no_diagnosis_forgotten [OF _ _ example_operator(3) steps], unfolded no_lost_wakeup_def] d
    by simp
  then show ?thesis using steps by blast
qed

text \<open>An enriched diagnosis whose policy disables the agent leaves the queue, and no filter of the
  investigator lets an event of a policy pass: when the agent is enabled later, nothing wakes it.\<close>

lemma declined_not_requeued:
  assumes "kGetDiagnosis k ns n w = (Inr d, w1)"
    and "kGetPolicy k (dg_namespace d) (ds_policyRef (dg_spec d)) w1 = (Inr p, w2)"
    and "\<not> ag_enabled (ps_agent (hp_spec p))"
  shows "\<not> again (fst (InvestigatorReconciler_Reconcile r k ns n (w, m)))"
  using assms by (simp add: InvestigatorReconciler_Reconcile_def again_def)

end
