(* ===== verification/Settling.thy ===== *)
theory Settling
  imports Manager
begin

text \<open>
  The operator comes to rest. The locale \<open>settled\<close> adds to \<open>cache\<close> that nothing but a successful status
  update changes a diagnosis during a reconcile. Then a reconcile either changes nothing or moves its own
  object one phase on, so the work that the queues can still cause is bounded by their sizes.
\<close>

text \<open>What a reconcile of \<open>x\<close> does to the diagnoses: nothing, or it succeeds and \<open>x\<close> is in phase \<open>ph\<close>.\<close>

definition effect :: "('w \<Rightarrow> view) \<Rightarrow> Phase \<Rightarrow> key \<Rightarrow> 'w \<Rightarrow> bool \<Rightarrow> 'w \<Rightarrow> bool" where
  "effect L ph x w failed w' \<longleftrightarrow>
     L w' = L w \<or> (\<not> failed \<and> (\<exists>d. st_phase (dg_status d) = ph \<and> L w' = (L w)(x \<mapsto> d)))"

locale settled = undisturbed k L + cache k L for k :: "'w kube" and L :: "'w \<Rightarrow> view" +
  assumes update_failed: "kUpdateStatus k d w = (Inl e, w') \<Longrightarrow> L w' = L w"
begin

lemma effect_refl: "L w' = L w \<Longrightarrow> effect L ph x w failed w'"
  by (simp add: effect_def)

lemma effect_update:
  assumes "kUpdateStatus k d w1 = (r, w')" "L w1 = L w" "st_phase (dg_status d) = ph"
    and "x = (dg_namespace d, dg_name d)"
  shows "effect L ph x w (\<not> isr r) w'"
proof (cases r)
  case (Inl e)
  then show ?thesis using update_failed [of d w1 e w'] assms by (simp add: effect_def)
next
  case (Inr d')
  then have "st_phase (dg_status d') = ph \<and> L w' = (L w)(x \<mapsto> d')" using update [of d w1 d' w'] assms by auto
  then show ?thesis using Inr by (auto simp: effect_def)
qed

lemma update_error_again: "again (fst (update_error (r, w))) \<longleftrightarrow> \<not> isr r"
  by (cases r) (simp_all add: update_error_def again_def)

lemma enrich_effect:
  assumes "L w1 = L w" "L w (ns, n) = Some d" "update_error (kUpdateStatus k (enriched now ev d) w1) = (out, w')"
  shows "effect L PhaseEnriched (ns, n) w (again out) w'"
proof -
  obtain r w2 where u: "kUpdateStatus k (enriched now ev d) w1 = (r, w2)" by fastforce
  have "w' = w2" using assms(3) by (simp add: u update_error_def)
  moreover have "again out \<longleftrightarrow> \<not> isr r" using update_error_again [of r w2] assms(3) u by simp
  moreover have "effect L PhaseEnriched (ns, n) w (\<not> isr r) w2"
    using keyed [OF assms(2)] by (intro effect_update [OF u assms(1)]) (simp_all add: enriched_def)
  ultimately show ?thesis by simp
qed

lemma Evidence_effect:
  assumes "EvidenceReconciler_Reconcile k ns n w = (out, w')"
  shows "effect L PhaseEnriched (ns, n) w (again out) w'"
proof -
  obtain x w1 where 1: "kGetDiagnosis k ns n w = (x, w1)" by fastforce
  have h1: "L w1 = L w" using get_diagnosis [of ns n w] 1 by simp
  show ?thesis
  proof (cases "\<exists>d. x = Inr d \<and> st_phase (dg_status d) = PhaseDetected")
    case True
    then obtain d where d: "x = Inr d" "st_phase (dg_status d) = PhaseDetected" by blast
    have f: "L w (ns, n) = Some d" using fresh [of ns n w d w1] 1 d by simp
    obtain y w2 where 2: "targetFor k d w1 = (y, w2)" by fastforce
    have h2: "L w2 = L w" using targetFor_H [of d w1] 2 h1 by simp
    obtain t w3 where 3: "kNow k w2 = (t, w3)" by fastforce
    have h3: "L w3 = L w" using clock [of w2] 3 h2 by simp
    show ?thesis
    proof (cases y)
      case (Inl e)
      show ?thesis
      proof (cases "err_kind e = ENotFound")
        case True
        then show ?thesis
          using assms enrich_effect [OF h3 f, of t evidence_without_pod out w']
          by (simp add: EvidenceReconciler_Reconcile_def 1 d 2 Inl advanceWithoutPod_def 3)
      next
        case False
        then show ?thesis
          using assms h2 by (auto simp: EvidenceReconciler_Reconcile_def 1 d 2 Inl intro: effect_refl)
      qed
    next
      case (Inr target)
      obtain ev w4 where 4: "Collect k target w2 = (ev, w4)" by fastforce
      obtain t' w5 where 5: "kNow k w4 = (t', w5)" by fastforce
      have "L w5 = L w" using Collect_R [of w2 target] clock [of w4] 4 5 h2 by (simp add: unchanged_def)
      then show ?thesis
        using assms enrich_effect [OF _ f, of w5 t' ev out w']
        by (simp add: EvidenceReconciler_Reconcile_def 1 d 2 Inr 4 5)
    qed
  qed (use assms h1 in \<open>auto simp: EvidenceReconciler_Reconcile_def 1 split: sum.splits intro: effect_refl\<close>)
qed

lemma record_attempt_effect:
  assumes "record_attempt provider k ns n f calls w = (e, w')"
  shows "effect L PhaseHypothesized (ns, n) w (e \<noteq> None) w'"
proof -
  obtain x w1 where 1: "kGetDiagnosis k ns n w = (x, w1)" by fastforce
  have h1: "L w1 = L w" using get_diagnosis [of ns n w] 1 by simp
  show ?thesis
  proof (cases "\<exists>d. x = Inr d \<and> st_phase (dg_status d) = PhaseEnriched")
    case True
    then obtain d where d: "x = Inr d" "st_phase (dg_status d) = PhaseEnriched" by blast
    obtain t w2 where 2: "kNow k w1 = (t, w2)" by fastforce
    have h2: "L w2 = L w" using clock [of w1] 2 h1 by simp
    obtain r w3 where u: "kUpdateStatus k (hypothesized provider f calls t d) w2 = (r, w3)" by fastforce
    have "effect L PhaseHypothesized (ns, n) w (\<not> isr r) w3"
      using keyed [OF fresh [of ns n w d w1]] 1 d(1) by (intro effect_update [OF u h2]) (simp_all add: hypothesized_def)
    moreover have "w' = w3 \<and> (e \<noteq> None \<longleftrightarrow> \<not> isr r)"
      using assms by (cases r) (auto simp: record_attempt_def 1 d 2 u)
    ultimately show ?thesis by simp
  qed (use assms h1 in \<open>auto simp: record_attempt_def 1 split: sum.splits intro: effect_refl\<close>)
qed

lemma attempts_effect:
  assumes "\<And>w e w'. g w = (e, w') \<Longrightarrow> effect L ph x w (e \<noteq> None) w'"
  shows "attempts i g w = (e, w') \<Longrightarrow> effect L ph x w (e \<noteq> None) w'"
proof (induction i arbitrary: w)
  case (Suc i)
  obtain e1 w1 where g: "g w = (e1, w1)" by fastforce
  note first = assms [OF g]
  show ?case
  proof (cases "\<exists>err. e1 = Some err \<and> err_kind err = EConflict")
    case True
    then have "L w1 = L w" "attempts i g w1 = (e, w')" using first Suc.prems g by (auto simp: effect_def)
    then show ?thesis using Suc.IH [of w1] by (simp add: effect_def)
  next
    case False
    then show ?thesis using first Suc.prems g by (auto split: option.splits)
  qed
qed (use assms in simp)

lemma investigate_effect:
  assumes "quiet L (ir_env r)" "retries (ir_retry r)" "is_int32 (ag_maxToolCalls (ps_agent (hp_spec p)))"
    and "investigate r M k ns n d p s = (out, (w', m'))"
  shows "effect L PhaseHypothesized (ns, n) (fst s) (again out) w'"
proof -
  define inp where "inp = buildInput d (ps_agent (hp_spec p)) (ir_pricing r)"
  define sc where "sc = BindTo (ScopeForDiagnosis d (wrap64 (bd_maxToolCalls (in_budget inp) + brokerHeadroom)))"
  let ?iv = "NewInvestigator (lift_env (ir_env r)) M (broker (ir_tenv r) k sc)"
  obtain f e w1 calls m where run: "Run ?iv inp ((fst s, []), snd s) = ((f, e), ((w1, calls), m))"
    by (metis prod.exhaust)
  have "budget_fits inp" unfolding inp_def using assms(3) by (rule budget_fits_buildInput)
  then have h: "L w1 = L (fst s)"
    using session.Run_S [OF session_H [OF assms(1)] _ run] by simp
  show ?thesis
  proof (cases e)
    case (Some err)
    then show ?thesis
      using assms(4) h
      by (auto simp: investigate_def inp_def [symmetric] sc_def [symmetric] Let_def run intro: effect_refl)
  next
    case None
    obtain e2 w2 where rec: "record_findings (ir_retry r) (md_name M) k ns n f calls w1 = (e2, w2)" by fastforce
    then obtain i where "attempts i (record_attempt (md_name M) k ns n f (take maxRecordedToolCalls calls)) w1 = (e2, w2)"
      using assms(2) unfolding retries_def record_findings_def by metis
    then have "effect L PhaseHypothesized (ns, n) w1 (e2 \<noteq> None) w2"
      by (rule attempts_effect [rotated]) (rule record_attempt_effect)
    moreover have "w' = w2 \<and> (again out \<longleftrightarrow> e2 \<noteq> None)"
      using assms(4) None
      by (auto simp: investigate_def inp_def [symmetric] sc_def [symmetric] Let_def run rec again_def)
    ultimately show ?thesis using h by (simp add: effect_def)
  qed
qed

lemma Investigator_effect:
  assumes "quiet L (ir_env r)" "retries (ir_retry r)"
    and "InvestigatorReconciler_Reconcile r k ns n (w, m) = (out, (w', m'))"
  shows "effect L PhaseHypothesized (ns, n) w (again out) w'"
proof -
  obtain x w1 where 1: "kGetDiagnosis k ns n w = (x, w1)" by fastforce
  have h1: "L w1 = L w" using get_diagnosis [of ns n w] 1 by simp
  show ?thesis
  proof (cases "\<exists>d. x = Inr d \<and> st_phase (dg_status d) = PhaseEnriched")
    case True
    then obtain d where d: "x = Inr d" "st_phase (dg_status d) = PhaseEnriched" by blast
    obtain y w2 where 2: "kGetPolicy k (dg_namespace d) (ds_policyRef (dg_spec d)) w1 = (y, w2)" by fastforce
    have h2: "L w2 = L w" using get_policy [of "dg_namespace d" "ds_policyRef (dg_spec d)" w1] 2 h1 by simp
    show ?thesis
    proof (cases "\<exists>p M. y = Inr p \<and> ag_enabled (ps_agent (hp_spec p)) \<and> ir_model r = Some M")
      case True
      then obtain p M where y: "y = Inr p" "ag_enabled (ps_agent (hp_spec p))" "ir_model r = Some M" by blast
      have "investigate r M k ns n d p (w2, m) = (out, (w', m'))"
        using assms(3) by (simp add: InvestigatorReconciler_Reconcile_def 1 d 2 y)
      from investigate_effect [OF assms(1,2) policy_range [OF 2 [unfolded y]] this]
      show ?thesis using h2 by (simp add: effect_def)
    qed (use assms(3) h2 in \<open>auto simp: InvestigatorReconciler_Reconcile_def 1 d 2
        split: sum.splits option.splits if_splits intro: effect_refl\<close>)
  qed (use assms(3) h1 in \<open>auto simp: InvestigatorReconciler_Reconcile_def 1 split: sum.splits intro: effect_refl\<close>)
qed

end

subsection \<open>The work that is left\<close>

text \<open>An item in the first queue may cause one in the second.\<close>

definition work_left :: "'w managed \<Rightarrow> nat" where
  "work_left s = 2 * card (mg_evidence s) + card (mg_investigator s)"

definition finite_queues :: "'w managed \<Rightarrow> bool" where
  "finite_queues s \<longleftrightarrow> finite (mg_evidence s) \<and> finite (mg_investigator s)"

text \<open>A run of the workers alone, with the number of reconciles that were done with their object.\<close>

inductive worker_run ::
    "('w, 'm, 'p) InvestigatorReconciler \<Rightarrow> 'w kube \<Rightarrow> ('w \<Rightarrow> view) \<Rightarrow> 'w managed \<times> 'm \<Rightarrow> nat \<Rightarrow> 'w managed \<times> 'm \<Rightarrow> bool"
  for r k L where
  Rest: "worker_run r k L s 0 s"
| Work: "worker_run r k L s c s1 \<Longrightarrow> worker_step r k L s1 ok s2 \<Longrightarrow>
    worker_run r k L s (c + (if ok then 1 else 0)) s2"

lemma deliver_same [simp]: "deliver c V V = {}"
  by (auto simp: deliver_def split: option.splits) (metis change.simps(1,4) not_Some_eq option.discI)

lemma change_Some_new: "change a (Some d) = Some ev \<Longrightarrow> ev = Created d \<or> (\<exists>d0. ev = Updated d0 d)"
  by (cases a) (auto split: if_splits)

lemma deliver_upd:
  assumes "ct_filter c = NewPredicateFuncs f"
  shows "deliver c V (V(x \<mapsto> d)) \<subseteq> (if f d then {x} else {})"
proof
  fix y assume y: "y \<in> deliver c V (V(x \<mapsto> d))"
  then have "y = x" by (cases "y = x"; cases "V y") (auto simp: deliver_def)
  then obtain ev where "change (V x) (Some d) = Some ev" "ct_filter c ev"
    using y by (auto simp: deliver_def split: option.splits)
  then have "f d" using change_Some_new [of "V x" d ev] assms by auto
  then show "y \<in> (if f d then {x} else {})" using \<open>y = x\<close> by simp
qed

lemma deliver_moved:
  shows "st_phase (dg_status d) \<noteq> PhaseDetected \<Longrightarrow> deliver EvidenceReconciler_SetupWithManager V (V(x \<mapsto> d)) = {}"
    and "st_phase (dg_status d) \<noteq> PhaseEnriched \<Longrightarrow> deliver InvestigatorReconciler_SetupWithManager V (V(x \<mapsto> d)) = {}"
    and "deliver InvestigatorReconciler_SetupWithManager V (V(x \<mapsto> d)) \<subseteq> {x}"
  using deliver_upd [of EvidenceReconciler_SetupWithManager "phaseIs PhaseDetected" V x d]
    deliver_upd [of InvestigatorReconciler_SetupWithManager "phaseIs PhaseEnriched" V x d]
  by (auto simp: EvidenceReconciler_SetupWithManager_def InvestigatorReconciler_SetupWithManager_def phaseIs_def
      split: if_splits)

lemma worked_card:
  assumes "finite q" "x \<in> q"
  shows "finite (worked q x out)" "card (worked q x out) + (if again out then 0 else 1) = card q"
    and "worked q x out \<subseteq> q"
  using assms card_Suc_Diff1 [OF assms] by (auto simp: worked_def insert_absorb)

lemma card_Un_singleton: "finite A \<Longrightarrow> B \<subseteq> {x} \<Longrightarrow> card (A \<union> B) \<le> card A + 1"
  using card_Un_le [of A B] card_mono [of "{x}" B] by simp

text \<open>One item, whether or not its reconcile is done, leaves at most as much work as before.\<close>

lemma worker_step_work:
  assumes "settled k L" "quiet L (ir_env r)" "retries (ir_retry r)"
    and "worker_step r k L s ok s'" "finite_queues (fst s)"
  shows "finite_queues (fst s') \<and> work_left (fst s') + (if ok then 1 else 0) \<le> work_left (fst s)"
  using assms(4)
proof (cases rule: worker_step.cases)
  case (Evidence ns n s out w' m)
  have fin: "finite (mg_evidence s)" "finite (mg_investigator s)"
    using assms(5) by (simp_all add: Evidence(1) finite_queues_def)
  note q = worked_card [OF fin(1) Evidence(4), of out]
  from settled.Evidence_effect [OF assms(1) Evidence(5)]
  consider (same) "L w' = L (mg_world s)"
    | (moved) d where "\<not> again out" "st_phase (dg_status d) = PhaseEnriched" "L w' = (L (mg_world s))((ns, n) \<mapsto> d)"
    unfolding effect_def by blast
  then show ?thesis
  proof cases
    case same
    then show ?thesis
      using fin q by (auto simp: Evidence(1-3) notified_def finite_queues_def work_left_def)
  next
    case moved
    have "deliver EvidenceReconciler_SetupWithManager (L (mg_world s)) (L w') = {}"
      using moved by (simp add: deliver_moved(1))
    moreover have d: "deliver InvestigatorReconciler_SetupWithManager (L (mg_world s)) (L w') \<subseteq> {(ns, n)}"
      using moved by (simp add: deliver_moved(3))
    moreover have "finite (deliver InvestigatorReconciler_SetupWithManager (L (mg_world s)) (L w'))"
      using d finite_subset by blast
    ultimately show ?thesis
      using fin q moved(1) card_Un_singleton [OF fin(2) d]
      by (simp add: Evidence(1-3) notified_def finite_queues_def work_left_def)
  qed
next
  case (Investigator ns n s m out w' m')
  have fin: "finite (mg_evidence s)" "finite (mg_investigator s)"
    using assms(5) by (simp_all add: Investigator(1) finite_queues_def)
  note q = worked_card [OF fin(2) Investigator(4), of out]
  have "deliver EvidenceReconciler_SetupWithManager (L (mg_world s)) (L w') = {} \<and>
    deliver InvestigatorReconciler_SetupWithManager (L (mg_world s)) (L w') = {}"
    using settled.Investigator_effect [OF assms(1-3) Investigator(5)]
    unfolding effect_def by (auto simp: deliver_moved)
  then show ?thesis
    using fin q by (auto simp: Investigator(1-3) notified_def finite_queues_def work_left_def)
qed

lemma worker_run_work:
  assumes "settled k L" "quiet L (ir_env r)" "retries (ir_retry r)"
  shows "worker_run r k L s c s' \<Longrightarrow> finite_queues (fst s) \<Longrightarrow>
    finite_queues (fst s') \<and> work_left (fst s') + c \<le> work_left (fst s)"
proof (induction rule: worker_run.induct)
  case (Work s c s1 ok s2)
  then show ?case using worker_step_work [OF assms Work(2)] by fastforce
qed simp

lemma worker_run_steps: "worker_run r k L s c s' \<Longrightarrow> manager_steps r k L s s'"
  by (induction rule: worker_run.induct) (auto intro: Worker rtranclp.rtrancl_into_rtrancl)

lemma nothing_left:
  "finite_queues s \<Longrightarrow> work_left s = 0 \<longleftrightarrow> mg_evidence s = {} \<and> mg_investigator s = {}"
  by (auto simp: work_left_def finite_queues_def)

subsection \<open>The cluster of Pipeline\<close>

interpretation resting: settled cluster_kube current
proof
  fix w w' :: cluster and d e
  show "current (snd (kNow cluster_kube w)) = current w"
    by (simp add: cluster_kube_def current_def latest_def stored_clock fun_eq_iff)
  show "current w' = current w" if "kUpdateStatus cluster_kube d w = (Inl e, w')"
    using that by (auto simp: cluster_kube_def apfst_def map_prod_def split: if_splits prod.splits option.splits)
qed (auto simp: cluster_kube_def failing_def unchanged_def find_Some_iff)

lemma settled_policy:
  assumes "settled k L" "\<And>ns n w. L (snd (f ns n w)) = L w"
    and "\<And>ns n w p w'. f ns n w = (Inr p, w') \<Longrightarrow> is_int32 (ag_maxToolCalls (ps_agent (hp_spec p)))"
  shows "settled (k\<lparr>kGetPolicy := f\<rparr>) L"
  using assms unfolding settled_def settled_axioms_def undisturbed_def undisturbed_axioms_def
  by (simp add: cache_policy reader_def)

subsection \<open>Properties\<close>

lemma started_work: "finite (dom (L w)) \<Longrightarrow> finite_queues (started L w) \<and> work_left (started L w) \<le> 2 * card (dom (L w))"
proof -
  assume fin: "finite (dom (L w))"
  let ?E = "mg_evidence (started L w)" and ?I = "mg_investigator (started L w)"
  have E: "?E = {x. \<exists>d. L w x = Some d \<and> st_phase (dg_status d) = PhaseDetected}"
    and I: "?I = {x. \<exists>d. L w x = Some d \<and> st_phase (dg_status d) = PhaseEnriched}"
    by (auto simp: started_def deliver_def EvidenceReconciler_SetupWithManager_def
        InvestigatorReconciler_SetupWithManager_def phaseIs_def split: option.splits)
      (metis NewPredicateFuncs.simps(1) change.simps(1,2) option.exhaust option.inject option.distinct(1) phaseIs_def)+
  have sub: "?E \<subseteq> dom (L w)" "?I \<subseteq> dom (L w)" "?E \<inter> ?I = {}" unfolding E I by auto
  have f: "finite ?E" "finite ?I" using sub fin finite_subset by blast+
  have "card ?E + card ?I \<le> card (dom (L w))"
    using card_Un_disjoint [OF f sub(3)] card_mono [OF fin, of "?E \<union> ?I"] sub(1,2) by simp
  then show ?thesis using f by (simp add: finite_queues_def work_left_def)
qed

lemma worker_step_exists:
  assumes "mg_evidence s \<noteq> {} \<or> mg_investigator s \<noteq> {}"
  shows "\<exists>ok s'. worker_step r k L (s, m) ok s'"
proof -
  obtain ns n where "(ns, n) \<in> mg_evidence s \<or> (ns, n) \<in> mg_investigator s" using assms by auto
  moreover obtain out w' where "EvidenceReconciler_Reconcile k ns n (mg_world s) = (out, w')" by fastforce
  moreover obtain out2 w2 m2 where "InvestigatorReconciler_Reconcile r k ns n (mg_world s, m) = (out2, (w2, m2))"
    by (metis prod.exhaust)
  ultimately show ?thesis using Evidence Investigator by meson
qed

text \<open>C3. The operator comes to rest: started on a cluster with n diagnoses to which nothing else happens, with
  a model configured and every policy found and enabling the agent, the workers complete at most 2n
  reconciles, however many others fail and are retried in between; as long as a diagnosis is at Detected
  or Enriched there is a next reconcile to run, and when there is none every diagnosis has left these
  phases. (Without a model, or under a policy that is gone or disables the agent, the investigator declines
  a diagnosis and leaves it at Enriched, which is what \<open>willing\<close> excludes.)\<close>

theorem operator_settles:
  assumes "settled k L" "quiet L (ir_env r)" "willing r k" "retries (ir_retry r)" "finite (dom (L w))"
    and "worker_run r k L (started L w, m) c s"
  shows "c + work_left (fst s) \<le> 2 * card (dom (L w)) \<and>
    ((\<exists>ok s'. worker_step r k L s ok s') \<or>
     (\<forall>x d. L (mg_world (fst s)) x = Some d \<longrightarrow> st_phase (dg_status d) \<notin> {PhaseDetected, PhaseEnriched}))"
proof
  have fin: "finite_queues (fst (started L w, m))" using started_work [of L w] assms(5) by simp
  show "c + work_left (fst s) \<le> 2 * card (dom (L w))"
    using worker_run_work [OF assms(1,2,4,6) fin] started_work [of L w] assms(5) by simp
  have "cache k L" using assms(1) by (simp add: settled_def)
  then have "no_lost_wakeup L (fst s)"
    by (rule no_lost_steps [OF _ assms(3,4) worker_run_steps [OF assms(6)]]) (simp add: no_lost_started)
  then show "(\<exists>ok s'. worker_step r k L s ok s') \<or>
     (\<forall>x d. L (mg_world (fst s)) x = Some d \<longrightarrow> st_phase (dg_status d) \<notin> {PhaseDetected, PhaseEnriched})"
    using worker_step_exists [of "fst s" r k L "snd s"] unfolding no_lost_wakeup_def by auto blast+
qed

theorem operator_settles_witness:
  "\<exists>c s. worker_run example_reconciler enabled_kube current (started current detected_cluster, []) c s \<and>
     c + work_left (fst s) \<le> 2 * card (dom (current detected_cluster))"
proof -
  obtain d where d: "current detected_cluster (dg_namespace d, dg_name d) = Some d"
      "st_phase (dg_status d) = PhaseDetected"
    using detected_cluster_latest by blast
  let ?s = "started current detected_cluster"
  have "(dg_namespace d, dg_name d) \<in> mg_evidence ?s"
    using no_lost_started [of current detected_cluster] d unfolding no_lost_wakeup_def by (simp add: started_def)
  then obtain ok s1 where step: "worker_step example_reconciler enabled_kube current (?s, []) ok s1"
    using worker_step_exists [of ?s example_reconciler enabled_kube current "[]"] by blast
  have run: "worker_run example_reconciler enabled_kube current (?s, []) (0 + (if ok then 1 else 0)) s1"
    by (rule Work [OF Rest step])
  have set: "settled enabled_kube current"
    unfolding enabled_kube_def
    by (rule settled_policy [OF resting.settled_axioms]) (auto simp: example_policy_def example_config_def is_int32_def)
  have q: "quiet current (ir_env example_reconciler)"
    by (simp add: quiet_def example_reconciler_def resting.clock)
  have "willing example_reconciler enabled_kube"
    by (simp add: willing_def enabled_kube_def example_reconciler_def example_policy_def example_config_def)
  moreover have "finite (dom (current detected_cluster))"
  proof (rule finite_subset)
    show "dom (current detected_cluster) \<subseteq> (\<lambda>d. (dg_namespace d, dg_name d)) ` set (stored detected_cluster)"
      by (auto simp: current_def dest!: latest_stored)
  qed simp
  ultimately show ?thesis
    using conjunct1 [OF operator_settles [OF set q _ example_operator(3) _ run]] run by blast
qed

end
