(* ===== verification/Dedup.thy ===== *)
theory Dedup
  imports Settling
begin

text \<open>
  One diagnosis per failure: once a failure has been attributed, attributing it again, from whichever pod of
  the workload it is seen, writes nothing. The locale \<open>opener\<close> adds to \<open>settled\<close> what the detector needs of a
  creation.
\<close>

text \<open>The object a failure is recorded in.\<close>

definition failure_key :: "denv \<Rightarrow> Pod \<Rightarrow> workloadRef \<Rightarrow> Signal \<Rightarrow> key" where
  "failure_key D pod wl sg =
     (pod_namespace pod,
      DiagnosisName (de_ulower D) (wr_name wl) (sg_failureType sg)
        (Signature (de_sha D) (pod_namespace pod) (wr_kind wl) (wr_name wl) (sg_container sg) (sg_failureType sg)))"

locale opener = settled k L for k :: "'w kube" and L :: "'w \<Rightarrow> view" +
  assumes create: "kCreate k d w = (Inr d', w') \<Longrightarrow> L w' = (L w)((dg_namespace d, dg_name d) \<mapsto> d')"
    and named: "kCreate k d w = (Inr d', w') \<Longrightarrow> dg_namespace d' = dg_namespace d \<and> dg_name d' = dg_name d"
    and exists: "kCreate k d w = (Inl e, w') \<Longrightarrow> err_kind e = EAlreadyExists \<Longrightarrow>
      L w' (dg_namespace d, dg_name d) \<noteq> None"
begin

lemma open_diagnosis_opens:
  assumes "open_diagnosis k pod wl sg p name sig w = ((res, None), w')"
  shows "L w' (pod_namespace pod, name) \<noteq> None"
proof -
  obtain t w1 where 1: "kNow k w = (t, w1)" by fastforce
  let ?d = "buildDiagnosis pod wl sg p name sig t"
  have key: "(dg_namespace ?d, dg_name ?d) = (pod_namespace pod, name)" by (simp add: buildDiagnosis_def)
  obtain r w2 where 2: "kCreate k ?d w1 = (r, w2)" by fastforce
  show ?thesis
  proof (cases r)
    case (Inl e)
    then show ?thesis
      using assms exists [of ?d w1 e w2] key 2
      by (auto simp: open_diagnosis_def 1 IgnoreAlreadyExists_def split: if_splits)
  next
    case (Inr d)
    obtain t' w3 where 3: "kNow k w2 = (t', w3)" by fastforce
    obtain y w4 where 4: "kUpdateStatus k (detected t' d) w3 = (y, w4)" by fastforce
    then obtain d' where "y = Inr d'" "w' = w4"
      using assms by (cases y) (auto simp: open_diagnosis_def 1 2 Inr 3)
    then show ?thesis
      using update [of "detected t' d" w3 d' w4] named [of ?d w1 d w2] 2 4 Inr key
      by (auto simp: detected_def)
  qed
qed

lemma attributed_opens:
  assumes "attribute_failure D k pod sg p w = ((res, None), w')" "requeueAfter res = 0"
    and "resolveWorkload k pod w = (Inr wl, w1)"
  shows "L w' (failure_key D pod wl sg) \<noteq> None"
proof -
  obtain ns name where key: "failure_key D pod wl sg = (ns, name)" by fastforce
  obtain g w2 where 2: "kGetDiagnosis k ns name w1 = (g, w2)" by fastforce
  obtain b w3 where 3: "withinRateLimit k ns p w2 = (b, w3)" by fastforce
  note unfolded = attribute_failure_def failure_key_def Let_def assms(3)
  show ?thesis
  proof (cases g)
    case (Inl e)
    with assms(1,2) obtain sig where "open_diagnosis k pod wl sg p name sig w3 = ((res, None), w')"
      using 2 3 key
      by (auto simp: unfolded second_def split: sum.splits if_splits)
    then show ?thesis using open_diagnosis_opens key by (auto simp: failure_key_def)
  next
    case (Inr d)
    have "w' = w2" using assms(1) 2 key Inr by (auto simp: unfolded)
    then show ?thesis
      using fresh [of ns name w1 d w2] get_diagnosis [of ns name w1] 2 Inr key by simp
  qed
qed

lemma attributed_again:
  assumes "resolveWorkload k pod w = (Inr wl, w1)" "L w (failure_key D pod wl sg) \<noteq> None"
  shows "L (snd (attribute_failure D k pod sg p w)) = L w"
proof -
  obtain ns name where key: "failure_key D pod wl sg = (ns, name)" by fastforce
  have 1: "L w1 = L w" using resolveWorkload_H [of pod w] assms(1) by simp
  obtain g w2 where 2: "kGetDiagnosis k ns name w1 = (g, w2)" by fastforce
  have 3: "L w2 = L w" using get_diagnosis [of ns name w1] 1 2 by simp
  have "err_kind e \<noteq> ENotFound" if "g = Inl e" for e
    using absent [of ns name w1 e w2] 1 2 that assms(2) key by auto
  then show ?thesis
    using 2 3 key assms(1) by (cases g) (auto simp: attribute_failure_def failure_key_def Let_def)
qed

end

interpretation opened: opener cluster_kube current
proof
  fix w w' :: cluster and d d' e
  show "current w' = (current w)((dg_namespace d, dg_name d) \<mapsto> d')" if "kCreate cluster_kube d w = (Inr d', w')"
    using that latest_append [of _ w d' w']
    by (auto simp: cluster_kube_def apfst_def map_prod_def split: if_splits prod.splits)
  show "dg_namespace d' = dg_namespace d \<and> dg_name d' = dg_name d" if "kCreate cluster_kube d w = (Inr d', w')"
    using that cluster.created [of d w d' w'] by simp
  show "current w' (dg_namespace d, dg_name d) \<noteq> None" if "kCreate cluster_kube d w = (Inl e, w')"
    using that by (auto simp: cluster_kube_def apfst_def map_prod_def current_def split: if_splits prod.splits)
qed

subsection \<open>Properties\<close>

text \<open>C11. One diagnosis per failure: once the detector has attributed a failure without error and without
  deferring it, there is a diagnosis under the name of that failure's signature; and when the same failure
  of the same workload is seen again, on whichever pod and under whichever policy and however far the
  diagnosis has got in between, nothing is created or changed as long as it has not been deleted.\<close>

theorem one_diagnosis_per_failure:
  assumes "opener k L" "attribute_failure D k pod sg p w = ((res, None), w1)" "requeueAfter res = 0"
    and "resolveWorkload k pod w = (Inr wl, w0)" "resolveWorkload k pod2 w2 = (Inr wl2, w3)"
    and "failure_key D pod2 wl2 sg2 = failure_key D pod wl sg"
    and "L w2 (failure_key D pod wl sg) \<noteq> None"
  shows "L w1 (failure_key D pod wl sg) \<noteq> None \<and> L (snd (attribute_failure D k pod2 sg2 p2 w2)) = L w2"
  using opener.attributed_opens [OF assms(1-4)] opener.attributed_again [OF assms(1,5), of D sg2 p2] assms(6,7)
  by simp

definition replica :: "string \<Rightarrow> Pod" where
  "replica n = (Pod_named ''shop'' n)\<lparr>pod_ownerReferences :=
     [\<lparr>ow_kind = ''StatefulSet'', ow_name = ''web'', ow_uid = [], ow_controller = Some True\<rparr>]\<rparr>"

text \<open>The failure is seen on one replica, its diagnosis is enriched, and it is seen on the other replica.\<close>

theorem one_diagnosis_per_failure_witness:
  "let w1 = snd (attribute_failure example_denv cluster_kube (replica ''web-0'') example_signal example_policy example_cluster);
       d = last (stored w1);
       w2 = snd (EvidenceReconciler_Reconcile cluster_kube (dg_namespace d) (dg_name d) w1) in
     map (\<lambda>d. st_phase (dg_status d)) (stored w2) = [PhaseOther [], PhaseDetected, PhaseEnriched] \<and>
     current (snd (attribute_failure example_denv cluster_kube (replica ''web-1'') example_signal example_policy w2)) = current w2"
proof -
  let ?wl = "\<lparr>wr_kind = ''StatefulSet'', wr_name = ''web'', wr_uid = []\<rparr>"
  let ?r = "attribute_failure example_denv cluster_kube (replica ''web-0'') example_signal example_policy example_cluster"
  let ?d = "last (stored (snd ?r))"
  let ?w2 = "snd (EvidenceReconciler_Reconcile cluster_kube (dg_namespace ?d) (dg_name ?d) (snd ?r))"
  let ?key = "failure_key example_denv (replica ''web-0'') ?wl example_signal"
  have wl: "resolveWorkload cluster_kube (replica n) w = (Inr ?wl, w)" for n w
    by (simp add: resolveWorkload_def DirectOwner_def replica_def)
  have 1: "snd (fst ?r) = None" "requeueAfter (fst (fst ?r)) = 0" by code_simp+
  have r: "?r = ((fst (fst ?r), None), snd ?r)" using 1(1) by (metis prod.collapse)
  have 2: "map (\<lambda>d. st_phase (dg_status d)) (stored ?w2) = [PhaseOther [], PhaseDetected, PhaseEnriched]" by code_simp
  have "latest ?w2 (fst ?key) (snd ?key) \<noteq> None" by code_simp
  then have 3: "current ?w2 ?key \<noteq> None" by (simp add: current_def split_beta)
  have same: "failure_key example_denv (replica ''web-1'') ?wl example_signal = ?key"
    by (simp add: failure_key_def replica_def Pod_named_def)
  show ?thesis
    unfolding Let_def
    using 2 conjunct2 [OF one_diagnosis_per_failure [OF opened.opener_axioms, OF r 1(2) wl wl same 3]]
    by (rule conjI)
qed

end
