(* ===== verification/Stuck.thy ===== *)
theory Stuck
  imports Dedup
begin

text \<open>
  A diagnosis that was created but never marked. \<open>pod_controller.go\<close> creates the object and then updates its
  status, in two requests; when the second fails the object is left without a phase, and no later step of
  any controller touches it. The locale \<open>creator\<close> adds to \<open>opener\<close> that a creation stores no status and that
  a failed one stores nothing.
\<close>

text \<open>What a reconcile of the detector does: nothing, or it creates one object, and if it then fails the
  object has no status.\<close>

definition opens :: "('w \<Rightarrow> view) \<Rightarrow> 'w \<Rightarrow> goerror option \<Rightarrow> 'w \<Rightarrow> bool" where
  "opens L w e w' \<longleftrightarrow>
     L w' = L w \<or>
     (\<exists>y d. L w y = None \<and> L w' = (L w)(y \<mapsto> d) \<and> (e \<noteq> None \<longrightarrow> dg_status d = DiagnosisStatus_zero))"

locale creator = opener k L for k :: "'w kube" and L :: "'w \<Rightarrow> view" +
  assumes bare: "kCreate k d w = (Inr d', w') \<Longrightarrow> dg_status d' = DiagnosisStatus_zero"
    and create_failed: "kCreate k d w = (Inl e, w') \<Longrightarrow> L w' = L w"
begin

lemma opens_refl: "L w' = L w \<Longrightarrow> opens L w e w'"
  by (simp add: opens_def)

lemma opens_from: "opens L w1 e w' \<Longrightarrow> L w1 = L w \<Longrightarrow> opens L w e w'"
  by (simp add: opens_def)

lemma open_diagnosis_view:
  assumes "open_diagnosis k pod wl sg p name sig w = ((res, e), w')" "L w (pod_namespace pod, name) = None"
  shows "opens L w e w'"
proof -
  obtain t w1 where 1: "kNow k w = (t, w1)" by fastforce
  let ?d = "buildDiagnosis pod wl sg p name sig t"
  have h1: "L w1 = L w" using clock [of w] 1 by simp
  have key: "dg_namespace ?d = pod_namespace pod" "dg_name ?d = name" by (simp_all add: buildDiagnosis_def)
  obtain r w2 where 2: "kCreate k ?d w1 = (r, w2)" by fastforce
  show ?thesis
  proof (cases r)
    case (Inl err)
    then have "w' = w2" "L w2 = L w1" using assms(1) create_failed [of ?d w1 err w2] 2 by (auto simp: open_diagnosis_def 1)
    then show ?thesis using h1 by (simp add: opens_refl)
  next
    case (Inr d)
    obtain t' w3 where 3: "kNow k w2 = (t', w3)" by fastforce
    obtain u w4 where 4: "kUpdateStatus k (detected t' d) w3 = (u, w4)" by fastforce
    have c: "L w3 = (L w)((pod_namespace pod, name) \<mapsto> d)" "dg_namespace d = pod_namespace pod" "dg_name d = name"
      using create [of ?d w1 d w2] named [of ?d w1 d w2] clock [of w2] 2 3 Inr key h1 by simp_all
    show ?thesis
    proof (cases u)
      case (Inl err)
      then have "w' = w4" "L w4 = L w3" using assms(1) update_failed 4 by (auto simp: open_diagnosis_def 1 2 \<open>r = Inr d\<close> 3)
      then show ?thesis using c bare [of ?d w1 d w2] 2 Inr assms(2) \<open>r = Inr d\<close> by (auto simp: opens_def)
    next
      case (Inr d')
      then have "w' = w4" "e = None" using assms(1) 4 by (auto simp: open_diagnosis_def 1 2 \<open>r = Inr d\<close> 3)
      moreover have "L w4 = (L w3)((pod_namespace pod, name) \<mapsto> d')"
        using update [of "detected t' d" w3 d' w4] 4 Inr c by (simp add: detected_def)
      ultimately show ?thesis using c assms(2) by (auto simp: opens_def)
    qed
  qed
qed

lemma attribute_failure_view:
  assumes "attribute_failure D k pod sg p w = ((res, e), w')"
  shows "opens L w e w'"
proof -
  obtain x w1 where 1: "resolveWorkload k pod w = (x, w1)" by fastforce
  have h1: "L w1 = L w" using resolveWorkload_H [of pod w] 1 by simp
  show ?thesis
  proof (cases x)
    case (Inr wl)
    define sig where "sig = Signature (de_sha D) (pod_namespace pod) (wr_kind wl) (wr_name wl)
      (sg_container sg) (sg_failureType sg)"
    define name where "name = DiagnosisName (de_ulower D) (wr_name wl) (sg_failureType sg) sig"
    obtain g w2 where 2: "kGetDiagnosis k (pod_namespace pod) name w1 = (g, w2)" by fastforce
    obtain b w3 where 3: "withinRateLimit k (pod_namespace pod) p w2 = (b, w3)" by fastforce
    have h: "L w2 = L w" "L w3 = L w"
      using get_diagnosis [of "pod_namespace pod" name w1] withinRateLimit_H [of "pod_namespace pod" p w2] 2 3 h1
      by simp_all
    note unfolded = attribute_failure_def Let_def 1 Inr sig_def [symmetric] name_def [symmetric] 2 3
    show ?thesis
    proof (cases "\<exists>err. g = Inl err \<and> err_kind err = ENotFound \<and> b = Inr True")
      case True
      then have "open_diagnosis k pod wl sg p name sig w3 = ((res, e), w')" using assms by (auto simp: unfolded)
      moreover have "L w3 (pod_namespace pod, name) = None"
        using absent [of "pod_namespace pod" name w1 _ w2] True 2 h h1 by auto
      ultimately show ?thesis using open_diagnosis_view opens_from h by blast
    qed (use assms h in \<open>auto simp: unfolded intro!: opens_refl split: sum.splits if_splits\<close>)
  qed (use assms h1 in \<open>auto simp: attribute_failure_def 1 intro: opens_refl\<close>)
qed

lemma Pod_view:
  assumes "PodReconciler_Reconcile D k ns n w = ((res, e), w')"
  shows "opens L w e w'"
proof -
  obtain x w1 where 1: "kGetPod k ns n w = (x, w1)" by fastforce
  obtain t w2 where 2: "kNow k w1 = (t, w2)" by fastforce
  have h1: "L w1 = L w" using get_pod [of w ns n] 1 by (simp add: unchanged_def)
  have h2: "L w2 = L w" using clock [of w1] 2 h1 by simp
  show ?thesis
  proof (cases "\<exists>pod sg. x = Inr pod \<and> Classify (Some pod) t = Some sg")
    case True
    then obtain pod sg where x: "x = Inr pod" "Classify (Some pod) t = Some sg" by blast
    obtain q w3 where 3: "policyFor k (pod_namespace pod) w2 = (q, w3)" by fastforce
    have h3: "L w3 = L w" using policyFor_H [of "pod_namespace pod" w2] 3 h2 by simp
    show ?thesis
    proof (cases "attribute_failure D k pod sg (the (projr q)) w3 = ((res, e), w')")
      case True
      then show ?thesis using attribute_failure_view opens_from h3 by blast
    next
      case False
      then have "w' = w \<or> w' = w3"
        using assms by (auto simp: PodReconciler_Reconcile_def 1 2 x 3 split: sum.splits option.splits if_splits)
      then show ?thesis using h3 by (auto intro: opens_refl)
    qed
  qed (use assms h1 h2 in \<open>auto simp: PodReconciler_Reconcile_def 1 2 intro!: opens_refl
      split: sum.splits option.splits if_splits\<close>)
qed

lemma Evidence_ignores:
  assumes "L w (ns, n) = Some d" "st_phase (dg_status d) \<noteq> PhaseDetected"
  shows "L (snd (EvidenceReconciler_Reconcile k ns n w)) = L w"
proof -
  obtain x w1 where 1: "kGetDiagnosis k ns n w = (x, w1)" by fastforce
  have "L w1 = L w" "\<And>d'. x = Inr d' \<Longrightarrow> d' = d"
    using get_diagnosis [of ns n w] fresh [of ns n w _ w1] 1 assms(1) by auto
  then show ?thesis using assms(2) by (cases x) (auto simp: EvidenceReconciler_Reconcile_def 1)
qed

lemma Investigator_ignores:
  assumes "L (fst s) (ns, n) = Some d" "st_phase (dg_status d) \<noteq> PhaseEnriched"
  shows "L (fst (snd (InvestigatorReconciler_Reconcile r k ns n s))) = L (fst s)"
proof -
  obtain x w1 where 1: "kGetDiagnosis k ns n (fst s) = (x, w1)" by fastforce
  have "L w1 = L (fst s)" "\<And>d'. x = Inr d' \<Longrightarrow> d' = d"
    using get_diagnosis [of ns n "fst s"] fresh [of ns n "fst s" _ w1] 1 assms(1) by auto
  then show ?thesis using assms(2) by (cases x) (auto simp: InvestigatorReconciler_Reconcile_def 1)
qed

text \<open>No reconcile of any controller, on any object, touches an object without a status.\<close>

lemma reconcile_ignores:
  assumes "quiet L (ir_env r)" "retries (ir_retry r)" "L (fst s) x = Some d" "dg_status d = DiagnosisStatus_zero"
  shows "L (fst (reconcile D r k s ev)) x = Some d"
proof -
  have ph: "st_phase (dg_status d) = PhaseOther []" using assms(4) by (simp add: DiagnosisStatus_zero_def)
  have other: "L w' x = Some d" if "effect L phase y (fst s) failed w'" "x \<noteq> y" for phase y failed w'
    using that assms(3) by (auto simp: effect_def)
  show ?thesis
  proof (cases ev)
    case (DetectEvent ns n)
    obtain res e w' where "PodReconciler_Reconcile D k ns n (fst s) = ((res, e), w')" by (metis prod.exhaust)
    then show ?thesis using Pod_view [of D ns n "fst s" res e w'] assms(3) DetectEvent by (auto simp: opens_def)
  next
    case (EnrichEvent ns n)
    obtain out w' where 1: "EvidenceReconciler_Reconcile k ns n (fst s) = (out, w')" by fastforce
    show ?thesis
      using Evidence_ignores [of "fst s" ns n d] other [OF Evidence_effect [OF 1]] assms(3) ph 1 EnrichEvent
      by (cases "x = (ns, n)") auto
  next
    case (InvestigateEvent ns n)
    obtain out w' m' where 1: "InvestigatorReconciler_Reconcile r k ns n (fst s, snd s) = (out, (w', m'))"
      by (metis prod.exhaust)
    show ?thesis
      using Investigator_ignores [of s ns n d r] other [OF Investigator_effect [OF assms(1,2) 1]] assms(3) ph 1
        InvestigateEvent
      by (cases "x = (ns, n)") auto
  qed
qed

end

interpretation cluster_creator: creator cluster_kube current
proof
  fix w w' :: cluster and d d' e
  show "dg_status d' = DiagnosisStatus_zero" if "kCreate cluster_kube d w = (Inr d', w')"
    using that cluster.created [of d w d' w'] by simp
  show "current w' = current w" if "kCreate cluster_kube d w = (Inl e, w')"
    using that by (auto simp: cluster_kube_def apfst_def map_prod_def split: if_splits prod.splits)
qed

text \<open>Another way to answer status updates.\<close>

lemma creator_update:
  assumes "creator k L" "\<And>d w d' w'. f d w = (Inr d', w') \<Longrightarrow>
      dg_status d' = dg_status d \<and> L w' = (L w)((dg_namespace d, dg_name d) \<mapsto> d')"
    and "\<And>d w e w'. f d w = (Inl e, w') \<Longrightarrow> L w' = L w"
  shows "creator (k\<lparr>kUpdateStatus := f\<rparr>) L"
proof (intro creator.intro opener.intro settled.intro)
  show "undisturbed (k\<lparr>kUpdateStatus := f\<rparr>) L"
    using assms(1) unfolding creator_def opener_def settled_def undisturbed_def undisturbed_axioms_def reader_def by simp
  show "cache (k\<lparr>kUpdateStatus := f\<rparr>) L"
    using assms(1,2) unfolding creator_def opener_def settled_def cache_def by simp
  show "settled_axioms (k\<lparr>kUpdateStatus := f\<rparr>) L" using assms(3) by (simp add: settled_axioms_def)
  show "opener_axioms (k\<lparr>kUpdateStatus := f\<rparr>) L"
    using assms(1) unfolding creator_def opener_def opener_axioms_def by simp
  show "creator_axioms (k\<lparr>kUpdateStatus := f\<rparr>) L"
    using assms(1) unfolding creator_def creator_axioms_def by simp
qed

subsection \<open>Properties\<close>

text \<open>Reconciles of the three controllers, on any objects, and between them anything else that leaves the
  object \<open>x\<close> as it is.\<close>

inductive operator_run ::
    "denv \<Rightarrow> ('w, 'm, 'p) InvestigatorReconciler \<Rightarrow> 'w kube \<Rightarrow> ('w \<Rightarrow> view) \<Rightarrow> key \<Rightarrow> 'w \<times> 'm \<Rightarrow> 'w \<times> 'm \<Rightarrow> bool"
  for D r k L x s where
  Start: "operator_run D r k L x s s"
| Reconcile: "operator_run D r k L x s s1 \<Longrightarrow> operator_run D r k L x s (reconcile D r k s1 ev)"
| Others: "operator_run D r k L x s s1 \<Longrightarrow> L w' x = L (fst s1) x \<Longrightarrow> operator_run D r k L x s (w', m')"

text \<open>C35. A diagnosis that was created but never marked is stuck: when a reconcile of the detector ends with
  an error and there is a diagnosis that was not there before, which happens when the status update after
  the creation fails, that diagnosis has no phase; and however many reconciles of the three controllers
  follow, the retried detection among them, and whatever else happens to other objects, it stays exactly
  as it is.\<close>

theorem unmarked_diagnosis_stuck:
  assumes "creator k L" "quiet L (ir_env r)" "retries (ir_retry r)"
    and "PodReconciler_Reconcile D k ns n w = ((res, Some e), w')" "L w x = None" "L w' x = Some d"
    and "operator_run D r k L x (w', m) s"
  shows "dg_status d = DiagnosisStatus_zero \<and> L (fst s) x = Some d"
proof
  show zero: "dg_status d = DiagnosisStatus_zero"
    using creator.Pod_view [OF assms(1,4)] assms(5,6) by (auto simp: opens_def split: if_splits)
  show "L (fst s) x = Some d"
    using assms(7)
  proof (induction rule: operator_run.induct)
    case (Reconcile s1 ev)
    then show ?case using creator.reconcile_ignores [OF assms(1-3) _ zero] by blast
  qed (use assms(6) in simp_all)
qed

text \<open>The cluster of Pipeline, with status updates failing at first.\<close>

definition flaky_kube :: "cluster kube" where
  "flaky_kube = cluster_kube\<lparr>kUpdateStatus := \<lambda>d w.
     if cl_clock w < 5 then (Inl (api_error EOther), w) else kUpdateStatus cluster_kube d w\<rparr>"

lemma flaky_creator: "creator flaky_kube current"
  unfolding flaky_kube_def
  by (rule creator_update [OF cluster_creator.creator_axioms])
    (use cluster_cache.update resting.update_failed in \<open>auto split: if_splits\<close>)

theorem unmarked_diagnosis_stuck_witness:
  "let w1 = snd (PodReconciler_Reconcile example_denv flaky_kube ''shop'' ''web-1'' example_cluster);
       s = foldl (reconcile example_denv example_reconciler flaky_kube) (w1\<lparr>cl_clock := 9\<rparr>, [])
         [DetectEvent ''shop'' ''web-1'', EnrichEvent ''shop'' (dg_name (hd (stored w1)))]
   in \<exists>d. stored w1 = [d] \<and> dg_status d = DiagnosisStatus_zero \<and> current (fst s) (dg_namespace d, dg_name d) = Some d"
proof -
  let ?p = "PodReconciler_Reconcile example_denv flaky_kube ''shop'' ''web-1'' example_cluster"
  let ?w1 = "snd ?p"
  let ?events = "[DetectEvent ''shop'' ''web-1'', EnrichEvent ''shop'' (dg_name (hd (stored ?w1)))]"
  let ?s = "foldl (reconcile example_denv example_reconciler flaky_kube) (?w1\<lparr>cl_clock := 9\<rparr>, []) ?events"
  have 1: "snd (fst ?p) \<noteq> None" "length (stored ?w1) = 1" by code_simp+
  obtain res e where p: "?p = ((res, Some e), ?w1)" using 1(1) by (metis prod.collapse option.exhaust)
  obtain d where d: "stored ?w1 = [d]" using 1(2) by (auto simp: length_Suc_conv)
  let ?x = "(dg_namespace d, dg_name d)"
  have "stored example_cluster = []" using example_operator(4) by simp
  then have before: "current example_cluster ?x = None" by (simp add: current_def latest_def)
  have after: "current ?w1 ?x = Some d" by (simp add: current_def latest_def d)
  have "operator_run example_denv example_reconciler flaky_kube current ?x (?w1, []) (?w1\<lparr>cl_clock := 9\<rparr>, [])"
    by (rule Others [OF Start]) (simp add: current_def latest_def stored_clock)
  then have run: "operator_run example_denv example_reconciler flaky_kube current ?x (?w1, []) ?s"
    unfolding foldl.simps by (intro Reconcile)
  have q: "quiet current (ir_env example_reconciler)" by (simp add: quiet_def example_reconciler_def resting.clock)
  from unmarked_diagnosis_stuck [OF flaky_creator, OF q example_operator(3) p before after run] d
  show ?thesis unfolding Let_def by blast
qed

end
