(* ===== verification/DetectorQueue.thy ===== *)
theory DetectorQueue
  imports Manager
begin

text \<open>
  The detector as the manager runs it: a step relation on the cluster and the detector's queue of pods. A
  pod event enters its pod into the queue when the filter of \<open>SetupWithManager\<close> lets it pass, and a worker
  takes a pod out, reconciles it and puts it back when the reconcile fails or asks for it. From it follows
  what becomes of a failure that needs time to show.
\<close>

datatype detector_label = Reconciled key | Told pod_event | Meanwhile

text \<open>\<open>handler.EnqueueRequestForObject\<close>: an update is filed under its new object.\<close>

fun event_pod :: "pod_event \<Rightarrow> Pod" where
  "event_pod (CreateEvent p) = p"
| "event_pod (DeleteEvent p) = p"
| "event_pod (UpdateEvent old new) = new"
| "event_pod (GenericEvent p) = p"

definition event_key :: "pod_event \<Rightarrow> key" where
  "event_key ev = (pod_namespace (event_pod ev), pod_name (event_pod ev))"

inductive detector_step ::
    "denv \<Rightarrow> 'w kube \<Rightarrow> (PodStatus \<Rightarrow> PodStatus \<Rightarrow> bool) \<Rightarrow> 'w \<times> key set \<Rightarrow> detector_label \<Rightarrow> 'w \<times> key set \<Rightarrow> bool"
  for D k deepEqual where
  Work: "(ns, n) \<in> q \<Longrightarrow> PodReconciler_Reconcile D k ns n w = (out, w') \<Longrightarrow>
     detector_step D k deepEqual (w, q) (Reconciled (ns, n)) (w', worked q (ns, n) out)"
| Tell: "q' = (if ct_filter (PodReconciler_SetupWithManager deepEqual) ev then insert (event_key ev) q else q) \<Longrightarrow>
     detector_step D k deepEqual (w, q) (Told ev) (w, q')"
| Change: "detector_step D k deepEqual (w, q) Meanwhile (w', q)"

inductive_cases detector_stepE: "detector_step D k deepEqual s l s'"

inductive detector_run ::
    "denv \<Rightarrow> 'w kube \<Rightarrow> (PodStatus \<Rightarrow> PodStatus \<Rightarrow> bool) \<Rightarrow> 'w \<times> key set \<Rightarrow> detector_label list \<Rightarrow> 'w \<times> key set \<Rightarrow> bool"
  for D k deepEqual where
  Rest: "detector_run D k deepEqual s [] s"
| Step: "detector_step D k deepEqual s l s1 \<Longrightarrow> detector_run D k deepEqual s1 ls s2 \<Longrightarrow>
     detector_run D k deepEqual s (l # ls) s2"

subsection \<open>Failures that need time\<close>

text \<open>All that is heard of \<open>x\<close> is that its status is what it was.\<close>

fun status_unchanged :: "key \<Rightarrow> detector_label \<Rightarrow> bool" where
  "status_unchanged x (Told (UpdateEvent old new)) \<longleftrightarrow>
     event_key (UpdateEvent old new) = x \<longrightarrow> pod_status old = pod_status new"
| "status_unchanged x (Told ev) \<longleftrightarrow> event_key ev \<noteq> x"
| "status_unchanged x l \<longleftrightarrow> True"

lemma not_told:
  assumes "\<And>s. deepEqual s s" "status_unchanged x (Told ev)" "event_key ev = x"
  shows "\<not> ct_filter (PodReconciler_SetupWithManager deepEqual) ev"
  using assms by (cases ev) (simp_all add: PodReconciler_SetupWithManager_def)

lemma stays_out:
  assumes "\<And>s. deepEqual s s"
  shows "detector_run D k deepEqual s ls s' \<Longrightarrow> list_all (status_unchanged x) ls \<Longrightarrow> x \<notin> snd s \<Longrightarrow>
    Reconciled x \<notin> set ls \<and> x \<notin> snd s'"
proof (induction rule: detector_run.induct)
  case (Step s l s1 ls s2)
  from Step.hyps(1) have "l \<noteq> Reconciled x \<and> x \<notin> snd s1"
  proof (cases rule: detector_step.cases)
    case (Work ns n q w out w')
    then show ?thesis using Step.prems(2) by (auto simp: worked_def)
  next
    case (Tell q' ev q w)
    then show ?thesis
      using Step.prems not_told [of deepEqual x ev, OF assms] by (auto split: if_splits)
  next
    case (Change w q w')
    then show ?thesis using Step.prems(2) by simp
  qed
  then show ?case using Step.IH Step.prems(1) by auto
qed simp

lemma Classify_later:
  assumes "Classify (Some pod) now \<noteq> None" "now \<le> later"
  shows "Classify (Some pod) later \<noteq> None"
proof
  assume none: "Classify (Some pod) later = None"
  obtain s where "Classify (Some pod) now = Some s" using assms(1) by auto
  then show False
  proof (cases rule: Classify_cases)
    case evicted
    then show False using classify_loops_None [OF none] by simp
  next
    case unschedulable
    then show False using classify_loops_None [OF none] unschedulable_later [OF _ assms(2)] by simp
  next
    case (container cs)
    then show False using classify_loops_None [OF none] classifyContainer_later [OF _ assms(2)] by fastforce
  qed
qed

lemma healthy_done:
  assumes "kGetPod k ns n w = (Inr pod, w1)" "kNow k w1 = (now, w2)" "Classify (Some pod) now = None"
    and "PodReconciler_Reconcile D k ns n w = (out, w')"
  shows "\<not> again out"
  using assms by (auto simp: PodReconciler_Reconcile_def again_def split: if_splits)

text \<open>C36. A failure that needs time to show is missed: when the detector takes a pod from its queue whose
  container is not ready but still within its grace period, or that has only just become unschedulable, the
  reconcile ends without an error and without a request to come back; in every run that follows, whatever
  happens to other objects, as long as the pod is only ever announced with the status it has, it is never
  entered into the queue and never reconciled again, although from the end of the grace period on
  \<open>Classify\<close> reports its failure at any time. Only a change of its status or a restart of the operator,
  when every pod is announced as created, makes the detector look again.\<close>

theorem late_failure_missed:
  assumes "\<And>s. deepEqual s s"
    and "kGetPod k ns n w = (Inr pod, w1)" "kNow k w1 = (now, w2)"
    and "Classify (Some pod) now = None" "Classify (Some pod) later \<noteq> None"
    and "detector_step D k deepEqual (w, q) (Reconciled (ns, n)) s1"
    and "detector_run D k deepEqual s1 ls s2" "list_all (status_unchanged (ns, n)) ls"
  shows "Reconciled (ns, n) \<notin> set ls \<and> (ns, n) \<notin> snd s2 \<and> (\<forall>t\<ge>later. Classify (Some pod) t \<noteq> None)"
proof -
  have "(ns, n) \<notin> snd s1"
    using assms(6) healthy_done [OF assms(2-4)] by (auto elim!: detector_stepE simp: worked_def)
  with stays_out [OF assms(1,7,8)] Classify_later [OF assms(5)] show ?thesis by blast
qed

theorem late_failure_missed_witness:
  "let pod = pod_probed 0 10 3 [cs_unready ''web'' 0];
       k = one_pod\<lparr>kGetPod := \<lambda>ns n w. (Inr pod, w)\<rparr>
   in \<exists>s. detector_run example_denv k (=) ((), {}) [Told (CreateEvent pod), Reconciled (event_key (CreateEvent pod)),
          Told (UpdateEvent pod pod), Meanwhile] s \<and>
        snd s = {} \<and> Classify (Some pod) (2 * hour) \<noteq> None"
proof -
  define pod where "pod = pod_probed 0 10 3 [cs_unready ''web'' 0]"
  define k where "k = one_pod\<lparr>kGetPod := \<lambda>ns n w. (Inr pod, w)\<rparr>"
  let ?x = "event_key (CreateEvent pod)" and ?ls = "[Told (UpdateEvent pod pod), Meanwhile]"
  obtain ns n where x: "?x = (ns, n)" by fastforce
  have c: "Classify (Some pod) 0 = None" "Classify (Some pod) hour \<noteq> None" unfolding pod_def by code_simp+
  have g: "kGetPod k ns n () = (Inr pod, ())" "kNow k () = (0, ())"
    by (simp_all add: k_def one_pod_def failing_def)
  define out where "out = fst (PodReconciler_Reconcile example_denv k ns n ())"
  have r: "PodReconciler_Reconcile example_denv k ns n () = (out, ())" by (simp add: out_def prod_eq_iff)
  let ?q = "worked {?x} (ns, n) out"
  have told: "detector_step example_denv k (=) ((), {}) (Told (CreateEvent pod)) ((), {?x})"
    by (rule Tell) (simp add: PodReconciler_SetupWithManager_def)
  have step: "detector_step example_denv k (=) ((), {?x}) (Reconciled (ns, n)) ((), ?q)"
    by (rule Work [OF _ r]) (simp add: x)
  have "detector_step example_denv k (=) ((), ?q) (Told (UpdateEvent pod pod)) ((), ?q)"
    by (rule Tell) (simp add: PodReconciler_SetupWithManager_def)
  then have run: "detector_run example_denv k (=) ((), ?q) ?ls ((), ?q)"
    by (rule detector_run.Step) (rule detector_run.Step [OF Change detector_run.Rest])
  have un: "list_all (status_unchanged (ns, n)) ?ls" by simp
  have miss: "(ns, n) \<notin> ?q" "\<forall>t\<ge>hour. Classify (Some pod) t \<noteq> None"
    using late_failure_missed [of "(=)", OF refl g c step run un] by simp_all
  have "?q = {}" using miss(1) by (auto simp: worked_def x split: if_splits)
  moreover have "detector_run example_denv k (=) ((), {}) (Told (CreateEvent pod) # Reconciled ?x # ?ls) ((), ?q)"
    using detector_run.Step [OF told detector_run.Step [OF step run]] by (simp add: x)
  moreover have "hour \<le> 2 * hour" by (simp add: hour_def second_def)
  ultimately show ?thesis using miss(2) unfolding Let_def pod_def [symmetric] k_def [symmetric] by auto
qed

end
