(* ===== verification/Written.thy ===== *)
theory Written
  imports Frames
begin

text \<open>
  What the investigator writes. Over a client that notes its requests, every status a reconcile of
  \<open>investigator_controller.go\<close> sends to the API server is looked at, and nothing else is sent: \<open>written\<close>
  is the part of the noted requests that change something, and the locale \<open>undisturbed\<close> of Frames shows
  that an investigation leaves it alone.
\<close>

definition written :: "'w \<times> request list \<Rightarrow> request list" where
  "written s = filter is_write (snd s)"

definition int32_policies :: "'w kube \<Rightarrow> bool" where
  "int32_policies k \<longleftrightarrow>
     (\<forall>ns n w p w'. kGetPolicy k ns n w = (Inr p, w') \<longrightarrow> is_int32 (ag_maxToolCalls (ps_agent (hp_spec p))))"

lemma written_undisturbed: "int32_policies k \<Longrightarrow> undisturbed (logged k) written"
proof unfold_locales
  fix ns n w p w'
  assume "int32_policies k" "kGetPolicy (logged k) ns n w = (Inr p, w')"
  then show "is_int32 (ag_maxToolCalls (ps_agent (hp_spec p)))"
    unfolding int32_policies_def by (auto simp: logged_def noted_def split: prod.splits) blast
qed (auto simp: unchanged_def written_def logged_def noted_def list_all_iff split: prod.splits)

text \<open>A status the investigator may send.\<close>

definition findings_written :: "Diagnosis \<Rightarrow> bool" where
  "findings_written d \<longleftrightarrow>
     st_phase (dg_status d) = PhaseHypothesized \<and> list_all Hypothesis_schema (st_hypotheses (dg_status d)) \<and>
     (case st_investigation (dg_status d) of
        None \<Rightarrow> False
      | Some i \<Rightarrow> Investigation_schema i \<and> length (iv_toolCalls i) \<le> 30 \<and>
                  (st_hypotheses (dg_status d) \<noteq> [] \<or> iv_budgetExhausted i))"

fun request_ok :: "request \<Rightarrow> bool" where
  "request_ok (ReqUpdateStatus d) = findings_written d"
| "request_ok q = (\<not> is_write q)"

lemma request_ok_read: "\<not> is_write q \<Longrightarrow> request_ok q"
  by (cases q) auto

lemma written_none: "written s = [] \<Longrightarrow> list_all request_ok (snd s)"
  by (auto simp: written_def filter_empty_conv list_all_iff intro: request_ok_read)

lemma record_attempt_writes:
  assumes "\<And>now d. findings_written (hypothesized provider f calls now d)"
    and "list_all request_ok (snd s)"
  shows "list_all request_ok (snd (snd (record_attempt provider (logged k) ns n f calls s)))"
  using assms
  by (auto simp: record_attempt_def logged_def noted_def split: prod.splits sum.splits)

lemma attempts_writes:
  assumes "\<And>s. P s \<Longrightarrow> P (snd (g s))"
  shows "P s \<Longrightarrow> P (snd (attempts i g s))"
proof (induction i arbitrary: s)
  case (Suc i)
  obtain e s1 where "g s = (e, s1)" by fastforce
  then show ?case using Suc assms [of s] by (auto split: option.splits)
qed (use assms in simp)

lemma investigate_writes:
  assumes "quiet written (ir_env r)" "retries (ir_retry r)" "int32_policies k"
    and "is_int32 (ag_maxToolCalls (ps_agent (hp_spec p)))" "written (fst s) = []"
  shows "list_all request_ok (snd (fst (snd (investigate r M (logged k) ns n d p s))))"
proof -
  define inp where "inp = buildInput d (ps_agent (hp_spec p)) (ir_pricing r)"
  define sc where "sc = BindTo (ScopeForDiagnosis d (wrap64 (bd_maxToolCalls (in_budget inp) + brokerHeadroom)))"
  have fits: "budget_fits inp" unfolding inp_def using assms(4) by (rule budget_fits_buildInput)
  let ?iv = "NewInvestigator (lift_env (ir_env r)) M (broker (ir_tenv r) (logged k) sc)"
  obtain f e w1 calls m where run: "Run ?iv inp ((fst s, []), snd s) = ((f, e), ((w1, calls), m))"
    by (metis prod.exhaust)
  have "written w1 = []"
    using session.Run_S [OF undisturbed.session_H [OF written_undisturbed [OF assms(3)] assms(1)] fits run] assms(5) by simp
  then have 1: "list_all request_ok (snd w1)" by (rule written_none)
  have "list_all request_ok (snd (snd (record_findings (ir_retry r) (md_name M) (logged k) ns n f calls w1)))" if "e = None"
  proof -
    have "\<exists>n. outcome_ok inp n f None" using Run_ok(2) [OF fits run] that by auto
    then have "list_all Hypothesis_schema (toAPIHypotheses (fd_hypotheses f))" "length (fd_stopReason f) \<le> 256"
      "fd_hypotheses f \<noteq> [] \<or> fd_budgetExhausted f"
      using outcome_schema [of inp _ f] by (auto simp: inp_def)
    moreover have "list_all ToolCall_schema (take maxRecordedToolCalls calls)"
      using recorded.Run_S [OF fits run] by (auto simp: recorded_def list_all_iff dest: in_set_takeD)
    ultimately have "findings_written (hypothesized (md_name M) f (take maxRecordedToolCalls calls) now d)" for now d
      by (auto simp: findings_written_def hypothesized_def investigation_of_def Investigation_schema_def
          maxRecordedToolCalls_def toAPIHypotheses_def intro: max_length_bytes)
    moreover obtain i where "record_findings (ir_retry r) (md_name M) (logged k) ns n f calls w1 =
        attempts i (record_attempt (md_name M) (logged k) ns n f (take maxRecordedToolCalls calls)) w1"
      using assms(2) unfolding retries_def record_findings_def by blast
    ultimately show ?thesis
      using attempts_writes [where P = "\<lambda>s. list_all request_ok (snd s)" and s = w1] record_attempt_writes 1 by metis
  qed
  then show ?thesis
    using 1
    by (cases "record_findings (ir_retry r) (md_name M) (logged k) ns n f calls w1")
      (auto simp: investigate_def inp_def [symmetric] sc_def [symmetric] Let_def run split: option.splits)
qed

text \<open>C17. Findings fit the object they are written to: whatever the model submits and the cluster answers,
  everything a reconcile of the investigator sends to the API server besides reads is a status at
  Hypothesized whose hypotheses and account of the investigation satisfy the schema of the Diagnosis, with
  at most 30 tool calls recorded, and with hypotheses or the note that the budget was exhausted.\<close>

theorem findings_meet_schema:
  assumes "quiet written (ir_env r)" "retries (ir_retry r)" "int32_policies k"
    and "InvestigatorReconciler_Reconcile r (logged k) ns n ((w, []), m) = (out, (s, m'))"
  shows "list_all request_ok (snd s)"
proof -
  obtain x w1 where 1: "kGetDiagnosis k ns n w = (x, w1)" by fastforce
  show ?thesis
  proof (cases "\<exists>d. x = Inr d \<and> st_phase (dg_status d) = PhaseEnriched")
    case True
    then obtain d where d: "x = Inr d" "st_phase (dg_status d) = PhaseEnriched" by blast
    obtain y w2 where 2: "kGetPolicy k (dg_namespace d) (ds_policyRef (dg_spec d)) w1 = (y, w2)" by fastforce
    show ?thesis
    proof (cases "\<exists>p M. y = Inr p \<and> ag_enabled (ps_agent (hp_spec p)) \<and> ir_model r = Some M")
      case True
      then obtain p M where y: "y = Inr p" "ag_enabled (ps_agent (hp_spec p))" "ir_model r = Some M" by blast
      define s2 where "s2 = ((w2, [ReqGet ''diagnoses'' ns n,
        ReqGet ''healingpolicies'' (dg_namespace d) (ds_policyRef (dg_spec d))]), m)"
      have "investigate r M (logged k) ns n d p s2 = (out, (s, m'))"
        using assms(4) by (simp add: InvestigatorReconciler_Reconcile_def logged_def noted_def 1 d 2 y s2_def)
      moreover have "is_int32 (ag_maxToolCalls (ps_agent (hp_spec p)))"
        using assms(3) 2 y(1) unfolding int32_policies_def by blast
      moreover have "written (fst s2) = []" by (simp add: s2_def written_def)
      ultimately show ?thesis using investigate_writes [OF assms(1-3), of p s2 M ns n d] by simp
    qed (use assms(4) in \<open>auto simp: InvestigatorReconciler_Reconcile_def logged_def noted_def 1 d 2
        split: sum.splits option.splits if_splits\<close>)
  qed (use assms(4) in \<open>auto simp: InvestigatorReconciler_Reconcile_def logged_def noted_def 1
      split: sum.splits if_splits\<close>)
qed

text \<open>A cluster with one enriched diagnosis, and an investigation that reads once and submits.\<close>

definition enriched_kube :: "unit kube" where
  "enriched_kube =
     one_pod\<lparr>kListDiagnoses := \<lambda>ns w. (Inr [], w), kGetDiagnosis := \<lambda>ns n w. (Inr example_diagnosis, w),
       kGetPolicy := \<lambda>ns n w. (Inr example_policy, w), kUpdateStatus := \<lambda>d w. (Inr d, w)\<rparr>"

definition scripted_reconciler :: "(unit \<times> request list, unit Request list, unit) InvestigatorReconciler" where
  "scripted_reconciler =
     \<lparr>ir_model = Some (ScriptedModel example_script), ir_pricing = free, ir_env = lift_env (inv_env (steady [])),
      ir_tenv = example_tenv, ir_retry = attempts 4\<rparr>"

theorem findings_meet_schema_witness:
  "let s = snd (InvestigatorReconciler_Reconcile scripted_reconciler (logged enriched_kube) ''shop'' ''d'' (((), []), []))
   in length (written (fst s)) = 1 \<and> list_all request_ok (snd (fst s))"
proof -
  let ?r = "InvestigatorReconciler_Reconcile scripted_reconciler (logged enriched_kube) ''shop'' ''d'' (((), []), [])"
  have w: "length (written (fst (snd ?r))) = 1" by code_simp
  obtain out s m where r: "?r = (out, (s, m))" by (metis prod.exhaust)
  have "quiet written (ir_env scripted_reconciler)"
    by (simp add: quiet_def scripted_reconciler_def lift_env_def steady_def via_fst_def written_def)
  moreover have "retries (ir_retry scripted_reconciler)" by (auto simp: retries_def scripted_reconciler_def)
  moreover have "int32_policies enriched_kube"
    by (simp add: int32_policies_def enriched_kube_def example_policy_def example_config_def is_int32_def)
  ultimately have ok: "list_all request_ok (snd s)" by (rule findings_meet_schema [OF _ _ _ r])
  show ?thesis using w ok r by (simp add: Let_def)
qed

end
