(* ===== verification/Gemini.thy ===== *)
theory Gemini
  imports Agentic "HOL-Library.Sublist"
begin

text \<open>
  \<open>src/internal/model/gemini/gemini.go\<close>: the translation between the conversation of the loop and the
  types of the genai SDK, which are records of the fields the code uses. Values of type \<open>any\<close> are the
  type parameter \<open>'a\<close>; the record \<open>genai\<close> holds what the SDK and \<open>encoding/json\<close> do with them, and the
  call of the service.
\<close>

record 'a FunctionCall =
  fc_id :: string
  fc_name :: string
  fc_args :: 'a

record FunctionResponse =
  fr_id :: string
  fr_name :: string
  fr_response :: "string \<times> string"   \<comment> \<open>the one entry of the map\<close>

record 'a Part =
  pt_text :: string
  pt_thought :: bool
  pt_functionCall :: "'a FunctionCall option"
  pt_functionResponse :: "FunctionResponse option"

record 'a Content =
  ct_role :: string
  ct_parts :: "'a Part list"

record 'a FunctionDeclaration =
  fn_name :: string
  fn_description :: string
  fn_schema :: 'a

record 'a GenerateContentConfig =
  gc_system :: string
  gc_tools :: "'a FunctionDeclaration list"
  gc_mode :: string

record UsageMetadata =
  um_promptTokenCount :: int
  um_candidatesTokenCount :: int
  um_thoughtsTokenCount :: int

record 'a GenerateContentResponse =
  gr_candidates :: "'a Content option list"
  gr_usageMetadata :: "UsageMetadata option"

record ('w, 'a) genai =
  ga_fromJSON :: "json \<Rightarrow> 'a"                    \<comment> \<open>an object or null as a map\<close>
  ga_toJSON :: "'a \<Rightarrow> goerror + string"
  ga_jerr :: "string \<Rightarrow> string"
  ga_generate :: "string \<Rightarrow> 'a Content list \<Rightarrow> 'a GenerateContentConfig \<Rightarrow> ('w, 'a GenerateContentResponse) op"

text \<open>\<open>json.Unmarshal\<close> into a map: an object, or null for the nil map.\<close>

definition unmarshal_map :: "('w, 'a) genai \<Rightarrow> string \<Rightarrow> goerror + 'a" where
  "unmarshal_map G s =
     (case unmarshal s of
        Some (JObj ms) \<Rightarrow> Inr (ga_fromJSON G (JObj ms))
      | Some JNull \<Rightarrow> Inr (ga_fromJSON G JNull)
      | _ \<Rightarrow> Inl (errorf (ga_jerr G s)))"

definition text_part :: "string \<Rightarrow> 'a Part" where
  "text_part t = \<lparr>pt_text = t, pt_thought = False, pt_functionCall = None, pt_functionResponse = None\<rparr>"

definition text_parts :: "string \<Rightarrow> 'a Part list" where
  "text_parts t = (if t \<noteq> [] then [text_part t] else [])"

fun call_parts :: "('w, 'a) genai \<Rightarrow> ToolCall list \<Rightarrow> goerror + 'a Part list" where
  "call_parts G [] = Inr []"
| "call_parts G (call # calls) =
     (case unmarshal_map G (call_arguments call) of
        Inl e \<Rightarrow> Inl (wrapf ''gemini: decoding call arguments: '' e)
      | Inr args \<Rightarrow>
          (case call_parts G calls of
             Inl e \<Rightarrow> Inl e
           | Inr ps \<Rightarrow> Inr ((text_part [])\<lparr>pt_functionCall :=
               Some \<lparr>fc_id = call_id call, fc_name = call_name call, fc_args = args\<rparr>\<rparr> # ps)))"

definition result_part :: "ToolResult \<Rightarrow> 'a Part" where
  "result_part r = (text_part [])\<lparr>pt_functionResponse :=
     Some \<lparr>fr_id = res_callID r, fr_name = res_name r,
           fr_response = (if res_isError r then ''error'' else ''output'', res_content r)\<rparr>\<rparr>"

fun toContents :: "('w, 'a) genai \<Rightarrow> 'a Content Message list \<Rightarrow> goerror + 'a Content list" where
  "toContents G [] = Inr []"
| "toContents G (msg # msgs) =
     (if msg_role msg = RoleModel then
        (case msg_providerState msg of
           Some original \<Rightarrow>
             (case toContents G msgs of Inl e \<Rightarrow> Inl e | Inr cs \<Rightarrow> Inr (original # cs))
         | None \<Rightarrow>
             (case call_parts G (msg_toolCalls msg) of
                Inl e \<Rightarrow> Inl e
              | Inr ps \<Rightarrow>
                  (case toContents G msgs of
                     Inl e \<Rightarrow> Inl e
                   | Inr cs \<Rightarrow> Inr (\<lparr>ct_role = ''model'', ct_parts = text_parts (msg_text msg) @ ps\<rparr> # cs))))
      else
        (let parts = text_parts (msg_text msg) @ map result_part (msg_toolResults msg) in
         case toContents G msgs of
           Inl e \<Rightarrow> Inl e
         | Inr cs \<Rightarrow> Inr (if parts \<noteq> [] then \<lparr>ct_role = ''user'', ct_parts = parts\<rparr> # cs else cs)))"

fun toDeclarations :: "('w, 'a) genai \<Rightarrow> ToolSpec list \<Rightarrow> goerror + 'a FunctionDeclaration list" where
  "toDeclarations G [] = Inr []"
| "toDeclarations G (s # ss) =
     (case unmarshal_map G (ts_inputSchema s) of
        Inl e \<Rightarrow> Inl (wrapf (''gemini: tool '' @ ts_name s @ '' has an invalid schema: '') e)
      | Inr schema \<Rightarrow>
          (case toDeclarations G ss of
             Inl e \<Rightarrow> Inl e
           | Inr ds \<Rightarrow> Inr (\<lparr>fn_name = ts_name s, fn_description = ts_description s, fn_schema = schema\<rparr> # ds)))"

definition usageOf :: "UsageMetadata option \<Rightarrow> Usage" where
  "usageOf u =
     (case u of
        None \<Rightarrow> \<lparr>us_inputTokens = 0, us_outputTokens = 0\<rparr>
      | Some m \<Rightarrow> \<lparr>us_inputTokens = um_promptTokenCount m,
                   us_outputTokens = um_candidatesTokenCount m + um_thoughtsTokenCount m\<rparr>)"

text \<open>The loop over the parts of a reply.\<close>

fun read_parts :: "('w, 'a) genai \<Rightarrow> 'a Part list \<Rightarrow> 'a Content Message \<Rightarrow> goerror + 'a Content Message" where
  "read_parts G [] reply = Inr reply"
| "read_parts G (p # ps) reply =
     (case pt_functionCall p of
        Some call \<Rightarrow>
          (case ga_toJSON G (fc_args call) of
             Inl e \<Rightarrow> Inl (wrapf ''gemini: encoding call arguments: '' e)
           | Inr args \<Rightarrow>
               read_parts G ps (reply\<lparr>msg_toolCalls := msg_toolCalls reply @
                 [\<lparr>call_id = fc_id call, call_name = fc_name call, call_arguments = args\<rparr>]\<rparr>))
      | None \<Rightarrow>
          if pt_text p \<noteq> [] \<and> \<not> pt_thought p
          then read_parts G ps (reply\<lparr>msg_text := msg_text reply @ pt_text p\<rparr>)
          else read_parts G ps reply)"

definition gemini_Generate ::
    "('w, 'a) genai \<Rightarrow> string \<Rightarrow> 'a Content Request \<Rightarrow> ('w, 'a Content Response) op" where
  "gemini_Generate G model req w =
     (case toDeclarations G (rq_tools req) of
        Inl e \<Rightarrow> (Inl e, w)
      | Inr declarations \<Rightarrow>
          (case toContents G (rq_messages req) of
             Inl e \<Rightarrow> (Inl e, w)
           | Inr contents \<Rightarrow>
               (case ga_generate G model contents
                       \<lparr>gc_system = rq_system req, gc_tools = declarations, gc_mode = ''ANY''\<rparr> w of
                  (Inl e, w') \<Rightarrow> (Inl e, w')
                | (Inr resp, w') \<Rightarrow>
                    (case gr_candidates resp of
                       Some content # _ \<Rightarrow>
                         (case read_parts G (ct_parts content)
                                 \<lparr>msg_role = RoleModel, msg_text = [], msg_toolCalls = [], msg_toolResults = [],
                                  msg_providerState = Some content\<rparr> of
                            Inl e \<Rightarrow> (Inl e, w')
                          | Inr reply \<Rightarrow> (Inr \<lparr>rs_message = reply, rs_usage = usageOf (gr_usageMetadata resp)\<rparr>, w'))
                     | _ \<Rightarrow> (Inl (errorf ''gemini: response contained no candidate''), w')))))"

definition gemini :: "('w, 'a) genai \<Rightarrow> string \<Rightarrow> ('w, 'a Content) Model" where
  "gemini G model = \<lparr>md_name = ''gemini/'' @ model, md_generate = gemini_Generate G model\<rparr>"

subsection \<open>The replay of the conversation\<close>

text \<open>Every reply carries the content it was read from.\<close>

lemma read_parts_state:
  "read_parts G ps reply = Inr reply' \<Longrightarrow>
     msg_role reply' = msg_role reply \<and> msg_providerState reply' = msg_providerState reply"
  by (induction ps arbitrary: reply) (auto split: option.splits sum.splits if_splits)

lemma gemini_Generate_state:
  "gemini_Generate G model req w = (Inr resp, w') \<Longrightarrow>
     msg_role (rs_message resp) = RoleModel \<and> msg_providerState (rs_message resp) \<noteq> None"
  by (auto simp: gemini_Generate_def dest!: read_parts_state split: sum.splits prod.splits list.splits option.splits)

definition replayable :: "'a Content Message \<Rightarrow> bool" where
  "replayable msg \<longleftrightarrow> (msg_role msg = RoleModel \<longrightarrow> msg_providerState msg \<noteq> None)"

definition original :: "'a Content Message \<Rightarrow> 'a Content option" where
  "original msg = (if msg_role msg = RoleModel then msg_providerState msg else None)"

text \<open>A conversation whose model turns all carry their content is never refused, and those contents are
  sent back as they came, in order.\<close>

lemma toContents_replays:
  "list_all replayable msgs \<Longrightarrow> \<exists>cs. toContents G msgs = Inr cs \<and> subseq (List.map_filter original msgs) cs"
  by (induction msgs) (auto simp: replayable_def original_def List.map_filter_simps Let_def split: option.splits)

end
