(* ===== verification/Commands.thy ===== *)
theory Commands
  imports Gemini ToolsProps
begin

text \<open>
  The configuration the two commands read. \<open>src/cmd/model.go\<close>: the investigation model from the
  environment, which is a function from names to values, empty where a variable is not set;
  \<open>genai.NewClient\<close> is a parameter. \<open>src/cmd/kubecure-mcp/main.go\<close>: the diagnosis named on the command
  line and the broker bound to it.
\<close>

subsection \<open>The model\<close>

definition envAPIKey :: string where "envAPIKey = ''GEMINI_API_KEY''"
definition envModel :: string where "envModel = ''KUBECURE_MODEL''"
definition envPriceInput :: string where "envPriceInput = ''KUBECURE_PRICE_INPUT_PER_MILLION_MICROUSD''"
definition envPriceOutput :: string where "envPriceOutput = ''KUBECURE_PRICE_OUTPUT_PER_MILLION_MICROUSD''"
definition defaultModel :: string where "defaultModel = ''gemini-2.5-flash''"

definition priceFromEnv :: "(nat \<Rightarrow> bool) \<Rightarrow> (string \<Rightarrow> string) \<Rightarrow> string \<Rightarrow> goerror + int" where
  "priceFromEnv uprint getenv name =
     (let raw = getenv name in
      if raw = [] then Inr 0
      else (case atoi raw of
              None \<Rightarrow> Inl (errorf (name @ '' must be a non negative integer, got '' @ quote uprint raw))
            | Some v \<Rightarrow>
                if v < 0 then Inl (errorf (name @ '' must be a non negative integer, got '' @ quote uprint raw))
                else Inr v))"

definition gemini_New ::
    "(string \<Rightarrow> goerror + ('w, 'a) genai) \<Rightarrow> string \<Rightarrow> string \<Rightarrow> goerror + ('w, 'a Content) Model" where
  "gemini_New newClient apiKey model =
     (if apiKey = [] then Inl (errorf ''gemini: an API key is required'')
      else if model = [] then Inl (errorf ''gemini: a model name is required'')
      else (case newClient apiKey of
              Inl e \<Rightarrow> Inl (wrapf ''gemini: building client: '' e)
            | Inr G \<Rightarrow> Inr (gemini G model)))"

definition Pricing_zero :: Pricing where
  "Pricing_zero = \<lparr>pg_inputMicroUSDPerMillion = 0, pg_outputMicroUSDPerMillion = 0\<rparr>"

definition modelFromEnv ::
    "(nat \<Rightarrow> bool) \<Rightarrow> (string \<Rightarrow> goerror + ('w, 'a) genai) \<Rightarrow> (string \<Rightarrow> string) \<Rightarrow>
     goerror + ('w, 'a Content) Model option \<times> Pricing" where
  "modelFromEnv uprint newClient getenv =
     (let key = getenv envAPIKey in
      if key = [] then Inr (None, Pricing_zero)
      else
        (let name = (if getenv envModel = [] then defaultModel else getenv envModel) in
         case priceFromEnv uprint getenv envPriceInput of
           Inl e \<Rightarrow> Inl e
         | Inr input \<Rightarrow>
             (case priceFromEnv uprint getenv envPriceOutput of
                Inl e \<Rightarrow> Inl e
              | Inr output \<Rightarrow>
                  (case gemini_New newClient key name of
                     Inl e \<Rightarrow> Inl e
                   | Inr m \<Rightarrow> Inr (Some m, \<lparr>pg_inputMicroUSDPerMillion = input,
                                          pg_outputMicroUSDPerMillion = output\<rparr>)))))"

lemma priceFromEnv_range: "priceFromEnv uprint getenv name = Inr v \<Longrightarrow> 0 \<le> v"
  by (auto simp: priceFromEnv_def Let_def split: if_splits option.splits)

text \<open>Without a key there is no model and no error; with one, the prices are never negative, and the
  cost budget is enforced precisely when a price is set.\<close>

lemma modelFromEnv_pricing:
  "modelFromEnv uprint newClient getenv = Inr (m, p) \<Longrightarrow>
     0 \<le> pg_inputMicroUSDPerMillion p \<and> 0 \<le> pg_outputMicroUSDPerMillion p \<and>
     (m = None \<longleftrightarrow> getenv envAPIKey = []) \<and>
     (\<not> known p \<longleftrightarrow> p = Pricing_zero)"
  by (auto simp: modelFromEnv_def Let_def Pricing_zero_def known_def dest: priceFromEnv_range split: if_splits sum.splits)

subsection \<open>The MCP command\<close>

text \<open>\<open>strings.Cut\<close> at the first slash, with both parts required.\<close>

definition parse_target :: "string \<Rightarrow> (string \<times> string) option" where
  "parse_target target =
     (case str_index ''/'' target of
        None \<Rightarrow> None
      | Some i \<Rightarrow>
          let namespace = take i target; name = drop (i + 1) target in
          if namespace = [] \<or> name = [] then None else Some (namespace, name))"

text \<open>The scope of the session, once the clients are built.\<close>

definition mcp_scope :: "'w kube \<Rightarrow> string \<Rightarrow> string \<Rightarrow> int \<Rightarrow> ('w, Scope) op" where
  "mcp_scope k namespace name maxCalls w =
     (case kGetDiagnosis k namespace name w of
        (Inl e, w') \<Rightarrow> (Inl (wrapf (''loading diagnosis '' @ namespace @ ''/'' @ name @ '': '') e), w')
      | (Inr d, w') \<Rightarrow> (Inr (BindTo (ScopeForDiagnosis d maxCalls)), w'))"

lemma parse_target_roundtrip:
  "parse_target target = Some (namespace, name) \<Longrightarrow> target = namespace @ ''/'' @ name \<and> CHR ''/'' \<notin> set namespace"
proof -
  assume a: "parse_target target = Some (namespace, name)"
  then obtain i where i: "str_index ''/'' target = Some i" "namespace = take i target" "name = drop (i + 1) target"
    by (auto simp: parse_target_def Let_def split: option.splits if_splits)
  have "CHR ''/'' \<notin> set (take i target)" using i(1)
    by (induction target arbitrary: i) (auto split: if_splits simp: take_Cons')
  then show ?thesis using str_index_Some [OF i(1)] i by simp
qed

text \<open>A session has a positive ceiling and stays in the namespace of its diagnosis.\<close>

lemma mcp_scope_bound:
  "mcp_scope k namespace name maxCalls w = (Inr sc, w') \<Longrightarrow>
     0 < sc_maxCalls sc \<and> (\<exists>d w1. kGetDiagnosis k namespace name w = (Inr d, w1) \<and> sc_namespace sc = dg_namespace d)"
  by (auto simp: mcp_scope_def BindTo_def ScopeForDiagnosis_def defaultMaxCalls_def Let_def
      split: prod.splits sum.splits option.splits if_splits)

text \<open>The libraries' calls before the diagnosis is loaded; \<open>fails\<close> gives the error of those that fail.\<close>

datatype client_call = GetConfig | AddClientGoScheme | AddHealingScheme | NewClient | NewClientset

definition mcp_run ::
    "(client_call \<Rightarrow> goerror option) \<Rightarrow> 'w kube \<Rightarrow> string \<Rightarrow> string \<Rightarrow> int \<Rightarrow> ('w, Scope) op" where
  "mcp_run fails k namespace name maxCalls w =
     (case fails GetConfig of Some e \<Rightarrow> (Inl (wrapf ''loading cluster configuration: '' e), w) | None \<Rightarrow>
     (case fails AddClientGoScheme of Some e \<Rightarrow> (Inl e, w) | None \<Rightarrow>
     (case fails AddHealingScheme of Some e \<Rightarrow> (Inl e, w) | None \<Rightarrow>
     (case fails NewClient of Some e \<Rightarrow> (Inl (wrapf ''building client: '' e), w) | None \<Rightarrow>
     (case fails NewClientset of Some e \<Rightarrow> (Inl (wrapf ''building clientset: '' e), w) | None \<Rightarrow>
        mcp_scope k namespace name maxCalls w)))))"

definition default_maxCalls :: int where "default_maxCalls = 25"

text \<open>The fatal message, or the scope that is then served.\<close>

definition mcp_main ::
    "(client_call \<Rightarrow> goerror option) \<Rightarrow> 'w kube \<Rightarrow> string \<Rightarrow> int \<Rightarrow> 'w \<Rightarrow> (string + Scope) \<times> 'w" where
  "mcp_main fails k target maxCalls w =
     (case parse_target target of
        None \<Rightarrow> (Inl ''--diagnosis is required, in the form namespace/name'', w)
      | Some (namespace, name) \<Rightarrow>
          (case mcp_run fails k namespace name maxCalls w of
             (Inl e, w') \<Rightarrow> (Inl (err_msg e), w')
           | (Inr sc, w') \<Rightarrow> (Inr sc, w')))"

text \<open>One request of the client, and a session of requests that are served one after another, as they are for
  a client that waits for each answer before it sends the next call; the handler itself may be run
  concurrently, and the interleavings of \<open>Call\<close> are modelled in Concurrent. The SDK itself refuses a tool that
  is not registered, which is \<open>None\<close>.\<close>

definition mcp_request ::
    "tenv \<Rightarrow> 'w kube \<Rightarrow> Scope \<Rightarrow> string \<times> string \<Rightarrow> 'w \<times> ApiToolCall list \<Rightarrow>
     CallToolResult option \<times> ('w \<times> ApiToolCall list)" where
  "mcp_request T k sc q s =
     (if fst q \<in> set (map mt_name (NewMCPServer (broker T k sc)))
      then apfst Some (mcp_handler T k sc (fst q) (snd q) s)
      else (None, s))"

fun mcp_session ::
    "tenv \<Rightarrow> 'w kube \<Rightarrow> Scope \<Rightarrow> (string \<times> string) list \<Rightarrow> 'w \<times> ApiToolCall list \<Rightarrow>
     CallToolResult option list \<times> ('w \<times> ApiToolCall list)" where
  "mcp_session T k sc [] s = ([], s)"
| "mcp_session T k sc (q # qs) s =
     (case mcp_request T k sc q s of (r, s1) \<Rightarrow>
      (case mcp_session T k sc qs s1 of (rs, s2) \<Rightarrow> (r # rs, s2)))"

end
