(* ===== verification/Operator.thy ===== *)
theory Operator
  imports Commands GoHeap Manager
begin

text \<open>
  \<open>src/cmd/main.go\<close>: the operator's start. The flags are a record; every call of another module that can
  fail is a \<open>startup_call\<close>, and the parameter \<open>fails\<close> says which of them do. \<open>main\<close> makes the calls in
  order and exits at the first failure. The TLS options of the two servers are slices that share a
  backing array, so they are modelled on the heap of GoHeap; the capacity that \<open>append\<close> gives a new
  array is up to the runtime and is the parameter \<open>grow\<close>.
\<close>

subsection \<open>Append\<close>

text \<open>The capacity of a slice is what its block has left. \<open>grow c n\<close> is the new capacity when \<open>n\<close> elements
  do not fit into \<open>c\<close>.\<close>

definition go_append :: "(nat \<Rightarrow> nat \<Rightarrow> nat) \<Rightarrow> 'c \<Rightarrow> slice \<Rightarrow> 'c \<Rightarrow> ('c heap, slice) state" where
  "go_append grow zero s x =
     (case s of
        None \<Rightarrow> do {
          a \<leftarrow> alloc (x # replicate (grow 0 1 - 1) zero);
          State_Monad.return (Some (a, 0, 1)) }
      | Some (a, off, len) \<Rightarrow> do {
          h \<leftarrow> State_Monad.get;
          if off + len < length (h ! a)
          then do { _ \<leftarrow> assign a (off + len) x; State_Monad.return (Some (a, off, len + 1)) }
          else do {
            b \<leftarrow> alloc (take len (drop off (h ! a)) @ x # replicate (grow len (len + 1) - (len + 1)) zero);
            State_Monad.return (Some (b, 0, len + 1)) } })"

definition elements :: "'c heap \<Rightarrow> slice \<Rightarrow> 'c list" where
  "elements h s = (case s of None \<Rightarrow> [] | Some (a, off, len) \<Rightarrow> take len (drop off (h ! a)))"

subsection \<open>Paths\<close>

text \<open>\<open>filepath.Join\<close> of two parts on Unix, the first not empty: empty and dot elements are dropped, and
  \<open>..\<close> removes the element before it.\<close>

fun path_elements :: "string \<Rightarrow> string \<Rightarrow> string list" where
  "path_elements acc [] = [acc]"
| "path_elements acc (c # s) = (if c = CHR ''/'' then acc # path_elements [] s else path_elements (acc @ [c]) s)"

fun clean_element :: "bool \<Rightarrow> string list \<Rightarrow> string \<Rightarrow> string list" where
  "clean_element rooted out e =
     (if e = [] \<or> e = ''.'' then out
      else if e = ''..'' then
        (if out \<noteq> [] \<and> last out \<noteq> ''..'' then butlast out
         else if rooted then out else out @ [e])
      else out @ [e])"

definition path_clean :: "string \<Rightarrow> string" where
  "path_clean p =
     (let rooted = (p \<noteq> [] \<and> hd p = CHR ''/'');
          out = foldl (clean_element rooted) [] (path_elements [] p);
          text = (if rooted then ''/'' else []) @ join ''/'' out
      in if text = [] then ''.'' else text)"

definition filepath_Join :: "string \<Rightarrow> string \<Rightarrow> string" where
  "filepath_Join dir name = path_clean (if name = [] then dir else dir @ ''/'' @ name)"

subsection \<open>Flags\<close>

record Flags =
  fl_metricsAddr :: string
  fl_probeAddr :: string
  fl_enableLeaderElection :: bool
  fl_secureMetrics :: bool
  fl_webhookCertPath :: string
  fl_webhookCertName :: string
  fl_webhookCertKey :: string
  fl_metricsCertPath :: string
  fl_metricsCertName :: string
  fl_metricsCertKey :: string
  fl_enableHTTP2 :: bool

definition default_flags :: Flags where
  "default_flags =
     \<lparr>fl_metricsAddr = ''0'', fl_probeAddr = '':8081'', fl_enableLeaderElection = False, fl_secureMetrics = True,
      fl_webhookCertPath = [], fl_webhookCertName = ''tls.crt'', fl_webhookCertKey = ''tls.key'',
      fl_metricsCertPath = [], fl_metricsCertName = ''tls.crt'', fl_metricsCertKey = ''tls.key'',
      fl_enableHTTP2 = False\<rparr>"

subsection \<open>TLS\<close>

datatype watcher = WebhookWatcher | MetricsWatcher

text \<open>The functions in \<open>tlsOpts\<close>, with the cleared element of a new array.\<close>

datatype tls_option = NilOption | DisableHTTP2 | CertificateOf watcher

record tls_config =
  tl_nextProtos :: "string list option"
  tl_getCertificate :: "watcher option"

fun apply_option :: "tls_config \<Rightarrow> tls_option \<Rightarrow> tls_config" where
  "apply_option c NilOption = c"
| "apply_option c DisableHTTP2 = c\<lparr>tl_nextProtos := Some [''http/1.1'']\<rparr>"
| "apply_option c (CertificateOf w) = c\<lparr>tl_getCertificate := Some w\<rparr>"

text \<open>A server applies its options when it starts, after \<open>main\<close> has built both slices.\<close>

definition server_config :: "tls_option heap \<Rightarrow> slice \<Rightarrow> tls_config" where
  "server_config h s =
     foldl apply_option \<lparr>tl_nextProtos = None, tl_getCertificate = None\<rparr> (elements h s)"

definition tls_setup :: "(nat \<Rightarrow> nat \<Rightarrow> nat) \<Rightarrow> Flags \<Rightarrow> (tls_option heap, slice \<times> slice) state" where
  "tls_setup grow f = do {
     tlsOpts \<leftarrow> (if \<not> fl_enableHTTP2 f then go_append grow NilOption None DisableHTTP2
                else State_Monad.return None);
     webhookTLSOpts \<leftarrow> (if fl_webhookCertPath f \<noteq> []
                       then go_append grow NilOption tlsOpts (CertificateOf WebhookWatcher)
                       else State_Monad.return tlsOpts);
     metricsTLSOpts \<leftarrow> (if fl_metricsCertPath f \<noteq> []
                       then go_append grow NilOption tlsOpts (CertificateOf MetricsWatcher)
                       else State_Monad.return tlsOpts);
     State_Monad.return (webhookTLSOpts, metricsTLSOpts) }"

subsection \<open>The calls\<close>

record Options =
  op_bindAddress :: string
  op_secureServing :: bool
  op_authFilter :: bool
  op_metricsTLSOpts :: slice
  op_webhookTLSOpts :: slice
  op_healthProbeBindAddress :: string
  op_leaderElection :: bool
  op_leaderElectionID :: string

definition manager_options :: "Flags \<Rightarrow> slice \<times> slice \<Rightarrow> Options" where
  "manager_options f opts =
     \<lparr>op_bindAddress = fl_metricsAddr f, op_secureServing = fl_secureMetrics f, op_authFilter = fl_secureMetrics f,
      op_metricsTLSOpts = snd opts, op_webhookTLSOpts = fst opts,
      op_healthProbeBindAddress = fl_probeAddr f, op_leaderElection = fl_enableLeaderElection f,
      op_leaderElectionID = ''31e70e8a.kubecure.io''\<rparr>"

datatype startup_call =
    NewCertWatcher string string | GetConfigOrDie | NewManager Options | SetupWithManager string | NewForConfig
  | ModelFromEnv | AddWatcher watcher | AddHealthzCheck | AddReadyzCheck | StartManager

text \<open>The calls in the order of the source, each with the message logged before \<open>os.Exit(1)\<close>.\<close>

definition main_calls :: "Flags \<Rightarrow> slice \<times> slice \<Rightarrow> (startup_call \<times> string) list" where
  "main_calls f opts =
     (if fl_webhookCertPath f \<noteq> []
      then [(NewCertWatcher (filepath_Join (fl_webhookCertPath f) (fl_webhookCertName f))
               (filepath_Join (fl_webhookCertPath f) (fl_webhookCertKey f)),
             ''Failed to initialize webhook certificate watcher'')] else []) @
     (if fl_metricsCertPath f \<noteq> []
      then [(NewCertWatcher (filepath_Join (fl_metricsCertPath f) (fl_metricsCertName f))
               (filepath_Join (fl_metricsCertPath f) (fl_metricsCertKey f)),
             ''to initialize metrics certificate watcher'')] else []) @
     [(GetConfigOrDie, []),
      (NewManager (manager_options f opts), ''unable to start manager''),
      (SetupWithManager (ct_name (PodReconciler_SetupWithManager (=))), ''unable to create controller''),
      (NewForConfig, ''unable to build clientset''),
      (ModelFromEnv, ''unable to configure the investigation model''),
      (SetupWithManager (ct_name InvestigatorReconciler_SetupWithManager), ''unable to create controller''),
      (SetupWithManager (ct_name EvidenceReconciler_SetupWithManager), ''unable to create controller'')] @
     (if fl_metricsCertPath f \<noteq> []
      then [(AddWatcher MetricsWatcher, ''unable to add metrics certificate watcher to manager'')] else []) @
     (if fl_webhookCertPath f \<noteq> []
      then [(AddWatcher WebhookWatcher, ''unable to add webhook certificate watcher to manager'')] else []) @
     [(AddHealthzCheck, ''unable to set up health check''),
      (AddReadyzCheck, ''unable to set up ready check''),
      (StartManager, ''problem running manager'')]"

text \<open>The calls made, and the message of the exit if there was one.\<close>

fun run_calls :: "(startup_call \<Rightarrow> bool) \<Rightarrow> (startup_call \<times> string) list \<Rightarrow> startup_call list \<times> string option" where
  "run_calls fails [] = ([], None)"
| "run_calls fails ((c, msg) # cs) =
     (if fails c then ([c], Some msg)
      else (case run_calls fails cs of (made, r) \<Rightarrow> (c # made, r)))"

text \<open>\<open>modelFromEnv\<close> is the program's own; all other calls fail as \<open>fails\<close> says.\<close>

definition operator_main ::
    "(nat \<Rightarrow> nat \<Rightarrow> nat) \<Rightarrow> (startup_call \<Rightarrow> bool) \<Rightarrow> goerror + ('m, 'p) Model option \<times> Pricing \<Rightarrow> Flags \<Rightarrow>
     startup_call list \<times> string option" where
  "operator_main grow fails model f =
     run_calls (\<lambda>c. if c = ModelFromEnv then \<not> isr model else fails c)
       (main_calls f (fst (run_state (tls_setup grow f) [])))"

text \<open>The fields of the investigator's reconciler that \<open>main\<close> sets.\<close>

definition operator_reconciler ::
    "('w, 'm, 'p) InvestigatorReconciler \<Rightarrow> ('m, 'p) Model option \<times> Pricing \<Rightarrow> ('w, 'm, 'p) InvestigatorReconciler" where
  "operator_reconciler r mp = r\<lparr>ir_model := fst mp, ir_pricing := snd mp\<rparr>"

text \<open>Without an API key the operator starts all the same, and its investigator only reads: an enriched
  diagnosis is left as it is.\<close>

lemma no_key_only_reads:
  assumes "modelFromEnv uprint newClient getenv = Inr mp" "getenv envAPIKey = []"
    and "InvestigatorReconciler_Reconcile (operator_reconciler r mp) (logged k) ns n ((w, log), m) = (out, (w', log'), m')"
  shows "m' = m \<and> (\<exists>reads. log' = log @ reads \<and> list_all (\<lambda>q. \<not> is_write q) reads)"
  using assms
  by (auto simp: modelFromEnv_def operator_reconciler_def InvestigatorReconciler_Reconcile_def logged_def noted_def Let_def
      split: prod.splits sum.splits if_splits)

subsection \<open>Properties\<close>

text \<open>The last call of a sequence is reached when all before it succeed, and only then.\<close>

lemma run_calls_last:
  "c \<notin> fst ` set cs \<Longrightarrow>
     (if list_all (\<lambda>x. \<not> fails (fst x)) cs
      then run_calls fails (cs @ [(c, msg)]) = (map fst cs @ [c], if fails c then Some msg else None)
      else c \<notin> set (fst (run_calls fails (cs @ [(c, msg)]))) \<and> snd (run_calls fails (cs @ [(c, msg)])) \<noteq> None)"
  by (induction cs) (auto split: prod.splits if_splits)

lemma main_calls_last:
  "\<exists>cs. main_calls f opts = cs @ [(StartManager, ''problem running manager'')] \<and> StartManager \<notin> fst ` set cs"
  by (rule exI [of _ "butlast (main_calls f opts)"]) (auto simp: main_calls_def butlast_append)

text \<open>C28. The operator starts whole or not at all: the manager is started precisely when the configuration of
  the model is readable and no call before it fails; then the detector, the investigator and the evidence
  controller have been registered, both health checks added, and a certificate watcher added for every
  server with a certificate path and for no other.\<close>

theorem operator_starts_whole:
  "case operator_main grow fails model f of (made, r) \<Rightarrow>
     (StartManager \<in> set made \<longleftrightarrow>
        isr model \<and>
        (\<forall>c \<in> fst ` set (main_calls f (fst (run_state (tls_setup grow f) []))) - {StartManager, ModelFromEnv}. \<not> fails c)) \<and>
     (r = None \<longleftrightarrow> StartManager \<in> set made \<and> \<not> fails StartManager) \<and>
     (StartManager \<in> set made \<longrightarrow>
        filter (\<lambda>c. \<exists>n. c = SetupWithManager n) made =
          map SetupWithManager [''detector'', ''investigator'', ''evidence''] \<and>
        {AddHealthzCheck, AddReadyzCheck} \<subseteq> set made \<and>
        (AddWatcher WebhookWatcher \<in> set made \<longleftrightarrow> fl_webhookCertPath f \<noteq> []) \<and>
        (AddWatcher MetricsWatcher \<in> set made \<longleftrightarrow> fl_metricsCertPath f \<noteq> []))"
proof -
  let ?opts = "fst (run_state (tls_setup grow f) [])"
  let ?fails = "\<lambda>c. if c = ModelFromEnv then \<not> isr model else fails c"
  obtain cs where cs: "main_calls f ?opts = cs @ [(StartManager, ''problem running manager'')]" "StartManager \<notin> fst ` set cs"
    using main_calls_last by blast
  have M: "ModelFromEnv \<in> fst ` set cs"
    using cs(1) arg_cong [OF cs(1), of "\<lambda>xs. ModelFromEnv \<in> fst ` set xs"] by (auto simp: main_calls_def)
  have all: "list_all (\<lambda>x. \<not> ?fails (fst x)) cs \<longleftrightarrow>
      isr model \<and> (\<forall>c \<in> fst ` set (main_calls f ?opts) - {StartManager, ModelFromEnv}. \<not> fails c)"
    unfolding cs(1) using cs(2) M by (fastforce simp: list_all_iff)
  have made: "fst ` set (main_calls f ?opts) = insert StartManager (fst ` set cs)" "map fst cs @ [StartManager] = map fst (main_calls f ?opts)"
    unfolding cs(1) by simp_all
  have reg: "filter (\<lambda>c. \<exists>n. c = SetupWithManager n) (map fst (main_calls f ?opts)) =
      map SetupWithManager [''detector'', ''investigator'', ''evidence'']"
    by (simp add: main_calls_def PodReconciler_SetupWithManager_def InvestigatorReconciler_SetupWithManager_def
        EvidenceReconciler_SetupWithManager_def)
  have add: "{AddHealthzCheck, AddReadyzCheck} \<subseteq> set (map fst (main_calls f ?opts))"
    "AddWatcher WebhookWatcher \<in> set (map fst (main_calls f ?opts)) \<longleftrightarrow> fl_webhookCertPath f \<noteq> []"
    "AddWatcher MetricsWatcher \<in> set (map fst (main_calls f ?opts)) \<longleftrightarrow> fl_metricsCertPath f \<noteq> []"
    by (auto simp: main_calls_def)
  show ?thesis
  proof (cases "list_all (\<lambda>x. \<not> ?fails (fst x)) cs")
    case True
    then have r: "operator_main grow fails model f =
        (map fst (main_calls f ?opts), if fails StartManager then Some ''problem running manager'' else None)"
      using run_calls_last [OF cs(2), of ?fails "''problem running manager''"]
      by (simp add: operator_main_def cs(1) [symmetric] made(2) del: list_all_iff)
    have "StartManager \<in> set (map fst (main_calls f ?opts))" using made(2) by (metis in_set_conv_decomp)
    then show ?thesis using True all reg add by (simp add: r)
  next
    case False
    have "StartManager \<notin> set (fst (operator_main grow fails model f)) \<and> snd (operator_main grow fails model f) \<noteq> None"
      using run_calls_last [OF cs(2), of ?fails "''problem running manager''"] False
      unfolding operator_main_def cs(1) by argo
    then show ?thesis using False all by (auto split: prod.splits)
  qed
qed

text \<open>C29. Each server gets the TLS options meant for it. HTTP/2 is disabled on both servers unless it is
  enabled, and the metrics server presents its own certificate. The webhook server presents its own one
  unless both servers have a certificate, HTTP/2 is disabled and the runtime gives the first array more
  than one element: then the two appends share the array and the webhook server presents the certificate
  of the metrics server.\<close>

theorem servers_keep_certificates:
  "case run_state (tls_setup grow f) [] of ((web, metrics), h) \<Rightarrow>
     tl_nextProtos (server_config h web) = (if fl_enableHTTP2 f then None else Some [''http/1.1'']) \<and>
     tl_nextProtos (server_config h metrics) = (if fl_enableHTTP2 f then None else Some [''http/1.1'']) \<and>
     tl_getCertificate (server_config h metrics) = (if fl_metricsCertPath f = [] then None else Some MetricsWatcher) \<and>
     (tl_getCertificate (server_config h web) = (if fl_webhookCertPath f = [] then None else Some WebhookWatcher) \<longleftrightarrow>
        fl_enableHTTP2 f \<or> fl_webhookCertPath f = [] \<or> fl_metricsCertPath f = [] \<or> grow 0 1 \<le> 1)"
proof -
  obtain n where n: "grow 0 1 - 1 = n" by blast
  show ?thesis
    by (cases "fl_enableHTTP2 f"; cases "fl_webhookCertPath f = []"; cases "fl_metricsCertPath f = []"; cases n)
      (use n in \<open>auto simp: tls_setup_def go_append_def alloc_def assign_def server_config_def elements_def nth_append\<close>)
qed

theorem operator_starts_whole_witness:
  "operator_main (\<lambda>c n. n) (\<lambda>c. False) (Inr (None :: (unit, unit) Model option, Pricing_zero)) default_flags =
     (map fst (main_calls default_flags (Some (0, 0, 1), Some (0, 0, 1))), None)"
proof -
  have t: "fst (run_state (tls_setup (\<lambda>c n. n) default_flags) []) = (Some (0, 0, 1), Some (0, 0, 1))"
    by code_simp
  have "snd (operator_main (\<lambda>c n. n) (\<lambda>c. False) (Inr (None :: (unit, unit) Model option, Pricing_zero)) default_flags) = None"
    using operator_starts_whole [where grow = "\<lambda>c n. n" and fails = "\<lambda>c. False" and f = default_flags
        and model = "Inr (None :: (unit, unit) Model option, Pricing_zero)"]
    by (simp add: prod.case_eq_if)
  moreover have "fst (operator_main (\<lambda>c n. n) (\<lambda>c. False) (Inr (None :: (unit, unit) Model option, Pricing_zero)) default_flags) =
      map fst (main_calls default_flags (Some (0, 0, 1), Some (0, 0, 1)))"
    unfolding operator_main_def t by code_simp
  ultimately show ?thesis by (metis prod.collapse)
qed

end
