(* ===== verification/McpSession.thy ===== *)
theory McpSession
  imports Commands ControllerProps
begin

text \<open>
  A session of the MCP command (\<open>src/cmd/kubecure-mcp/main.go\<close>): from the command line through the broker to
  the requests at the API server, for any sequence of requests a client may send one after another. What
  concurrent calls may do is the subject of \<open>Concurrent\<close>.
\<close>

definition succeeded :: "CallToolResult option \<Rightarrow> bool" where
  "succeeded r \<longleftrightarrow> (case r of None \<Rightarrow> False | Some c \<Rightarrow> \<not> cr_isError c)"

definition answer_ok :: "CallToolResult option \<Rightarrow> bool" where
  "answer_ok r \<longleftrightarrow> (succeeded r \<longrightarrow> scrubbed 8192 (cr_text (the r)))"

lemma mcp_handler_ceiling:
  assumes "mcp_handler T k sc name a s = (r, s')"
  shows "length (snd s') = length (snd s) + 1"
    and "\<not> cr_isError r \<Longrightarrow> int (length (snd s)) < sc_maxCalls sc \<and> scrubbed 8192 (cr_text r)"
proof -
  obtain w calls where s: "s = (w, calls)" by fastforce
  obtain t1 w1 where 1: "kNow k w = (t1, w1)" by fastforce
  obtain x w2 where 2: "call_inner T k sc (length calls) name a w1 = (x, w2)" by fastforce
  obtain t3 w3 where 3: "kNow k w2 = (t3, w3)" by fastforce
  show "length (snd s') = length (snd s) + 1"
    using assms by (auto simp: mcp_handler_def s Call_def 1 2 3 split: sum.splits)
  assume "\<not> cr_isError r"
  then have x: "x = Inr (cr_text r)"
    using assms by (auto simp: mcp_handler_def s Call_def 1 2 3 split: sum.splits)
  then have "int (length calls) < sc_maxCalls sc" using 2 by (auto simp: call_inner_def split: if_splits)
  then show "int (length (snd s)) < sc_maxCalls sc \<and> scrubbed 8192 (cr_text r)"
    using call_inner_scrubbed [of T k sc "length calls" name a w1 "cr_text r" w2] 2 x by (simp add: s)
qed

text \<open>Successes stay below the ceiling, and every answer is scrubbed.\<close>

lemma mcp_session_ceiling:
  "mcp_session T k sc qs s = (rs, s') \<Longrightarrow>
     length rs = length qs \<and> list_all answer_ok rs \<and>
     length (snd s') = length (snd s) + length (filter (\<lambda>r. r \<noteq> None) rs) \<and>
     int (length (snd s)) + int (length (filter succeeded rs)) \<le> max (int (length (snd s))) (sc_maxCalls sc)"
proof (induction qs arbitrary: s rs s')
  case (Cons q qs)
  obtain r s1 where 1: "mcp_request T k sc q s = (r, s1)"
    by (cases "mcp_request T k sc q s")
  obtain rs2 s2 where 2: "mcp_session T k sc qs s1 = (rs2, s2)"
    by (cases "mcp_session T k sc qs s1")
  have rs: "rs = r # rs2" "s' = s2" using Cons.prems by (simp_all add: 1 2)
  note ih = Cons.IH [OF 2]
  show ?case
  proof (cases r)
    case None
    then have "s1 = s" using 1
      by (cases "mcp_handler T k sc (fst q) (snd q) s") (auto simp: mcp_request_def split: if_splits)
    then show ?thesis using ih rs None by (simp add: answer_ok_def succeeded_def)
  next
    case (Some c)
    then have h: "mcp_handler T k sc (fst q) (snd q) s = (c, s1)"
      using 1 by (cases "mcp_handler T k sc (fst q) (snd q) s") (auto simp: mcp_request_def split: if_splits)
    note c = mcp_handler_ceiling [OF h]
    show ?thesis
      using ih rs Some c by (cases "cr_isError c") (auto simp: answer_ok_def succeeded_def)
  qed
qed simp

lemma mcp_session_confined:
  assumes "namespaced k (sc_namespace sc)"
  shows "mcp_session T (logged k) sc qs s = (rs, s') \<Longrightarrow> logs_only (in_ns (sc_namespace sc)) (fst s) (fst s')"
proof (induction qs arbitrary: s rs s')
  case (Cons q qs)
  obtain r s1 where 1: "mcp_request T (logged k) sc q s = (r, s1)"
    by (cases "mcp_request T (logged k) sc q s")
  obtain rs2 s2 where 2: "mcp_session T (logged k) sc qs s1 = (rs2, s2)"
    by (cases "mcp_session T (logged k) sc qs s1")
  have "logs_only (in_ns (sc_namespace sc)) (fst s) (fst s1)"
    using 1 Call_confined [OF assms, of s T "fst q" "snd q"]
    by (auto simp: mcp_request_def mcp_handler_def apfst_def map_prod_def split: if_splits prod.splits sum.splits)
  moreover have "logs_only (in_ns (sc_namespace sc)) (fst s1) (fst s')"
    using Cons.IH [OF 2] Cons.prems by (simp add: 1 2)
  ultimately show ?case by (rule logs_only_trans)
qed simp

lemma mcp_main_scope:
  assumes "mcp_main fails k target maxCalls w = (Inr sc, w')"
  obtains ns n d where "parse_target target = Some (ns, n)" "kGetDiagnosis k ns n w = (Inr d, w')"
    "sc = BindTo (ScopeForDiagnosis d maxCalls)"
  using assms
  by (auto simp: mcp_main_def mcp_run_def mcp_scope_def split: option.splits prod.splits sum.splits)

text \<open>C10. A session of the MCP command is held to one diagnosis: when the command serves the target
  \<open>namespace/name\<close>, whatever requests the client sends, each after the answer to the one before, every request
  that reaches the API server, the one for the diagnosis included, is a read in that namespace (or of
  nodes), every answered request is in the audit, successful answers are scrubbed, and there are at most as
  many of them as the ceiling given on the command line, or 25 if that is not positive. (A client that
  sends calls before the earlier ones are answered can get past the ceiling: \<open>ceiling_race\<close>.)\<close>

theorem mcp_session_held:
  assumes "mcp_main fails (logged k) target maxCalls (w, []) = (Inr sc, s0)"
    and "mcp_session T (logged k) sc qs (s0, []) = (rs, (s, calls))"
    and "parse_target target = Some (ns, n)" "namespaced k ns"
    and "\<And>n w d w'. kGetDiagnosis k ns n w = (Inr d, w') \<Longrightarrow> dg_namespace d = ns"
  shows "list_all (in_ns ns) (snd s) \<and> length calls = length (filter (\<lambda>r. r \<noteq> None) rs) \<and>
    list_all answer_ok rs \<and> int (length (filter succeeded rs)) \<le> (if maxCalls \<le> 0 then 25 else maxCalls)"
proof -
  obtain d where d: "kGetDiagnosis (logged k) ns n (w, []) = (Inr d, s0)" "sc = BindTo (ScopeForDiagnosis d maxCalls)"
    using assms(1,3) by (auto elim: mcp_main_scope)
  then obtain w' where w': "kGetDiagnosis k ns n w = (Inr d, w')" "s0 = (w', [ReqGet ''diagnoses'' ns n])"
    by (auto simp: logged_def noted_def split: prod.splits)
  have sc: "sc_namespace sc = ns" "sc_maxCalls sc = (if maxCalls \<le> 0 then 25 else maxCalls)"
    using assms(5) [OF w'(1)] d(2)
    by (auto simp: BindTo_def ScopeForDiagnosis_def defaultMaxCalls_def Let_def split: option.splits)
  have "logs_only (in_ns ns) s0 s"
    using mcp_session_confined [of k sc T qs "(s0, [])" rs "(s, calls)"] assms(2,4) sc by simp
  then have "list_all (in_ns ns) (snd s)" using w'(2) by (auto simp: logs_only_def)
  then show ?thesis
    using mcp_session_ceiling [OF assms(2)] sc(2) by auto
qed

theorem mcp_session_held_witness:
  "let k = one_pod\<lparr>kGetDiagnosis := \<lambda>ns n w. (Inr (example_diagnosis\<lparr>dg_namespace := ns\<rparr>), w)\<rparr> in
   case mcp_main (\<lambda>c. None) (logged k) ''shop/web'' 1 ((), []) of (x, s0) \<Rightarrow>
     isr x \<and>
     (case mcp_session example_tenv (logged k) (projr x) [(''get_pod_events'', []), (''get_pod_events'', [])] (s0, []) of
        (rs, (s, calls)) \<Rightarrow>
          list_all (in_ns ''shop'') (snd s) \<and> length calls = 2 \<and> length (filter succeeded rs) \<le> 1)"
proof -
  let ?k = "one_pod\<lparr>kGetDiagnosis := \<lambda>ns n w. (Inr (example_diagnosis\<lparr>dg_namespace := ns\<rparr>), w)\<rparr>"
  let ?qs = "[(''get_pod_events'', []), (''get_pod_events'', [])]"
  have p: "parse_target ''shop/web'' = Some (''shop'', ''web'')" by code_simp
  obtain sc s0 where 1: "mcp_main (\<lambda>c. None) (logged ?k) ''shop/web'' 1 ((), []) = (Inr sc, s0)"
    by (simp add: mcp_main_def mcp_run_def mcp_scope_def p logged_def noted_def)
  obtain rs s calls where 2: "mcp_session example_tenv (logged ?k) sc ?qs (s0, []) = (rs, (s, calls))"
    by (metis prod.exhaust)
  have n: "namespaced ?k ''shop''" using namespaced_one_pod [of "''shop''"] by (simp add: namespaced_def)
  have "''get_pod_events'' \<in> set (map mt_name (NewMCPServer (broker example_tenv (logged ?k) sc)))"
    by (simp add: NewMCPServer_def broker_def Specs_def catalog_def spec_def)
  then have "length (filter (\<lambda>r. r \<noteq> None) rs) = 2"
    using 2 by (auto simp: mcp_request_def apfst_def map_prod_def split: prod.splits)
  then show ?thesis
    using mcp_session_held [OF 1 2 p n] by (simp add: Let_def 1 2 del: mcp_session.simps)
qed

end
