(* ===== verification/Satisfied.thy ===== *)
theory Satisfied
  imports ControllerProps
begin

text \<open>
  The controller's satisfiers against the broker's catalogue. The controller decides from the name and the
  arguments of a tool call which required evidence it gathered (\<open>toolForEvidence\<close>, \<open>satisfierFor\<close> in
  \<open>investigator_controller.go\<close>); what the call does gather is decided by the handlers of \<open>catalog.go\<close>,
  which decode the same arguments in another way. They agree on a call that succeeded if its arguments are
  one JSON value without white space around it, which is what a provider sends.
\<close>

definition noLogArgs :: logArgs where
  "noLogArgs = \<lparr>la_pod = [], la_container = [], la_previous = False\<rparr>"

text \<open>The kind of evidence a call of the catalogue gathers.\<close>

definition gathered_kind :: "tenv \<Rightarrow> string \<Rightarrow> string \<Rightarrow> EvidenceKind option" where
  "gathered_kind T name arguments =
     (case byName name of
        None \<Rightarrow> None
      | Some RunLogs \<Rightarrow>
          (case decodeArgs T store_logArgs noLogArgs arguments of
             Inl e \<Rightarrow> None
           | Inr a \<Rightarrow> Some (if la_previous a then EvidencePreviousLogs else EvidenceCurrentLogs))
      | Some (PodEvidence kind) \<Rightarrow> Some kind
      | Some (WorkloadEvidence kind) \<Rightarrow> Some kind
      | Some RunSimilar \<Rightarrow> None)"

lemma gathers:
  assumes "call_inner T k sc made name arguments w = (Inr result, w')"
    and "gathered_kind T name arguments = Some kind"
  shows "\<exists>target w1 raw. gather k target kind w1 = (Inr raw, w') \<and> result = Truncate (fst (Redact raw)) resultLimit"
  using assms
  by (auto simp: call_inner_def gathered_kind_def noLogArgs_def runLogs_def podEvidence_def workloadEvidence_def Let_def
      split: if_splits option.splits prod.splits sum.splits tool_run.splits)

subsection \<open>The arguments\<close>

definition folded :: "string \<Rightarrow> nat list" where
  "folded s = map (fold_rune \<circ> fst) (runes s)"

lemma key_is_folded: "key_is f key \<Longrightarrow> folded key = folded f"
  by (auto simp: key_is_def folded_def)

lemma previous_key: "key_is ''previous'' key \<Longrightarrow> \<not> key_is ''pod'' key \<and> \<not> key_is ''container'' key"
proof -
  have "folded ''previous'' \<noteq> folded ''pod''" "folded ''previous'' \<noteq> folded ''container''"
    by code_simp+
  then show "key_is ''previous'' key \<Longrightarrow> \<not> key_is ''pod'' key \<and> \<not> key_is ''container'' key"
    using key_is_folded [of "''previous''" key] key_is_folded [of "''pod''" key] key_is_folded [of "''container''" key]
    by argo
qed

lemma store_logArgs_previous:
  "store_logArgs key j a = Some b \<Longrightarrow> la_previous b = previous_member (la_previous a) (key, j)"
  using previous_key [of key]
  by (cases j) (auto simp: store_logArgs_def split: if_splits)

lemma store_members_previous:
  "store_members store_logArgs ms a = Some b \<Longrightarrow> la_previous b = foldl previous_member (la_previous a) ms"
  by (induction store_logArgs ms a rule: store_members.induct)
    (auto dest: store_logArgs_previous split: option.splits)

lemma dec_value_empty: "dec_value [CHR 0x7B, CHR 0x7D] = Some (JObj [], [])"
  by code_simp

lemma decoded_previous:
  assumes "decodeArgs T store_logArgs noLogArgs arguments = Inr a"
    and "trim_space arguments = arguments" "unmarshal arguments \<noteq> None"
  shows "args_previous arguments = la_previous a"
proof -
  from assms(3) obtain v r where v: "dec_value arguments = Some (v, r)" "unmarshal arguments = Some v"
    by (auto simp: unmarshal_def split: option.splits if_splits)
  have ne: "arguments \<noteq> []" using v(1) dec_value_blank by auto
  show ?thesis
  proof (cases "arguments = ''null''")
    case True
    have "a = noLogArgs"
      using assms(1,2) True by (auto simp: decodeArgs_def dec_value_empty split: if_splits)
    then show ?thesis using v True dec_value_blank by (simp add: args_previous_def noLogArgs_def)
  next
    case False
    with assms(1,2) ne v(1) have "store_struct store_logArgs v noLogArgs = Some a"
      by (auto simp: decodeArgs_def split: option.splits if_splits)
    then show ?thesis
      using v(2) by (cases v) (auto simp: args_previous_def noLogArgs_def dest: store_members_previous)
  qed
qed

subsection \<open>The catalogue\<close>

text \<open>The handler that gathers a kind of evidence.\<close>

fun handler_of :: "EvidenceKind \<Rightarrow> tool_run" where
  "handler_of EvidencePreviousLogs = RunLogs"
| "handler_of EvidenceCurrentLogs = RunLogs"
| "handler_of EvidenceWorkloadSpec = WorkloadEvidence EvidenceWorkloadSpec"
| "handler_of EvidenceRolloutHistory = WorkloadEvidence EvidenceRolloutHistory"
| "handler_of kind = PodEvidence kind"

lemma byName_tool: "kind \<in> set allKinds \<Longrightarrow> byName (toolForEvidence kind) = Some (handler_of kind)"
proof -
  have "list_all (\<lambda>kind. byName (toolForEvidence kind) = Some (handler_of kind)) allKinds" by code_simp
  then show "kind \<in> set allKinds \<Longrightarrow> ?thesis" by (simp add: list_all_iff)
qed

lemma byName_catalog: "byName name = Some t \<Longrightarrow> \<exists>sp. (sp, t) \<in> set catalog \<and> ts_name sp = name"
  by (auto simp: byName_def dest!: find_SomeD)

text \<open>No two tools share a handler, and each gathers the kind it is the handler of.\<close>

lemma byName_handler: "byName name = Some t \<Longrightarrow> byName name' = Some t \<Longrightarrow> name = name'"
proof -
  have "distinct (map snd catalog)" by code_simp
  then show "byName name = Some t \<Longrightarrow> byName name' = Some t \<Longrightarrow> name = name'"
    by (fastforce simp: distinct_map inj_on_def dest!: byName_catalog)
qed

lemma catalog_handler:
  assumes "byName name = Some t" "t = PodEvidence kind \<or> t = WorkloadEvidence kind"
  shows "handler_of kind = t"
proof -
  have "list_all (\<lambda>(sp, t). case t of PodEvidence k \<Rightarrow> handler_of k = t | WorkloadEvidence k \<Rightarrow> handler_of k = t
      | _ \<Rightarrow> True) catalog"
    by code_simp
  then show ?thesis using assms by (auto simp: list_all_iff dest!: byName_catalog)
qed

lemma handler_of_kind:
  assumes "handler_of kind = PodEvidence kind' \<or> handler_of kind = WorkloadEvidence kind'"
  shows "kind = kind'"
  using assms by (cases kind) auto

lemma not_log_tool:
  "kind \<notin> {EvidencePreviousLogs, EvidenceCurrentLogs} \<Longrightarrow>
     satisfierFor kind name arguments \<longleftrightarrow> name = toolForEvidence kind"
  by (simp add: satisfierFor_def Let_def)

lemma log_handler: "handler_of kind = RunLogs \<longleftrightarrow> kind \<in> {EvidencePreviousLogs, EvidenceCurrentLogs}"
  by (cases kind) auto

text \<open>C9. The sufficiency gate is told the truth. When a tool call succeeds, the controller counts it towards
  a kind of evidence precisely when the handler in the catalogue gathered that kind, so what the loop marks
  as collected is what the result holds, scrubbed and truncated; every kind has such a tool. This is so if
  the arguments are one JSON value with nothing around it.\<close>

theorem satisfier_truthful:
  assumes "call_inner T k sc made name arguments w = (Inr result, w')" "kind \<in> set allKinds"
    and "trim_space arguments = arguments" "unmarshal arguments \<noteq> None"
  shows "(satisfierFor kind name arguments \<longleftrightarrow> gathered_kind T name arguments = Some kind) \<and>
    byName (toolForEvidence kind) \<noteq> None \<and>
    (satisfierFor kind name arguments \<longrightarrow>
       (\<exists>target w1 raw. gather k target kind w1 = (Inr raw, w') \<and> result = Truncate (fst (Redact raw)) resultLimit))"
proof -
  obtain t where t: "byName name = Some t" using assms(1) by (auto simp: call_inner_def split: if_splits option.splits)
  have same: "name = toolForEvidence kind \<longleftrightarrow> t = handler_of kind"
    using byName_tool [OF assms(2)] t byName_handler by (metis option.inject)
  have "satisfierFor kind name arguments \<longleftrightarrow> gathered_kind T name arguments = Some kind"
  proof (cases t)
    case RunLogs
    then obtain a where a: "decodeArgs T store_logArgs noLogArgs arguments = Inr a"
      using assms(1) t by (auto simp: call_inner_def runLogs_def noLogArgs_def split: if_splits sum.splits)
    show ?thesis
      using decoded_previous [OF a assms(3,4)] same RunLogs t a log_handler [of kind]
      by (auto simp: satisfierFor_def gathered_kind_def Let_def)
  next
    case (PodEvidence kind')
    then show ?thesis
      using same t log_handler [of kind] handler_of_kind [of kind kind'] catalog_handler [OF t]
      by (auto simp: satisfierFor_def gathered_kind_def Let_def)
  next
    case (WorkloadEvidence kind')
    then show ?thesis
      using same t log_handler [of kind] handler_of_kind [of kind kind'] catalog_handler [OF t]
      by (auto simp: satisfierFor_def gathered_kind_def Let_def)
  next
    case RunSimilar
    then show ?thesis
      using same t log_handler [of kind] by (cases kind) (auto simp: satisfierFor_def gathered_kind_def Let_def)
  qed
  then show ?thesis using gathers [OF assms(1)] byName_tool [OF assms(2)] by simp
qed

definition eventful :: "unit kube" where
  "eventful = one_pod\<lparr>kListEvents := \<lambda>ns p l w.
     (Inr [\<lparr>et_type = ''Warning'', et_reason = ''BackOff'', et_count = 3, et_message = ''restarting'',
            et_lastTimestamp = 0, et_eventTime = 0, et_creationTimestamp = 0\<rparr>], w),
     kOrder := stable_order\<rparr>"

theorem satisfier_truthful_witness:
  "\<exists>result. call_inner example_tenv eventful example_scope 0 ''get_pod_events'' ''{}'' () = (Inr result, ()) \<and>
     gathered_kind example_tenv ''get_pod_events'' ''{}'' = Some EvidenceEvents"
proof -
  have "isr (fst (call_inner example_tenv eventful example_scope 0 ''get_pod_events'' ''{}'' ()))" by code_simp
  then obtain result where c: "call_inner example_tenv eventful example_scope 0 ''get_pod_events'' ''{}'' () = (Inr result, ())"
    by (cases "call_inner example_tenv eventful example_scope 0 ''get_pod_events'' ''{}'' ()") (auto simp: isr_iff)
  have k: "EvidenceEvents \<in> set allKinds" by (simp add: allKinds_def)
  have a: "trim_space ''{}'' = ''{}''" "unmarshal ''{}'' \<noteq> None" by code_simp+
  have "satisfierFor EvidenceEvents ''get_pod_events'' ''{}''" by (simp add: satisfierFor_def)
  then show ?thesis using satisfier_truthful [OF c k a] c by blast
qed

text \<open>Without that condition they differ: the broker reads a first JSON value and accepts a closing brace
  after it, the controller ignores arguments that are not one value as a whole. A call that read the
  previous instance is then counted as one that read the current one.\<close>

lemma trailing_brace_misread:
  "let a = dq ''{`previous`:true}}'' in
     gathered_kind T ''get_pod_logs'' a = Some EvidencePreviousLogs \<and>
     \<not> satisfierFor EvidencePreviousLogs ''get_pod_logs'' a \<and>
     satisfierFor EvidenceCurrentLogs ''get_pod_logs'' a"
proof -
  let ?a = "dq ''{`previous`:true}}''"
  have d: "dec_value (trim_space ?a) = Some (JObj [(''previous'', JBool True)], ''}'')" "\<not> dec_more ''}''"
    "trim_space ?a \<noteq> []" "trim_space ?a \<noteq> ''null''" "byName ''get_pod_logs'' = Some RunLogs"
    "\<not> key_is ''pod'' ''previous''" "\<not> key_is ''container'' ''previous''" "key_is ''previous'' ''previous''"
    by code_simp+
  have "gathered_kind T ''get_pod_logs'' ?a = Some EvidencePreviousLogs"
    using d by (simp add: gathered_kind_def decodeArgs_def Let_def store_logArgs_def noLogArgs_def)
  moreover have "\<not> satisfierFor EvidencePreviousLogs ''get_pod_logs'' ?a" "satisfierFor EvidenceCurrentLogs ''get_pod_logs'' ?a"
    by code_simp+
  ultimately show ?thesis by (simp add: Let_def)
qed

end
