(* ===== verification/Logs.thy ===== *)
theory Logs
  imports ControllerProps
begin

text \<open>
  The log lines of the three reconciles: the message and its fields, as functions of the values at hand
  where the line is written. Operators read them beside the object, so they should agree with it, and they
  leave the cluster's access control, so they should not carry what was read from it.
\<close>

datatype log_value =
    LString string | LInt int | LBool bool | LFailureType FailureType | LKinds "EvidenceKind list"

type_synonym log_line = "string \<times> (string \<times> log_value) list"

definition limit_line :: "Pod \<Rightarrow> HealingPolicy \<Rightarrow> log_line" where
  "limit_line pod policy =
     (''diagnosis rate limit reached, skipping'',
      [(''namespace'', LString (pod_namespace pod)), (''limit'', LInt (ps_maxDiagnosesPerHour (hp_spec policy)))])"

definition opened_line :: "string \<Rightarrow> Signal \<Rightarrow> workloadRef \<Rightarrow> log_line" where
  "opened_line name signal workload =
     (''opened diagnosis'',
      [(''diagnosis'', LString name), (''failureType'', LFailureType (sg_failureType signal)),
       (''workload'', LString (wr_kind workload @ ''/'' @ wr_name workload))] @
      (if sg_observedReason signal \<noteq> [] \<and> sg_observedReason signal \<noteq> sg_reason signal
       then [(''displayedAs'', LString (sg_observedReason signal))] else []))"

definition gathered_line :: "Diagnosis \<Rightarrow> Evidence \<Rightarrow> log_line" where
  "gathered_line d collected =
     (''evidence gathered'',
      [(''diagnosis'', LString (dg_name d)), (''failureType'', LFailureType (ds_failureType (dg_spec d))),
       (''collected'', LInt (int (countCollected collected))), (''complete'', LBool (ev_complete collected))] @
      (if 0 < ev_redactedFields collected then [(''redacted'', LInt (ev_redactedFields collected))] else []) @
      (if ev_missingRequired collected \<noteq> []
       then [(''missingRequired'', LKinds (ev_missingRequired collected))] else []))"

definition no_model_line :: "Diagnosis \<Rightarrow> log_line" where
  "no_model_line d =
     (''agent enabled by policy but no model is configured; leaving diagnosis at Enriched'',
      [(''diagnosis'', LString (dg_name d))])"

definition complete_line :: "Diagnosis \<Rightarrow> Findings \<Rightarrow> log_line" where
  "complete_line d f =
     (''investigation complete'',
      [(''diagnosis'', LString (dg_name d)), (''stopReason'', LString (fd_stopReason f)),
       (''hypotheses'', LInt (int (length (fd_hypotheses f)))), (''toolCalls'', LInt (fd_toolCalls f)),
       (''turns'', LInt (fd_turns f)), (''tokens'', LInt (fd_tokens f)), (''degraded'', LBool (fd_degraded f))])"

lemma countCollected_filter:
  "countCollected ev = length (filter (\<lambda>i. ei_status i = CollectionCollected) (ev_items ev))"
proof -
  have "foldl (\<lambda>n i. if ei_status i = CollectionCollected then n + 1 else n) n is =
      n + length (filter (\<lambda>i. ei_status i = CollectionCollected) is)" for n and "is" :: "EvidenceItem list"
    by (induction "is" arbitrary: n) auto
  then show ?thesis by (simp add: countCollected_def)
qed

text \<open>What was read from the cluster does not show in the line: it is the same whatever the items say.\<close>

lemma gathered_line_reveals_nothing:
  assumes "map (\<lambda>i. (ei_kind i, ei_status i, ei_required i)) (ev_items ev) =
      map (\<lambda>i. (ei_kind i, ei_status i, ei_required i)) (ev_items ev')"
    and "ev_complete ev = ev_complete ev'" "ev_redactedFields ev = ev_redactedFields ev'"
    "ev_missingRequired ev = ev_missingRequired ev'"
  shows "gathered_line d ev = gathered_line d ev'"
proof -
  have c: "countCollected e = length (filter (\<lambda>x. fst (snd x) = CollectionCollected)
      (map (\<lambda>i. (ei_kind i, ei_status i, ei_required i)) (ev_items e)))" for e
    by (simp add: countCollected_filter filter_map o_def)
  show ?thesis using assms by (simp add: gathered_line_def c)
qed

text \<open>The line agrees with the evidence: it names missing kinds precisely when it says that the evidence is
  not complete, and the number of items collected leaves room for every kind it names.\<close>

lemma gathered_line_honest:
  "let ev = fst (Collect k target w) in
     ((''complete'', LBool True) \<in> set (snd (gathered_line d ev)) \<longleftrightarrow>
        ''missingRequired'' \<notin> fst ` set (snd (gathered_line d ev))) \<and>
     countCollected ev + length (ev_missingRequired ev) \<le> length allKinds"
proof -
  let ?items = "loop_items k target allKinds w"
  have f: "list_all (item_fits (tg_failureType target)) ?items"
    using Collect_item_fits [of target k w] by (simp add: Collect_items)
  have "length (filter (\<lambda>i. ei_status i = CollectionCollected) is) + length (filter missing_item is) \<le> length is" for "is"
    by (induction "is") (auto simp: missing_item_def)
  from this [of ?items] have "countCollected (fst (Collect k target w)) + length (ev_missingRequired (fst (Collect k target w))) \<le> length ?items"
    by (simp add: countCollected_filter Collect_items Collect_missing)
  moreover have "length ?items = length allKinds"
    using loop_items_kinds [of k target allKinds w] by (metis length_map)
  ultimately show ?thesis
    by (cases "ev_missingRequired (fst (Collect k target w)) = []") (auto simp: Let_def gathered_line_def Collect_complete)
qed

end
