(* ===== verification/Spec2Isabelle.thy ===== *)
theory Spec2Isabelle
  imports RedactMisses Concurrent DeepCopyProps Stuck DetectorQueue Written Operator McpSession Satisfied Logs
begin

text \<open>
  \<^bold>\<open>KubeCure\<close> is a Kubernetes operator. It watches pods, classifies their failures, opens one Diagnosis
  object per distinct failure, gathers evidence for it, and lets a language model investigate it
  through read only tools; the findings are written onto the object. This development models the
  program as functions on explicit state and proves what each part promises, and, where the code does
  something else, what it does instead.

  \<^bold>\<open>Parts and how they interact.\<close> Three controllers share one object, the Diagnosis, and hand it on by
  its phase. The detector (\<open>src/internal/controller/pod_controller.go\<close>, with \<open>src/internal/detector\<close>)
  creates it; the evidence controller (\<open>evidence_controller.go\<close>, with \<open>src/internal/evidence\<close>) takes it
  from Detected to Enriched; the investigator (\<open>investigator_controller.go\<close>, with \<open>src/internal/agent\<close>
  and \<open>src/internal/tools\<close>) from Enriched to Hypothesized. The later phases of
  \<open>src/api/v1alpha1\<close> have no controller yet. The tools are also served to other clients by an MCP
  server (\<open>src/internal/tools/mcp.go\<close>, \<open>src/cmd/kubecure-mcp\<close>). \<open>src/cmd/main.go\<close> starts the operator, and the API types
  carry generated deep copies (\<open>zz_generated.deepcopy.go\<close>), through which the shared cache is read.

  \<^bold>\<open>Theories.\<close>

  \<^item> Prelude: Go's integers (\<open>wrap32\<close>, \<open>wrap64\<close>, the saturation of \<open>Time.Sub\<close>), errors as values, and
    the collections \<open>frame\<close>, \<open>bounds\<close> and \<open>steps\<close>.
  \<^item> GoStrings, Regex, Json, Render, Floats: what the code uses of the standard library: strings as
    bytes with their code points, regular expressions with leftmost first matching, \<open>encoding/json\<close>
    in both directions, dates, and products of \<open>float64\<close>.
  \<^item> Api, Schema: the types of \<open>src/api/v1alpha1\<close> and the schema their markers declare.
  \<^item> Kube: the Kubernetes objects and the client, a record of requests each of which takes and returns
    the world; \<open>logged\<close> records them. Reads: the locale \<open>reader\<close>, the laws of a client under which
    everything the collector and the tools do is a chain of reads, interpreted on \<open>logged\<close>.
  \<^item> Detector, DetectorProps (\<open>detector.go\<close>) and Naming (\<open>signature.go\<close>): the classification is sound
    and complete for a declarative notion of failure, persists in time, and reports a container that does
    not become ready exactly when its declared budget is over; names are valid, and equal only for equal
    signatures.
  \<^item> Redact, RedactProps (\<open>redact.go\<close>): an assigned secret is hidden; RedactMisses: the words a pattern may
    consume, and with them the assignments no pattern finds. Matrix (\<open>matrix.go\<close>), Collector, CollectorProps
    (\<open>collector.go\<close>): every kind of evidence is reported once, collected or unavailable as the read of it
    went, with a truthful account of what is missing, nothing is stored unscrubbed or oversized, and the evidence meets the schema if the errors of the
    cluster are short.
  \<^item> AgentTypes (\<open>model.go\<close>, \<open>broker.go\<close>), Findings, FindingsProps (\<open>findings.go\<close>), Prompt
    (\<open>prompt.go\<close>), Investigator, InvestigatorProps (\<open>investigator.go\<close>): every investigation ends within
    its budget, a submission is accepted precisely when it meets the contract, and untrusted evidence
    cannot close its own block. Two rules, \<open>handleCalls_rule\<close> and \<open>run_loop_rule\<close>, carry the loop; \<open>traced\<close> is
    an investigator whose world also keeps the answers of the broker, so that the evidence a hypothesis
    cites can be compared with what was gathered.
  \<^item> Tools, ToolsProps (\<open>scope.go\<close>, \<open>catalog.go\<close>, \<open>broker.go\<close>, \<open>mcp.go\<close>): reads stay in the namespace,
    refusals come before any request, every call is recorded and every result scrubbed. Concurrent: the
    same broker with interleaved calls, as a step relation. Satisfied: what the controller counts a call
    towards is what the call gathered.
  \<^item> Agentic (\<open>scripted.go\<close>, \<open>NewInvestigator\<close>): the locale \<open>session\<close>, what the loop needs to know of its
    surroundings, interpreted on the broker twice: for the audit and for confinement.
  \<^item> Gemini (\<open>src/internal/model/gemini\<close>) and Commands (\<open>src/cmd/model.go\<close>,
    \<open>src/cmd/kubecure-mcp/main.go\<close>): the provider's translation of the conversation, configuration, and the
    MCP command. McpSession: any requests an MCP client sends one after another are held to one diagnosis.
  \<^item> PodController, EvidenceController, InvestigatorController, ControllerProps: the three reconciles,
    and the cases in which the code falls short of its comments. Written: whatever the investigator writes to
    the API server is within the schema. Logs:
    the lines they log, which agree with the evidence and do not show what was read.
  \<^item> Frames: the locale \<open>undisturbed\<close>: reads and the clock leave a view of the world as it is, and so does
    all of a reconcile but its writes. Pipeline: an abstract state machine on all versions of all
    diagnoses, the locale \<open>store\<close> for the API server (reads may be stale; a status update needs the
    resource version of a stored object), its interpretation on a concrete cluster, the refinement of the
    state machine by every reconcile, and the invariants of the phases by rule induction.
  \<^item> Manager: \<open>SetupWithManager\<close> of the three controllers, and the queues the manager keeps for the two
    that watch diagnoses, as a step relation; the locale \<open>cache\<close> and the invariant that no wakeup is lost.
    Settling: the locale \<open>settled\<close>, and a measure by which the two queues run empty; every diagnosis
    the operator took up has then reached its last phase. Dedup: the locale \<open>opener\<close>, and one diagnosis for
    all observations of a failure. Stuck: the locale \<open>creator\<close>, and the diagnosis that no reconcile ever
    touches because its first status update failed. DetectorQueue: the queue of the detector as a step
    relation, and the failure that shows only after the pod's last event.
  \<^item> GoHeap: pointers and slices on a heap of blocks, in the state monad, with the rules for copying them.
    DeepCopy: the memory layout of every API type and every generated copy of it. DeepCopyProps: a copy
    reads as the original does and later writes to one do not show in the other; so the evidence
    controller's update of the object it read leaves the cache as it was.
  \<^item> Operator (\<open>src/cmd/main.go\<close>): flags, TLS options on GoHeap, and the calls of \<open>main\<close> in their order.

  \<^bold>\<open>How the code is modelled.\<close> A struct is a record, a string type with constants a datatype with one more
  constructor for any other text, a pointer an \<open>option\<close>, an interface a record of methods. State is
  passed explicitly: the client's world, the broker's audit record beside it, and the model's state beside
  both. A failing operation returns \<open>Inl\<close> of an error, which keeps its kind under wrapping. Integers
  that can leave their range are wrapped where the code computes them. Maps that are only looked up are
  functions, maps that are rendered are sorted association lists.

  \<^bold>\<open>Parameters.\<close> What is not in the repository is an argument: SHA-256, the Unicode tables for lower case
  and for printable runes, the texts of JSON errors, the order in which the unstable \<open>sort.Slice\<close>
  leaves equal elements (law \<open>sorts\<close>), label selectors, the API server (laws \<open>namespaced\<close> and \<open>store\<close>),
  \<open>retry.RetryOnConflict\<close> (law \<open>retries\<close>), semantic equality of pod statuses, the genai SDK, the clock and
  the context of an investigation; the copies of library structs (law \<open>foreign_ok\<close>), the capacity \<open>append\<close>
  gives a new array (\<open>grow\<close>), and which call of a library fails at the start (\<open>fails\<close>). Each law
  that a property assumes is shown to hold of a concrete instance in the property's witness.

  \<^bold>\<open>Termination.\<close> All functions are total, without fuel. The loop of an investigation ends because every
  turn is counted against a limit fixed at the start; the measure is the number of turns left. The
  scanner of JSON texts and the regular expressions consume their input. The queues of the manager run empty
  because every reconcile that succeeds either hands a diagnosis to a later phase or takes a key out.

  \<^bold>\<open>Interleaving.\<close> Reconciles of the controllers are interleaved as wholes; in Pipeline a read may return
  any version stored so far, which covers a reconcile that reads early and writes late. In Manager reads
  return the latest version and its events are delivered with it; anything else in the cluster may change
  between two reconciles. Calls of one broker are interleaved at the granularity of its mutex. The
  investigator acts only with a model and on policies that enable the agent; \<open>willing\<close> says so where a
  property needs it.

  \<^bold>\<open>Not modelled.\<close> The libraries: the manager, informers and work queues beyond Manager's step relation
  (periodic resyncs among it), the registration of the scheme (\<open>groupversion_info.go\<close>), the MCP protocol
  and its transport, signal handling, the configuration of the logger; and the tests. Fields of Kubernetes
  objects that the code only renders (ports, resources, taints) are JSON values as the API server sent
  them, and label maps and free form structs of the libraries are opaque to the deep copies.
\<close>

end
